(* ===== verification/Prelude.thy ===== *)
theory Prelude
  imports Complex_Main "HOL-Library.AList" "HOL-Library.List_Lexorder" "HOL-Library.Char_ord"
begin

text \<open>
  The part of Go the components share, and the lemmas about it.

  A Go map \<^verbatim>\<open>map[string]T\<close> is an association list with one entry per key (\<open>wf_gomap\<close>);
  the order of the entries stands for the order in which one execution happens to range over the
  map, so a statement about \<open>gget\<close> says nothing about it.  Where the code distinguishes a nil map
  from an empty one the model uses \<open>option\<close>, and \<open>entries\<close> is what ranging over the value visits.
  Strings are byte lists, compared byte by byte as Go compares them.  A signed 64 bit integer is an
  \<open>int\<close> with the wrap-around written out by \<open>wrap64\<close>.

  Collections: \<open>gomap\<close> rewrites lookups in updated maps, \<open>wf_intros\<close> discharges the one-entry-per-key
  condition of the maps the code builds.
\<close>

named_theorems gomap
named_theorems wf_intros

section \<open>Maps\<close>

type_synonym 'v gomap = "(string \<times> 'v) list"

abbreviation gget :: "'v gomap \<Rightarrow> string \<Rightarrow> 'v option" where
  "gget m k \<equiv> map_of m k"

abbreviation gput :: "string \<Rightarrow> 'v \<Rightarrow> 'v gomap \<Rightarrow> 'v gomap" where
  "gput k v m \<equiv> AList.update k v m"

abbreviation gdel :: "string \<Rightarrow> 'v gomap \<Rightarrow> 'v gomap" where
  "gdel k m \<equiv> AList.delete k m"

definition wf_gomap :: "'v gomap \<Rightarrow> bool" where
  "wf_gomap m \<longleftrightarrow> distinct (map fst m)"

text \<open>Building a map by assigning the entries of another one after the other.\<close>

fun gputs :: "'v gomap \<Rightarrow> 'v gomap \<Rightarrow> 'v gomap" where
  "gputs out [] = out"
| "gputs out ((k, v) # es) = gputs (gput k v out) es"

definition gcopy :: "'v gomap \<Rightarrow> 'v gomap" where
  "gcopy m = gputs [] m"

fun gdels :: "string list \<Rightarrow> 'v gomap \<Rightarrow> 'v gomap" where
  "gdels [] m = m"
| "gdels (k # ks) m = gdels ks (gdel k m)"

definition entries :: "'v gomap option \<Rightarrow> 'v gomap" where
  "entries m = (case m of None \<Rightarrow> [] | Some es \<Rightarrow> es)"

lemma entries_simps [simp]:
  "entries None = []" "entries (Some es) = es"
  by (simp_all add: entries_def)

lemma gget_gput [gomap, simp]: "gget (gput k v m) k' = (if k' = k then Some v else gget m k')"
  by (simp add: update_conv')

lemma gget_gdel [gomap, simp]: "gget (gdel k m) k' = (if k' = k then None else gget m k')"
  by (simp add: delete_conv')

lemma wf_gomap_Nil [simp, wf_intros]: "wf_gomap []"
  by (simp add: wf_gomap_def)

lemma wf_gomap_gput [simp, wf_intros]: "wf_gomap m \<Longrightarrow> wf_gomap (gput k v m)"
  by (simp add: wf_gomap_def distinct_update)

lemma wf_gomap_gdel [simp, wf_intros]: "wf_gomap m \<Longrightarrow> wf_gomap (gdel k m)"
  by (simp add: wf_gomap_def distinct_delete)

lemma gget_None_iff: "gget m k = None \<longleftrightarrow> k \<notin> fst ` set m"
  by (rule map_of_eq_None_iff)

lemma wf_gomap_Cons [simp]: "wf_gomap ((k, v) # m) \<longleftrightarrow> gget m k = None \<and> wf_gomap m"
  by (simp add: wf_gomap_def gget_None_iff)

lemma wf_gget_iff: "wf_gomap m \<Longrightarrow> gget m k = Some v \<longleftrightarrow> (k, v) \<in> set m"
  by (simp add: wf_gomap_def)

lemma wf_gputs [simp, wf_intros]: "wf_gomap out \<Longrightarrow> wf_gomap (gputs out m)"
  by (induction out m rule: gputs.induct) auto

lemma gget_gputs:
  "wf_gomap m \<Longrightarrow> gget (gputs out m) k = (case gget m k of Some v \<Rightarrow> Some v | None \<Rightarrow> gget out k)"
  by (induction out m rule: gputs.induct) (auto split: option.splits)

lemma gget_gcopy [gomap]: "wf_gomap m \<Longrightarrow> gget (gcopy m) k = gget m k"
  by (simp add: gcopy_def gget_gputs split: option.split)

lemma wf_gcopy [simp, wf_intros]: "wf_gomap (gcopy m)"
  by (simp add: gcopy_def)

lemma gput_fresh: "gget m k = None \<Longrightarrow> gput k v m = m @ [(k, v)]"
  by (induction m) (auto split: if_splits)

lemma gputs_fresh:
  "wf_gomap m \<Longrightarrow> (\<forall>k \<in> fst ` set m. gget out k = None) \<Longrightarrow> gputs out m = out @ m"
proof (induction out m rule: gputs.induct)
  case (2 out k v es)
  have "gputs (gput k v out) es = gput k v out @ es"
    using 2 by (intro "2.IH") (auto simp: gget_None_iff)
  with 2 show ?case by (simp add: gput_fresh)
qed simp

lemma gputs_Nil [simp]: "wf_gomap m \<Longrightarrow> gputs [] m = m"
  by (simp add: gputs_fresh)

lemma gcopy_id [simp]: "wf_gomap m \<Longrightarrow> gcopy m = m"
  by (simp add: gcopy_def)

lemma gget_gdels [gomap]: "gget (gdels ks m) k = (if k \<in> set ks then None else gget m k)"
  by (induction ks m rule: gdels.induct) auto

lemma wf_gdels [simp, wf_intros]: "wf_gomap m \<Longrightarrow> wf_gomap (gdels ks m)"
  by (induction ks m rule: gdels.induct) auto

lemma wf_filter [wf_intros]: "wf_gomap m \<Longrightarrow> wf_gomap (filter P m)"
  by (simp add: wf_gomap_def distinct_map_filter)

lemma gget_filter_iff:
  "wf_gomap m \<Longrightarrow> gget (filter (\<lambda>(k, v). P k v) m) k = Some v \<longleftrightarrow> gget m k = Some v \<and> P k v"
  by (simp add: wf_gget_iff wf_filter)

lemma gget_filter [gomap]:
  assumes "wf_gomap m"
  shows "gget (filter (\<lambda>(k, v). P k v) m) k =
    (case gget m k of None \<Rightarrow> None | Some v \<Rightarrow> if P k v then Some v else None)"
proof (cases "gget (filter (\<lambda>(k, v). P k v) m) k")
  case None
  have "\<not> (gget m k = Some v \<and> P k v)" for v
    unfolding gget_filter_iff [OF assms, symmetric] None by simp
  with None show ?thesis by (auto split: option.split)
next
  case (Some v)
  then have "gget m k = Some v \<and> P k v" by (simp only: gget_filter_iff [OF assms])
  with Some show ?thesis by simp
qed

lemma fst_set_gput [simp]: "fst ` set (gput k v m) = insert k (fst ` set m)"
  by (simp add: dom_update)

text \<open>Mapping the values of a map, and sorting its entries by key.\<close>

abbreviation on_values :: "('v \<Rightarrow> 'w) \<Rightarrow> 'v gomap \<Rightarrow> 'w gomap" where
  "on_values f m \<equiv> map (map_prod (\<lambda>k. k) f) m"

lemma on_values_comp [simp]:
  "map_prod (\<lambda>k. k) f \<circ> map_prod (\<lambda>k. k) g = map_prod (\<lambda>k. k) (\<lambda>v. f (g v))"
  by (auto simp: fun_eq_iff)

lemma gget_on_values [gomap]: "gget (on_values f m) k = map_option f (gget m k)"
  by (induction m) auto

lemma wf_on_values [simp, wf_intros]: "wf_gomap (on_values f m) = wf_gomap m"
  by (simp add: wf_gomap_def comp_def)

lemma insort_on_values:
  "insort_key fst (map_prod (\<lambda>k. k) f e) (on_values f m) = on_values f (insort_key fst e m)"
  by (induction m) auto

lemma sort_on_values: "sort_key fst (on_values f m) = on_values f (sort_key fst m)"
  by (induction m) (auto simp: insort_on_values)

lemma wf_sort_key [simp, wf_intros]: "wf_gomap (sort_key fst m) = wf_gomap m"
  by (simp add: wf_gomap_def distinct_map)

lemma gget_sort_key [gomap]: "wf_gomap m \<Longrightarrow> gget (sort_key fst m) k = gget m k"
proof -
  assume "wf_gomap m"
  then have "\<And>v. gget (sort_key fst m) k = Some v \<longleftrightarrow> gget m k = Some v"
    by (simp add: wf_gget_iff)
  then show ?thesis by (metis option.exhaust)
qed

section \<open>Lists of strings\<close>

text \<open>Keeping the first occurrence of every element, the loop shape the code uses.\<close>

fun nub_from :: "'a list \<Rightarrow> 'a list \<Rightarrow> 'a list" where
  "nub_from seen [] = []"
| "nub_from seen (x # xs) = (if x \<in> set seen then nub_from seen xs else x # nub_from (x # seen) xs)"

lemma set_nub_from [simp]: "set (nub_from seen xs) = set xs - set seen"
  by (induction seen xs rule: nub_from.induct) auto

lemma distinct_nub_from [simp]: "distinct (nub_from seen xs)"
  by (induction seen xs rule: nub_from.induct) auto

lemma nub_from_cong: "set seen = set seen' \<Longrightarrow> nub_from seen xs = nub_from seen' xs"
proof (induction xs arbitrary: seen seen')
  case (Cons x xs)
  have "nub_from (x # seen) xs = nub_from (x # seen') xs"
    using Cons.prems by (intro Cons.IH) simp
  moreover have "nub_from seen xs = nub_from seen' xs"
    using Cons.prems by (rule Cons.IH)
  ultimately show ?case using Cons.prems by simp
qed simp

lemma nub_from_append:
  "nub_from seen (xs @ ys) = nub_from seen xs @ nub_from (xs @ seen) ys"
proof (induction xs arbitrary: seen)
  case Nil
  then show ?case by simp
next
  case (Cons x xs)
  show ?case
  proof (cases "x \<in> set seen")
    case True
    then have "nub_from (xs @ seen) ys = nub_from (x # xs @ seen) ys"
      by (intro nub_from_cong) auto
    with True Cons show ?thesis by simp
  next
    case False
    have "nub_from (xs @ x # seen) ys = nub_from (x # xs @ seen) ys"
      by (intro nub_from_cong) auto
    with False Cons show ?thesis by simp
  qed
qed

lemma nub_from_distinct: "distinct xs \<Longrightarrow> set xs \<inter> set seen = {} \<Longrightarrow> nub_from seen xs = xs"
  by (induction xs arbitrary: seen) auto

lemma map_insort_key: "map f (insort_key f x xs) = insort (f x) (map f xs)"
  by (induction xs) auto

lemma map_sort_key: "map f (sort_key f xs) = sort (map f xs)"
  by (induction xs) (auto simp: map_insort_key)

text \<open>Decimal digits (\<^verbatim>\<open>%d\<close>).\<close>

fun nat_text :: "nat \<Rightarrow> string" where
  "nat_text n = (if n < 10 then [char_of (48 + n)] else nat_text (n div 10) @ [char_of (48 + n mod 10)])"

declare nat_text.simps [simp del]

text \<open>A text between single quotes, as the error messages have it.\<close>

definition quoted :: "string \<Rightarrow> string" where
  "quoted s = [CHR 0x27] @ s @ [CHR 0x27]"

section \<open>Signed 64 bit integers\<close>

definition wrap64 :: "int \<Rightarrow> int" where
  "wrap64 x = (x + 2 ^ 63) mod 2 ^ 64 - 2 ^ 63"

definition in_int64 :: "int \<Rightarrow> bool" where
  "in_int64 x \<longleftrightarrow> - (2 ^ 63) \<le> x \<and> x < 2 ^ 63"

lemma wrap64_id [simp]: "in_int64 x \<Longrightarrow> wrap64 x = x"
  by (simp add: wrap64_def in_int64_def)

lemma in_int64_wrap64 [simp]: "in_int64 (wrap64 x)"
  by (simp add: wrap64_def in_int64_def)

lemma wrap64_add_left [simp]: "wrap64 (wrap64 x + y) = wrap64 (x + y)"
proof -
  have "wrap64 x + y + 2 ^ 63 = (x + 2 ^ 63) mod 2 ^ 64 + y"
    by (simp add: wrap64_def)
  then show ?thesis
    unfolding wrap64_def by (simp only: mod_add_left_eq) (simp add: algebra_simps)
qed

lemma wrap64_add_right [simp]: "wrap64 (x + wrap64 y) = wrap64 (x + y)"
  using wrap64_add_left [of y x] by (simp add: add.commute)

lemma wrap64_diff_left [simp]: "wrap64 (wrap64 x - y) = wrap64 (x - y)"
  using wrap64_add_left [of x "- y"] by simp

lemma wrap64_wrap64 [simp]: "wrap64 (wrap64 x) = wrap64 x"
  using wrap64_add_left [of x 0] by simp

section \<open>Panics\<close>

text \<open>The result of a method that may dereference a nil pointer.\<close>

datatype 'a outcome = Panics | Returns 'a

end
