(* ===== verification/GoValues.thy ===== *)
theory GoValues
  imports Prelude
begin

text \<open>
  The dynamically typed values of the program (\<^verbatim>\<open>interface{}\<close> holding what
  \<^verbatim>\<open>encoding/json\<close> produces, plus the \<^verbatim>\<open>[]string\<close> the code builds itself), JSON documents, and
  the two directions of \<^verbatim>\<open>encoding/json\<close> at the level of syntax trees.  Lexing bytes is not
  modelled: a byte slice handed to \<^verbatim>\<open>json.Unmarshal\<close> is the tree it spells, or \<open>None\<close> when it spells
  none.  A number is its numeric value; a document tells integer literals (\<open>JInt\<close>) from other number
  literals (\<open>JNum\<close>), because only the former can be stored in a Go \<^verbatim>\<open>int\<close>.
\<close>

section \<open>Values\<close>

datatype gval =
    VNil
  | VBool bool
  | VNum rat
  | VStr string
  | VStrs "string list"
  | VList "gval list"
  | VMap "(string \<times> gval) list"

type_synonym claims = "gval gomap"

datatype json =
    JNull
  | JBool bool
  | JInt int
  | JNum rat
  | JStr string
  | JArr "json list"
  | JObj "(string \<times> json) list"

text \<open>\<^verbatim>\<open>v.(string)\<close> with the result of a failed assertion ignored: the zero value.\<close>

fun as_string :: "gval option \<Rightarrow> string" where
  "as_string (Some (VStr s)) = s"
| "as_string _ = []"

fun is_string :: "gval \<Rightarrow> bool" where
  "is_string (VStr _) = True"
| "is_string _ = False"

text \<open>Every map inside a value has one entry per key.\<close>

fun wf_gval :: "gval \<Rightarrow> bool" where
  "wf_gval (VList vs) = list_all wf_gval vs"
| "wf_gval (VMap m) = (wf_gomap m \<and> list_all (\<lambda>e. wf_gval (snd e)) m)"
| "wf_gval _ = True"

definition wf_claims :: "claims \<Rightarrow> bool" where
  "wf_claims m \<longleftrightarrow> wf_gomap m \<and> (\<forall>(k, v) \<in> set m. wf_gval v)"

lemma wf_gval_VMap [simp]: "wf_gval (VMap m) \<longleftrightarrow> wf_claims m"
  by (auto simp: wf_claims_def list_all_iff)

declare wf_gval.simps(2) [simp del]

lemma wf_claims_gomap [simp, wf_intros]: "wf_claims m \<Longrightarrow> wf_gomap m"
  by (simp add: wf_claims_def)

lemma wf_claims_gget: "wf_claims m \<Longrightarrow> gget m k = Some v \<Longrightarrow> wf_gval v"
  by (auto simp: wf_claims_def dest: map_of_SomeD)

lemma wf_claims_Nil [simp, wf_intros]: "wf_claims []"
  by (simp add: wf_claims_def)

lemma wf_claims_Cons [simp]:
  "wf_claims ((k, v) # m) \<longleftrightarrow> gget m k = None \<and> wf_gval v \<and> wf_claims m"
  by (auto simp: wf_claims_def)

lemma wf_claims_gput [simp, wf_intros]: "wf_claims m \<Longrightarrow> wf_gval v \<Longrightarrow> wf_claims (gput k v m)"
  by (induction m) (auto split: if_splits)

lemma wf_claims_gdel [simp, wf_intros]: "wf_claims m \<Longrightarrow> wf_claims (gdel k m)"
  by (induction m) (auto simp: delete_conv')

lemma wf_claims_gdels [simp, wf_intros]: "wf_claims m \<Longrightarrow> wf_claims (gdels ks m)"
  by (induction ks m rule: gdels.induct) auto

lemma wf_claims_gputs [simp, wf_intros]:
  "wf_claims out \<Longrightarrow> list_all (\<lambda>e. wf_gval (snd e)) m \<Longrightarrow> wf_claims (gputs out m)"
  by (induction out m rule: gputs.induct) auto

lemma wf_claims_values: "wf_claims m \<Longrightarrow> list_all (\<lambda>e. wf_gval (snd e)) m"
  by (auto simp: wf_claims_def list_all_iff)

lemma wf_claims_gcopy [simp, wf_intros]: "wf_claims m \<Longrightarrow> wf_claims (gcopy m)"
  by (simp add: gcopy_def wf_claims_values)

section \<open>encoding/json\<close>

text \<open>
  Decoding into \<^verbatim>\<open>interface{}\<close>: an array becomes \<^verbatim>\<open>[]interface{}\<close>, never \<^verbatim>\<open>[]string\<close>; of two
  members with the same name the later one wins.
\<close>

primrec json_any :: "json \<Rightarrow> gval" where
  "json_any JNull = VNil"
| "json_any (JBool b) = VBool b"
| "json_any (JInt i) = VNum (of_int i)"
| "json_any (JNum n) = VNum n"
| "json_any (JStr s) = VStr s"
| "json_any (JArr js) = VList (map json_any js)"
| "json_any (JObj es) = VMap (gputs [] (map (map_prod (\<lambda>k. k) json_any) es))"

text \<open>
  \<^verbatim>\<open>json.Unmarshal(raw, &m)\<close> with \<^verbatim>\<open>m\<close> a \<^verbatim>\<open>map[string]interface{}\<close>: \<open>None\<close> is a non-nil error.
  The document \<^verbatim>\<open>null\<close> sets the map to nil, which has no entries.
\<close>

fun json_into_map :: "json option \<Rightarrow> claims \<Rightarrow> claims option" where
  "json_into_map (Some (JObj es)) dst = Some (gputs dst (map (map_prod (\<lambda>k. k) json_any) es))"
| "json_into_map (Some JNull) dst = Some []"
| "json_into_map _ dst = None"

text \<open>\<^verbatim>\<open>json.Marshal\<close>: the members of an object in the order of their names.\<close>

primrec json_of :: "gval \<Rightarrow> json" where
  "json_of VNil = JNull"
| "json_of (VBool b) = JBool b"
| "json_of (VNum n) =
     (if of_int \<lfloor>n\<rfloor> = n \<and> \<bar>n\<bar> < 10 ^ 21 then JInt \<lfloor>n\<rfloor> else JNum n)"
| "json_of (VStr s) = JStr s"
| "json_of (VStrs ss) = JArr (map JStr ss)"
| "json_of (VList vs) = JArr (map json_of vs)"
| "json_of (VMap m) = JObj (sort_key fst (map (map_prod (\<lambda>k. k) json_of) m))"

definition json_of_claims :: "claims \<Rightarrow> json" where
  "json_of_claims m = json_of (VMap m)"

lemma wf_json_any [simp]: "wf_gval (json_any j)"
proof (induction j)
  case (JObj es)
  then have "list_all (\<lambda>e. wf_gval (snd e)) (map (map_prod (\<lambda>k. k) json_any) es)"
    by (auto simp: list_all_iff)
  then show ?case by simp
qed (auto simp: list_all_iff)

lemma wf_json_into_map [wf_intros]:
  "wf_claims dst \<Longrightarrow> json_into_map raw dst = Some m \<Longrightarrow> wf_claims m"
  by (cases "(raw, dst)" rule: json_into_map.cases) (auto simp: list_all_iff)

end
