(* ===== verification/Misc.thy ===== *)
theory Misc
  imports GoValues
begin

text \<open>
  The helpers of \<^verbatim>\<open>internal/misc\<close> the components share: \<^verbatim>\<open>merge.go\<close> (merging claim maps, restoring
  string arrays) and \<^verbatim>\<open>misc.go\<close> (string lists, optional booleans).  Main results: what a key is bound
  to after \<open>MergeMaps\<close>, whatever the iteration orders; \<open>DedupAndSort\<close> and \<open>AppendIfNotPresent\<close> against
  their mathematical counterparts; \<open>NormalizeStringArray\<close> undoes what a JSON round trip does to
  string arrays.
\<close>

section \<open>merge.go\<close>

text \<open>One pass over a slice: skip what was seen, remember and append the rest.\<close>

fun dedupLoop :: "string set \<Rightarrow> string list \<Rightarrow> string list \<Rightarrow> string set \<times> string list" where
  "dedupLoop seen out [] = (seen, out)"
| "dedupLoop seen out (s # ss) =
     (if s \<in> seen then dedupLoop seen out ss
      else dedupLoop (insert s seen) (out @ [s]) ss)"

definition mergeStringSlicesDeduped :: "string list \<Rightarrow> string list \<Rightarrow> string list" where
  "mergeStringSlicesDeduped a b =
     (let (seen, out) = dedupLoop {} [] a in snd (dedupLoop seen out b))"

text \<open>
  \<open>mergeInto\<close> is the loop over the second map, \<open>mergeEntry\<close> the value its body stores: two nested
  maps are merged, two string slices are joined without duplicates, anything else is replaced.
\<close>

fun mergeInto :: "claims \<Rightarrow> claims \<Rightarrow> claims"
  and mergeEntry :: "gval option \<Rightarrow> gval \<Rightarrow> gval" where
  "mergeInto out [] = out"
| "mergeInto out ((k, v) # b) = mergeInto (gput k (mergeEntry (gget out k) v) out) b"
| "mergeEntry (Some (VMap bv)) (VMap v) = VMap (mergeInto (gcopy bv) v)"
| "mergeEntry (Some (VStrs va)) (VStrs vb) = VStrs (mergeStringSlicesDeduped va vb)"
| "mergeEntry _ v = v"

definition MergeMaps :: "claims \<Rightarrow> claims \<Rightarrow> claims" where
  "MergeMaps a b = mergeInto (gcopy a) b"

fun interfaceSliceToStringSlice :: "gval list \<Rightarrow> string list option" where
  "interfaceSliceToStringSlice [] = Some []"
| "interfaceSliceToStringSlice (VStr s # vs) = map_option ((#) s) (interfaceSliceToStringSlice vs)"
| "interfaceSliceToStringSlice (_ # vs) = None"

primrec normalizeStringArrayValue :: "gval \<Rightarrow> gval" where
  "normalizeStringArrayValue VNil = VNil"
| "normalizeStringArrayValue (VBool b) = VBool b"
| "normalizeStringArrayValue (VNum n) = VNum n"
| "normalizeStringArrayValue (VStr s) = VStr s"
| "normalizeStringArrayValue (VStrs ss) = VStrs ss"
| "normalizeStringArrayValue (VList vs) =
     (case interfaceSliceToStringSlice vs of
        Some ss \<Rightarrow> VStrs ss
      | None \<Rightarrow> VList (map normalizeStringArrayValue vs))"
| "normalizeStringArrayValue (VMap m) =
     VMap (gputs [] (map (map_prod (\<lambda>k. k) normalizeStringArrayValue) m))"

definition NormalizeStringArray :: "claims option \<Rightarrow> claims option" where
  "NormalizeStringArray m =
     (case m of None \<Rightarrow> None
      | Some es \<Rightarrow> Some (gputs [] (on_values normalizeStringArrayValue es)))"

section \<open>misc.go\<close>

definition BoolPtrFalse :: "bool option \<Rightarrow> bool" where
  "BoolPtrFalse p = (case p of None \<Rightarrow> False | Some b \<Rightarrow> b)"

definition BoolPtrTrue :: "bool option \<Rightarrow> bool" where
  "BoolPtrTrue p = (case p of None \<Rightarrow> True | Some b \<Rightarrow> b)"

definition ShortenString :: "string \<Rightarrow> string" where
  "ShortenString str =
     (if length str \<le> 30 then str
      else take 10 str @ ''.......'' @ drop (length str - 10) str)"

definition DedupAndSort :: "string list \<Rightarrow> string list" where
  "DedupAndSort stringSlice = sort (snd (dedupLoop {} [] stringSlice))"

fun appendLoop :: "string set \<Rightarrow> string list \<Rightarrow> string list \<Rightarrow> string list" where
  "appendLoop existing slice [] = slice"
| "appendLoop existing slice (item # items) =
     (if item \<notin> existing then appendLoop (insert item existing) (slice @ [item]) items
      else appendLoop existing slice items)"

definition AppendIfNotPresent :: "string list \<Rightarrow> string list \<Rightarrow> string list" where
  "AppendIfNotPresent slice items = appendLoop (set slice) slice items"

fun CountTrue :: "bool list \<Rightarrow> nat" where
  "CountTrue [] = 0"
| "CountTrue (x # xs) = (if x then Suc (CountTrue xs) else CountTrue xs)"

section \<open>Specification vocabulary\<close>

text \<open>The value a path of keys leads to, through nested maps.\<close>

fun at_path :: "claims \<Rightarrow> string list \<Rightarrow> gval option" where
  "at_path m [] = Some (VMap m)"
| "at_path m (k # p) =
     (case gget m k of
        None \<Rightarrow> None
      | Some v \<Rightarrow> if p = [] then Some v else (case v of VMap n \<Rightarrow> at_path n p | _ \<Rightarrow> None))"

text \<open>A map shadows a path when it holds something else than a map at the path or at a prefix of it.\<close>

fun shadows :: "claims \<Rightarrow> string list \<Rightarrow> bool" where
  "shadows m [] = False"
| "shadows m (k # p) =
     (case gget m k of None \<Rightarrow> False | Some v \<Rightarrow> (case v of VMap n \<Rightarrow> shadows n p | _ \<Rightarrow> True))"

text \<open>What the doc comment of \<^verbatim>\<open>MergeMaps\<close> promises for one position.\<close>

fun merged_value :: "gval option \<Rightarrow> gval \<Rightarrow> gval" where
  "merged_value (Some (VMap x)) (VMap y) = VMap (MergeMaps x y)"
| "merged_value (Some (VStrs x)) (VStrs y) = VStrs (nub_from [] (x @ y))"
| "merged_value _ v = v"

text \<open>No \<^verbatim>\<open>[]interface{}\<close> made of strings only is left.\<close>

fun normalized :: "gval \<Rightarrow> bool" where
  "normalized (VList vs) = (\<not> list_all is_string vs \<and> list_all normalized vs)"
| "normalized (VMap m) = list_all (\<lambda>e. normalized (snd e)) m"
| "normalized _ = True"

text \<open>The same value with the keys of every map in order.\<close>

primrec canon :: "gval \<Rightarrow> gval" where
  "canon VNil = VNil"
| "canon (VBool b) = VBool b"
| "canon (VNum n) = VNum n"
| "canon (VStr s) = VStr s"
| "canon (VStrs ss) = VStrs ss"
| "canon (VList vs) = VList (map canon vs)"
| "canon (VMap m) = VMap (sort_key fst (map (map_prod (\<lambda>k. k) canon) m))"

section \<open>String lists\<close>

lemma dedupLoop_eq: "dedupLoop (set seen) out xs = (set seen \<union> set xs, out @ nub_from seen xs)"
proof (induction xs arbitrary: seen out)
  case (Cons x xs)
  show ?case
    using Cons.IH [of "x # seen" "out @ [x]"] Cons.IH [of seen out] by auto
qed simp

lemma dedupLoop_nub [simp]: "snd (dedupLoop {} [] xs) = nub_from [] xs"
  using dedupLoop_eq [of "[]"] by simp

lemma mergeStringSlicesDeduped_nub: "mergeStringSlicesDeduped a b = nub_from [] (a @ b)"
  using dedupLoop_eq [of "[]" "[]" a] dedupLoop_eq [of a "nub_from [] a" b]
  by (simp add: mergeStringSlicesDeduped_def nub_from_append)

lemma appendLoop_eq: "appendLoop (set seen) slice items = slice @ nub_from seen items"
proof (induction items arbitrary: seen slice)
  case (Cons x xs)
  show ?case
    using Cons.IH [of "x # seen" "slice @ [x]"] Cons.IH [of seen slice] by auto
qed simp

lemma AppendIfNotPresent_nub: "AppendIfNotPresent slice items = slice @ nub_from slice items"
  by (simp add: AppendIfNotPresent_def appendLoop_eq)

lemma set_AppendIfNotPresent [simp]: "set (AppendIfNotPresent a b) = set a \<union> set b"
  by (auto simp: AppendIfNotPresent_nub set_nub_from)

lemma distinct_AppendIfNotPresent: "distinct a \<Longrightarrow> distinct (AppendIfNotPresent a b)"
  by (auto simp: AppendIfNotPresent_nub set_nub_from distinct_nub_from)

lemma DedupAndSort_set: "DedupAndSort xs = sorted_list_of_set (set xs)"
  by (rule sorted_distinct_set_unique) (simp_all add: DedupAndSort_def)

lemma set_DedupAndSort [simp]: "set (DedupAndSort xs) = set xs"
  by (simp add: DedupAndSort_set)

lemma DedupAndSort_idem [simp]: "DedupAndSort (DedupAndSort xs) = DedupAndSort xs"
  by (simp add: DedupAndSort_set)

lemma CountTrue_filter: "CountTrue xs = length (filter id xs)"
  by (induction xs) auto

lemma length_ShortenString: "length (ShortenString s) \<le> 30"
  by (simp add: ShortenString_def)

section \<open>Merging maps\<close>

lemma mergeEntry_merged: "mergeEntry old v = merged_value old v"
  by (cases "(old, v)" rule: merged_value.cases)
    (simp_all add: MergeMaps_def mergeStringSlicesDeduped_nub)

lemma gget_mergeInto:
  "wf_gomap b \<Longrightarrow> gget (mergeInto out b) k =
     (case gget b k of None \<Rightarrow> gget out k | Some v \<Rightarrow> Some (mergeEntry (gget out k) v))"
  by (induction b arbitrary: out) (auto split: option.splits)

lemma gget_MergeMaps [gomap]:
  "wf_gomap a \<Longrightarrow> wf_gomap b \<Longrightarrow> gget (MergeMaps a b) k =
     (case gget b k of None \<Rightarrow> gget a k | Some v \<Rightarrow> Some (merged_value (gget a k) v))"
  by (simp add: MergeMaps_def gget_mergeInto mergeEntry_merged split: option.split)

lemma wf_mergeInto:
  "wf_claims out \<Longrightarrow> wf_claims b \<Longrightarrow> wf_claims (mergeInto out b)"
  "(\<forall>w. x = Some w \<longrightarrow> wf_gval w) \<Longrightarrow> wf_gval v \<Longrightarrow> wf_gval (mergeEntry x v)"
proof (induction out b and x v rule: mergeInto_mergeEntry.induct)
  case (2 out k v b)
  then have "\<forall>w. gget out k = Some w \<longrightarrow> wf_gval w"
    by (simp add: wf_claims_gget)
  with 2 show ?case by simp
qed simp_all

lemma wf_MergeMaps [simp, wf_intros]: "wf_claims a \<Longrightarrow> wf_claims b \<Longrightarrow> wf_claims (MergeMaps a b)"
  by (simp add: MergeMaps_def wf_mergeInto)

lemma MergeMaps_Nil [simp]: "MergeMaps [] [] = []"
  by (simp add: MergeMaps_def gcopy_def)

text \<open>
  C26: \<open>MergeMaps\<close> is a deep merge.  For every path of keys, a value of the second map is taken, merged
  with the first map's value when both are maps or both are string arrays (deduplicated concatenation,
  first occurrences kept in order); where the second map has nothing the first map's value stays,
  unless something that is not a map hides it.
\<close>

theorem MergeMaps_at_path:
  assumes "wf_claims a" "wf_claims b" "p \<noteq> []"
  shows "at_path (MergeMaps a b) p =
    (case at_path b p of
       Some v \<Rightarrow> Some (merged_value (at_path a p) v)
     | None \<Rightarrow> if shadows b p then None else at_path a p)"
  using assms
proof (induction p arbitrary: a b)
  case (Cons k p)
  note look = gget_MergeMaps [OF wf_claims_gomap wf_claims_gomap, OF Cons.prems(1,2), of k]
  show ?case
  proof (cases "p = []")
    case True
    then show ?thesis by (auto simp: look split: option.splits gval.splits)
  next
    case False
    show ?thesis
    proof (cases "\<exists>x y. gget a k = Some (VMap x) \<and> gget b k = Some (VMap y)")
      case True
      then obtain x y where xy: "gget a k = Some (VMap x)" "gget b k = Some (VMap y)" by blast
      then have "wf_claims x" "wf_claims y"
        using Cons.prems wf_claims_gget by fastforce+
      then show ?thesis using False xy Cons.IH [of x y]
        by (simp add: look split: option.split)
    next
      case no: False
      then show ?thesis using False
        by (cases "gget a k"; cases "gget b k")
          (auto simp: look split: gval.splits option.splits elim: merged_value.elims)
    qed
  qed
qed simp

theorem MergeMaps_at_path_witness:
  "at_path (MergeMaps
       [(''a'', VMap [(''x'', VStr ''1''), (''g'', VStrs [''u'', ''v''])]), (''n'', VNum 1)]
       [(''a'', VMap [(''g'', VStrs [''v'', ''w''])]), (''n'', VNil)]) [''a'', ''g'']
     = Some (VStrs [''u'', ''v'', ''w''])"
  by (subst MergeMaps_at_path) simp_all

section \<open>Normalising string arrays\<close>

lemma interfaceSlice_Some:
  "interfaceSliceToStringSlice vs = Some ss \<longleftrightarrow> vs = map VStr ss"
  by (induction vs arbitrary: ss rule: interfaceSliceToStringSlice.induct) auto

lemma is_string_eq: "is_string v \<longleftrightarrow> (\<exists>s. v = VStr s)"
  by (cases v) auto

lemma interfaceSlice_None:
  "interfaceSliceToStringSlice vs = None \<longleftrightarrow> \<not> list_all is_string vs"
  by (induction vs rule: interfaceSliceToStringSlice.induct) auto

lemma is_string_normalize [simp]: "is_string (normalizeStringArrayValue v) = is_string v"
  by (cases v) (auto split: option.splits)

lemma normalized_normalize: "wf_gval v \<Longrightarrow> normalized (normalizeStringArrayValue v)"
proof (induction v)
  case (VList vs)
  then show ?case
    by (auto simp: interfaceSlice_None list_all_iff split: option.split)
next
  case (VMap m)
  then have "\<And>e. e \<in> set m \<Longrightarrow> normalized (normalizeStringArrayValue (snd e))"
    by (metis list_all_iff prod.collapse prod_set_simps(2) singletonI snds.intros wf_claims_values
        wf_gval_VMap)
  with VMap.prems show ?case by (auto simp: list_all_iff)
qed simp_all

lemma is_string_json [simp]: "is_string (json_any (json_of v)) = is_string v"
  by (cases v) auto

lemma normalize_json:
  "wf_gval v \<Longrightarrow> normalized v \<Longrightarrow> normalizeStringArrayValue (json_any (json_of v)) = canon v"
proof (induction v)
  case (VStrs ss)
  have "interfaceSliceToStringSlice (map VStr ss) = Some ss"
    by (simp add: interfaceSlice_Some)
  then show ?case by (simp add: comp_def)
next
  case (VList vs)
  then have "interfaceSliceToStringSlice (map (json_any \<circ> json_of) vs) = None"
    by (simp add: interfaceSlice_None list_all_iff)
  with VList show ?case by (simp add: list_all_iff)
next
  case (VMap m)
  then have "\<And>e. e \<in> set m \<Longrightarrow> normalizeStringArrayValue (json_any (json_of (snd e))) = canon (snd e)"
    by (metis list_all_iff normalized.simps(2) prod.collapse prod_set_simps(2) singletonI
        snds.intros wf_claims_values wf_gval_VMap)
  with VMap.prems show ?case
    by (auto simp: sort_on_values)
qed simp_all

lemma NormalizeStringArray_eq:
  "NormalizeStringArray (Some m) = Some n \<longleftrightarrow> normalizeStringArrayValue (VMap m) = VMap n"
  by (simp add: NormalizeStringArray_def)

lemma wf_normalize: "wf_gval v \<Longrightarrow> wf_gval (normalizeStringArrayValue v)"
proof (induction v)
  case (VList vs)
  then show ?case by (auto simp: list_all_iff split: option.split)
next
  case (VMap m)
  then show ?case by (auto simp: wf_claims_def)
qed simp_all

text \<open>
  Storing claims as JSON and reading them back turns every string array into a generic array;
  \<open>NormalizeStringArray\<close> undoes exactly that.  Normalised claims come back unchanged (the keys of every
  map in JSON's order), so every later merge sees the string arrays again.
\<close>

theorem NormalizeStringArray_json_roundtrip:
  assumes "wf_claims m" "normalized (VMap m)"
  shows "\<exists>n r. json_into_map (Some (json_of_claims m)) [] = Some n
    \<and> NormalizeStringArray (Some n) = Some r
    \<and> VMap r = canon (VMap m)
    \<and> (\<forall>k. gget r k = map_option canon (gget m k))"
proof -
  obtain n where n: "json_any (json_of (VMap m)) = VMap n" by simp
  then have wfn: "wf_claims n" by (metis wf_gval_VMap wf_json_any)
  have r: "normalizeStringArrayValue (VMap n) = canon (VMap m)"
    using normalize_json [of "VMap m"] assms unfolding n by simp
  have "\<forall>k. gget (sort_key fst (on_values canon m)) k = map_option canon (gget m k)"
    using assms by (simp add: gomap)
  moreover have "json_into_map (Some (json_of_claims m)) [] = Some n"
    using n by (simp add: json_of_claims_def)
  ultimately show ?thesis
    using r wfn assms by (simp add: NormalizeStringArray_eq)
qed

theorem NormalizeStringArray_json_roundtrip_witness:
  "\<exists>n r. json_into_map (Some (json_of_claims [(''groups'', VStrs [''b'', ''a'']), (''age'', VNum 7)])) [] = Some n
    \<and> NormalizeStringArray (Some n) = Some r
    \<and> gget r ''groups'' = Some (VStrs [''b'', ''a''])"
  using NormalizeStringArray_json_roundtrip
    [of "[(''groups'', VStrs [''b'', ''a'']), (''age'', VNum 7)]"] by fastforce

end
