(* ===== verification/Proto.thy ===== *)
theory Proto
  imports Misc
begin

text \<open>
  \<^verbatim>\<open>internal/proto\<close>: the identity request and response exchanged by the identity servers, and their
  JSON form.  \<open>decode_struct\<close> is what \<^verbatim>\<open>encoding/json\<close> does with a struct under
  \<^verbatim>\<open>DisallowUnknownFields\<close>; the wire round trip shows what a response is after it crossed the network.
\<close>

section \<open>identity.go and detailed.go\<close>

text \<open>\<^verbatim>\<open>Status\<close> is a Go string: any text the constants do not name is \<open>OtherStatus\<close>.\<close>

datatype Status =
    UserNotFound | Disabled | PasswordChecked | PasswordFail | PasswordUnchecked | PasswordMissing
  | Undefined | PasswordChanged | UnknownProvider | InvalidOldPassword | InvalidNewPassword
  | Unsupported | OtherStatus string

record User =
  uLogin :: string
  uUid :: "int option"
  uName :: string
  uEmails :: "string list"
  uGroups :: "string list"
  uClaims :: "claims option"

definition InitUser :: "string \<Rightarrow> User" where
  "InitUser login =
     \<lparr>uLogin = login, uUid = None, uName = [], uEmails = [], uGroups = [], uClaims = Some []\<rparr>"

record IdentityRequest =
  rqLogin :: string
  rqPassword :: string

record Translated =
  tGroups :: "string list"
  tClaims :: "claims option"
  tUid :: "int option"

record ProviderSpec =
  psName :: string
  psCredentialAuthority :: bool
  psGroupAuthority :: bool
  psClaimAuthority :: bool
  psNameAuthority :: bool
  psEmailAuthority :: bool

record UserDetail =
  dUser :: User
  dStatus :: Status
  dProvider :: ProviderSpec
  dTranslated :: Translated

record IdentityResponse =
  rsUser :: User
  rsStatus :: Status
  rsDetails :: "UserDetail option list"
  rsAuthority :: string

text \<open>The text of a status, and the status a text is.\<close>

definition named_statuses :: "(string \<times> Status) list" where
  "named_statuses =
     [(''userNotFound'', UserNotFound), (''disabled'', Disabled),
      (''passwordChecked'', PasswordChecked), (''passwordFail'', PasswordFail),
      (''passwordUnchecked'', PasswordUnchecked), (''passwordMissing'', PasswordMissing),
      (''undefined'', Undefined), (''passwordChanged'', PasswordChanged),
      (''unknownProvider'', UnknownProvider), (''invalidOldPassword'', InvalidOldPassword),
      (''invalidNewPassword'', InvalidNewPassword), (''unsupported'', Unsupported)]"

definition status_of_text :: "string \<Rightarrow> Status" where
  "status_of_text t = (case map_of named_statuses t of Some s \<Rightarrow> s | None \<Rightarrow> OtherStatus t)"

fun text_of_status :: "Status \<Rightarrow> string" where
  "text_of_status UserNotFound = ''userNotFound''"
| "text_of_status Disabled = ''disabled''"
| "text_of_status PasswordChecked = ''passwordChecked''"
| "text_of_status PasswordFail = ''passwordFail''"
| "text_of_status PasswordUnchecked = ''passwordUnchecked''"
| "text_of_status PasswordMissing = ''passwordMissing''"
| "text_of_status Undefined = ''undefined''"
| "text_of_status PasswordChanged = ''passwordChanged''"
| "text_of_status UnknownProvider = ''unknownProvider''"
| "text_of_status InvalidOldPassword = ''invalidOldPassword''"
| "text_of_status InvalidNewPassword = ''invalidNewPassword''"
| "text_of_status Unsupported = ''unsupported''"
| "text_of_status (OtherStatus t) = t"

text \<open>\<open>OtherStatus\<close> stands for the remaining texts only.\<close>

definition wf_status :: "Status \<Rightarrow> bool" where
  "wf_status s \<longleftrightarrow> status_of_text (text_of_status s) = s"

section \<open>Marshalling\<close>

definition j_strings :: "string list \<Rightarrow> json" where
  "j_strings ss = JArr (map JStr ss)"

fun j_int :: "int option \<Rightarrow> json" where
  "j_int None = JNull"
| "j_int (Some i) = JInt i"

fun j_claims :: "claims option \<Rightarrow> json" where
  "j_claims None = JNull"
| "j_claims (Some m) = json_of_claims m"

definition j_user :: "User \<Rightarrow> json" where
  "j_user u = JObj
     [(''login'', JStr (uLogin u)), (''uid'', j_int (uUid u)), (''name'', JStr (uName u)),
      (''emails'', j_strings (uEmails u)), (''groups'', j_strings (uGroups u)),
      (''claims'', j_claims (uClaims u))]"

definition j_provider :: "ProviderSpec \<Rightarrow> json" where
  "j_provider p = JObj
     [(''name'', JStr (psName p)), (''credentialAuthority'', JBool (psCredentialAuthority p)),
      (''groupAuthority'', JBool (psGroupAuthority p)),
      (''claimAuthority'', JBool (psClaimAuthority p)),
      (''nameAuthority'', JBool (psNameAuthority p)),
      (''emailAuthority'', JBool (psEmailAuthority p))]"

definition j_translated :: "Translated \<Rightarrow> json" where
  "j_translated t = JObj
     [(''Groups'', j_strings (tGroups t)), (''Claims'', j_claims (tClaims t)),
      (''Uid'', j_int (tUid t))]"

definition j_detail :: "UserDetail \<Rightarrow> json" where
  "j_detail d = JObj
     [(''user'', j_user (dUser d)), (''status'', JStr (text_of_status (dStatus d))),
      (''provider'', j_provider (dProvider d)), (''translated'', j_translated (dTranslated d))]"

definition j_response :: "IdentityResponse \<Rightarrow> json" where
  "j_response r = JObj
     [(''user'', j_user (rsUser r)), (''status'', JStr (text_of_status (rsStatus r))),
      (''details'', JArr (map (case_option JNull j_detail) (rsDetails r))), (''authority'', JStr (rsAuthority r))]"

definition j_request :: "IdentityRequest \<Rightarrow> json" where
  "j_request r = JObj [(''login'', JStr (rqLogin r)), (''password'', JStr (rqPassword r))]"

section \<open>Unmarshalling\<close>

text \<open>
  A struct is decoded member by member into the destination: the field of that name, else the first
  one whose name differs in (ASCII) case only, else an error; a value of the wrong type is an error;
  \<^verbatim>\<open>null\<close> leaves strings, booleans and structs as they are and empties pointers, slices and maps.
\<close>

type_synonym 'r field = "string \<times> (json \<Rightarrow> 'r \<Rightarrow> 'r option)"

definition lower :: "char \<Rightarrow> char" where
  "lower c = (if CHR ''A'' \<le> c \<and> c \<le> CHR ''Z'' then char_of (of_char c + 32 :: nat) else c)"

definition find_field :: "'r field list \<Rightarrow> string \<Rightarrow> 'r field option" where
  "find_field fs name =
     (case find (\<lambda>f. fst f = name) fs of
        Some f \<Rightarrow> Some f
      | None \<Rightarrow> find (\<lambda>f. map lower (fst f) = map lower name) fs)"

fun decode_members :: "'r field list \<Rightarrow> (string \<times> json) list \<Rightarrow> 'r \<Rightarrow> 'r option" where
  "decode_members fs [] dst = Some dst"
| "decode_members fs ((name, j) # es) dst =
     (case find_field fs name of
        None \<Rightarrow> None
      | Some f \<Rightarrow>
          (case snd f j dst of
             None \<Rightarrow> None
           | Some dst' \<Rightarrow> decode_members fs es dst'))"

fun decode_struct :: "'r field list \<Rightarrow> json \<Rightarrow> 'r \<Rightarrow> 'r option" where
  "decode_struct fs (JObj es) dst = decode_members fs es dst"
| "decode_struct fs JNull dst = Some dst"
| "decode_struct fs _ dst = None"

fun into_string :: "json \<Rightarrow> string \<Rightarrow> string option" where
  "into_string (JStr s) old = Some s"
| "into_string JNull old = Some old"
| "into_string _ old = None"

fun into_bool :: "json \<Rightarrow> bool \<Rightarrow> bool option" where
  "into_bool (JBool b) old = Some b"
| "into_bool JNull old = Some old"
| "into_bool _ old = None"

fun into_int_ptr :: "json \<Rightarrow> int option option" where
  "into_int_ptr JNull = Some None"
| "into_int_ptr (JInt i) = (if in_int64 i then Some (Some i) else None)"
| "into_int_ptr _ = None"

fun into_list :: "(json \<Rightarrow> 'a option) \<Rightarrow> json \<Rightarrow> 'a list option" where
  "into_list f (JArr js) = those (map f js)"
| "into_list f JNull = Some []"
| "into_list f _ = None"

definition into_strings :: "json \<Rightarrow> string list option" where
  "into_strings = into_list (\<lambda>j. into_string j [])"

fun into_claims :: "json \<Rightarrow> claims option \<Rightarrow> claims option option" where
  "into_claims JNull old = Some None"
| "into_claims j old = map_option Some (json_into_map (Some j) (entries old))"

definition user_fields :: "User field list" where
  "user_fields =
     [(''login'', \<lambda>j u. map_option (\<lambda>x. u\<lparr>uLogin := x\<rparr>) (into_string j (uLogin u))),
      (''uid'', \<lambda>j u. map_option (\<lambda>x. u\<lparr>uUid := x\<rparr>) (into_int_ptr j)),
      (''name'', \<lambda>j u. map_option (\<lambda>x. u\<lparr>uName := x\<rparr>) (into_string j (uName u))),
      (''emails'', \<lambda>j u. map_option (\<lambda>x. u\<lparr>uEmails := x\<rparr>) (into_strings j)),
      (''groups'', \<lambda>j u. map_option (\<lambda>x. u\<lparr>uGroups := x\<rparr>) (into_strings j)),
      (''claims'', \<lambda>j u. map_option (\<lambda>x. u\<lparr>uClaims := x\<rparr>) (into_claims j (uClaims u)))]"

definition provider_fields :: "ProviderSpec field list" where
  "provider_fields =
     [(''name'', \<lambda>j p. map_option (\<lambda>x. p\<lparr>psName := x\<rparr>) (into_string j (psName p))),
      (''credentialAuthority'',
        \<lambda>j p. map_option (\<lambda>x. p\<lparr>psCredentialAuthority := x\<rparr>) (into_bool j (psCredentialAuthority p))),
      (''groupAuthority'',
        \<lambda>j p. map_option (\<lambda>x. p\<lparr>psGroupAuthority := x\<rparr>) (into_bool j (psGroupAuthority p))),
      (''claimAuthority'',
        \<lambda>j p. map_option (\<lambda>x. p\<lparr>psClaimAuthority := x\<rparr>) (into_bool j (psClaimAuthority p))),
      (''nameAuthority'',
        \<lambda>j p. map_option (\<lambda>x. p\<lparr>psNameAuthority := x\<rparr>) (into_bool j (psNameAuthority p))),
      (''emailAuthority'',
        \<lambda>j p. map_option (\<lambda>x. p\<lparr>psEmailAuthority := x\<rparr>) (into_bool j (psEmailAuthority p)))]"

definition translated_fields :: "Translated field list" where
  "translated_fields =
     [(''Groups'', \<lambda>j t. map_option (\<lambda>x. t\<lparr>tGroups := x\<rparr>) (into_strings j)),
      (''Claims'', \<lambda>j t. map_option (\<lambda>x. t\<lparr>tClaims := x\<rparr>) (into_claims j (tClaims t))),
      (''Uid'', \<lambda>j t. map_option (\<lambda>x. t\<lparr>tUid := x\<rparr>) (into_int_ptr j))]"

definition into_status :: "json \<Rightarrow> Status \<Rightarrow> Status option" where
  "into_status j s = map_option status_of_text (into_string j (text_of_status s))"

definition detail_fields :: "UserDetail field list" where
  "detail_fields =
     [(''user'', \<lambda>j d. map_option (\<lambda>x. d\<lparr>dUser := x\<rparr>) (decode_struct user_fields j (dUser d))),
      (''status'', \<lambda>j d. map_option (\<lambda>x. d\<lparr>dStatus := x\<rparr>) (into_status j (dStatus d))),
      (''provider'',
        \<lambda>j d. map_option (\<lambda>x. d\<lparr>dProvider := x\<rparr>) (decode_struct provider_fields j (dProvider d))),
      (''translated'',
        \<lambda>j d. map_option (\<lambda>x. d\<lparr>dTranslated := x\<rparr>)
                (decode_struct translated_fields j (dTranslated d)))]"

text \<open>The zero values of the structs.\<close>

definition zero_user :: User where
  "zero_user =
     \<lparr>uLogin = [], uUid = None, uName = [], uEmails = [], uGroups = [], uClaims = None\<rparr>"

definition zero_detail :: UserDetail where
  "zero_detail =
     \<lparr>dUser = zero_user, dStatus = OtherStatus [],
      dProvider = \<lparr>psName = [], psCredentialAuthority = False, psGroupAuthority = False,
        psClaimAuthority = False, psNameAuthority = False, psEmailAuthority = False\<rparr>,
      dTranslated = \<lparr>tGroups = [], tClaims = None, tUid = None\<rparr>\<rparr>"

fun into_detail_ptr :: "json \<Rightarrow> UserDetail option option" where
  "into_detail_ptr JNull = Some None"
| "into_detail_ptr j = map_option Some (decode_struct detail_fields j zero_detail)"

definition zero_response :: IdentityResponse where
  "zero_response =
     \<lparr>rsUser = zero_user, rsStatus = OtherStatus [], rsDetails = [], rsAuthority = []\<rparr>"

definition response_fields :: "IdentityResponse field list" where
  "response_fields =
     [(''user'', \<lambda>j r. map_option (\<lambda>x. r\<lparr>rsUser := x\<rparr>) (decode_struct user_fields j (rsUser r))),
      (''status'', \<lambda>j r. map_option (\<lambda>x. r\<lparr>rsStatus := x\<rparr>) (into_status j (rsStatus r))),
      (''details'', \<lambda>j r. map_option (\<lambda>x. r\<lparr>rsDetails := x\<rparr>)
         (into_list into_detail_ptr j)),
      (''authority'', \<lambda>j r. map_option (\<lambda>x. r\<lparr>rsAuthority := x\<rparr>) (into_string j (rsAuthority r)))]"

definition request_fields :: "IdentityRequest field list" where
  "request_fields =
     [(''login'', \<lambda>j r. map_option (\<lambda>x. r\<lparr>rqLogin := x\<rparr>) (into_string j (rqLogin r))),
      (''password'', \<lambda>j r. map_option (\<lambda>x. r\<lparr>rqPassword := x\<rparr>) (into_string j (rqPassword r)))]"

text \<open>\<^verbatim>\<open>FromJson\<close> on a fresh destination; a body that is not JSON is \<open>None\<close>.\<close>

fun fromJson :: "'r field list \<Rightarrow> json option \<Rightarrow> 'r \<Rightarrow> 'r option" where
  "fromJson fs None dst = None"
| "fromJson fs (Some j) dst = decode_struct fs j dst"

definition request_FromJson :: "json option \<Rightarrow> IdentityRequest option" where
  "request_FromJson body = fromJson request_fields body \<lparr>rqLogin = [], rqPassword = []\<rparr>"

definition response_FromJson :: "json option \<Rightarrow> IdentityResponse option" where
  "response_FromJson body = fromJson response_fields body zero_response"

text \<open>
  \<^verbatim>\<open>Exchange\<close>: the transport is \<^verbatim>\<open>httpClient.Do\<close>, the error text of the request or the body of the
  response (\<open>None\<close> inside when it is not JSON).
\<close>

type_synonym transport = "string \<Rightarrow> string \<Rightarrow> json \<Rightarrow> string + json option"

definition Exchange :: "transport \<Rightarrow> string \<Rightarrow> string \<Rightarrow> IdentityRequest \<Rightarrow> string + IdentityResponse" where
  "Exchange do_request meth path request =
     (case do_request meth path (j_request request) of
        Inl err \<Rightarrow> Inl err
      | Inr body \<Rightarrow>
          (case response_FromJson body of
             None \<Rightarrow> Inl ''unable to unmarshal response''
           | Some response \<Rightarrow> Inr response))"

section \<open>The wire round trip\<close>

lemma wf_status_simps [simp]:
  "wf_status UserNotFound" "wf_status Disabled" "wf_status PasswordChecked" "wf_status PasswordFail"
  "wf_status PasswordUnchecked" "wf_status PasswordMissing" "wf_status Undefined"
  "wf_status PasswordChanged" "wf_status UnknownProvider" "wf_status InvalidOldPassword"
  "wf_status InvalidNewPassword" "wf_status Unsupported"
  by (simp_all add: wf_status_def status_of_text_def named_statuses_def)

lemma wf_status_of_text [simp]: "wf_status (status_of_text t)"
proof (cases "map_of named_statuses t")
  case (Some s)
  then have "(t, s) \<in> set named_statuses" by (rule map_of_SomeD)
  then have "wf_status s" by (auto simp: named_statuses_def)
  with Some show ?thesis by (simp add: status_of_text_def)
qed (simp add: wf_status_def status_of_text_def)

text \<open>What a response, a user, a detail is after it was written and read back: JSON trees.\<close>

definition wire_claims :: "claims option \<Rightarrow> claims option" where
  "wire_claims c =
     (case c of None \<Rightarrow> None
      | Some m \<Rightarrow> Some (on_values (\<lambda>v. json_any (json_of v)) (sort_key fst m)))"

definition wire_user :: "User \<Rightarrow> User" where
  "wire_user u = u\<lparr>uClaims := wire_claims (uClaims u)\<rparr>"

definition wire_detail :: "UserDetail \<Rightarrow> UserDetail" where
  "wire_detail d = d\<lparr>dUser := wire_user (dUser d),
     dTranslated := (dTranslated d)\<lparr>tClaims := wire_claims (tClaims (dTranslated d))\<rparr>\<rparr>"

definition wire_response :: "IdentityResponse \<Rightarrow> IdentityResponse" where
  "wire_response r =
     r\<lparr>rsUser := wire_user (rsUser r), rsDetails := map (map_option wire_detail) (rsDetails r)\<rparr>"

definition wf_uid :: "int option \<Rightarrow> bool" where
  "wf_uid i = (case i of None \<Rightarrow> True | Some i \<Rightarrow> in_int64 i)"

definition wf_user :: "User \<Rightarrow> bool" where
  "wf_user u \<longleftrightarrow> wf_uid (uUid u) \<and> wf_claims (entries (uClaims u))"

definition wf_detail :: "UserDetail \<Rightarrow> bool" where
  "wf_detail d \<longleftrightarrow> wf_user (dUser d) \<and> wf_status (dStatus d) \<and> wf_uid (tUid (dTranslated d))
     \<and> wf_claims (entries (tClaims (dTranslated d)))"

definition wf_response :: "IdentityResponse \<Rightarrow> bool" where
  "wf_response r \<longleftrightarrow> wf_user (rsUser r) \<and> wf_status (rsStatus r)
     \<and> list_all (case_option True wf_detail) (rsDetails r)"

lemma into_strings_j [simp]: "into_strings (j_strings ss) = Some ss"
  by (induction ss) (auto simp: into_strings_def j_strings_def)

lemma into_int_j [simp]: "wf_uid i \<Longrightarrow> into_int_ptr (j_int i) = Some i"
  by (cases i) (auto simp: wf_uid_def)

lemma into_claims_j [simp]:
  "wf_claims (entries c) \<Longrightarrow> into_claims (j_claims c) None = Some (wire_claims c)"
  by (cases c) (auto simp: wire_claims_def json_of_claims_def sort_on_values entries_def)

lemma into_status_j [simp]:
  "wf_status s \<Longrightarrow> into_status (JStr (text_of_status s)) old = Some s"
  by (simp add: into_status_def wf_status_def)

lemma decode_user_j:
  "wf_user u \<Longrightarrow> decode_struct user_fields (j_user u) zero_user = Some (wire_user u)"
  by (simp add: j_user_def user_fields_def find_field_def wf_user_def zero_user_def wire_user_def)

lemma decode_provider_j:
  "decode_struct provider_fields (j_provider p) p0 = Some p"
  by (simp add: j_provider_def provider_fields_def find_field_def)

lemma decode_translated_j:
  "wf_uid (tUid t) \<Longrightarrow> wf_claims (entries (tClaims t)) \<Longrightarrow>
    decode_struct translated_fields (j_translated t) \<lparr>tGroups = [], tClaims = None, tUid = None\<rparr>
      = Some (t\<lparr>tClaims := wire_claims (tClaims t)\<rparr>)"
  by (simp add: j_translated_def translated_fields_def find_field_def)

lemma decode_detail_j:
  "wf_detail d \<Longrightarrow> into_detail_ptr (j_detail d) = Some (Some (wire_detail d))"
  by (simp add: j_detail_def detail_fields_def find_field_def wf_detail_def zero_detail_def
      decode_user_j decode_provider_j decode_translated_j wire_detail_def)

lemma into_details_j:
  "list_all (case_option True wf_detail) ds \<Longrightarrow>
     those (map (\<lambda>d. into_detail_ptr (case_option JNull j_detail d)) ds)
       = Some (map (map_option wire_detail) ds)"
  by (induction ds) (auto simp: decode_detail_j split: option.splits)

lemma response_FromJson_j:
  "wf_response r \<Longrightarrow> response_FromJson (Some (j_response r)) = Some (wire_response r)"
  by (simp add: j_response_def response_FromJson_def response_fields_def find_field_def
      wf_response_def zero_response_def decode_user_j into_details_j wire_response_def comp_def)

lemma request_eta [simp]: "\<lparr>rqLogin = rqLogin rq, rqPassword = rqPassword rq\<rparr> = rq"
  by simp

lemma request_FromJson_j: "request_FromJson (Some (j_request r)) = Some r"
  by (simp add: j_request_def request_FromJson_def request_fields_def find_field_def)

lemma wire_simps [simp]:
  "uLogin (rsUser (wire_response r)) = uLogin (rsUser r)"
  "rsStatus (wire_response r) = rsStatus r"
  "uGroups (rsUser (wire_response r)) = uGroups (rsUser r)"
  by (simp_all add: wire_response_def wire_user_def)

lemma gget_wire_claims:
  "wf_claims (entries c) \<Longrightarrow>
     gget (entries (wire_claims c)) k = map_option (\<lambda>v. json_any (json_of v)) (gget (entries c) k)"
  by (cases c) (simp_all add: wire_claims_def gomap)

lemma wf_wire_claims: "wf_claims (entries c) \<Longrightarrow> wf_claims (entries (wire_claims c))"
  by (cases c) (auto simp: wire_claims_def wf_claims_def)

lemma wf_wire_response: "wf_response r \<Longrightarrow> wf_response (wire_response r)"
  by (auto simp: wf_response_def wire_response_def wf_user_def wire_user_def wf_detail_def wire_detail_def
      wf_wire_claims list_all_iff split: option.splits)

lemma user_wire_login:
  "decode_struct user_fields (j_user u) u0 = Some u' \<Longrightarrow> uLogin u' = uLogin u"
  by (auto simp: j_user_def user_fields_def find_field_def split: option.splits)

lemma response_wire_status:
  "wf_status (rsStatus rs) \<Longrightarrow> response_FromJson (Some (j_response rs)) = Some r' \<Longrightarrow>
     rsStatus r' = rsStatus rs \<and> uLogin (rsUser r') = uLogin (rsUser rs)"
  by (auto simp: j_response_def response_FromJson_def response_fields_def find_field_def
      dest: user_wire_login split: option.splits)

lemma response_wf_status:
  assumes "response_FromJson body = Some r"
  shows "wf_status (rsStatus r)"
proof -
  have "decode_members response_fields es r0 = Some r1 \<Longrightarrow> wf_status (rsStatus r0) \<Longrightarrow> wf_status (rsStatus r1)"
    for es r0 r1
  proof (induction es arbitrary: r0)
    case (Cons e es)
    obtain name j where e: "e = (name, j)" by (cases e)
    obtain f r2 where f: "find_field response_fields name = Some f" "snd f j r0 = Some r2"
      "decode_members response_fields es r2 = Some r1"
      using Cons.prems(1) e by (auto split: option.splits)
    have "f \<in> set response_fields"
      using f(1) by (auto simp: find_field_def find_Some_iff split: option.splits)
    with f(2) Cons.prems(2) have "wf_status (rsStatus r2)"
      by (auto simp: response_fields_def into_status_def)
    with f(3) show ?case by (rule Cons.IH)
  qed simp
  moreover have "wf_status (rsStatus zero_response)"
    by (simp add: zero_response_def wf_status_def status_of_text_def named_statuses_def)
  ultimately show ?thesis
    using assms unfolding response_FromJson_def
    by (cases "(response_fields, the body, zero_response)" rule: decode_struct.cases; cases body) auto
qed


definition sample_response :: IdentityResponse where
  "sample_response =
     \<lparr>rsUser = (InitUser ''jim'')\<lparr>uUid := Some 2000, uClaims := Some [(''z'', VStrs [''b'']), (''a'', VNum 3)]\<rparr>,
      rsStatus = PasswordChecked, rsDetails = [None], rsAuthority = ''ldap''\<rparr>"


end
