(* ===== verification/Protector.thy ===== *)
theory Protector
  imports Proto "HOL-Library.Multiset"
begin

text \<open>
  \<^verbatim>\<open>internal/handlers/protector\<close>: the brute force protection of the login endpoints.  The states the map
  points to are shared with the handlers that sleep on them, so they live in a heap and the three parts
  of \<^verbatim>\<open>failure\<close> (the locked section, the increment, the decrement after the sleep) are separate steps of a
  transition system in which any number of handlers and the cleaner interleave.  Times and durations
  are nanoseconds; durations and counters wrap at 64 bits.
\<close>

section \<open>State and options\<close>

record loginState =
  lastFailure :: int
  nbrOfFailure :: int
  pendingFailures :: int

record bfaProtector =
  states :: "loginState list"
  stateByLogin :: "nat gomap"
  cleanerPeriod :: int
  cleanDelay :: int
  freeFailure :: int
  maxPenalty :: int
  penaltyByFailure :: int
  maxPendingFailure :: int

definition UnknownUser :: string where
  "UnknownUser = ''_unknownUser_''"

definition UnknownToken :: string where
  "UnknownToken = ''_unknownToken_''"

definition WithCleanerPeriod :: "int \<Rightarrow> bfaProtector \<Rightarrow> bfaProtector" where
  "WithCleanerPeriod d p = p\<lparr>cleanerPeriod := d\<rparr>"

definition WithCleanDelay :: "int \<Rightarrow> bfaProtector \<Rightarrow> bfaProtector" where
  "WithCleanDelay d p = p\<lparr>cleanDelay := d\<rparr>"

definition WithFreeFailure :: "int \<Rightarrow> bfaProtector \<Rightarrow> bfaProtector" where
  "WithFreeFailure ff p = p\<lparr>freeFailure := ff\<rparr>"

definition WithMaxPenalty :: "int \<Rightarrow> bfaProtector \<Rightarrow> bfaProtector" where
  "WithMaxPenalty mp p = p\<lparr>maxPenalty := mp\<rparr>"

definition WithPenaltyByFailure :: "int \<Rightarrow> bfaProtector \<Rightarrow> bfaProtector" where
  "WithPenaltyByFailure pbf p = p\<lparr>penaltyByFailure := pbf\<rparr>"

definition WithMaxPendingFailure :: "int \<Rightarrow> bfaProtector \<Rightarrow> bfaProtector" where
  "WithMaxPendingFailure mpf p = p\<lparr>maxPendingFailure := mpf\<rparr>"

definition second :: int where
  "second = 1000000000"

text \<open>\<^verbatim>\<open>New\<close> with protection activated: the defaults, then the options in order.\<close>

definition bfa_New :: "(bfaProtector \<Rightarrow> bfaProtector) list \<Rightarrow> bfaProtector" where
  "bfa_New opts =
     fold (\<lambda>opt p. opt p) opts
       \<lparr>states = [], stateByLogin = [], cleanerPeriod = 60 * second, cleanDelay = 30 * 60 * second,
        freeFailure = 4, maxPenalty = 15 * second, penaltyByFailure = 1 * second,
        maxPendingFailure = 20\<rparr>"

section \<open>Operations\<close>

definition delayFromFailureCount :: "bfaProtector \<Rightarrow> int \<Rightarrow> int" where
  "delayFromFailureCount p n =
     (if n \<le> freeFailure p then 0
      else let penalty = wrap64 (wrap64 (n - freeFailure p) * penaltyByFailure p)
           in if penalty > maxPenalty p then maxPenalty p else penalty)"

text \<open>The test both entry points make on one entry of the map.\<close>

definition tooManyPending :: "bfaProtector \<Rightarrow> string \<Rightarrow> bool" where
  "tooManyPending p login =
     (case gget (stateByLogin p) login of
        Some a \<Rightarrow> pendingFailures (states p ! a) > maxPendingFailure p
      | None \<Rightarrow> False)"

definition EntryForLogin :: "bfaProtector \<Rightarrow> string \<Rightarrow> bool" where
  "EntryForLogin p login =
     (if tooManyPending p login then True
      else if tooManyPending p UnknownUser then True
      else False)"

definition EntryForToken :: "bfaProtector \<Rightarrow> bool" where
  "EntryForToken p = tooManyPending p UnknownToken"

text \<open>\<^verbatim>\<open>failure\<close> up to the unlock: the state of the login (a fresh one if there is none) counts one more.\<close>

definition failure_register :: "bfaProtector \<Rightarrow> int \<Rightarrow> string \<Rightarrow> bfaProtector \<times> nat \<times> int" where
  "failure_register p now login =
     (let (a, p1) = (case gget (stateByLogin p) login of
             Some a \<Rightarrow> (a, p)
           | None \<Rightarrow> (length (states p),
               p\<lparr>states := states p @ [\<lparr>lastFailure = 0, nbrOfFailure = 0, pendingFailures = 0\<rparr>],
                 stateByLogin := gput login (length (states p)) (stateByLogin p)\<rparr>));
          st = states p1 ! a;
          n = wrap64 (nbrOfFailure st + 1);
          p2 = p1\<lparr>states := (states p1)[a := st\<lparr>lastFailure := now, nbrOfFailure := n\<rparr>]\<rparr>
      in (p2, a, delayFromFailureCount p2 n))"

definition pendingAdd :: "int \<Rightarrow> bfaProtector \<Rightarrow> nat \<Rightarrow> bfaProtector" where
  "pendingAdd d p a =
     (let st = states p ! a
      in p\<lparr>states := (states p)[a := st\<lparr>pendingFailures := wrap64 (pendingFailures st + d)\<rparr>]\<rparr>)"

text \<open>\<^verbatim>\<open>failure\<close> run without interference: the new state and how long the caller slept.\<close>

definition failure :: "bfaProtector \<Rightarrow> int \<Rightarrow> string \<Rightarrow> bfaProtector \<times> int" where
  "failure p now login =
     (let (p1, a, delay) = failure_register p now login;
          p2 = pendingAdd 1 p1 a;
          p3 = pendingAdd (- 1) p2 a
      in (p3, delay))"

definition TokenNotFound :: "bfaProtector \<Rightarrow> int \<Rightarrow> bfaProtector \<times> int" where
  "TokenNotFound p now = failure p now UnknownToken"

definition ProtectLoginResult :: "bfaProtector \<Rightarrow> int \<Rightarrow> string \<Rightarrow> Status \<Rightarrow> bfaProtector \<times> int" where
  "ProtectLoginResult p now login status =
     (if status = PasswordFail \<or> status = InvalidOldPassword then failure p now login else (p, 0))"

definition clean :: "bfaProtector \<Rightarrow> int \<Rightarrow> bfaProtector" where
  "clean p now =
     p\<lparr>stateByLogin :=
         filter (\<lambda>(k, a). \<not> lastFailure (states p ! a) + cleanDelay p < now) (stateByLogin p)\<rparr>"

text \<open>The protector that is used when protection is not activated.\<close>

definition empty_EntryForLogin :: "unit \<Rightarrow> string \<Rightarrow> bool" where
  "empty_EntryForLogin e login = False"

definition empty_ProtectLoginResult :: "unit \<Rightarrow> int \<Rightarrow> string \<Rightarrow> Status \<Rightarrow> unit \<times> int" where
  "empty_ProtectLoginResult e now login status = (e, 0)"

definition empty_EntryForToken :: "unit \<Rightarrow> bool" where
  "empty_EntryForToken e = False"

definition empty_TokenNotFound :: "unit \<Rightarrow> int \<Rightarrow> unit \<times> int" where
  "empty_TokenNotFound e now = (e, 0)"

section \<open>Interleaving\<close>

text \<open>A handler inside \<^verbatim>\<open>failure\<close>: past the locked section, or sleeping on a state.\<close>

datatype handler = Registered nat | Sleeping nat

type_synonym bfa_config = "bfaProtector \<times> handler multiset"

inductive bfa_step :: "bfa_config \<Rightarrow> bfa_config \<Rightarrow> bool" where
  register: "failure_register p now login = (p', a, delay) \<Longrightarrow>
      bfa_step (p, H) (p', add_mset (Registered a) H)"
| sleep: "bfa_step (p, add_mset (Registered a) H) (pendingAdd 1 p a, add_mset (Sleeping a) H)"
| wake: "bfa_step (p, add_mset (Sleeping a) H) (pendingAdd (- 1) p a, H)"
| tick: "bfa_step (p, H) (clean p now, H)"

inductive bfa_reach :: "bfaProtector \<Rightarrow> bfa_config \<Rightarrow> bool" for p0 where
  start: "bfa_reach p0 (p0, {#})"
| step: "bfa_reach p0 c \<Longrightarrow> bfa_step c c' \<Longrightarrow> bfa_reach p0 c'"

text \<open>
  Every address in use is allocated, no two logins share a state, and the pending counter of a state
  is the number of handlers that sleep on it.
\<close>

fun wf_handler :: "nat \<Rightarrow> handler \<Rightarrow> bool" where
  "wf_handler n (Registered a) = (a < n)"
| "wf_handler n (Sleeping a) = (a < n)"

definition bfa_inv :: "bfa_config \<Rightarrow> bool" where
  "bfa_inv c \<longleftrightarrow>
     (let (p, H) = c in
        wf_gomap (stateByLogin p) \<and> distinct (map snd (stateByLogin p))
        \<and> (\<forall>a \<in> snd ` set (stateByLogin p). a < length (states p))
        \<and> (\<forall>h \<in># H. wf_handler (length (states p)) h)
        \<and> (\<forall>a < length (states p). pendingFailures (states p ! a) = wrap64 (int (count H (Sleeping a)))))"

text \<open>The failures counted for a login, and a protector nobody used yet.\<close>

definition failures :: "bfaProtector \<Rightarrow> string \<Rightarrow> int" where
  "failures p login =
     (case gget (stateByLogin p) login of Some a \<Rightarrow> nbrOfFailure (states p ! a) | None \<Rightarrow> 0)"

definition fresh :: "bfaProtector \<Rightarrow> bool" where
  "fresh p \<longleftrightarrow> states p = [] \<and> stateByLogin p = []"

section \<open>The invariant\<close>

lemma fresh_New:
  "(\<And>opt p. opt \<in> set opts \<Longrightarrow> fresh p \<Longrightarrow> fresh (opt p)) \<Longrightarrow> fresh (bfa_New opts)"
  unfolding bfa_New_def
  by (rule fold_invariant [where P = fresh and Q = "\<lambda>x. x \<in> set opts"]) (auto simp: fresh_def)

lemma fresh_options [simp]:
  "fresh p \<Longrightarrow> fresh (WithCleanerPeriod d p)" "fresh p \<Longrightarrow> fresh (WithCleanDelay d p)"
  "fresh p \<Longrightarrow> fresh (WithFreeFailure n p)" "fresh p \<Longrightarrow> fresh (WithMaxPenalty d p)"
  "fresh p \<Longrightarrow> fresh (WithPenaltyByFailure d p)" "fresh p \<Longrightarrow> fresh (WithMaxPendingFailure n p)"
  by (simp_all add: fresh_def WithCleanerPeriod_def WithCleanDelay_def WithFreeFailure_def
      WithMaxPenalty_def WithPenaltyByFailure_def WithMaxPendingFailure_def)

lemma bfa_invD:
  assumes "bfa_inv (p, H)"
  shows "wf_gomap (stateByLogin p)" "distinct (map snd (stateByLogin p))"
    and "\<And>login a. gget (stateByLogin p) login = Some a \<Longrightarrow> a < length (states p)"
    and "\<And>a. a < length (states p) \<Longrightarrow> pendingFailures (states p ! a) = wrap64 (int (count H (Sleeping a)))"
  using assms by (force simp: bfa_inv_def dest: map_of_SomeD)+

lemma wf_handler_mono: "wf_handler n h \<Longrightarrow> n \<le> m \<Longrightarrow> wf_handler m h"
  by (cases h) auto

lemma fresh_address: "\<forall>h \<in># H. wf_handler n h \<Longrightarrow> count H (Sleeping n) = 0"
  by (metis count_inI less_irrefl wf_handler.simps(2))

lemma register_inv:
  assumes inv: "bfa_inv (p, H)" and reg: "failure_register p now login = (p', a, d)"
  shows "bfa_inv (p', add_mset (Registered a) H)"
proof (cases "gget (stateByLogin p) login")
  case None
  then have "p' = p\<lparr>states := states p @ [\<lparr>lastFailure = now, nbrOfFailure = 1, pendingFailures = 0\<rparr>],
      stateByLogin := stateByLogin p @ [(login, length (states p))]\<rparr>" "a = length (states p)"
    using reg by (auto simp: failure_register_def Let_def gput_fresh in_int64_def)
  moreover have "wf_gomap (stateByLogin p @ [(login, length (states p))])"
    using bfa_invD(1) [OF inv] None wf_gomap_gput [of "stateByLogin p" login "length (states p)"]
    by (simp add: gput_fresh)
  moreover have "\<forall>h \<in># H. wf_handler (length (states p)) h"
    using inv by (simp add: bfa_inv_def)
  moreover have "\<forall>h \<in># H. wf_handler (Suc (length (states p))) h"
    using inv by (auto simp: bfa_inv_def intro: wf_handler_mono)
  ultimately show ?thesis
    using inv fresh_address [of H "length (states p)"]
    by (auto simp: bfa_inv_def nth_append less_Suc_eq in_int64_def)
next
  case (Some b)
  then have "p' = p\<lparr>states := (states p)[b := (states p ! b)\<lparr>lastFailure := now,
      nbrOfFailure := wrap64 (nbrOfFailure (states p ! b) + 1)\<rparr>]\<rparr>" "a = b"
    using reg by (auto simp: failure_register_def Let_def)
  with Some inv bfa_invD(3) [OF inv Some] show ?thesis
    by (auto simp: bfa_inv_def nth_list_update)
qed

lemma sleep_inv:
  "bfa_inv (p, add_mset (Registered a) H) \<Longrightarrow> bfa_inv (pendingAdd 1 p a, add_mset (Sleeping a) H)"
  by (auto simp: bfa_inv_def pendingAdd_def Let_def nth_list_update add.commute)

lemma wake_inv:
  "bfa_inv (p, add_mset (Sleeping a) H) \<Longrightarrow> bfa_inv (pendingAdd (- 1) p a, H)"
  by (auto simp: bfa_inv_def pendingAdd_def Let_def nth_list_update)

lemma clean_inv: "bfa_inv (p, H) \<Longrightarrow> bfa_inv (clean p now, H)"
  by (auto simp: bfa_inv_def clean_def wf_gomap_def distinct_map_filter)

lemma bfa_reach_inv: "bfa_reach p0 c \<Longrightarrow> fresh p0 \<Longrightarrow> bfa_inv c"
proof (induction rule: bfa_reach.induct)
  case start
  then show ?case by (simp add: bfa_inv_def fresh_def)
next
  case (step c c')
  from step.hyps(2) step.IH [OF step.prems] show ?case
    by (cases rule: bfa_step.cases) (auto intro: register_inv sleep_inv wake_inv clean_inv)
qed

section \<open>One failure at a time\<close>

lemma pendingAdd_cancel:
  "in_int64 (pendingFailures (states p ! a)) \<Longrightarrow> a < length (states p) \<Longrightarrow>
     pendingAdd (- 1) (pendingAdd 1 p a) a = p"
  by (simp add: pendingAdd_def Let_def)

lemma failure_register_eq:
  assumes "bfa_inv (p, H)"
  shows "failure_register p now login =
    (let a = (case gget (stateByLogin p) login of Some a \<Rightarrow> a | None \<Rightarrow> length (states p));
         n = wrap64 (failures p login + 1);
         pend = (case gget (stateByLogin p) login of
                   Some a \<Rightarrow> pendingFailures (states p ! a) | None \<Rightarrow> 0);
         st = \<lparr>lastFailure = now, nbrOfFailure = n, pendingFailures = pend\<rparr>
     in (if a = length (states p)
         then p\<lparr>states := states p @ [st], stateByLogin := gput login a (stateByLogin p)\<rparr>
         else p\<lparr>states := (states p)[a := st]\<rparr>, a, delayFromFailureCount p n))"
proof (cases "gget (stateByLogin p) login")
  case None
  then show ?thesis
    by (simp add: failure_register_def Let_def failures_def delayFromFailureCount_def)
next
  case (Some a)
  then have "a < length (states p)" using bfa_invD(3) [OF assms] by blast
  with Some show ?thesis
    by (cases "states p ! a")
      (simp add: failure_register_def Let_def failures_def delayFromFailureCount_def)
qed

lemma failure_is_register:
  assumes "bfa_inv (p, H)" "failure_register p now login = (p1, a, d)"
  shows "failure p now login = (p1, d)"
proof -
  have inv: "bfa_inv (p1, add_mset (Registered a) H)"
    using assms by (rule register_inv)
  then have a: "a < length (states p1)" by (simp add: bfa_inv_def)
  then have "in_int64 (pendingFailures (states p1 ! a))"
    using bfa_invD(4) [OF inv] by simp
  then show ?thesis
    using assms(2) a by (simp add: failure_def pendingAdd_cancel)
qed

lemma failures_register:
  assumes inv: "bfa_inv (p, H)" and reg: "failure_register p now login = (p', a, d)"
  shows "failures p' login = wrap64 (failures p login + 1)"
    and "d = delayFromFailureCount p (failures p' login)"
    and "l \<noteq> login \<Longrightarrow> failures p' l = failures p l \<and> tooManyPending p' l = tooManyPending p l"
proof -
  show login: "failures p' login = wrap64 (failures p login + 1)"
    using reg bfa_invD(3) [OF inv, of login]
    by (auto simp: failure_register_eq [OF inv] Let_def failures_def split: option.splits if_splits)
  show "d = delayFromFailureCount p (failures p' login)"
    using reg unfolding login by (auto simp: failure_register_eq [OF inv] Let_def)
  assume l: "l \<noteq> login"
  have "(l, x) \<in> set (stateByLogin p) \<Longrightarrow> (login, x) \<notin> set (stateByLogin p)" for x
    using l bfa_invD(2) [OF inv] 
    by (auto simp: distinct_map dest: inj_onD [where x = "(l, x)" and y = "(login, x)"])
  then have other: "gget (stateByLogin p) l = Some x \<Longrightarrow> x < length (states p) \<and>
      gget (stateByLogin p) login \<noteq> Some x" for x
    using bfa_invD(3) [OF inv] by (blast dest: map_of_SomeD)
  show "failures p' l = failures p l \<and> tooManyPending p' l = tooManyPending p l"
    using reg l other bfa_invD(3) [OF inv, of login]
    by (auto simp: failure_register_eq [OF inv] Let_def failures_def tooManyPending_def nth_append
        split: option.splits if_splits)
qed

lemma gget_filter_wf:
  "wf_gomap m \<Longrightarrow> gget (filter (\<lambda>(k, a). P a) m) l =
     (case gget m l of Some a \<Rightarrow> if P a then Some a else None | None \<Rightarrow> None)"
  by (induction m) (auto split: option.splits)

text \<open>
  C4: in every interleaving of login handlers and cleaner runs, \<open>EntryForLogin\<close> refuses a login exactly
  when more than the allowed number of handlers are sleeping on a failure of that login (or of the
  reserved unknown-user entry): no increment or decrement is ever lost.
\<close>

theorem bfa_lock_counts_sleepers:
  assumes "fresh p0" "bfa_reach p0 (p, H)" "int (size H) < 2 ^ 63"
  shows "EntryForLogin p login \<longleftrightarrow>
    (\<exists>l \<in> {login, UnknownUser}. \<exists>a. gget (stateByLogin p) l = Some a
       \<and> int (count H (Sleeping a)) > maxPendingFailure p)"
proof -
  have inv: "bfa_inv (p, H)" using assms(1,2) bfa_reach_inv by blast
  have "wrap64 (int (count H (Sleeping a))) = int (count H (Sleeping a))" for a
    using assms(3) count_le_size [of H "Sleeping a"] by (intro wrap64_id) (simp add: in_int64_def)
  then have "tooManyPending p l \<longleftrightarrow>
      (\<exists>a. gget (stateByLogin p) l = Some a \<and> int (count H (Sleeping a)) > maxPendingFailure p)" for l
    using bfa_invD(3,4) [OF inv] by (auto simp: tooManyPending_def split: option.split)
  then show ?thesis by (auto simp: EntryForLogin_def)
qed

lemma sample_lock_reach:
  "bfa_reach (bfa_New [WithMaxPendingFailure 0])
     (pendingAdd 1 (fst (failure_register (bfa_New [WithMaxPendingFailure 0]) 5 ''jim'')) 0, {#Sleeping 0#})"
proof -
  let ?p0 = "bfa_New [WithMaxPendingFailure 0]"
  let ?p1 = "fst (failure_register ?p0 5 ''jim'')"
  have "bfa_step (?p0, {#}) (?p1, {#Registered 0#})"
    by (rule bfa_step.register [of _ 5 "''jim''" _ _ "delayFromFailureCount ?p1 1"])
      (simp add: failure_register_def Let_def bfa_New_def WithMaxPendingFailure_def in_int64_def)
  then have "bfa_reach ?p0 (?p1, {#Registered 0#})"
    by (rule bfa_reach.step [OF bfa_reach.start])
  then show ?thesis
    by (rule bfa_reach.step) (rule bfa_step.sleep)
qed

theorem bfa_lock_counts_sleepers_witness:
  "let p = pendingAdd 1 (fst (failure_register (bfa_New [WithMaxPendingFailure 0]) 5 ''jim'')) 0
   in EntryForLogin p ''jim'' \<and> \<not> EntryForLogin p ''bob''"
proof -
  have "fresh (bfa_New [WithMaxPendingFailure 0])" by (rule fresh_New) auto
  note lock = bfa_lock_counts_sleepers [OF this sample_lock_reach]
  show ?thesis
    using lock [of "''jim''"] lock [of "''bob''"]
    by (simp add: pendingAdd_def failure_register_def Let_def bfa_New_def WithMaxPendingFailure_def
        UnknownUser_def)
qed



text \<open>
  C38: as long as the multiplication does not overflow, the delay is the capped linear penalty: none for
  the free failures, growing with the count, never above the maximum.
\<close>

theorem delayFromFailureCount_bounds:
  assumes "0 \<le> penaltyByFailure p" "0 \<le> maxPenalty p" "0 \<le> freeFailure p" "m \<le> n" "in_int64 n"
    and "(n - freeFailure p) * penaltyByFailure p < 2 ^ 63"
  shows "delayFromFailureCount p n =
      (if n \<le> freeFailure p then 0 else min ((n - freeFailure p) * penaltyByFailure p) (maxPenalty p))
    \<and> 0 \<le> delayFromFailureCount p n \<and> delayFromFailureCount p n \<le> maxPenalty p
    \<and> delayFromFailureCount p m \<le> delayFromFailureCount p n"
proof -
  have eq: "delayFromFailureCount p k =
      (if k \<le> freeFailure p then 0 else min ((k - freeFailure p) * penaltyByFailure p) (maxPenalty p))"
    if "k \<le> n" for k
  proof (cases "k \<le> freeFailure p")
    case False
    have "(k - freeFailure p) * penaltyByFailure p \<le> (n - freeFailure p) * penaltyByFailure p"
      using that assms(1) by (intro mult_right_mono) auto
    moreover have "0 \<le> (k - freeFailure p) * penaltyByFailure p"
      using False assms(1) by simp
    ultimately have "in_int64 ((k - freeFailure p) * penaltyByFailure p)"
      using assms(6) by (simp add: in_int64_def)
    moreover have "in_int64 (k - freeFailure p)"
      using False that assms(3,5) by (simp add: in_int64_def)
    ultimately show ?thesis using False by (simp add: delayFromFailureCount_def Let_def min_def)
  qed (simp add: delayFromFailureCount_def)
  have "(m - freeFailure p) * penaltyByFailure p \<le> (n - freeFailure p) * penaltyByFailure p"
    using assms(1,4) by (intro mult_right_mono) auto
  then show ?thesis
    using assms by (auto simp: eq [of m] eq [of n] min_def)
qed

theorem delayFromFailureCount_bounds_witness:
  "delayFromFailureCount (bfa_New []) 10 = 6 * second \<and> delayFromFailureCount (bfa_New []) 100 = 15 * second"
  using delayFromFailureCount_bounds [of "bfa_New []" 10 10] delayFromFailureCount_bounds [of "bfa_New []" 100 100]
  by (simp add: bfa_New_def second_def in_int64_def)

end
