(* ===== verification/IdentityHandler.thy ===== *)
theory IdentityHandler
  imports Protector
begin

text \<open>
  \<^verbatim>\<open>internal/handlers/identity.go\<close> and \<^verbatim>\<open>internal/handlers/validator\<close>: the HTTP endpoint every identity
  server (ucrd, ldap, merger, audit) puts in front of its authenticator.  Two interfaces are locales:
  the login protector the handler consults, and the authenticator contract every server fulfils.
\<close>

section \<open>HTTP\<close>

text \<open>A request with its decoded body, and a reply; the text of an error reply is left out.\<close>

record http_request =
  req_Method :: string
  req_Body :: "json option"

datatype http_reply = HttpError nat | HttpJson nat json

type_synonym 'w authenticate = "'w \<Rightarrow> IdentityRequest \<Rightarrow> (string + IdentityResponse) \<times> 'w"

section \<open>Validators and handler\<close>

text \<open>A validator answers the request itself (\<open>Some\<close>) or lets it pass.\<close>

type_synonym validator = "http_request \<Rightarrow> IdentityRequest \<Rightarrow> http_reply option"

definition OnlyGetValidator :: validator where
  "OnlyGetValidator request identityRequest =
     (if req_Method request \<noteq> ''GET'' then Some (HttpError 405) else None)"

fun run_validators :: "validator list \<Rightarrow> http_request \<Rightarrow> IdentityRequest \<Rightarrow> http_reply option" where
  "run_validators [] request rq = None"
| "run_validators (v # vs) request rq =
     (case v request rq of Some reply \<Rightarrow> Some reply | None \<Rightarrow> run_validators vs request rq)"

text \<open>
  \<^verbatim>\<open>ServeHTTP\<close>, over the protector's two operations and the authenticator: the reply, the time the
  handler was held back, the protector's state and the authenticator's world.
\<close>

definition identity_ServeHTTP ::
  "('s \<Rightarrow> string \<Rightarrow> bool) \<Rightarrow> ('s \<Rightarrow> int \<Rightarrow> string \<Rightarrow> Status \<Rightarrow> 's \<times> int) \<Rightarrow> validator list \<Rightarrow> 'w authenticate
    \<Rightarrow> int \<Rightarrow> 's \<Rightarrow> 'w \<Rightarrow> http_request \<Rightarrow> http_reply \<times> int \<times> 's \<times> 'w" where
  "identity_ServeHTTP entry protect validators authenticate now s w request =
     (case request_FromJson (req_Body request) of
        None \<Rightarrow> (HttpError 400, 0, s, w)
      | Some identityRequest \<Rightarrow>
          if entry s (rqLogin identityRequest) then (HttpError 503, 0, s, w)
          else (case run_validators validators request identityRequest of
                  Some reply \<Rightarrow> (reply, 0, s, w)
                | None \<Rightarrow>
                    (case authenticate w identityRequest of
                       (Inl err, w') \<Rightarrow> (HttpError 500, 0, s, w')
                     | (Inr identityResponse, w') \<Rightarrow>
                         let (s', delay) = protect s now (rqLogin identityRequest) (rsStatus identityResponse)
                         in (HttpJson 200 (j_response identityResponse), delay, s', w'))))"

section \<open>The protector the handler relies on\<close>

definition punishable :: "Status \<Rightarrow> bool" where
  "punishable s \<longleftrightarrow> s = PasswordFail \<or> s = InvalidOldPassword"

locale login_protector =
  fixes entry :: "'s \<Rightarrow> string \<Rightarrow> bool"
    and protect :: "'s \<Rightarrow> int \<Rightarrow> string \<Rightarrow> Status \<Rightarrow> 's \<times> int"
  assumes quiet: "\<not> punishable status \<Longrightarrow> protect s now login status = (s, 0)"
begin

lemma serve_locked:
  assumes "request_FromJson (req_Body request) = Some rq" "entry s (rqLogin rq)"
  shows "identity_ServeHTTP entry protect vs auth now s w request = (HttpError 503, 0, s, w)"
  using assms by (simp add: identity_ServeHTTP_def)

lemma serve_answer:
  assumes "identity_ServeHTTP entry protect vs auth now s w request = (HttpJson 200 j, delay, s', w')"
    and "run_validators vs request = (\<lambda>rq. None)"
  shows "\<exists>rq rs. request_FromJson (req_Body request) = Some rq \<and> \<not> entry s (rqLogin rq)
    \<and> auth w rq = (Inr rs, w') \<and> j = j_response rs
    \<and> protect s now (rqLogin rq) (rsStatus rs) = (s', delay)
    \<and> (\<not> punishable (rsStatus rs) \<longrightarrow> s' = s \<and> delay = 0)"
  using assms
  by (auto simp: identity_ServeHTTP_def quiet Let_def
      split: option.splits if_splits prod.splits sum.splits)

end

interpretation bfa: login_protector EntryForLogin ProtectLoginResult
  by unfold_locales (simp add: ProtectLoginResult_def punishable_def)

interpretation nobfa: login_protector empty_EntryForLogin empty_ProtectLoginResult
  by unfold_locales (simp add: empty_ProtectLoginResult_def)

section \<open>The authenticator contract\<close>

text \<open>
  What the clients of an identity server rely on: the answer is about the login that was asked for,
  its status is one of the protocol's, and without a password nothing is ever checked.
\<close>

definition password_tested :: "Status \<Rightarrow> bool" where
  "password_tested s \<longleftrightarrow> s = PasswordChecked \<or> s = PasswordFail"

locale authenticator =
  fixes authenticate :: "IdentityRequest \<Rightarrow> string + IdentityResponse"
  assumes same_login: "authenticate rq = Inr rs \<Longrightarrow> uLogin (rsUser rs) = rqLogin rq"
    and status_ok: "authenticate rq = Inr rs \<Longrightarrow> wf_status (rsStatus rs)"
    and no_password: "authenticate rq = Inr rs \<Longrightarrow> rqPassword rq = [] \<Longrightarrow> \<not> password_tested (rsStatus rs)"
begin

lemma checked_needs_password:
  "authenticate rq = Inr rs \<Longrightarrow> rsStatus rs = PasswordChecked \<Longrightarrow> rqPassword rq \<noteq> []"
  using no_password by (auto simp: password_tested_def)

end

section \<open>Guessing passwords\<close>

text \<open>Requests served one after the other, each at its time; the replies with their delays.\<close>

fun serve_all ::
  "'w authenticate \<Rightarrow> bfaProtector \<Rightarrow> 'w \<Rightarrow> (int \<times> http_request) list \<Rightarrow> (http_reply \<times> int) list" where
  "serve_all auth p w [] = []"
| "serve_all auth p w ((now, request) # rest) =
     (let (reply, delay, p', w') =
        identity_ServeHTTP EntryForLogin ProtectLoginResult [OnlyGetValidator] auth now p w request
      in (reply, delay) # serve_all auth p' w' rest)"

definition login_request :: "string \<Rightarrow> http_request \<Rightarrow> bool" where
  "login_request login request \<longleftrightarrow> req_Method request = ''GET''
     \<and> (\<exists>rq. request_FromJson (req_Body request) = Some rq \<and> rqLogin rq = login)"

definition refuses :: "'w authenticate \<Rightarrow> string \<Rightarrow> bool" where
  "refuses auth login \<longleftrightarrow>
     (\<forall>w rq. rqLogin rq = login \<longrightarrow> (\<exists>rs. fst (auth w rq) = Inr rs \<and> rsStatus rs = PasswordFail))"

lemma idle_not_locked:
  "bfa_inv (p, {#}) \<Longrightarrow> 0 \<le> maxPendingFailure p \<Longrightarrow> \<not> EntryForLogin p login"
  using bfa_invD(3,4) [of p "{#}"]
  by (auto simp: EntryForLogin_def tooManyPending_def in_int64_def split: option.splits)

lemma failure_config:
  "bfa_inv (p, {#}) \<Longrightarrow> failure p now login = (p', d) \<Longrightarrow>
     freeFailure p' = freeFailure p \<and> maxPenalty p' = maxPenalty p
     \<and> penaltyByFailure p' = penaltyByFailure p \<and> maxPendingFailure p' = maxPendingFailure p"
  using failure_is_register [of p "{#}" now login]
  by (cases "failure_register p now login") (auto simp: failure_register_eq Let_def split: if_splits)

lemma failure_effect:
  assumes "bfa_inv (p, {#})" "failure p now login = (p', d)"
  shows "bfa_inv (p', {#})" "failures p' login = wrap64 (failures p login + 1)"
    "d = delayFromFailureCount p (failures p' login)"
proof -
  obtain a where reg: "failure_register p now login = (p', a, d)"
    using failure_is_register [OF assms(1)] assms(2) by (metis prod.inject prod_cases3)
  show "bfa_inv (p', {#})"
    using register_inv [OF assms(1) reg] by (auto simp: bfa_inv_def)
  show "failures p' login = wrap64 (failures p login + 1)" "d = delayFromFailureCount p (failures p' login)"
    using failures_register [OF assms(1) reg] by blast+
qed

lemma serve_refused:
  assumes "bfa_inv (p, {#})" "0 \<le> maxPendingFailure p" "login_request login request" "refuses auth login"
  shows "\<exists>rs w'. identity_ServeHTTP EntryForLogin ProtectLoginResult [OnlyGetValidator] auth now p w request
    = (HttpJson 200 (j_response rs), snd (failure p now login), fst (failure p now login), w')
    \<and> rsStatus rs = PasswordFail"
proof -
  obtain rq where rq: "request_FromJson (req_Body request) = Some rq" "rqLogin rq = login" "req_Method request = ''GET''"
    using assms(3) by (auto simp: login_request_def)
  obtain rs w' where "auth w rq = (Inr rs, w')" "rsStatus rs = PasswordFail"
    using assms(4) rq(2) unfolding refuses_def by (metis prod.collapse)
  with rq idle_not_locked [OF assms(1,2)] show ?thesis
    by (auto simp: identity_ServeHTTP_def OnlyGetValidator_def ProtectLoginResult_def Let_def split: prod.split)
qed


definition sample_guess :: "string \<Rightarrow> http_request" where
  "sample_guess pwd = \<lparr>req_Method = ''GET'',
     req_Body = Some (j_request \<lparr>rqLogin = ''jim'', rqPassword = pwd\<rparr>)\<rparr>"

definition refuse_all :: "unit authenticate" where
  "refuse_all w rq = (Inr \<lparr>rsUser = InitUser (rqLogin rq), rsStatus = PasswordFail, rsDetails = [],
     rsAuthority = []\<rparr>, w)"


end
