(* ===== verification/Merger.thy ===== *)
theory Merger
  imports IdentityHandler
begin

text \<open>
  \<^verbatim>\<open>cmd/merger\<close>: the identity server that asks several other identity servers and merges their answers.
  \<open>provider\<close> is one remote server with its configuration, \<open>merger_Authenticate\<close> the merge.  The results say
  which server decides about the password, how identities are combined, and that the merger keeps the
  authenticator contract when the servers behind it do.
\<close>

section \<open>config.go\<close>

record IdProviderConfig =
  pcName :: string
  pcCredentialAuthority :: "bool option"
  pcGroupAuthority :: "bool option"
  pcGroupPattern :: string
  pcClaimAuthority :: "bool option"
  pcClaimPattern :: string
  pcNameAuthority :: "bool option"
  pcEmailAuthority :: "bool option"
  pcCritical :: "bool option"
  pcUidOffset :: int

section \<open>provider.go\<close>

record provider =
  config :: IdProviderConfig
  httpClient :: transport

text \<open>
  \<^verbatim>\<open>fmt.Sprintf(pattern, x)\<close> with one string argument, for patterns whose verbs carry no flag, width or
  precision: \<^verbatim>\<open>%s\<close> and \<^verbatim>\<open>%v\<close> print the argument, \<^verbatim>\<open>%%\<close> a percent sign, another verb and a
  missing or surplus argument print Go's markers.
\<close>

fun sprintf_from :: "bool \<Rightarrow> string \<Rightarrow> string \<Rightarrow> string" where
  "sprintf_from used [] x = (if used then [] else ''%!(EXTRA string='' @ x @ '')'')"
| "sprintf_from used [c] x =
     (if c = CHR ''%'' then ''%!(NOVERB)'' else [c]) @ sprintf_from used [] x"
| "sprintf_from used (c # d # cs) x =
     (if c \<noteq> CHR ''%'' then c # sprintf_from used (d # cs) x
      else if d = CHR ''%'' then CHR ''%'' # sprintf_from used cs x
      else if used then ''%!'' @ [d] @ ''(MISSING)'' @ sprintf_from used cs x
      else if d = CHR ''s'' \<or> d = CHR ''v'' then x @ sprintf_from True cs x
      else ''%!'' @ [d] @ ''(string='' @ x @ '')'' @ sprintf_from True cs x)"

definition Sprintf1 :: "string \<Rightarrow> string \<Rightarrow> string" where
  "Sprintf1 pattern x = sprintf_from False pattern x"

fun or_yes :: "bool option \<Rightarrow> bool option" where
  "or_yes None = Some True"
| "or_yes (Some b) = Some b"

text \<open>\<^verbatim>\<open>New\<close>; \<open>connect\<close> is \<^verbatim>\<open>httpclient.New\<close> on the provider's HTTP configuration.\<close>

definition provider_New :: "string + transport \<Rightarrow> IdProviderConfig \<Rightarrow> string + provider" where
  "provider_New connect cfg =
     (let cfg' = cfg\<lparr>
            pcCredentialAuthority := or_yes (pcCredentialAuthority cfg),
            pcGroupAuthority := or_yes (pcGroupAuthority cfg),
            pcGroupPattern := (if pcGroupPattern cfg = [] then ''%s'' else pcGroupPattern cfg),
            pcClaimAuthority := or_yes (pcClaimAuthority cfg),
            pcClaimPattern := (if pcClaimPattern cfg = [] then ''%s'' else pcClaimPattern cfg),
            pcNameAuthority := or_yes (pcNameAuthority cfg),
            pcEmailAuthority := or_yes (pcEmailAuthority cfg),
            pcCritical := or_yes (pcCritical cfg)\<rparr>
      in case connect of
           Inl err \<Rightarrow> Inl err
         | Inr client \<Rightarrow> Inr \<lparr>config = cfg', httpClient = client\<rparr>)"

definition getSpec :: "provider \<Rightarrow> ProviderSpec" where
  "getSpec p =
     \<lparr>psName = pcName (config p),
      psCredentialAuthority = the (pcCredentialAuthority (config p)),
      psGroupAuthority = the (pcGroupAuthority (config p)),
      psClaimAuthority = the (pcClaimAuthority (config p)),
      psNameAuthority = the (pcNameAuthority (config p)),
      psEmailAuthority = the (pcEmailAuthority (config p))\<rparr>"

definition GetName :: "provider \<Rightarrow> string" where
  "GetName p = pcName (config p)"

definition GetUserDetail :: "provider \<Rightarrow> string \<Rightarrow> string \<Rightarrow> string + UserDetail" where
  "GetUserDetail p login password =
     (case Exchange (httpClient p) ''GET'' ''v1/identity'' \<lparr>rqLogin = login, rqPassword = password\<rparr> of
        Inl err \<Rightarrow>
          if the (pcCritical (config p)) then Inl err
          else Inr \<lparr>dUser = InitUser login, dStatus = Undefined, dProvider = getSpec p,
                    dTranslated = \<lparr>tGroups = [], tClaims = Some [], tUid = None\<rparr>\<rparr>
      | Inr response \<Rightarrow>
          (let user = rsUser response in
           Inr \<lparr>dUser = user, dStatus = rsStatus response, dProvider = getSpec p,
                dTranslated =
                  \<lparr>tGroups = map (Sprintf1 (pcGroupPattern (config p))) (uGroups user),
                   tClaims = Some (gputs [] (map (map_prod (Sprintf1 (pcClaimPattern (config p))) (\<lambda>v. v))
                                              (entries (uClaims user)))),
                   tUid = map_option (\<lambda>uid. wrap64 (uid + pcUidOffset (config p))) (uUid user)\<rparr>\<rparr>))"

section \<open>authenticator.go\<close>

fun priority :: "Status \<Rightarrow> nat" where
  "priority Undefined = 0"
| "priority UserNotFound = 1"
| "priority PasswordMissing = 2"
| "priority PasswordUnchecked = 3"
| "priority PasswordChecked = 4"
| "priority PasswordFail = 4"
| "priority Disabled = 5"
| "priority _ = 0"

text \<open>The body of the loop once the detail of the provider called \<open>name\<close> is there.\<close>

definition absorb_status :: "string \<Rightarrow> UserDetail \<Rightarrow> IdentityResponse \<Rightarrow> IdentityResponse" where
  "absorb_status name d r =
     (if psCredentialAuthority (dProvider d) \<and> priority (dStatus d) > priority (rsStatus r)
      then let r1 = r\<lparr>rsStatus := dStatus d\<rparr>
           in if priority (dStatus d) > priority PasswordMissing
              then r1\<lparr>rsUser := (rsUser r1)\<lparr>uUid := tUid (dTranslated d)\<rparr>, rsAuthority := name\<rparr>
              else r1
      else r)"

definition absorb_user :: "UserDetail \<Rightarrow> User \<Rightarrow> User" where
  "absorb_user d u =
     (let spec = dProvider d;
          u1 = (if psGroupAuthority spec
                then u\<lparr>uGroups := uGroups u @ tGroups (dTranslated d)\<rparr> else u);
          u2 = (if psEmailAuthority spec
                then u1\<lparr>uEmails := AppendIfNotPresent (uEmails u1) (uEmails (dUser d))\<rparr> else u1);
          u3 = (if psNameAuthority spec \<and> uName u2 = [] then u2\<lparr>uName := uName (dUser d)\<rparr> else u2)
      in (if psClaimAuthority spec
          then u3\<lparr>uClaims := Some (MergeMaps (entries (tClaims (dTranslated d))) (entries (uClaims u3)))\<rparr>
          else u3))"

definition absorb :: "string \<Rightarrow> nat \<Rightarrow> UserDetail \<Rightarrow> IdentityResponse \<Rightarrow> IdentityResponse" where
  "absorb name idx d r =
     (let r1 = absorb_status name d r;
          r2 = r1\<lparr>rsUser := absorb_user d (rsUser r1)\<rparr>
      in r2\<lparr>rsDetails := (rsDetails r2)[idx := Some d]\<rparr>)"

fun mergerLoop ::
  "provider list \<Rightarrow> nat \<Rightarrow> IdentityRequest \<Rightarrow> IdentityResponse \<Rightarrow> string + IdentityResponse" where
  "mergerLoop [] idx request response = Inr response"
| "mergerLoop (aProvider # ps) idx request response =
     (case GetUserDetail aProvider (rqLogin request) (rqPassword request) of
        Inl err \<Rightarrow> Inl err
      | Inr userDetail \<Rightarrow>
          mergerLoop ps (Suc idx) request (absorb (GetName aProvider) idx userDetail response))"

definition merger_Authenticate :: "provider list \<Rightarrow> IdentityRequest \<Rightarrow> string + IdentityResponse" where
  "merger_Authenticate providers request =
     (case mergerLoop providers 0 request
             \<lparr>rsUser = InitUser (rqLogin request), rsStatus = UserNotFound,
              rsDetails = replicate (length providers) None, rsAuthority = []\<rparr> of
        Inl err \<Rightarrow> Inl err
      | Inr response \<Rightarrow>
          Inr (response\<lparr>rsUser := (rsUser response)\<lparr>uGroups := DedupAndSort (uGroups (rsUser response))\<rparr>\<rparr>))"

text \<open>\<^verbatim>\<open>New\<close> of the merger: the first provider that cannot be set up is an error.\<close>

fun merger_New :: "((string + transport) \<times> IdProviderConfig) list \<Rightarrow> string + provider list" where
  "merger_New [] = Inr []"
| "merger_New ((connect, cfg) # cfgs) =
     (case provider_New connect cfg of
        Inl err \<Rightarrow> Inl (''unable to setup provider '' @ quoted (pcName cfg) @ '': '' @ err)
      | Inr p \<Rightarrow>
          (case merger_New cfgs of Inl err \<Rightarrow> Inl err | Inr ps \<Rightarrow> Inr (p # ps)))"

section \<open>Specification\<close>

text \<open>The answers of all providers, in order, or the first error.\<close>

fun user_details :: "provider list \<Rightarrow> IdentityRequest \<Rightarrow> string + UserDetail list" where
  "user_details [] request = Inr []"
| "user_details (p # ps) request =
     (case GetUserDetail p (rqLogin request) (rqPassword request) of
        Inl err \<Rightarrow> Inl err
      | Inr d \<Rightarrow> (case user_details ps request of Inl err \<Rightarrow> Inl err | Inr ds \<Rightarrow> Inr (d # ds)))"

abbreviation credential :: "UserDetail \<Rightarrow> bool" where
  "credential d \<equiv> psCredentialAuthority (dProvider d)"

text \<open>The highest priority among the credential authorities, and the first of them that has it.\<close>

definition best :: "UserDetail list \<Rightarrow> nat" where
  "best ds = Max (insert (priority UserNotFound) ((priority \<circ> dStatus) ` set (filter credential ds)))"

definition winner :: "UserDetail list \<Rightarrow> UserDetail option" where
  "winner ds =
     (if best ds = priority UserNotFound then None
      else find (\<lambda>d. credential d \<and> priority (dStatus d) = best ds) ds)"

fun first_nonempty :: "string list \<Rightarrow> string" where
  "first_nonempty [] = []"
| "first_nonempty (n # ns) = (if n \<noteq> [] then n else first_nonempty ns)"

text \<open>The loop without its error exits.\<close>

fun absorb_all :: "nat \<Rightarrow> UserDetail list \<Rightarrow> IdentityResponse \<Rightarrow> IdentityResponse" where
  "absorb_all idx [] r = r"
| "absorb_all idx (d # ds) r = absorb_all (Suc idx) ds (absorb (psName (dProvider d)) idx d r)"

section \<open>The loop\<close>

lemma detail_provider:
  "GetUserDetail p login password = Inr d \<Longrightarrow> dProvider d = getSpec p \<and> psName (dProvider d) = GetName p"
  by (auto simp: GetUserDetail_def getSpec_def GetName_def Let_def split: sum.splits if_splits)

lemma mergerLoop_absorb_all:
  "mergerLoop ps idx request r =
     (case user_details ps request of Inl err \<Rightarrow> Inl err | Inr ds \<Rightarrow> Inr (absorb_all idx ds r))"
  by (induction ps arbitrary: idx r) (auto dest: detail_provider split: sum.splits)

lemma user_details_length: "user_details ps request = Inr ds \<Longrightarrow> length ds = length ps"
  by (induction ps arbitrary: ds) (auto split: sum.splits)

lemma absorb_all_append:
  "absorb_all idx (ds @ es) r = absorb_all (idx + length ds) es (absorb_all idx ds r)"
  by (induction idx ds r rule: absorb_all.induct) auto

lemma absorb_fields [simp]:
  "rsStatus (absorb n i d r) = rsStatus (absorb_status n d r)"
  "rsAuthority (absorb n i d r) = rsAuthority (absorb_status n d r)"
  "uUid (rsUser (absorb n i d r)) = uUid (rsUser (absorb_status n d r))"
  "rsDetails (absorb n i d r) = (rsDetails r)[i := Some d]"
  "uLogin (rsUser (absorb n i d r)) = uLogin (rsUser r)"
  "uGroups (rsUser (absorb n i d r)) =
     uGroups (rsUser r) @ (if psGroupAuthority (dProvider d) then tGroups (dTranslated d) else [])"
  "uEmails (rsUser (absorb n i d r)) =
     (if psEmailAuthority (dProvider d) then AppendIfNotPresent (uEmails (rsUser r)) (uEmails (dUser d))
      else uEmails (rsUser r))"
  "uName (rsUser (absorb n i d r)) =
     (if psNameAuthority (dProvider d) \<and> uName (rsUser r) = [] then uName (dUser d) else uName (rsUser r))"
  "uClaims (rsUser (absorb n i d r)) =
     (if psClaimAuthority (dProvider d)
      then Some (MergeMaps (entries (tClaims (dTranslated d))) (entries (uClaims (rsUser r))))
      else uClaims (rsUser r))"
  by (auto simp: absorb_def absorb_status_def absorb_user_def Let_def)

lemma best_Nil [simp]: "best [] = 1"
  by (simp add: best_def)

lemma best_snoc:
  "best (ds @ [d]) = (if credential d then max (best ds) (priority (dStatus d)) else best ds)"
proof (cases "credential d")
  case True
  then have "insert (priority UserNotFound) ((priority \<circ> dStatus) ` set (filter credential (ds @ [d]))) =
      insert (priority (dStatus d)) (insert (priority UserNotFound) ((priority \<circ> dStatus) ` set (filter credential ds)))"
    by auto
  with True show ?thesis unfolding best_def by (simp add: max.commute del: priority.simps)
qed (simp add: best_def)

lemma best_ge: "1 \<le> best ds" "d \<in> set ds \<Longrightarrow> credential d \<Longrightarrow> priority (dStatus d) \<le> best ds"
  by (auto simp: best_def)

lemma find_append:
  "find P (xs @ ys) = (case find P xs of Some x \<Rightarrow> Some x | None \<Rightarrow> find P ys)"
  by (induction xs) auto

lemma winner_snoc:
  "winner (ds @ [d]) = (if credential d \<and> priority (dStatus d) > best ds then Some d else winner ds)"
proof (cases "credential d \<and> priority (dStatus d) > best ds")
  case True
  then have "find (\<lambda>x. credential x \<and> priority (dStatus x) = priority (dStatus d)) ds = None"
    using best_ge(2) [of _ ds] by (fastforce simp: find_None_iff)
  with True show ?thesis
    using best_ge(1) [of ds] by (simp add: winner_def best_snoc find_append max_def)
next
  case False
  have "find (\<lambda>x. credential x \<and> priority (dStatus x) = best ds) ds \<noteq> None" if "best ds \<noteq> 1"
  proof -
    have "best ds \<in> insert 1 ((priority \<circ> dStatus) ` set (filter credential ds))"
      unfolding best_def using Max_in [of "insert 1 ((priority \<circ> dStatus) ` set (filter credential ds))"]
      by simp
    with that show ?thesis by (auto simp: find_None_iff)
  qed
  moreover have "best (ds @ [d]) = best ds" using False by (auto simp: best_snoc)
  ultimately show ?thesis
    using False by (cases "best ds = 1") (auto simp: winner_def find_append split: option.split)
qed

lemma absorb_all_status:
  assumes "rsStatus r = UserNotFound" "rsAuthority r = []" "uUid (rsUser r) = None"
  shows "rsStatus (absorb_all idx ds r) = (case winner ds of None \<Rightarrow> UserNotFound | Some d \<Rightarrow> dStatus d)
    \<and> priority (rsStatus (absorb_all idx ds r)) = best ds
    \<and> rsAuthority (absorb_all idx ds r) =
        (if best ds > 2 then psName (dProvider (the (winner ds))) else [])
    \<and> uUid (rsUser (absorb_all idx ds r)) =
        (if best ds > 2 then tUid (dTranslated (the (winner ds))) else None)"
  using assms
proof (induction ds rule: rev_induct)
  case Nil
  then show ?case by (simp add: winner_def)
next
  case (snoc d ds)
  then show ?case
    by (auto simp: absorb_all_append absorb_status_def Let_def winner_snoc best_snoc)
qed

lemma absorb_all_login: "uLogin (rsUser (absorb_all idx ds r)) = uLogin (rsUser r)"
  by (induction idx ds r rule: absorb_all.induct) auto

lemma absorb_all_groups:
  "uGroups (rsUser r) = [] \<Longrightarrow> uGroups (rsUser (absorb_all idx ds r)) =
     concat (map (\<lambda>d. tGroups (dTranslated d)) (filter (\<lambda>d. psGroupAuthority (dProvider d)) ds))"
  by (induction ds rule: rev_induct) (auto simp: absorb_all_append)

lemma first_nonempty_snoc:
  "first_nonempty (xs @ [x]) = (if first_nonempty xs = [] then x else first_nonempty xs)"
  by (induction xs) auto

lemma absorb_all_name:
  "uName (rsUser r) = [] \<Longrightarrow> uName (rsUser (absorb_all idx ds r)) =
     first_nonempty (map (\<lambda>d. uName (dUser d)) (filter (\<lambda>d. psNameAuthority (dProvider d)) ds))"
  by (induction ds rule: rev_induct) (auto simp: absorb_all_append first_nonempty_snoc)

lemma absorb_all_claims:
  "uClaims (rsUser r) = Some [] \<Longrightarrow> uClaims (rsUser (absorb_all idx ds r)) =
     Some (foldl (\<lambda>acc c. MergeMaps c acc) []
       (map (\<lambda>d. entries (tClaims (dTranslated d))) (filter (\<lambda>d. psClaimAuthority (dProvider d)) ds)))"
  by (induction ds rule: rev_induct) (auto simp: absorb_all_append)

lemma absorb_all_emails:
  "uEmails (rsUser r) = [] \<Longrightarrow> uEmails (rsUser (absorb_all idx ds r)) =
     nub_from [] (concat (map (\<lambda>d. uEmails (dUser d)) (filter (\<lambda>d. psEmailAuthority (dProvider d)) ds)))"
proof (induction ds rule: rev_induct)
  case (snoc d ds)
  let ?es = "concat (map (\<lambda>d. uEmails (dUser d)) (filter (\<lambda>d. psEmailAuthority (dProvider d)) ds))"
  have "nub_from (nub_from [] ?es) xs = nub_from ?es xs" for xs
    by (rule nub_from_cong) simp
  with snoc show ?case
    by (simp add: absorb_all_append AppendIfNotPresent_nub nub_from_append)
qed simp

lemmas absorb_all_user = absorb_all_login absorb_all_groups absorb_all_name absorb_all_claims absorb_all_emails

lemma absorb_all_details:
  "length (rsDetails r) = idx + length ds \<Longrightarrow>
     rsDetails (absorb_all idx ds r) = take idx (rsDetails r) @ map Some ds"
proof (induction idx ds r rule: absorb_all.induct)
  case (2 idx d ds r)
  then show ?case by (simp add: upd_conv_take_nth_drop take_Suc_conv_app_nth)
qed simp

lemma merger_result:
  assumes "merger_Authenticate ps rq = Inr rs"
  obtains ds where "user_details ps rq = Inr ds"
    "rs = (let r = absorb_all 0 ds \<lparr>rsUser = InitUser (rqLogin rq), rsStatus = UserNotFound,
              rsDetails = replicate (length ps) None, rsAuthority = []\<rparr>
           in r\<lparr>rsUser := (rsUser r)\<lparr>uGroups := DedupAndSort (uGroups (rsUser r))\<rparr>\<rparr>)"
  using assms by (auto simp: merger_Authenticate_def mergerLoop_absorb_all Let_def split: sum.splits)

lemma user_details_nth:
  "user_details ps rq = Inr ds \<Longrightarrow> i < length ps \<Longrightarrow>
     GetUserDetail (ps ! i) (rqLogin rq) (rqPassword rq) = Inr (ds ! i)"
  by (induction ps arbitrary: ds i) (auto simp: nth_Cons split: sum.splits nat.splits)

lemma user_details_mem:
  assumes "user_details ps rq = Inr ds" "d \<in> set ds"
  obtains p where "p \<in> set ps" "GetUserDetail p (rqLogin rq) (rqPassword rq) = Inr d"
  using user_details_nth [OF assms(1)] user_details_length [OF assms(1)] assms(2)
  by (metis in_set_conv_nth)

lemma winner_SomeD:
  "winner ds = Some d \<Longrightarrow> d \<in> set ds \<and> credential d \<and> priority (dStatus d) = best ds"
  by (auto simp: winner_def find_Some_iff split: if_splits)

lemma priority_cases:
  "priority s = 4 \<longleftrightarrow> s = PasswordChecked \<or> s = PasswordFail" "priority s = 5 \<longleftrightarrow> s = Disabled"
  "priority s \<le> 5"
  by (cases s; simp)+

lemma priority_le4: "s \<noteq> Disabled \<Longrightarrow> priority s \<le> 4"
  by (cases s) auto

lemma best_le: "(\<And>d. d \<in> set ds \<Longrightarrow> credential d \<Longrightarrow> priority (dStatus d) \<le> n) \<Longrightarrow> 1 \<le> n \<Longrightarrow> best ds \<le> n"
  by (auto simp: best_def)

abbreviation winning_status :: "UserDetail list \<Rightarrow> Status" where
  "winning_status ds \<equiv> case winner ds of None \<Rightarrow> UserNotFound | Some d \<Rightarrow> dStatus d"

lemma winning_checkedD:
  assumes "winning_status ds = PasswordChecked"
  shows "\<exists>xs d ys. ds = xs @ d # ys \<and> credential d \<and> dStatus d = PasswordChecked
           \<and> (\<forall>x \<in> set xs. credential x \<longrightarrow> dStatus x \<noteq> PasswordFail)"
    and "\<And>d. d \<in> set ds \<Longrightarrow> credential d \<Longrightarrow> dStatus d \<noteq> Disabled"
proof -
  obtain d where d: "winner ds = Some d" "dStatus d = PasswordChecked"
    using assms by (auto split: option.splits)
  then have best: "best ds = 4" using winner_SomeD [OF d(1)] by simp
  with d(1) have "find (\<lambda>d. credential d \<and> priority (dStatus d) = 4) ds = Some d"
    by (simp add: winner_def)
  then obtain i where i: "i < length ds" "credential (ds ! i)" "d = ds ! i"
    "\<forall>j<i. \<not> (credential (ds ! j) \<and> priority (dStatus (ds ! j)) = 4)"
    by (auto simp: find_Some_iff)
  have "\<forall>x \<in> set (take i ds). credential x \<longrightarrow> dStatus x \<noteq> PasswordFail"
    using i(1,4) by (fastforce simp: in_set_conv_nth)
  then show "\<exists>xs d ys. ds = xs @ d # ys \<and> credential d \<and> dStatus d = PasswordChecked
      \<and> (\<forall>x \<in> set xs. credential x \<longrightarrow> dStatus x \<noteq> PasswordFail)"
    using i(1,2,3) d(2) id_take_nth_drop [OF i(1)] by blast
  show "\<And>d. d \<in> set ds \<Longrightarrow> credential d \<Longrightarrow> dStatus d \<noteq> Disabled"
    using best best_ge(2) [of _ ds] by fastforce
qed

lemma winning_checkedI:
  assumes "ds = xs @ d # ys" "credential d" "dStatus d = PasswordChecked"
    and "\<forall>x \<in> set xs. credential x \<longrightarrow> dStatus x \<noteq> PasswordFail"
    and "\<And>d. d \<in> set ds \<Longrightarrow> credential d \<Longrightarrow> dStatus d \<noteq> Disabled"
  shows "winning_status ds = PasswordChecked"
proof -
  have "best ds \<le> 4"
    using assms(5) by (intro best_le priority_le4) auto
  moreover have "4 \<le> best ds"
    using best_ge(2) [of d ds] assms(1-3) by simp
  ultimately have "winner ds = find (\<lambda>d. credential d \<and> priority (dStatus d) = 4) (xs @ d # ys)"
    using assms(1) by (simp add: winner_def)
  then show ?thesis
    using assms(2-4) by (auto simp: find_append priority_cases find_Some_iff split: option.splits)
qed

lemma winning_disabled:
  "winning_status ds = Disabled \<longleftrightarrow> (\<exists>d \<in> set ds. credential d \<and> dStatus d = Disabled)"
proof
  assume "winning_status ds = Disabled"
  then show "\<exists>d \<in> set ds. credential d \<and> dStatus d = Disabled"
    using winner_SomeD by (auto split: option.splits)
next
  assume "\<exists>d \<in> set ds. credential d \<and> dStatus d = Disabled"
  then have best: "best ds = 5"
    using best_ge(2) [of _ ds] best_le [of ds 5] priority_cases(3) by fastforce
  have "find (\<lambda>d. credential d \<and> priority (dStatus d) = 5) ds \<noteq> None"
    using \<open>\<exists>d \<in> set ds. _\<close> by (auto simp: find_None_iff)
  then obtain w where "winner ds = Some w" using best by (auto simp: winner_def)
  with winner_SomeD [OF this] best show "winning_status ds = Disabled"
    by (simp add: priority_cases)
qed

lemma merger_status:
  assumes "merger_Authenticate ps rq = Inr rs" "user_details ps rq = Inr ds"
  shows "rsStatus rs = winning_status ds"
    and "rsAuthority rs = (if best ds > 2 then psName (dProvider (the (winner ds))) else [])"
    and "uUid (rsUser rs) = (if best ds > 2 then tUid (dTranslated (the (winner ds))) else None)"
proof -
  let ?r0 = "\<lparr>rsUser = InitUser (rqLogin rq), rsStatus = UserNotFound,
              rsDetails = replicate (length ps) None, rsAuthority = []\<rparr>"
  note st = absorb_all_status [of ?r0 0 ds, simplified InitUser_def, simplified]
  show "rsStatus rs = winning_status ds"
    and "rsAuthority rs = (if best ds > 2 then psName (dProvider (the (winner ds))) else [])"
    and "uUid (rsUser rs) = (if best ds > 2 then tUid (dTranslated (the (winner ds))) else None)"
    using assms st by (auto elim!: merger_result simp: Let_def InitUser_def)
qed

text \<open>
  C3: which server decides about the password.  With the answers \<open>ds\<close> of the providers in the configured
  order, the merger reports a checked password exactly when some credential authority checked it, no
  credential authority before it refused it, and none disabled the user; it reports a disabled user
  exactly when some credential authority does.  The authority and the uid of a decided answer are those
  of the first provider that has the winning priority.
\<close>

theorem merger_decision:
  assumes "merger_Authenticate ps rq = Inr rs" "user_details ps rq = Inr ds"
  shows "(rsStatus rs = PasswordChecked \<longleftrightarrow>
      (\<forall>d \<in> set ds. credential d \<longrightarrow> dStatus d \<noteq> Disabled)
      \<and> (\<exists>xs d ys. ds = xs @ d # ys \<and> credential d \<and> dStatus d = PasswordChecked
           \<and> (\<forall>x \<in> set xs. credential x \<longrightarrow> dStatus x \<noteq> PasswordFail)))
    \<and> (rsStatus rs = Disabled \<longleftrightarrow> (\<exists>d \<in> set ds. credential d \<and> dStatus d = Disabled))
    \<and> (priority (rsStatus rs) > priority PasswordMissing \<longrightarrow>
         (\<exists>i < length ds. credential (ds ! i) \<and> dStatus (ds ! i) = rsStatus rs
            \<and> (\<forall>j < i. credential (ds ! j) \<longrightarrow> priority (dStatus (ds ! j)) < priority (rsStatus rs))
            \<and> rsAuthority rs = psName (dProvider (ds ! i)) \<and> uUid (rsUser rs) = tUid (dTranslated (ds ! i))))"
proof (intro conjI impI)
  note st = merger_status [OF assms]
  show "rsStatus rs = PasswordChecked \<longleftrightarrow>
      (\<forall>d \<in> set ds. credential d \<longrightarrow> dStatus d \<noteq> Disabled)
      \<and> (\<exists>xs d ys. ds = xs @ d # ys \<and> credential d \<and> dStatus d = PasswordChecked
           \<and> (\<forall>x \<in> set xs. credential x \<longrightarrow> dStatus x \<noteq> PasswordFail))"
    unfolding st(1) using winning_checkedD winning_checkedI by blast
  show "rsStatus rs = Disabled \<longleftrightarrow> (\<exists>d \<in> set ds. credential d \<and> dStatus d = Disabled)"
    unfolding st(1) by (rule winning_disabled)
  assume hi: "priority (rsStatus rs) > priority PasswordMissing"
  then obtain w where w: "winner ds = Some w" using st(1) by (auto split: option.splits)
  have best: "best ds = priority (rsStatus rs)" "best ds > 2"
    using winner_SomeD [OF w] hi st(1) w by simp_all
  obtain i where i: "i < length ds" "w = ds ! i" "credential (ds ! i)"
    "\<forall>j<i. \<not> (credential (ds ! j) \<and> priority (dStatus (ds ! j)) = best ds)"
    using w by (auto simp: winner_def find_Some_iff split: if_splits)
  have "\<forall>j<i. credential (ds ! j) \<longrightarrow> priority (dStatus (ds ! j)) < best ds"
    using i(1,4) best_ge(2) [of _ ds] by (metis dual_order.strict_trans le_neq_implies_less nth_mem)
  with i w st best show "\<exists>i < length ds. credential (ds ! i) \<and> dStatus (ds ! i) = rsStatus rs
      \<and> (\<forall>j < i. credential (ds ! j) \<longrightarrow> priority (dStatus (ds ! j)) < priority (rsStatus rs))
      \<and> rsAuthority rs = psName (dProvider (ds ! i)) \<and> uUid (rsUser rs) = tUid (dTranslated (ds ! i))"
    by auto
qed

text \<open>
  C14: the merged identity.  Login as asked; groups: the translated groups of all group authorities, each
  once, sorted; emails: those of the email authorities in order of first occurrence; name: the first
  non-empty one of a name authority; claims: deep merge in which an earlier claim authority overrides a
  later one; and one detail per provider, in order, is reported.
\<close>

theorem merger_identity:
  assumes "merger_Authenticate ps rq = Inr rs" "user_details ps rq = Inr ds"
  shows "uLogin (rsUser rs) = rqLogin rq
    \<and> uGroups (rsUser rs) = sorted_list_of_set
        (\<Union>d \<in> {d \<in> set ds. psGroupAuthority (dProvider d)}. set (tGroups (dTranslated d)))
    \<and> uEmails (rsUser rs) = nub_from []
        (concat (map (\<lambda>d. uEmails (dUser d)) (filter (\<lambda>d. psEmailAuthority (dProvider d)) ds)))
    \<and> uName (rsUser rs) = first_nonempty
        (map (\<lambda>d. uName (dUser d)) (filter (\<lambda>d. psNameAuthority (dProvider d)) ds))
    \<and> uClaims (rsUser rs) = Some (foldl (\<lambda>acc c. MergeMaps c acc) []
        (map (\<lambda>d. entries (tClaims (dTranslated d))) (filter (\<lambda>d. psClaimAuthority (dProvider d)) ds)))
    \<and> rsDetails rs = map Some ds"
proof -
  let ?r0 = "\<lparr>rsUser = InitUser (rqLogin rq), rsStatus = UserNotFound,
              rsDetails = replicate (length ps) None, rsAuthority = []\<rparr>"
  have rs: "rs = (let r = absorb_all 0 ds ?r0
      in r\<lparr>rsUser := (rsUser r)\<lparr>uGroups := DedupAndSort (uGroups (rsUser r))\<rparr>\<rparr>)"
    using assms by (auto elim: merger_result)
  have "rsDetails (absorb_all 0 ds ?r0) = map Some ds"
    using absorb_all_details [of ?r0 0 ds] user_details_length [OF assms(2)] by simp
  then show ?thesis
    by (simp add: rs Let_def InitUser_def DedupAndSort_set absorb_all_user)
qed

text \<open>
  C29: failing providers.  The merger fails exactly when a critical provider cannot be asked or answers
  with something that is not a response; a provider that is not critical is skipped: its detail carries
  the status undefined and an empty identity, and never decides.
\<close>

theorem merger_failures:
  "((\<exists>e. merger_Authenticate ps rq = Inl e) \<longleftrightarrow>
      (\<exists>p \<in> set ps. the (pcCritical (config p)) \<and> (\<exists>e. Exchange (httpClient p) ''GET'' ''v1/identity'' rq = Inl e)))
    \<and> (\<forall>p \<in> set ps. \<forall>e. \<not> the (pcCritical (config p)) \<longrightarrow>
         Exchange (httpClient p) ''GET'' ''v1/identity'' rq = Inl e \<longrightarrow>
         (\<exists>d. GetUserDetail p (rqLogin rq) (rqPassword rq) = Inr d \<and> dStatus d = Undefined
            \<and> dUser d = InitUser (rqLogin rq) \<and> tGroups (dTranslated d) = []
            \<and> entries (tClaims (dTranslated d)) = [] \<and> priority (dStatus d) < priority UserNotFound))"
proof -
  have rq: "\<lparr>rqLogin = rqLogin rq, rqPassword = rqPassword rq\<rparr> = rq" by simp
  have detail: "(\<exists>e. GetUserDetail p (rqLogin rq) (rqPassword rq) = Inl e) \<longleftrightarrow>
      the (pcCritical (config p)) \<and> (\<exists>e. Exchange (httpClient p) ''GET'' ''v1/identity'' rq = Inl e)" for p
    by (auto simp: GetUserDetail_def rq Let_def split: sum.splits)
  have "(\<exists>e. user_details ps rq = Inl e) \<longleftrightarrow>
      (\<exists>p \<in> set ps. \<exists>e. GetUserDetail p (rqLogin rq) (rqPassword rq) = Inl e)"
    by (induction ps) (auto split: sum.splits)
  moreover have "(\<exists>e. merger_Authenticate ps rq = Inl e) \<longleftrightarrow> (\<exists>e. user_details ps rq = Inl e)"
    by (auto simp: merger_Authenticate_def mergerLoop_absorb_all split: sum.splits)
  moreover have "\<forall>p \<in> set ps. \<forall>e. \<not> the (pcCritical (config p)) \<longrightarrow>
      Exchange (httpClient p) ''GET'' ''v1/identity'' rq = Inl e \<longrightarrow>
      (\<exists>d. GetUserDetail p (rqLogin rq) (rqPassword rq) = Inr d \<and> dStatus d = Undefined
         \<and> dUser d = InitUser (rqLogin rq) \<and> tGroups (dTranslated d) = []
         \<and> entries (tClaims (dTranslated d)) = [] \<and> priority (dStatus d) < priority UserNotFound)"
    by (simp add: GetUserDetail_def rq)
  ultimately show ?thesis by (simp only: detail)
qed

section \<open>Remote servers\<close>

text \<open>
  What a provider's transport is when the other end runs the identity handler over an authenticator:
  the handler serves the request, and \<^verbatim>\<open>httpclient.Do\<close> makes an error of every status but 200.
\<close>

definition remote ::
  "('s \<Rightarrow> string \<Rightarrow> bool) \<Rightarrow> ('s \<Rightarrow> int \<Rightarrow> string \<Rightarrow> Status \<Rightarrow> 's \<times> int) \<Rightarrow> int \<Rightarrow> 's
    \<Rightarrow> (IdentityRequest \<Rightarrow> string + IdentityResponse) \<Rightarrow> transport" where
  "remote entry protect now s authenticate meth path body =
     (case fst (identity_ServeHTTP entry protect [OnlyGetValidator] (\<lambda>w rq. (authenticate rq, w)) now s ()
                 \<lparr>req_Method = meth, req_Body = Some body\<rparr>) of
        HttpJson n j \<Rightarrow> if n = 200 then Inr (Some j) else Inl ''invalid status code''
      | HttpError n \<Rightarrow> Inl ''invalid status code'')"

lemma remote_answer:
  assumes "Exchange (remote entry protect now s auth) ''GET'' path rq = Inr rs'"
  shows "\<exists>rs. auth rq = Inr rs \<and> response_FromJson (Some (j_response rs)) = Some rs'"
  using assms
  by (auto simp: Exchange_def remote_def identity_ServeHTTP_def request_FromJson_j OnlyGetValidator_def
      Let_def split: sum.splits option.splits if_splits prod.splits http_reply.splits)

lemma remote_wire:
  "\<not> entry s (rqLogin rq) \<Longrightarrow> a rq = Inr rs \<Longrightarrow> wf_response rs \<Longrightarrow>
     Exchange (remote entry protect now s a) ''GET'' path rq = Inr (wire_response rs)"
  by (simp add: Exchange_def remote_def identity_ServeHTTP_def request_FromJson_j OnlyGetValidator_def
      response_FromJson_j Let_def case_prod_unfold)

lemma remote_status:
  assumes "authenticator a" "Exchange (remote entry protect now s a) ''GET'' path rq = Inr r"
  shows "\<exists>rs. a rq = Inr rs \<and> rsStatus r = rsStatus rs"
  using remote_answer [OF assms(2)] response_wire_status authenticator.status_ok [OF assms(1)] by blast

text \<open>
  A stack: a merger whose providers are such servers, each protected or not, all of which keep the
  authenticator contract.  The merger keeps it, too.
\<close>

record server =
  srv_config :: IdProviderConfig
  srv_protector :: "bfaProtector option"
  srv_authenticate :: "IdentityRequest \<Rightarrow> string + IdentityResponse"

definition server_transport :: "int \<Rightarrow> server \<Rightarrow> transport" where
  "server_transport now srv =
     (case srv_protector srv of
        Some p \<Rightarrow> remote EntryForLogin ProtectLoginResult now p (srv_authenticate srv)
      | None \<Rightarrow> remote empty_EntryForLogin empty_ProtectLoginResult now () (srv_authenticate srv))"

definition server_provider :: "int \<Rightarrow> server \<Rightarrow> provider" where
  "server_provider now srv = \<lparr>config = srv_config srv, httpClient = server_transport now srv\<rparr>"

definition stack_Authenticate :: "int \<Rightarrow> server list \<Rightarrow> IdentityRequest \<Rightarrow> string + IdentityResponse" where
  "stack_Authenticate now srvs = merger_Authenticate (map (server_provider now) srvs)"

lemma server_answer:
  assumes "Exchange (server_transport now srv) ''GET'' path rq = Inr rs'"
  shows "\<exists>rs. srv_authenticate srv rq = Inr rs \<and> response_FromJson (Some (j_response rs)) = Some rs'"
  using assms by (auto simp: server_transport_def dest: remote_answer split: option.splits)

lemma server_detail:
  assumes "GetUserDetail (server_provider now srv) login password = Inr d"
  shows "(\<exists>rs r. srv_authenticate srv \<lparr>rqLogin = login, rqPassword = password\<rparr> = Inr rs
            \<and> response_FromJson (Some (j_response rs)) = Some r \<and> dStatus d = rsStatus r)
         \<or> dStatus d = Undefined"
  using assms
  by (auto simp: GetUserDetail_def server_provider_def Let_def dest: server_answer
      split: sum.splits if_splits)

locale authenticator_stack =
  fixes srvs :: "server list" and now :: int
  assumes servers: "\<And>srv. srv \<in> set srvs \<Longrightarrow> authenticator (srv_authenticate srv)"
begin

lemma detail_status:
  assumes "srv \<in> set srvs" "GetUserDetail (server_provider now srv) login password = Inr d"
  shows "dStatus d = Undefined \<or>
    (\<exists>rs. srv_authenticate srv \<lparr>rqLogin = login, rqPassword = password\<rparr> = Inr rs \<and> rsStatus rs = dStatus d)"
  using server_detail [OF assms(2)] servers [OF assms(1)] response_wire_status authenticator.status_ok
  by metis

lemma stack_detail:
  assumes "user_details (map (server_provider now) srvs) rq = Inr ds" "d \<in> set ds"
  obtains srv where "srv \<in> set srvs" "dProvider d = getSpec (server_provider now srv)"
    "dStatus d = Undefined \<or> (\<exists>rs. srv_authenticate srv rq = Inr rs \<and> rsStatus rs = dStatus d)"
proof -
  obtain srv where srv: "srv \<in> set srvs"
      "GetUserDetail (server_provider now srv) (rqLogin rq) (rqPassword rq) = Inr d"
    using user_details_mem [OF assms] by auto
  then have "dStatus d = Undefined \<or> (\<exists>rs. srv_authenticate srv rq = Inr rs \<and> rsStatus rs = dStatus d)"
    using detail_status by fastforce
  with srv detail_provider [OF srv(2)] show thesis by (intro that) auto
qed

end

sublocale authenticator_stack \<subseteq> authenticator "stack_Authenticate now srvs"
proof
  fix rq rs assume "stack_Authenticate now srvs rq = Inr rs"
  then obtain ds where ds: "user_details (map (server_provider now) srvs) rq = Inr ds"
    and run: "merger_Authenticate (map (server_provider now) srvs) rq = Inr rs"
    by (auto simp: stack_Authenticate_def elim: merger_result)
  show "uLogin (rsUser rs) = rqLogin rq"
    using run by (auto elim!: merger_result simp: Let_def absorb_all_login InitUser_def)
  have status: "rsStatus rs = UserNotFound \<or> (\<exists>d \<in> set ds. rsStatus rs = dStatus d)"
    using merger_status(1) [OF run ds] winner_SomeD by (auto split: option.splits)
  show "wf_status (rsStatus rs)"
    using status
  proof
    assume "\<exists>d \<in> set ds. rsStatus rs = dStatus d"
    then obtain d where d: "d \<in> set ds" "rsStatus rs = dStatus d" by blast
    show ?thesis
      using stack_detail [OF ds d(1)] d(2) servers authenticator.status_ok wf_status_simps by metis
  qed simp
  show "\<not> password_tested (rsStatus rs)" if "rqPassword rq = []"
    using status
  proof
    assume "\<exists>d \<in> set ds. rsStatus rs = dStatus d"
    then obtain d where d: "d \<in> set ds" "rsStatus rs = dStatus d" by blast
    have "\<not> password_tested Undefined" by (simp add: password_tested_def)
    then show ?thesis
      using stack_detail [OF ds d(1)] d(2) servers that authenticator.no_password by metis
  qed (simp add: password_tested_def)
qed

section \<open>A concrete merger\<close>

definition sample_cfg :: "string \<Rightarrow> bool \<Rightarrow> IdProviderConfig" where
  "sample_cfg name critical = \<lparr>pcName = name, pcCredentialAuthority = Some True, pcGroupAuthority = Some True,
     pcGroupPattern = ''%s'', pcClaimAuthority = Some True, pcClaimPattern = ''%s'', pcNameAuthority = Some True,
     pcEmailAuthority = Some True, pcCritical = Some critical, pcUidOffset = 0\<rparr>"

definition sample_answer :: "Status \<Rightarrow> string list \<Rightarrow> IdentityResponse" where
  "sample_answer status groups = \<lparr>rsUser = (InitUser ''jim'')\<lparr>uGroups := groups, uUid := Some 7\<rparr>,
     rsStatus = status, rsDetails = [], rsAuthority = []\<rparr>"

definition sample_providers :: "provider list" where
  "sample_providers =
     [\<lparr>config = sample_cfg ''ucrd'' True, httpClient = (\<lambda>m p b. Inr (Some (j_response (sample_answer PasswordMissing [''ops'']))))\<rparr>,
      \<lparr>config = sample_cfg ''down'' False, httpClient = (\<lambda>m p b. Inl ''timeout'')\<rparr>,
      \<lparr>config = sample_cfg ''ldap'' True, httpClient = (\<lambda>m p b. Inr (Some (j_response (sample_answer PasswordChecked [''devs'', ''ops'']))))\<rparr>]"

definition sample_login :: IdentityRequest where
  "sample_login = \<lparr>rqLogin = ''jim'', rqPassword = ''secret''\<rparr>"

lemma Sprintf1_id [simp]: "Sprintf1 ''%s'' x = x"
  by (simp add: Sprintf1_def)

lemma sample_answer_wire:
  "wf_status status \<Longrightarrow>
     response_FromJson (Some (j_response (sample_answer status gs))) = Some (sample_answer status gs)"
  by (subst response_FromJson_j)
    (simp_all add: sample_answer_def InitUser_def wf_response_def wf_user_def wf_uid_def in_int64_def
      wire_response_def wire_user_def wire_claims_def)

lemma sample_details:
  "\<exists>d1 d2 d3. user_details sample_providers sample_login = Inr [d1, d2, d3]
     \<and> dStatus d1 = PasswordMissing \<and> dStatus d2 = Undefined \<and> dStatus d3 = PasswordChecked
     \<and> credential d1 \<and> credential d2 \<and> credential d3 \<and> psName (dProvider d3) = ''ldap''
     \<and> psGroupAuthority (dProvider d1) \<and> psGroupAuthority (dProvider d2) \<and> psGroupAuthority (dProvider d3)
     \<and> tGroups (dTranslated d1) = [''ops''] \<and> tGroups (dTranslated d2) = []
     \<and> tGroups (dTranslated d3) = [''devs'', ''ops'']"
  by (simp add: sample_providers_def GetUserDetail_def Exchange_def sample_answer_wire Let_def getSpec_def
      sample_cfg_def) (simp add: sample_answer_def)

lemma sample_merge: "\<exists>rs. merger_Authenticate sample_providers sample_login = Inr rs"
  using sample_details by (auto simp: merger_Authenticate_def mergerLoop_absorb_all)

theorem merger_decision_witness:
  "\<exists>rs. merger_Authenticate sample_providers sample_login = Inr rs \<and> rsStatus rs = PasswordChecked
     \<and> rsAuthority rs = ''ldap''"
proof -
  obtain rs where rs: "merger_Authenticate sample_providers sample_login = Inr rs" using sample_merge by blast
  obtain d1 d2 d3 where d: "user_details sample_providers sample_login = Inr [d1, d2, d3]"
    "dStatus d1 = PasswordMissing" "dStatus d2 = Undefined" "dStatus d3 = PasswordChecked"
    "credential d3" "psName (dProvider d3) = ''ldap''"
    using sample_details by blast
  note m = merger_decision [OF rs d(1)]
  have "\<exists>xs d ys. [d1, d2, d3] = xs @ d # ys \<and> credential d \<and> dStatus d = PasswordChecked
      \<and> (\<forall>x \<in> set xs. credential x \<longrightarrow> dStatus x \<noteq> PasswordFail)"
    using d by (intro exI [of _ "[d1, d2]"] exI [of _ d3] exI [of _ "[]"]) simp
  then have checked: "rsStatus rs = PasswordChecked"
    using m [THEN conjunct1] d by simp
  then obtain i where "i < Suc (Suc (Suc 0))" "dStatus ([d1, d2, d3] ! i) = PasswordChecked"
    "rsAuthority rs = psName (dProvider ([d1, d2, d3] ! i))"
    using m [THEN conjunct2, THEN conjunct2] by auto
  then have "rsAuthority rs = ''ldap''" using d by (auto simp: less_Suc_eq)
  with rs checked show ?thesis by blast
qed

theorem merger_identity_witness:
  "\<exists>rs. merger_Authenticate sample_providers sample_login = Inr rs
     \<and> uGroups (rsUser rs) = [''devs'', ''ops''] \<and> uLogin (rsUser rs) = ''jim''"
proof -
  obtain rs where rs: "merger_Authenticate sample_providers sample_login = Inr rs" using sample_merge by blast
  obtain d1 d2 d3 where d: "user_details sample_providers sample_login = Inr [d1, d2, d3]"
    "psGroupAuthority (dProvider d1)" "psGroupAuthority (dProvider d2)" "psGroupAuthority (dProvider d3)"
    "tGroups (dTranslated d1) = [''ops'']" "tGroups (dTranslated d2) = []"
    "tGroups (dTranslated d3) = [''devs'', ''ops'']"
    using sample_details by blast
  have "{d \<in> set [d1, d2, d3]. psGroupAuthority (dProvider d)} = {d1, d2, d3}"
    using d(2-4) by auto
  then have "(\<Union>d \<in> {d \<in> set [d1, d2, d3]. psGroupAuthority (dProvider d)}. set (tGroups (dTranslated d)))
      = set [''devs'', ''ops'']"
    by (simp only:) (simp add: d(5-7) insert_commute)
  moreover have "sorted_list_of_set (set [''devs'', ''ops'']) = [''devs'', ''ops'']"
    by (rule sorted_list_of_set.idem_if_sorted_distinct) (simp_all add: less_eq_char_def)
  ultimately have "uGroups (rsUser rs) = [''devs'', ''ops'']" "uLogin (rsUser rs) = rqLogin sample_login"
    using merger_identity [OF rs d(1)] by argo+
  with rs show ?thesis by (simp add: sample_login_def)
qed

theorem merger_failures_witness:
  "\<exists>d. GetUserDetail (sample_providers ! 1) ''jim'' ''secret'' = Inr d \<and> dStatus d = Undefined"
proof -
  let ?p = "sample_providers ! 1"
  have "?p \<in> set sample_providers" "\<not> the (pcCritical (config ?p))"
    "Exchange (httpClient ?p) ''GET'' ''v1/identity'' sample_login = Inl ''timeout''"
    by (simp_all add: sample_providers_def sample_cfg_def Exchange_def)
  with merger_failures [of sample_providers sample_login, THEN conjunct2]
  show ?thesis by (auto simp: sample_login_def)
qed

end
