(* ===== verification/HttpProvider.thy ===== *)
theory HttpProvider
  imports Merger
begin

text \<open>
  \<^verbatim>\<open>cmd/oidc/authenticator\<close>: how the OIDC server asks its identity server about a user, and the claims it
  derives from the answer.
\<close>

section \<open>Operations\<close>

record OidcUser =
  ouLogin :: string
  ouClaims :: claims
  ouFullName :: string

fun stringItems :: "gval list \<Rightarrow> string list" where
  "stringItems [] = []"
| "stringItems (VStr s # vs) = s # stringItems vs"
| "stringItems (_ # vs) = stringItems vs"

definition getStringArrayInMap :: "claims \<Rightarrow> string \<Rightarrow> string + string list" where
  "getStringArrayInMap m key =
     (case gget m key of
        None \<Rightarrow> Inr []
      | Some VNil \<Rightarrow> Inr []
      | Some (VStrs v) \<Rightarrow> Inr v
      | Some (VList v) \<Rightarrow> Inr (stringItems v)
      | Some (VStr s) \<Rightarrow> Inr [s]
      | Some _ \<Rightarrow> Inl (''entry Claims['' @ key @ ''] is not a []string''))"

text \<open>The claims derived from an answer, step by step.\<close>

definition with_name :: "IdentityResponse \<Rightarrow> claims \<Rightarrow> claims" where
  "with_name r claims =
     (if uName (rsUser r) \<noteq> [] then gput ''name'' (VStr (uName (rsUser r))) claims else claims)"

definition with_groups :: "IdentityResponse \<Rightarrow> claims \<Rightarrow> string + claims" where
  "with_groups r claims =
     (case getStringArrayInMap claims ''groups'' of
        Inl err \<Rightarrow> Inl err
      | Inr groupFromClaims \<Rightarrow>
          (let groups = DedupAndSort (uGroups (rsUser r) @ groupFromClaims)
           in Inr (if length groups \<noteq> 0 then gput ''groups'' (VStrs groups) claims else claims)))"

definition with_emails :: "IdentityResponse \<Rightarrow> claims \<Rightarrow> string + claims" where
  "with_emails r claims =
     (case getStringArrayInMap claims ''emails'' of
        Inl err \<Rightarrow> Inl err
      | Inr emailsFromClaims \<Rightarrow>
          (let emails = AppendIfNotPresent (uEmails (rsUser r)) emailsFromClaims
           in Inr (if length emails \<noteq> 0
                   then gput ''email'' (VStr (hd emails)) (gput ''emails'' (VStrs emails) claims)
                   else claims)))"

definition with_authority :: "IdentityResponse \<Rightarrow> claims \<Rightarrow> claims" where
  "with_authority r claims =
     (if rsAuthority r \<noteq> [] then gput ''authority'' (VStr (rsAuthority r)) claims else claims)"

definition with_uid :: "IdentityResponse \<Rightarrow> claims \<Rightarrow> claims" where
  "with_uid r claims =
     (case uUid (rsUser r) of
        Some i \<Rightarrow> gput ''uid'' (VNum (of_int i)) claims
      | None \<Rightarrow> claims)"

definition Identify :: "transport \<Rightarrow> string \<Rightarrow> string \<Rightarrow> string + OidcUser \<times> Status" where
  "Identify send login password =
     (case Exchange send ''GET'' ''v1/identity'' \<lparr>rqLogin = login, rqPassword = password\<rparr> of
        Inl err \<Rightarrow> Inl err
      | Inr r \<Rightarrow>
          (case with_groups r (with_name r (entries (uClaims (rsUser r)))) of
             Inl err \<Rightarrow> Inl err
           | Inr c1 \<Rightarrow>
               (case with_emails r c1 of
                  Inl err \<Rightarrow> Inl err
                | Inr c2 \<Rightarrow>
                    Inr (\<lparr>ouLogin = login, ouClaims = with_uid r (with_authority r c2),
                          ouFullName = uName (rsUser r)\<rparr>, rsStatus r))))"

definition oidc_Authenticate :: "transport \<Rightarrow> string \<Rightarrow> string \<Rightarrow> string + OidcUser option" where
  "oidc_Authenticate send login password =
     (case Identify send login password of
        Inl err \<Rightarrow> Inl err
      | Inr (user, passwordStatus) \<Rightarrow>
          if passwordStatus \<noteq> PasswordChecked then Inr None else Inr (Some user))"

section \<open>Results\<close>

lemma Identify_status:
  "Identify send login password = Inr (user, status) \<Longrightarrow>
     \<exists>r. Exchange send ''GET'' ''v1/identity'' \<lparr>rqLogin = login, rqPassword = password\<rparr> = Inr r
        \<and> rsStatus r = status \<and> ouLogin user = login"
  by (auto simp: Identify_def split: sum.splits)

lemma oidc_Authenticate_checked:
  assumes "oidc_Authenticate send login password = Inr (Some user)"
  shows "ouLogin user = login"
    and "\<exists>r. Exchange send ''GET'' ''v1/identity'' \<lparr>rqLogin = login, rqPassword = password\<rparr> = Inr r
        \<and> rsStatus r = PasswordChecked"
  using assms Identify_status [of send login password]
  by (auto simp: oidc_Authenticate_def split: sum.splits prod.splits if_splits)

text \<open>The strings of a claim that may be a list, a single string or absent.\<close>

definition claimed :: "IdentityResponse \<Rightarrow> string \<Rightarrow> string list" where
  "claimed r key =
     (case getStringArrayInMap (entries (uClaims (rsUser r))) key of Inr xs \<Rightarrow> xs | Inl err \<Rightarrow> [])"

lemma getStringArrayInMap_cong:
  "gget m key = gget m' key \<Longrightarrow> getStringArrayInMap m key = getStringArrayInMap m' key"
  by (simp add: getStringArrayInMap_def)

lemma with_name_other: "k \<noteq> ''name'' \<Longrightarrow> gget (with_name r c) k = gget c k"
  by (simp add: with_name_def)



end
