(* ===== verification/HttpClient.thy ===== *)
theory HttpClient
  imports Proto
begin

text \<open>
  \<^verbatim>\<open>internal/httpclient\<close>: the client the servers talk to each other and to upstream issuers with.  \<open>httpclient_New\<close>
  checks the URL and builds the pool of certificate authorities the client trusts, \<open>Do\<close> sends one
  request with the configured credentials, \<open>RoundTrip\<close> is the dumping transport.

  Parsing of URLs, PEM blocks and certificates, the file system and the connection itself are fields of
  \<open>HttpEnv\<close>.  A PEM decoder returns the block and how many bytes after the first one it has consumed, so
  the remaining input is always shorter.
\<close>

section \<open>Data\<close>

record HttpAuth =
  haLogin :: string
  haPassword :: string
  haToken :: string

record HttpConfig =
  hcBaseURL :: string
  hcRootCaPaths :: "string list"
  hcRootCaDatas :: "string list"
  hcRootCaBytes :: "string list"
  hcInsecureSkipVerify :: bool
  hcDumpExchanges :: bool
  hcHttpAuth :: "HttpAuth option"
  hcLabel :: string

record certificate =
  certSubject :: string
  certRaw :: string

record HttpEnv =
  urlScheme :: "string \<Rightarrow> string + string"
  joinPath :: "string \<Rightarrow> string \<Rightarrow> string + string"
  systemPool :: "string + certificate list"
  fileBytes :: "string \<Rightarrow> string + string"
  base64Std :: "string \<Rightarrow> string + string"
  base64Text :: "string \<Rightarrow> string"
  pemBlock :: "string \<Rightarrow> ((string \<times> string) \<times> nat) option"
  parseCertificate :: "string \<Rightarrow> string + certificate"
  requestError :: "string \<Rightarrow> string \<Rightarrow> string option"

record TlsConfig =
  tlsRootCAs :: "certificate list"
  tlsInsecureSkipVerify :: bool

record HttpClient =
  hConfig :: HttpConfig
  hTls :: "TlsConfig option"
  hDump :: bool

record HttpRequest =
  qMethod :: string
  qUrl :: string
  qHeaders :: "string gomap"
  qBody :: string

record HttpResponse =
  pStatus :: nat
  pText :: string
  pBody :: string

datatype DoError = UnauthorizedError | NotFoundError string | OtherError string

section \<open>Certificate authorities\<close>

definition AddCert :: "certificate list \<Rightarrow> certificate \<Rightarrow> certificate list" where
  "AddCert pool cert = (if certRaw cert \<in> certRaw ` set pool then pool else pool @ [cert])"

function pemLoop :: "HttpEnv \<Rightarrow> certificate list \<Rightarrow> string list \<Rightarrow> string \<Rightarrow> string + certificate list \<times> string list" where
  "pemLoop env pool subjects rest =
     (case (if rest = [] then None else pemBlock env rest) of
        None \<Rightarrow> Inr (pool, subjects)
      | Some ((type, bytes), n) \<Rightarrow>
          if type \<noteq> ''CERTIFICATE'' then pemLoop env pool subjects (drop (Suc n) rest)
          else
            (case parseCertificate env bytes of
               Inl err \<Rightarrow> Inl (''parse certificate: '' @ err)
             | Inr cert \<Rightarrow>
                 pemLoop env (AddCert pool cert) (subjects @ [certSubject cert]) (drop (Suc n) rest)))"
  by pat_completeness auto

termination
  by (relation "measure (\<lambda>(env, pool, subjects, rest). length rest)") (auto split: if_splits)

declare pemLoop.simps [simp del]

definition appendCaFromPEM :: "HttpEnv \<Rightarrow> certificate list \<Rightarrow> string \<Rightarrow> string + certificate list \<times> string list" where
  "appendCaFromPEM env pool pemBytes =
     (if length pemBytes = 0 then Inl ''empty PEM bundle''
      else
        (case pemLoop env pool [] pemBytes of
           Inl err \<Rightarrow> Inl err
         | Inr (pool', subjects) \<Rightarrow>
             if length subjects = 0 then Inl ''no CERTIFICATE block found in PEM data''
             else Inr (pool', subjects)))"

definition appendCaFromFile :: "HttpEnv \<Rightarrow> certificate list \<Rightarrow> string \<Rightarrow> string + certificate list \<times> string list" where
  "appendCaFromFile env pool caPath =
     (case fileBytes env caPath of
        Inl err \<Rightarrow> Inl (''failed to read CA file '' @ quoted caPath @ '': '' @ err)
      | Inr rootCaBytes \<Rightarrow>
          (case appendCaFromPEM env pool rootCaBytes of
             Inl err \<Rightarrow> Inl (''invalid root CA certificate in file '' @ caPath @ '': '' @ err)
           | Inr r \<Rightarrow> Inr r))"

definition appendCaFromBase64 :: "HttpEnv \<Rightarrow> certificate list \<Rightarrow> string \<Rightarrow> string + certificate list \<times> string list" where
  "appendCaFromBase64 env pool b64 =
     (case base64Std env b64 of
        Inl err \<Rightarrow> Inl (''error while parsing base64 root ca data '' @ ShortenString b64 @ '' : '' @ err)
      | Inr dst \<Rightarrow>
          (case appendCaFromPEM env pool dst of
             Inl err \<Rightarrow> Inl (''invalid root CA certificate in '' @ ShortenString b64 @ '': '' @ err)
           | Inr r \<Rightarrow> Inr r))"

text \<open>The three loops of \<^verbatim>\<open>New\<close> have one shape: empty entries are skipped, the first error ends it.\<close>

fun loadAll :: "(certificate list \<Rightarrow> string \<Rightarrow> string + certificate list \<times> string list) \<Rightarrow> string list
    \<Rightarrow> certificate list \<times> string list \<Rightarrow> string + certificate list \<times> string list" where
  "loadAll add [] acc = Inr acc"
| "loadAll add (x # xs) (pool, loadedSubjects) =
     (if x = [] then loadAll add xs (pool, loadedSubjects)
      else
        (case add pool x of
           Inl err \<Rightarrow> Inl err
         | Inr (pool', subjects) \<Rightarrow> loadAll add xs (pool', loadedSubjects @ subjects)))"

definition loadRootCAs :: "HttpEnv \<Rightarrow> HttpConfig \<Rightarrow> certificate list \<Rightarrow> string + certificate list \<times> string list" where
  "loadRootCAs env conf pool =
     (case loadAll (appendCaFromFile env) (hcRootCaPaths conf) (pool, []) of
        Inl err \<Rightarrow> Inl err
      | Inr acc1 \<Rightarrow>
          (case loadAll (appendCaFromBase64 env) (hcRootCaDatas conf) acc1 of
             Inl err \<Rightarrow> Inl err
           | Inr acc2 \<Rightarrow> loadAll (appendCaFromPEM env) (hcRootCaBytes conf) acc2))"

section \<open>The client\<close>

definition httpclient_New :: "HttpEnv \<Rightarrow> HttpConfig \<Rightarrow> string + HttpClient" where
  "httpclient_New env conf =
     (case urlScheme env (hcBaseURL conf) of
        Inl err \<Rightarrow> Inl (''unable to parse url '' @ quoted (hcBaseURL conf) @ '': '' @ err)
      | Inr scheme \<Rightarrow>
          if map lower scheme \<noteq> ''https'' \<and> map lower scheme \<noteq> ''http''
          then Inl (''invalid url scheme '' @ quoted (hcBaseURL conf))
          else if map lower scheme = ''https'' then
            (case systemPool env of
               Inl err \<Rightarrow> Inl err
             | Inr pool \<Rightarrow>
                 (case (if hcInsecureSkipVerify conf then Inr (pool, []) else loadRootCAs env conf pool) of
                    Inl err \<Rightarrow> Inl err
                  | Inr (pool', loadedSubjects) \<Rightarrow>
                      Inr \<lparr>hConfig = conf,
                           hTls = Some \<lparr>tlsRootCAs = pool', tlsInsecureSkipVerify = hcInsecureSkipVerify conf\<rparr>,
                           hDump = hcDumpExchanges conf\<rparr>))
          else Inr \<lparr>hConfig = conf, hTls = None, hDump = hcDumpExchanges conf\<rparr>)"

text \<open>
  The header of a request.  \<^verbatim>\<open>SetBasicAuth\<close> and the bearer token write the same entry, so a token
  replaces the basic credentials.
\<close>

definition authHeaders :: "HttpEnv \<Rightarrow> HttpAuth option \<Rightarrow> string gomap \<Rightarrow> string gomap" where
  "authHeaders env ha headers =
     (case ha of
        None \<Rightarrow> headers
      | Some auth \<Rightarrow>
          (let h1 = (if haLogin auth \<noteq> []
                     then gput ''Authorization'' (''Basic '' @ base64Text env (haLogin auth @ '':'' @ haPassword auth)) headers
                     else headers)
           in if haToken auth \<noteq> [] then gput ''Authorization'' (''Bearer '' @ haToken auth) h1 else h1))"

definition Do :: "HttpEnv \<Rightarrow> (TlsConfig option \<Rightarrow> HttpRequest \<Rightarrow> string + HttpResponse) \<Rightarrow> HttpClient
    \<Rightarrow> string \<Rightarrow> string \<Rightarrow> string \<Rightarrow> string \<Rightarrow> DoError + HttpResponse" where
  "Do env connect c meth path contentType body =
     (case joinPath env (hcBaseURL (hConfig c)) path of
        Inl err \<Rightarrow> Inl (OtherError (''unable to join '' @ path @ '' to '' @ hcBaseURL (hConfig c) @ '': '' @ err))
      | Inr u \<Rightarrow>
          (case requestError env meth u of
             Some err \<Rightarrow> Inl (OtherError (''unable to build request '' @ quoted (meth @ '':'' @ u) @ '': '' @ err))
           | None \<Rightarrow>
               (let req = \<lparr>qMethod = meth, qUrl = u,
                           qHeaders = authHeaders env (hcHttpAuth (hConfig c)) [(''Content-Type'', contentType)],
                           qBody = body\<rparr>
                in case connect (hTls c) req of
                     Inl err \<Rightarrow>
                       Inl (OtherError (''error on http connection on request '' @ quoted (meth @ '':'' @ u) @ '': '' @ err))
                   | Inr resp \<Rightarrow>
                       if pStatus resp = 401 then Inl UnauthorizedError
                       else if pStatus resp = 404 then Inl (NotFoundError u)
                       else if pStatus resp \<noteq> 200
                       then Inl (OtherError (''invalid status code: '' @ nat_text (pStatus resp) @ '' ('' @ pText resp
                              @ '') on request '' @ quoted (meth @ '':'' @ u)))
                       else Inr resp)))"

text \<open>
  The dumping transport, with the number of the next dump and what is printed: a request that cannot be
  dumped is not sent, a response that cannot be dumped is closed and lost.
\<close>

definition RoundTrip :: "(HttpRequest \<Rightarrow> string + string) \<Rightarrow> (HttpResponse \<Rightarrow> string + string)
    \<Rightarrow> (HttpRequest \<Rightarrow> string + HttpResponse) \<Rightarrow> nat \<Rightarrow> HttpRequest
    \<Rightarrow> (string + HttpResponse) \<times> nat \<times> (nat \<times> string) list" where
  "RoundTrip dumpRequest dumpResponse t exchangeCount req =
     (case dumpRequest req of
        Inl err \<Rightarrow> (Inl err, exchangeCount, [])
      | Inr reqDump \<Rightarrow>
          (case t req of
             Inl err \<Rightarrow> (Inl err, exchangeCount + 1, [(exchangeCount, reqDump)])
           | Inr resp \<Rightarrow>
               (case dumpResponse resp of
                  Inl err \<Rightarrow> (Inl err, exchangeCount + 1, [(exchangeCount, reqDump)])
                | Inr respDump \<Rightarrow>
                    (Inr resp, exchangeCount + 2, [(exchangeCount, reqDump), (exchangeCount + 1, respDump)]))))"

section \<open>What the client trusts\<close>

text \<open>The blocks of a bundle, the certificates among them, and the bundles of a configuration.\<close>

function pemBlocks :: "HttpEnv \<Rightarrow> string \<Rightarrow> (string \<times> string) list" where
  "pemBlocks env rest =
     (case (if rest = [] then None else pemBlock env rest) of
        None \<Rightarrow> []
      | Some (b, n) \<Rightarrow> b # pemBlocks env (drop (Suc n) rest))"
  by pat_completeness auto

termination
  by (relation "measure (\<lambda>(env, rest). length rest)") (auto split: if_splits)

declare pemBlocks.simps [simp del]

definition oks :: "(string + 'a) list \<Rightarrow> 'a list" where
  "oks xs = concat (map (\<lambda>x. case x of Inl err \<Rightarrow> [] | Inr y \<Rightarrow> [y]) xs)"

definition certificatesIn :: "HttpEnv \<Rightarrow> string \<Rightarrow> certificate list" where
  "certificatesIn env rest =
     oks (map (\<lambda>(type, bytes). parseCertificate env bytes)
           (filter (\<lambda>(type, bytes). type = ''CERTIFICATE'') (pemBlocks env rest)))"

definition configuredBundles :: "HttpEnv \<Rightarrow> HttpConfig \<Rightarrow> (string + string) list" where
  "configuredBundles env conf =
     map (fileBytes env) (filter (\<lambda>p. p \<noteq> []) (hcRootCaPaths conf))
       @ map (base64Std env) (filter (\<lambda>d. d \<noteq> []) (hcRootCaDatas conf))
       @ map Inr (filter (\<lambda>b. b \<noteq> []) (hcRootCaBytes conf))"

abbreviation raws :: "certificate list \<Rightarrow> string set" where
  "raws pool \<equiv> certRaw ` set pool"

lemma oks_simps [simp]:
  "oks [] = []" "oks (Inl e # xs) = oks xs" "oks (Inr y # xs) = y # oks xs" "oks (xs @ ys) = oks xs @ oks ys"
  by (simp_all add: oks_def)

lemma oks_Inr [simp]: "oks (map Inr xs) = xs"
  by (induction xs) simp_all

lemma raws_AddCert [simp]: "raws (AddCert pool cert) = insert (certRaw cert) (raws pool)"
  by (auto simp: AddCert_def)

lemma pemLoop_certificates:
  "pemLoop env pool subjects rest = Inr (pool', subjects') \<Longrightarrow>
     raws pool' = raws pool \<union> raws (certificatesIn env rest)
       \<and> subjects' = subjects @ map certSubject (certificatesIn env rest)"
proof (induction env pool subjects rest rule: pemLoop.induct)
  case (1 env pool subjects rest)
  show ?case
  proof (cases "if rest = [] then None else pemBlock env rest")
    case None
    with "1.prems" show ?thesis
      by (auto simp: pemLoop.simps [of env pool] certificatesIn_def pemBlocks.simps [of env rest] split: if_splits)
  next
    case (Some blk)
    obtain type bytes n where blk: "blk = ((type, bytes), n)" by (metis surj_pair)
    note step = Some [unfolded blk]
    have blocks: "pemBlocks env rest = (type, bytes) # pemBlocks env (drop (Suc n) rest)"
      using step by (simp add: pemBlocks.simps [of env rest])
    have loop: "pemLoop env pool subjects rest =
        (if type \<noteq> ''CERTIFICATE'' then pemLoop env pool subjects (drop (Suc n) rest)
         else (case parseCertificate env bytes of
                 Inl err \<Rightarrow> Inl (''parse certificate: '' @ err)
               | Inr cert \<Rightarrow>
                   pemLoop env (AddCert pool cert) (subjects @ [certSubject cert]) (drop (Suc n) rest)))"
      unfolding pemLoop.simps [of env pool subjects rest] step by simp
    show ?thesis
    proof (cases "type = ''CERTIFICATE''")
      case False
      have "raws pool' = raws pool \<union> raws (certificatesIn env (drop (Suc n) rest))
          \<and> subjects' = subjects @ map certSubject (certificatesIn env (drop (Suc n) rest))"
        by (rule "1.IH" (1) [OF step refl refl False]) (use "1.prems" loop False in simp)
      with False show ?thesis by (simp add: certificatesIn_def blocks)
    next
      case True
      then obtain cert where cert: "parseCertificate env bytes = Inr cert"
        using "1.prems" loop by (auto split: sum.splits)
      have "raws pool' = raws (AddCert pool cert) \<union> raws (certificatesIn env (drop (Suc n) rest))
          \<and> subjects' = (subjects @ [certSubject cert]) @ map certSubject (certificatesIn env (drop (Suc n) rest))"
        by (rule "1.IH" (2) [OF step refl refl _ cert]) (use "1.prems" loop True cert in simp_all)
      with True cert show ?thesis by (simp add: certificatesIn_def blocks)
    qed
  qed
qed

lemma appendCaFromPEM_certificates:
  assumes "appendCaFromPEM env pool b = Inr (pool', subjects)"
  shows "raws pool' = raws pool \<union> raws (certificatesIn env b)" and "certificatesIn env b \<noteq> []"
  using assms pemLoop_certificates [of env pool "[]" b]
  by (auto simp: appendCaFromPEM_def split: if_splits sum.splits prod.splits)

text \<open>
  A source of certificate authorities: an accepted entry is a readable bundle, and its certificates are
  added to the pool.  The three kinds of entries are such sources.
\<close>

locale ca_source =
  fixes env :: HttpEnv
    and read_bundle :: "string \<Rightarrow> string + string"
    and add :: "certificate list \<Rightarrow> string \<Rightarrow> string + certificate list \<times> string list"
  assumes add_reads: "add pool x = Inr (pool', subjects) \<Longrightarrow>
      \<exists>b. read_bundle x = Inr b \<and> raws pool' = raws pool \<union> raws (certificatesIn env b) \<and> certificatesIn env b \<noteq> []"
begin

definition accepted :: "string list \<Rightarrow> string list \<Rightarrow> bool" where
  "accepted xs bs \<longleftrightarrow> map read_bundle (filter (\<lambda>x. x \<noteq> []) xs) = map Inr bs \<and> (\<forall>b \<in> set bs. certificatesIn env b \<noteq> [])"

lemma loadAll_accepted:
  "loadAll add xs (pool, loaded) = Inr (pool', loaded') \<Longrightarrow>
     \<exists>bs. accepted xs bs \<and> raws pool' = raws pool \<union> (\<Union>b \<in> set bs. raws (certificatesIn env b))"
proof (induction xs arbitrary: pool loaded)
  case Nil
  then show ?case by (auto simp: accepted_def)
next
  case (Cons x xs)
  show ?case
  proof (cases "x = []")
    case True
    with Cons show ?thesis by (simp add: accepted_def)
  next
    case False
    then obtain p s where p: "add pool x = Inr (p, s)" "loadAll add xs (p, loaded @ s) = Inr (pool', loaded')"
      using Cons.prems by (auto split: sum.splits)
    obtain b where b: "read_bundle x = Inr b" "raws p = raws pool \<union> raws (certificatesIn env b)" "certificatesIn env b \<noteq> []"
      using add_reads [OF p(1)] by blast
    obtain bs where bs: "accepted xs bs" "raws pool' = raws p \<union> (\<Union>b \<in> set bs. raws (certificatesIn env b))"
      using Cons.IH [OF p(2)] by blast
    have "accepted (x # xs) (b # bs)"
      using False b bs(1) by (simp add: accepted_def)
    moreover have "raws pool' = raws pool \<union> (\<Union>b \<in> set (b # bs). raws (certificatesIn env b))"
      using b(2) bs(2) by auto
    ultimately show ?thesis by blast
  qed
qed

end

interpretation pem_ca: ca_source env Inr "appendCaFromPEM env" for env
  by unfold_locales (blast dest: appendCaFromPEM_certificates)

interpretation file_ca: ca_source env "fileBytes env" "appendCaFromFile env" for env
proof unfold_locales
  fix pool x pool' subjects
  assume "appendCaFromFile env pool x = Inr (pool', subjects)"
  then obtain b where b: "fileBytes env x = Inr b" "appendCaFromPEM env pool b = Inr (pool', subjects)"
    by (auto simp: appendCaFromFile_def split: sum.splits)
  from b(1) appendCaFromPEM_certificates [OF b(2)] show "\<exists>b. fileBytes env x = Inr b
      \<and> raws pool' = raws pool \<union> raws (certificatesIn env b) \<and> certificatesIn env b \<noteq> []"
    by blast
qed

interpretation data_ca: ca_source env "base64Std env" "appendCaFromBase64 env" for env
proof unfold_locales
  fix pool x pool' subjects
  assume "appendCaFromBase64 env pool x = Inr (pool', subjects)"
  then obtain b where b: "base64Std env x = Inr b" "appendCaFromPEM env pool b = Inr (pool', subjects)"
    by (auto simp: appendCaFromBase64_def split: sum.splits)
  from b(1) appendCaFromPEM_certificates [OF b(2)] show "\<exists>b. base64Std env x = Inr b
      \<and> raws pool' = raws pool \<union> raws (certificatesIn env b) \<and> certificatesIn env b \<noteq> []"
    by blast
qed

lemma loadRootCAs_bundles:
  assumes "loadRootCAs env conf pool = Inr (pool', loaded)"
  shows "\<exists>bs. configuredBundles env conf = map Inr bs \<and> (\<forall>b \<in> set bs. certificatesIn env b \<noteq> [])
    \<and> raws pool' = raws pool \<union> (\<Union>b \<in> set bs. raws (certificatesIn env b))"
proof -
  obtain p1 l1 p2 l2 where steps:
      "loadAll (appendCaFromFile env) (hcRootCaPaths conf) (pool, []) = Inr (p1, l1)"
      "loadAll (appendCaFromBase64 env) (hcRootCaDatas conf) (p1, l1) = Inr (p2, l2)"
      "loadAll (appendCaFromPEM env) (hcRootCaBytes conf) (p2, l2) = Inr (pool', loaded)"
    using assms by (auto simp: loadRootCAs_def split: sum.splits)
  obtain b1 where b1: "file_ca.accepted env (hcRootCaPaths conf) b1"
      "raws p1 = raws pool \<union> (\<Union>b \<in> set b1. raws (certificatesIn env b))"
    using file_ca.loadAll_accepted [OF steps(1)] by blast
  obtain b2 where b2: "data_ca.accepted env (hcRootCaDatas conf) b2"
      "raws p2 = raws p1 \<union> (\<Union>b \<in> set b2. raws (certificatesIn env b))"
    using data_ca.loadAll_accepted [OF steps(2)] by blast
  obtain b3 where b3: "pem_ca.accepted env (hcRootCaBytes conf) b3"
      "raws pool' = raws p2 \<union> (\<Union>b \<in> set b3. raws (certificatesIn env b))"
    using pem_ca.loadAll_accepted [OF steps(3)] by blast
  have "configuredBundles env conf = map Inr (b1 @ b2 @ b3)"
    using b1(1) b2(1) b3(1)
    by (simp add: configuredBundles_def file_ca.accepted_def data_ca.accepted_def pem_ca.accepted_def)
  moreover have "\<forall>b \<in> set (b1 @ b2 @ b3). certificatesIn env b \<noteq> []"
    using b1(1) b2(1) b3(1) by (auto simp: file_ca.accepted_def data_ca.accepted_def pem_ca.accepted_def)
  moreover have "raws pool' = raws pool \<union> (\<Union>b \<in> set (b1 @ b2 @ b3). raws (certificatesIn env b))"
    using b1(2) b2(2) b3(2) by auto
  ultimately show ?thesis by blast
qed

text \<open>
  C30: what an HTTP client trusts.  A client is built for http and https URLs only; it has a TLS setting
  exactly for https, which skips verification only when configured so.  A verifying client trusts the
  system's authorities and the certificates of the configured bundles, nothing else, and each configured
  bundle could be read and has a certificate.
\<close>

theorem httpclient_trust:
  assumes "httpclient_New env conf = Inr c"
  shows "\<exists>scheme. urlScheme env (hcBaseURL conf) = Inr scheme
    \<and> map lower scheme = (if hTls c = None then ''http'' else ''https'')
    \<and> (\<forall>tls. hTls c = Some tls \<longrightarrow>
         tlsInsecureSkipVerify tls = hcInsecureSkipVerify conf
         \<and> (\<not> tlsInsecureSkipVerify tls \<longrightarrow>
              (\<exists>sys bs. systemPool env = Inr sys \<and> configuredBundles env conf = map Inr bs
                 \<and> (\<forall>b \<in> set bs. certificatesIn env b \<noteq> [])
                 \<and> raws (tlsRootCAs tls) = raws sys \<union> (\<Union>b \<in> set bs. raws (certificatesIn env b)))))"
proof -
  obtain scheme where scheme: "urlScheme env (hcBaseURL conf) = Inr scheme"
      "map lower scheme = ''https'' \<or> map lower scheme = ''http''"
    using assms by (auto simp: httpclient_New_def split: sum.splits if_splits)
  show ?thesis
  proof (cases "map lower scheme = ''https''")
    case True
    then obtain sys pool' loaded where run: "systemPool env = Inr sys"
        "(if hcInsecureSkipVerify conf then Inr (sys, []) else loadRootCAs env conf sys) = Inr (pool', loaded)"
        "hTls c = Some \<lparr>tlsRootCAs = pool', tlsInsecureSkipVerify = hcInsecureSkipVerify conf\<rparr>"
      using assms scheme by (auto simp: httpclient_New_def split: sum.splits if_splits)
    show ?thesis
    proof (cases "hcInsecureSkipVerify conf")
      case True
      with run scheme \<open>map lower scheme = ''https''\<close> show ?thesis by auto
    next
      case False
      then obtain bs where "configuredBundles env conf = map Inr bs" "\<forall>b \<in> set bs. certificatesIn env b \<noteq> []"
          "raws pool' = raws sys \<union> (\<Union>b \<in> set bs. raws (certificatesIn env b))"
        using loadRootCAs_bundles [of env conf sys pool' loaded] run(2) by auto
      with run scheme \<open>map lower scheme = ''https''\<close> show ?thesis by auto
    qed
  next
    case False
    with assms scheme show ?thesis by (auto simp: httpclient_New_def)
  qed
qed

definition sample_http_env :: HttpEnv where
  "sample_http_env =
     \<lparr>urlScheme = (\<lambda>u. Inr ''https''), joinPath = (\<lambda>a b. Inr (a @ ''/'' @ b)),
      systemPool = Inr [\<lparr>certSubject = ''CN=sys'', certRaw = ''S''\<rparr>],
      fileBytes = (\<lambda>p. Inl ''no file''), base64Std = (\<lambda>b. Inl ''not base64''), base64Text = (\<lambda>b. b),
      pemBlock = (\<lambda>b. Some ((''CERTIFICATE'', b), length b)),
      parseCertificate = (\<lambda>b. Inr \<lparr>certSubject = ''CN=x'', certRaw = b\<rparr>),
      requestError = (\<lambda>m u. None)\<rparr>"

definition sample_http_config :: HttpConfig where
  "sample_http_config =
     \<lparr>hcBaseURL = ''https://idp'', hcRootCaPaths = [], hcRootCaDatas = [[]], hcRootCaBytes = [''P''],
      hcInsecureSkipVerify = False, hcDumpExchanges = False,
      hcHttpAuth = Some \<lparr>haLogin = ''admin'', haPassword = ''pw'', haToken = ''tok''\<rparr>, hcLabel = []\<rparr>"

lemma pemLoop_Nil: "pemLoop env pool subjects [] = Inr (pool, subjects)"
  by (simp add: pemLoop.simps)

lemma pemLoop_certificate:
  "rest \<noteq> [] \<Longrightarrow> pemBlock env rest = Some ((''CERTIFICATE'', bytes), n) \<Longrightarrow> parseCertificate env bytes = Inr cert \<Longrightarrow>
     pemLoop env pool subjects rest = pemLoop env (AddCert pool cert) (subjects @ [certSubject cert]) (drop (Suc n) rest)"
  unfolding pemLoop.simps [of env pool subjects rest] by simp

lemma sample_http_pem:
  "pemLoop sample_http_env pool [] ''P'' =
     Inr (AddCert pool \<lparr>certSubject = ''CN=x'', certRaw = ''P''\<rparr>, [''CN=x''])"
  using pemLoop_certificate [of "''P''" sample_http_env "''P''" 1 "\<lparr>certSubject = ''CN=x'', certRaw = ''P''\<rparr>" pool "[]"]
  by (simp add: sample_http_env_def pemLoop_Nil)

lemma sample_http_load:
  "loadRootCAs sample_http_env sample_http_config [\<lparr>certSubject = ''CN=sys'', certRaw = ''S''\<rparr>] =
     Inr ([\<lparr>certSubject = ''CN=sys'', certRaw = ''S''\<rparr>, \<lparr>certSubject = ''CN=x'', certRaw = ''P''\<rparr>], [''CN=x''])"
  by (simp add: loadRootCAs_def sample_http_config_def appendCaFromPEM_def sample_http_pem AddCert_def)

definition sample_tls :: TlsConfig where
  "sample_tls =
     \<lparr>tlsRootCAs = [\<lparr>certSubject = ''CN=sys'', certRaw = ''S''\<rparr>, \<lparr>certSubject = ''CN=x'', certRaw = ''P''\<rparr>],
      tlsInsecureSkipVerify = False\<rparr>"

definition sample_http_client :: HttpClient where
  "sample_http_client = \<lparr>hConfig = sample_http_config, hTls = Some sample_tls, hDump = False\<rparr>"

lemma sample_http_New: "httpclient_New sample_http_env sample_http_config = Inr sample_http_client"
proof -
  have "urlScheme sample_http_env u = Inr ''https''" for u by (simp add: sample_http_env_def)
  moreover have "map lower ''https'' = ''https''" by (simp add: lower_def less_eq_char_def)
  moreover have "systemPool sample_http_env = Inr [\<lparr>certSubject = ''CN=sys'', certRaw = ''S''\<rparr>]"
    by (simp add: sample_http_env_def)
  moreover have "\<not> hcInsecureSkipVerify sample_http_config" "\<not> hcDumpExchanges sample_http_config"
    by (simp_all add: sample_http_config_def)
  ultimately show ?thesis by (simp add: httpclient_New_def sample_http_load sample_http_client_def sample_tls_def)
qed

theorem httpclient_trust_witness:
  "httpclient_New sample_http_env sample_http_config = Inr sample_http_client
     \<and> (\<exists>sys bs. systemPool sample_http_env = Inr sys
          \<and> configuredBundles sample_http_env sample_http_config = map Inr bs
          \<and> raws (tlsRootCAs sample_tls) = raws sys \<union> (\<Union>b \<in> set bs. raws (certificatesIn sample_http_env b)))"
proof -
  have tls: "hTls sample_http_client = Some sample_tls" "\<not> tlsInsecureSkipVerify sample_tls"
    by (simp_all add: sample_http_client_def sample_tls_def)
  from httpclient_trust [OF sample_http_New] obtain scheme where
    "\<forall>tls. hTls sample_http_client = Some tls \<longrightarrow>
       tlsInsecureSkipVerify tls = hcInsecureSkipVerify sample_http_config
       \<and> (\<not> tlsInsecureSkipVerify tls \<longrightarrow>
            (\<exists>sys bs. systemPool sample_http_env = Inr sys
               \<and> configuredBundles sample_http_env sample_http_config = map Inr bs
               \<and> (\<forall>b \<in> set bs. certificatesIn sample_http_env b \<noteq> [])
               \<and> raws (tlsRootCAs tls) = raws sys \<union> (\<Union>b \<in> set bs. raws (certificatesIn sample_http_env b))))"
    by (elim exE conjE)
  from this [THEN spec, THEN mp, OF tls(1), THEN conjunct2, THEN mp, OF tls(2)] sample_http_New
  show ?thesis by (elim exE conjE) (intro conjI exI)
qed

end
