(* ===== verification/K8s.thy ===== *)
theory K8s
  imports Proto
begin

text \<open>
  What the program uses of the Kubernetes client: reads return an object or an error, of which the code
  only tells \<^verbatim>\<open>NotFound\<close> from the others.  The client itself is an argument of the definitions that
  use it.
\<close>

datatype kerr = KNotFound | KError string

fun kerr_text :: "kerr \<Rightarrow> string" where
  "kerr_text KNotFound = ''not found''"
| "kerr_text (KError t) = t"

text \<open>\<^verbatim>\<open>client.IgnoreNotFound(err)\<close>, with \<open>None\<close> for nil.\<close>

fun IgnoreNotFound :: "kerr option \<Rightarrow> kerr option" where
  "IgnoreNotFound (Some KNotFound) = None"
| "IgnoreNotFound e = e"

fun err_of :: "kerr + 'a \<Rightarrow> kerr option" where
  "err_of (Inl e) = Some e"
| "err_of (Inr x) = None"

record ObjectKey =
  Namespace :: string
  ObjName :: string

text \<open>The metadata the reconcilers look at; \<open>mDeleting\<close> says that a deletion timestamp is set.\<close>

record ObjectMeta =
  mName :: string
  mNamespace :: string
  mDeleting :: bool
  mFinalizers :: "string list"

text \<open>\<^verbatim>\<open>controllerutil.AddFinalizer\<close> and \<^verbatim>\<open>RemoveFinalizer\<close>.\<close>

definition AddFinalizer :: "string \<Rightarrow> ObjectMeta \<Rightarrow> ObjectMeta" where
  "AddFinalizer f m = (if f \<in> set (mFinalizers m) then m else m\<lparr>mFinalizers := mFinalizers m @ [f]\<rparr>)"

definition RemoveFinalizer :: "string \<Rightarrow> ObjectMeta \<Rightarrow> ObjectMeta" where
  "RemoveFinalizer f m = m\<lparr>mFinalizers := filter (\<lambda>x. x \<noteq> f) (mFinalizers m)\<rparr>"

end
