(* ===== verification/Upstream.thy ===== *)
theory Upstream
  imports HttpClient K8s
begin

text \<open>
  \<^verbatim>\<open>cmd/oidc/upstreams\<close> with the types of \<^verbatim>\<open>api/kubauth/v1alpha1/upstreamprovider_type.go\<close>: the upstream OIDC
  providers a user may log in with, how they are built from their resource, and how the claims they
  deliver are renamed and cleaned.

  The go-oidc library is the parameter \<open>OidcLib\<close>: discovery, the extra fields of the discovery document,
  a provider from an explicit configuration, the verification of an ID token and the user info request.
\<close>

section \<open>Resources\<close>

record LocalSpec =
  lsName :: string
  lsKey :: string

record CertificateAuthoritySource =
  caConfigMap :: "LocalSpec option"
  caSecret :: "LocalSpec option"

record UpstreamProviderConfig =
  ucAuthURL :: string
  ucTokenURL :: string
  ucDeviceAuthURL :: string
  ucUserInfoURL :: string
  ucJWKSURL :: string
  ucAlgorithms :: "string list"
  ucIntrospectionURL :: string
  ucEndSessionURL :: string

definition UpstreamProviderTypeOidc :: string where
  "UpstreamProviderTypeOidc = ''oidc''"

definition UpstreamProviderTypeInternal :: string where
  "UpstreamProviderTypeInternal = ''internal''"

definition RenamingOperationCopy :: string where
  "RenamingOperationCopy = ''copy''"

record ClaimRenamingSpec =
  OldName :: string
  NewName :: string
  Operation :: string

record UpstreamProviderSpec =
  usEnabled :: "bool option"
  usType :: string
  usDisplayName :: string
  usClientSpecific :: bool
  usIssuerURL :: string
  usCertificateAuthority :: "CertificateAuthoritySource option"
  usInsecureSkipVerify :: bool
  usRedirectURL :: string
  usClientId :: string
  usClientSecret :: LocalSpec
  usScopes :: "string list"
  usUseUserInfo :: bool
  usClaimRenamings :: "ClaimRenamingSpec list"
  usClaimRemovals :: "string list"
  usLocalEnrichment :: "bool option"
  usExplicitConfig :: "UpstreamProviderConfig option"
  usDumpExchanges :: bool

datatype UpstreamProviderPhase = UPhaseNone | UPhaseReady | UPhaseError | UPhaseOff

record UpstreamProviderStatus =
  utPhase :: UpstreamProviderPhase
  utMessage :: string
  utEffectiveConfig :: "UpstreamProviderConfig option"

record UpstreamProvider =
  upMeta :: ObjectMeta
  upSpec :: UpstreamProviderSpec
  upStatus :: UpstreamProviderStatus

section \<open>The library\<close>

record ProviderConfig =
  pcIssuerURL :: string
  pcAuthURL :: string
  pcTokenURL :: string
  pcDeviceAuthURL :: string
  pcUserInfoURL :: string
  pcJWKSURL :: string
  pcAlgorithms :: "string list"

record Endpoint =
  epAuthURL :: string
  epTokenURL :: string
  epDeviceAuthURL :: string

record Provider =
  pvIssuer :: string
  pvEndpoint :: Endpoint
  pvUserInfoEndpoint :: string

record extraConfig =
  xIntrospectionURL :: string
  xEndSessionURL :: string
  xJwksURL :: string
  xAlgorithms :: "string list"
  xCodeChallengeMethods :: "string list"

record OidcLib =
  discover :: "HttpClient \<Rightarrow> string \<Rightarrow> string + Provider"
  providerClaims :: "Provider \<Rightarrow> string + extraConfig"
  configProvider :: "HttpClient \<Rightarrow> ProviderConfig \<Rightarrow> Provider"
  verifyIDToken :: "Provider \<Rightarrow> string \<Rightarrow> string \<Rightarrow> string + claims"
  userInfo :: "Provider \<Rightarrow> string \<Rightarrow> string + claims"

section \<open>Building an upstream\<close>

record upstream =
  uName' :: string
  uSpec :: UpstreamProviderSpec
  uClientSecret :: string
  uProvider :: "Provider option"
  uHttpClient :: "HttpClient option"
  uExtra :: extraConfig

definition zeroExtra :: extraConfig where
  "zeroExtra = \<lparr>xIntrospectionURL = [], xEndSessionURL = [], xJwksURL = [], xAlgorithms = [], xCodeChallengeMethods = []\<rparr>"

definition zeroSpec :: UpstreamProviderSpec where
  "zeroSpec =
     \<lparr>usEnabled = None, usType = [], usDisplayName = [], usClientSpecific = False, usIssuerURL = [],
      usCertificateAuthority = None, usInsecureSkipVerify = False, usRedirectURL = [], usClientId = [],
      usClientSecret = \<lparr>lsName = [], lsKey = []\<rparr>, usScopes = [], usUseUserInfo = False, usClaimRenamings = [],
      usClaimRemovals = [], usLocalEnrichment = None, usExplicitConfig = None, usDumpExchanges = False\<rparr>"

definition NewInternalUpstream :: "string \<Rightarrow> upstream" where
  "NewInternalUpstream defaultLoginLabel =
     \<lparr>uName' = ''internal'',
      uSpec = zeroSpec\<lparr>usType := UpstreamProviderTypeInternal, usDisplayName := defaultLoginLabel\<rparr>,
      uClientSecret = [], uProvider = None, uHttpClient = None, uExtra = zeroExtra\<rparr>"

definition ToOIDCProviderConfig :: "string \<Rightarrow> UpstreamProviderConfig option \<Rightarrow> ProviderConfig option" where
  "ToOIDCProviderConfig issuerURL d =
     (case d of
        None \<Rightarrow> None
      | Some d \<Rightarrow>
          Some \<lparr>pcIssuerURL = issuerURL, pcAuthURL = ucAuthURL d, pcTokenURL = ucTokenURL d,
                pcDeviceAuthURL = ucDeviceAuthURL d, pcUserInfoURL = ucUserInfoURL d, pcJWKSURL = ucJWKSURL d,
                pcAlgorithms = ucAlgorithms d\<rparr>)"

definition upstreamHttpConfig :: "UpstreamProvider \<Rightarrow> string \<Rightarrow> HttpConfig" where
  "upstreamHttpConfig upstreamProvider caPEM =
     (let spec = upSpec upstreamProvider in
      \<lparr>hcBaseURL = usIssuerURL spec, hcRootCaPaths = [], hcRootCaDatas = [],
       hcRootCaBytes = (if length caPEM > 0 then [caPEM] else []),
       hcInsecureSkipVerify = usInsecureSkipVerify spec, hcDumpExchanges = usDumpExchanges spec,
       hcHttpAuth = None, hcLabel = ''upstreamProvider/'' @ mName (upMeta upstreamProvider)\<rparr>)"

definition NewUpstream :: "HttpEnv \<Rightarrow> OidcLib \<Rightarrow> UpstreamProvider \<Rightarrow> string \<Rightarrow> string \<Rightarrow> string + upstream" where
  "NewUpstream env lib upstreamProvider clientSecret caPEM =
     (let spec = upSpec upstreamProvider;
          nm = mName (upMeta upstreamProvider)
      in if usType spec = UpstreamProviderTypeInternal then
           Inr \<lparr>uName' = nm, uSpec = spec, uClientSecret = [], uProvider = None, uHttpClient = None, uExtra = zeroExtra\<rparr>
         else
           (case httpclient_New env (upstreamHttpConfig upstreamProvider caPEM) of
              Inl err \<Rightarrow> Inl (''error creating http client: '' @ err)
            | Inr httpClient \<Rightarrow>
                (let u = \<lparr>uName' = nm, uSpec = spec, uClientSecret = clientSecret, uProvider = None,
                          uHttpClient = Some httpClient, uExtra = zeroExtra\<rparr>
                 in case usExplicitConfig spec of
                      None \<Rightarrow>
                        (case discover lib httpClient (usIssuerURL spec) of
                           Inl err \<Rightarrow> Inl (''error on upstream oidc provider: '' @ err)
                         | Inr provider \<Rightarrow>
                             (case providerClaims lib provider of
                                Inl err \<Rightarrow> Inl (''error fetching complementary endpoints: '' @ err)
                              | Inr extra \<Rightarrow> Inr (u\<lparr>uProvider := Some provider, uExtra := extra\<rparr>)))
                    | Some explicit \<Rightarrow>
                        Inr (u\<lparr>uProvider := map_option (configProvider lib httpClient)
                                 (ToOIDCProviderConfig (usIssuerURL spec) (Some explicit)),
                               uExtra := zeroExtra\<lparr>xIntrospectionURL := ucIntrospectionURL explicit,
                                 xEndSessionURL := ucEndSessionURL explicit, xJwksURL := ucJWKSURL explicit,
                                 xAlgorithms := ucAlgorithms explicit\<rparr>\<rparr>))))"

section \<open>Getters\<close>

definition GetDisplayName :: "upstream \<Rightarrow> string" where
  "GetDisplayName u = (if usDisplayName (uSpec u) \<noteq> [] then usDisplayName (uSpec u) else uName' u)"

definition GetProviderType :: "upstream \<Rightarrow> string" where
  "GetProviderType u = usType (uSpec u)"

definition IsClientSpecific :: "upstream \<Rightarrow> bool" where
  "IsClientSpecific u = usClientSpecific (uSpec u)"

definition LocalEnrichment :: "upstream \<Rightarrow> bool" where
  "LocalEnrichment u = BoolPtrTrue (usLocalEnrichment (uSpec u))"

definition UseUserInfo :: "upstream \<Rightarrow> bool" where
  "UseUserInfo u = usUseUserInfo (uSpec u)"

definition GetEffectiveConfig :: "upstream \<Rightarrow> UpstreamProviderConfig option" where
  "GetEffectiveConfig u =
     (case uProvider u of
        None \<Rightarrow> None
      | Some p \<Rightarrow>
          Some \<lparr>ucAuthURL = epAuthURL (pvEndpoint p), ucTokenURL = epTokenURL (pvEndpoint p),
                ucDeviceAuthURL = epDeviceAuthURL (pvEndpoint p), ucUserInfoURL = pvUserInfoEndpoint p,
                ucJWKSURL = xJwksURL (uExtra u), ucAlgorithms = xAlgorithms (uExtra u),
                ucIntrospectionURL = xIntrospectionURL (uExtra u), ucEndSessionURL = xEndSessionURL (uExtra u)\<rparr>)"

section \<open>Claims\<close>

definition oidcIDTokenRegisteredClaims :: "string list" where
  "oidcIDTokenRegisteredClaims =
     [''iss'', ''aud'', ''exp'', ''iat'', ''auth_time'', ''nonce'', ''acr'', ''amr'', ''azp'', ''at_hash'', ''c_hash'']"

definition cloneClaimSet :: "claims option \<Rightarrow> claims option" where
  "cloneClaimSet cs = (case cs of None \<Rightarrow> None | Some c \<Rightarrow> Some (gcopy c))"

definition CleanupClaims :: "upstream \<Rightarrow> claims option \<Rightarrow> claims option" where
  "CleanupClaims u cs =
     (case cloneClaimSet cs of
        None \<Rightarrow> None
      | Some out \<Rightarrow>
          Some (gdels (filter (\<lambda>k. k \<noteq> []) (usClaimRemovals (uSpec u))) (gdels oidcIDTokenRegisteredClaims out)))"

definition rename_step :: "ClaimRenamingSpec \<Rightarrow> claims \<Rightarrow> claims" where
  "rename_step rule out =
     (if OldName rule = [] \<or> NewName rule = [] then out
      else
        (case gget out (OldName rule) of
           None \<Rightarrow> out
         | Some val \<Rightarrow>
             if Operation rule = RenamingOperationCopy then gput (NewName rule) val out
             else gput (NewName rule) val (gdel (OldName rule) out)))"

definition PerformRenaming :: "upstream \<Rightarrow> claims option \<Rightarrow> claims option" where
  "PerformRenaming u cs =
     (if cs = None \<or> usClaimRenamings (uSpec u) = [] then cs
      else map_option (\<lambda>out. fold rename_step (usClaimRenamings (uSpec u)) out) (cloneClaimSet cs))"

section \<open>The authorization code flow\<close>

record OAuth2AuthCodeSettings =
  sClientID :: string
  sClientSecret :: string
  sRedirectURL :: string
  sEndpoint :: Endpoint
  sSupportsPKCES256 :: bool
  sScopes :: "string list"

definition supportsPKCES256 :: "upstream \<Rightarrow> bool" where
  "supportsPKCES256 u = list_ex (\<lambda>m. m = ''S256'') (xCodeChallengeMethods (uExtra u))"

definition AuthCodeSettings :: "upstream \<Rightarrow> OAuth2AuthCodeSettings option" where
  "AuthCodeSettings u =
     (case uProvider u of
        None \<Rightarrow> None
      | Some p \<Rightarrow>
          Some \<lparr>sClientID = usClientId (uSpec u), sClientSecret = uClientSecret u, sRedirectURL = usRedirectURL (uSpec u),
                sEndpoint = pvEndpoint p, sSupportsPKCES256 = supportsPKCES256 u, sScopes = usScopes (uSpec u)\<rparr>)"

definition ParseAndVerifyIDToken :: "OidcLib \<Rightarrow> upstream \<Rightarrow> string \<Rightarrow> string + claims" where
  "ParseAndVerifyIDToken lib u rawIDToken =
     (case uProvider u of
        None \<Rightarrow> Inl ''upstream has no OIDC provider''
      | Some p \<Rightarrow> verifyIDToken lib p (usClientId (uSpec u)) rawIDToken)"

definition FetchUserInfoClaims :: "OidcLib \<Rightarrow> upstream \<Rightarrow> string \<Rightarrow> string + claims option" where
  "FetchUserInfoClaims lib u token =
     (case uProvider u of
        None \<Rightarrow> Inr None
      | Some p \<Rightarrow>
          if pvUserInfoEndpoint p = [] then Inr None
          else (case userInfo lib p token of Inl err \<Rightarrow> Inl err | Inr c \<Rightarrow> Inr (Some c)))"

section \<open>The claims of an upstream\<close>

text \<open>
  What the renaming rules mean on abstract maps: an effective rule moves or copies the value of its old
  name to its new name, the rules one after the other.
\<close>

fun renamed :: "ClaimRenamingSpec list \<Rightarrow> (string \<rightharpoonup> gval) \<Rightarrow> string \<rightharpoonup> gval" where
  "renamed [] m = m"
| "renamed (rule # rules) m =
     renamed rules
       (if OldName rule = [] \<or> NewName rule = [] \<or> m (OldName rule) = None then m
        else (if Operation rule = RenamingOperationCopy then m else m(OldName rule := None))
               (NewName rule := m (OldName rule)))"

definition removed :: "upstream \<Rightarrow> string \<Rightarrow> bool" where
  "removed u k \<longleftrightarrow> k \<in> set oidcIDTokenRegisteredClaims \<or> (k \<noteq> [] \<and> k \<in> set (usClaimRemovals (uSpec u)))"

lemma wf_rename_step [simp]: "wf_gomap c \<Longrightarrow> wf_gomap (rename_step rule c)"
  by (simp add: rename_step_def split: option.split)

lemma gget_rename_step:
  "gget (rename_step rule c) =
     (if OldName rule = [] \<or> NewName rule = [] \<or> gget c (OldName rule) = None then gget c
      else (if Operation rule = RenamingOperationCopy then gget c else (gget c)(OldName rule := None))
             (NewName rule := gget c (OldName rule)))"
  by (auto simp: rename_step_def fun_eq_iff split: option.split)

lemma gget_rename_steps: "gget (fold rename_step rules c) = renamed rules (gget c)"
proof (induction rules arbitrary: c)
  case (Cons rule rules)
  have "gget (fold rename_step (rule # rules) c) = renamed rules (gget (rename_step rule c))"
    by (simp add: Cons.IH)
  then show ?case by (simp only: gget_rename_step renamed.simps)
qed simp

lemma wf_rename_steps: "wf_gomap c \<Longrightarrow> wf_gomap (fold rename_step rules c)"
  by (induction rules arbitrary: c) simp_all

lemma PerformRenaming_Some:
  assumes "wf_gomap c"
  shows "PerformRenaming u (Some c) = Some (fold rename_step (usClaimRenamings (uSpec u)) c)"
  using assms by (simp add: PerformRenaming_def cloneClaimSet_def)

lemma gget_CleanupClaims:
  assumes "wf_gomap c"
  shows "gget (entries (CleanupClaims u (Some c))) k = (if removed u k then None else gget c k)"
  using assms by (auto simp: CleanupClaims_def cloneClaimSet_def gget_gdels removed_def)

lemma renamed_origin: "renamed rules m k = Some v \<Longrightarrow> \<exists>k'. m k' = Some v"
proof (induction rules arbitrary: m)
  case (Cons rule rules)
  let ?m = "if OldName rule = [] \<or> NewName rule = [] \<or> m (OldName rule) = None then m
    else (if Operation rule = RenamingOperationCopy then m else m(OldName rule := None))(NewName rule := m (OldName rule))"
  obtain k' where "?m k' = Some v" using Cons.IH [of ?m] Cons.prems by auto
  then show ?case by (auto split: if_splits)
qed auto

lemma renamed_untouched:
  "\<forall>rule \<in> set rules. k \<noteq> OldName rule \<and> k \<noteq> NewName rule \<Longrightarrow> renamed rules m k = m k"
  by (induction rules arbitrary: m) auto

text \<open>
  C33: the claims taken over from an upstream provider.  After renaming and cleaning, a claim has the value
  the renaming rules, applied in their order, give it, unless it is one of the registered ID token claims
  or listed for removal, which are gone.  Every value comes from a claim of the upstream, and a claim that
  no rule mentions and that is not removed keeps its value.
\<close>

theorem upstream_claims:
  fixes u :: upstream
  assumes "wf_gomap c"
  defines "out \<equiv> entries (CleanupClaims u (PerformRenaming u (Some c)))"
  shows "gget out k = (if removed u k then None else renamed (usClaimRenamings (uSpec u)) (gget c) k)
    \<and> (\<forall>v. gget out k = Some v \<longrightarrow> (\<exists>k'. gget c k' = Some v))
    \<and> (\<not> removed u k \<and> (\<forall>rule \<in> set (usClaimRenamings (uSpec u)). k \<noteq> OldName rule \<and> k \<noteq> NewName rule) \<longrightarrow>
         gget out k = gget c k)"
proof -
  have at_k: "gget out k = (if removed u k then None else renamed (usClaimRenamings (uSpec u)) (gget c) k)"
    using assms(1) by (simp add: out_def PerformRenaming_Some gget_CleanupClaims wf_rename_steps gget_rename_steps)
  have "\<forall>v. gget out k = Some v \<longrightarrow> (\<exists>k'. gget c k' = Some v)"
    using renamed_origin [of "usClaimRenamings (uSpec u)" "gget c" k] by (simp add: at_k)
  moreover have "\<not> removed u k \<and> (\<forall>rule \<in> set (usClaimRenamings (uSpec u)). k \<noteq> OldName rule \<and> k \<noteq> NewName rule) \<longrightarrow>
      gget out k = gget c k"
    using renamed_untouched [of "usClaimRenamings (uSpec u)" k "gget c"] by (simp add: at_k)
  ultimately show ?thesis using at_k by blast
qed

definition sample_upstream :: upstream where
  "sample_upstream =
     (NewInternalUpstream ''x'')\<lparr>uSpec := zeroSpec\<lparr>
        usClaimRenamings := [\<lparr>OldName = ''upn'', NewName = ''sub'', Operation = []\<rparr>],
        usClaimRemovals := [''tid'']\<rparr>\<rparr>"

theorem upstream_claims_witness:
  "gget (entries (CleanupClaims sample_upstream (PerformRenaming sample_upstream
      (Some [(''upn'', VStr ''jim''), (''tid'', VStr ''t''), (''nonce'', VStr ''n'')])))) ''sub'' = Some (VStr ''jim'')"
proof -
  let ?c = "[(''upn'', VStr ''jim''), (''tid'', VStr ''t''), (''nonce'', VStr ''n'')]"
  have "wf_gomap ?c" by simp
  from upstream_claims [OF this, of sample_upstream "''sub''"] show ?thesis
    by (simp add: sample_upstream_def NewInternalUpstream_def zeroSpec_def removed_def
        oidcIDTokenRegisteredClaims_def RenamingOperationCopy_def)
qed

end
