(* ===== verification/OidcClient.thy ===== *)
theory OidcClient
  imports K8s
begin

text \<open>
  The OIDC clients: the resource of \<^verbatim>\<open>api/kubauth/v1alpha1/oidcclient_types.go\<close> and the client the server
  keeps for it, \<^verbatim>\<open>cmd/oidc/oidcstorage/kubauthclient.go\<close>.  Durations are nanoseconds.
\<close>

section \<open>The resource\<close>

record OidcClientSecretSpec =
  csName :: string
  csKey :: string
  csHashed :: bool

record OidcClientSpec =
  ocEnabled :: "bool option"
  ocSecrets :: "OidcClientSecretSpec list option"
  ocRedirectURIs :: "string list"
  ocGrantTypes :: "string list"
  ocResponseTypes :: "string list"
  ocScopes :: "string list"
  ocPublic :: bool
  ocAudiences :: "string list"
  ocForceOpenIdScope :: "bool option"
  ocStyle :: string
  ocPostLogoutURL :: string
  ocDisplayName :: string
  ocDescription :: string
  ocEntryURL :: string
  ocAccessTokenLifespan :: int
  ocRefreshTokenLifespan :: int
  ocIDTokenLifespan :: int
  ocClientId :: string
  ocUpstreamProviders :: "string list"

datatype OidcClientPhase = CPhaseNone | CPhaseReady | CPhaseError | CPhaseOff

record OidcClientStatus =
  otPhase :: OidcClientPhase
  otClientId :: string
  otMessage :: string

record OidcClient =
  oMeta :: ObjectMeta
  oSpec :: OidcClientSpec
  oStatus :: OidcClientStatus

section \<open>The client of the server\<close>

record kubauthClient =
  clientId :: string
  k8sObject :: OidcClient
  hashedSecrets :: "string list"
  k8sId :: string

definition NewKubauthClient :: "OidcClient \<Rightarrow> string \<Rightarrow> string list \<Rightarrow> kubauthClient" where
  "NewKubauthClient cli cid hashed =
     \<lparr>clientId = cid, k8sObject = cli, hashedSecrets = hashed,
      k8sId = mNamespace (oMeta cli) @ '':'' @ mName (oMeta cli)\<rparr>"

abbreviation kspec :: "kubauthClient \<Rightarrow> OidcClientSpec" where
  "kspec k \<equiv> oSpec (k8sObject k)"

definition GetID :: "kubauthClient \<Rightarrow> string" where [simp]:
  "GetID k = clientId k"

definition GetK8sId :: "kubauthClient \<Rightarrow> string" where [simp]:
  "GetK8sId k = k8sId k"

definition GetHashedSecret :: "kubauthClient \<Rightarrow> string option" where
  "GetHashedSecret k = (if length (hashedSecrets k) = 0 then None else Some (hashedSecrets k ! 0))"

definition GetRotatedHashes :: "kubauthClient \<Rightarrow> string list" where
  "GetRotatedHashes k = (if length (hashedSecrets k) < 1 then [] else drop 1 (hashedSecrets k))"

definition GetSecretCount :: "kubauthClient \<Rightarrow> nat" where
  "GetSecretCount k = length (hashedSecrets k)"

definition GetRedirectURIs :: "kubauthClient \<Rightarrow> string list" where [simp]:
  "GetRedirectURIs k = ocRedirectURIs (kspec k)"

definition GetGrantTypes :: "kubauthClient \<Rightarrow> string list" where [simp]:
  "GetGrantTypes k = ocGrantTypes (kspec k)"

definition GetResponseTypes :: "kubauthClient \<Rightarrow> string list" where [simp]:
  "GetResponseTypes k = ocResponseTypes (kspec k)"

definition GetScopes :: "kubauthClient \<Rightarrow> string list" where [simp]:
  "GetScopes k = ocScopes (kspec k)"

definition IsPublic :: "kubauthClient \<Rightarrow> bool" where [simp]:
  "IsPublic k = ocPublic (kspec k)"

fun audienceLoop :: "string \<Rightarrow> string list \<Rightarrow> bool" where
  "audienceLoop cid [] = False"
| "audienceLoop cid (aud # rest) = (if aud = cid then True else audienceLoop cid rest)"

definition GetAudience :: "kubauthClient \<Rightarrow> string list" where
  "GetAudience k =
     (if audienceLoop (clientId k) (ocAudiences (kspec k)) then ocAudiences (kspec k)
      else ocAudiences (kspec k) @ [clientId k])"

definition GetDescription :: "kubauthClient \<Rightarrow> string" where [simp]:
  "GetDescription k = ocDescription (kspec k)"

definition GetEntryURL :: "kubauthClient \<Rightarrow> string" where [simp]:
  "GetEntryURL k = ocEntryURL (kspec k)"

definition GetPostLogoutURL :: "kubauthClient \<Rightarrow> string" where [simp]:
  "GetPostLogoutURL k = ocPostLogoutURL (kspec k)"

definition GetClientDisplayName :: "kubauthClient \<Rightarrow> string" where [simp]:
  "GetClientDisplayName k = ocDisplayName (kspec k)"

definition IsForceOpenIdScope :: "kubauthClient \<Rightarrow> bool" where
  "IsForceOpenIdScope k = (case ocForceOpenIdScope (kspec k) of None \<Rightarrow> False | Some b \<Rightarrow> b)"

datatype TokenType = AccessToken | RefreshToken | IDToken | AuthorizeCode

definition GetEffectiveLifespan :: "kubauthClient \<Rightarrow> TokenType \<Rightarrow> int \<Rightarrow> int" where
  "GetEffectiveLifespan k tt fallback =
     (if tt = AccessToken then
        (if ocAccessTokenLifespan (kspec k) \<noteq> 0 then ocAccessTokenLifespan (kspec k) else fallback)
      else if tt = RefreshToken then
        (if ocRefreshTokenLifespan (kspec k) \<noteq> 0 then ocRefreshTokenLifespan (kspec k) else fallback)
      else if tt = IDToken then
        (if ocIDTokenLifespan (kspec k) \<noteq> 0 then ocIDTokenLifespan (kspec k) else fallback)
      else fallback)"

definition GetStyle :: "kubauthClient \<Rightarrow> string" where [simp]:
  "GetStyle k = ocStyle (kspec k)"

definition GetUpstreamProviders :: "kubauthClient \<Rightarrow> string list" where [simp]:
  "GetUpstreamProviders k = ocUpstreamProviders (kspec k)"

definition GetK8sObject :: "kubauthClient \<Rightarrow> OidcClient" where [simp]:
  "GetK8sObject k = k8sObject k"

text \<open>\<^verbatim>\<open>strings.SplitN(s, ":", 2)\<close>.\<close>

definition splitColon :: "string \<Rightarrow> string list" where
  "splitColon s =
     (if CHR '':'' \<in> set s
      then [takeWhile (\<lambda>c. c \<noteq> CHR '':'') s, tl (dropWhile (\<lambda>c. c \<noteq> CHR '':'') s)]
      else [s])"

definition parseK8sID :: "kubauthClient \<Rightarrow> (string \<times> string) option" where
  "parseK8sID k =
     (let parts = splitColon (k8sId k)
      in if length parts \<noteq> 2 then None else Some (parts ! 0, parts ! 1))"

section \<open>Results\<close>

lemma audienceLoop_iff [simp]: "audienceLoop cid auds \<longleftrightarrow> cid \<in> set auds"
  by (induction auds) auto

text \<open>
  The hashes a client secret is compared with are all the hashes of the client, the newest first, and the
  client's own id is always an admissible audience, added at most once.
\<close>

lemma client_secrets:
  "(case GetHashedSecret k of None \<Rightarrow> [] | Some h \<Rightarrow> [h]) @ GetRotatedHashes k = hashedSecrets k"
  by (cases "hashedSecrets k") (simp_all add: GetHashedSecret_def GetRotatedHashes_def)

lemma set_GetAudience: "set (GetAudience k) = insert (clientId k) (set (ocAudiences (kspec k)))"
  by (auto simp: GetAudience_def)

lemma distinct_GetAudience: "distinct (ocAudiences (kspec k)) \<Longrightarrow> distinct (GetAudience k)"
  by (simp add: GetAudience_def)

lemma splitColon_append: "CHR '':'' \<notin> set ns \<Longrightarrow> splitColon (ns @ '':'' @ n) = [ns, n]"
  by (simp add: splitColon_def takeWhile_tail dropWhile_append3) (induction ns, auto)

lemma parseK8sID_New:
  "CHR '':'' \<notin> set (mNamespace (oMeta cli)) \<Longrightarrow>
     parseK8sID (NewKubauthClient cli cid hashed) = Some (mNamespace (oMeta cli), mName (oMeta cli))"
  using splitColon_append [of "mNamespace (oMeta cli)" "mName (oMeta cli)"]
  by (simp add: parseK8sID_def NewKubauthClient_def)

lemma k8sId_injective:
  assumes "k8sId (NewKubauthClient a ca ha) = k8sId (NewKubauthClient b cb hb)"
    and "CHR '':'' \<notin> set (mNamespace (oMeta a))" "CHR '':'' \<notin> set (mNamespace (oMeta b))"
  shows "mNamespace (oMeta a) = mNamespace (oMeta b) \<and> mName (oMeta a) = mName (oMeta b)"
proof -
  have "parseK8sID (NewKubauthClient a ca ha) = parseK8sID (NewKubauthClient b cb hb)"
    using assms(1) by (simp add: parseK8sID_def)
  then show ?thesis using assms(2,3) by (simp add: parseK8sID_New)
qed

end
