(* ===== verification/Storage.thy ===== *)
theory Storage
  imports Upstream OidcClient HttpProvider
begin

text \<open>
  \<^verbatim>\<open>cmd/oidc/oidcstorage/memory.go\<close>: the in-memory store of the OIDC server.  It holds the clients, the
  upstream providers and everything the OAuth2 library stores between two requests.

  A stored request is a \<open>requester\<close>, of which the store only uses the identifier; the record is open, so
  the server extends it.  An operation that changes the store returns the new store and the error, if
  any.  Times are nanoseconds, and \<open>now\<close> is the time at which an operation runs.  The mutexes make every
  operation one step; \<open>store_run\<close> is a sequence of them.
\<close>

section \<open>State\<close>

datatype StoreErr =
  ErrNotFound | ErrInvalidatedAuthorizeCode | ErrInactiveToken | ErrJTIKnown
| ErrTypeAssertion | ClientDuplicationError string

record requester =
  reqId :: string

record 'x StoreAuthorizeCode =
  acActive :: bool
  acRequester :: "'x requester_scheme"

record 'x StoreRefreshToken =
  rtActive :: bool
  rtAccessTokenSignature :: string
  rtRequester :: "'x requester_scheme"

record PublicKeyScopes =
  pkKey :: string
  pkScopes :: "string list"

record 'x MemoryStore =
  Clients :: "kubauthClient gomap"
  AuthorizeCodes :: "'x StoreAuthorizeCode gomap"
  IDSessions :: "'x requester_scheme gomap"
  AccessTokens :: "'x requester_scheme gomap"
  RefreshTokens :: "'x StoreRefreshToken gomap"
  PKCES :: "'x requester_scheme gomap"
  BlacklistedJTIs :: "int gomap"
  AccessTokenRequestIDs :: "string gomap"
  RefreshTokenRequestIDs :: "string gomap"
  IssuerPublicKeys :: "PublicKeyScopes gomap gomap gomap"
  PARSessions :: "'x requester_scheme gomap"
  Upstreams :: "upstream gomap"
  Authenticator :: "string \<Rightarrow> string \<Rightarrow> string + OidcUser option"
  Issuer :: string
  KeyID :: string
  AllowPasswordGrant :: bool

definition NewMemoryStore :: "(string \<Rightarrow> string \<Rightarrow> string + OidcUser option) \<Rightarrow> 'x MemoryStore" where
  "NewMemoryStore idp =
     \<lparr>Clients = [], AuthorizeCodes = [], IDSessions = [], AccessTokens = [], RefreshTokens = [], PKCES = [],
      BlacklistedJTIs = [], AccessTokenRequestIDs = [], RefreshTokenRequestIDs = [], IssuerPublicKeys = [],
      PARSessions = [], Upstreams = [], Authenticator = idp, Issuer = [], KeyID = [], AllowPasswordGrant = False\<rparr>"

text \<open>What a lookup of a session returns: the request, if any, and the error, if any.\<close>

type_synonym 'r lookup = "'r option \<times> StoreErr option"

definition lookup_in :: "'r gomap \<Rightarrow> string \<Rightarrow> 'r lookup" where
  "lookup_in m k = (case gget m k of None \<Rightarrow> (None, Some ErrNotFound) | Some r \<Rightarrow> (Some r, None))"

section \<open>OpenID Connect sessions\<close>

definition CreateOpenIDConnectSession :: "'x MemoryStore \<Rightarrow> string \<Rightarrow> 'x requester_scheme \<Rightarrow> 'x MemoryStore" where
  "CreateOpenIDConnectSession s authorizeCode r = s\<lparr>IDSessions := gput authorizeCode r (IDSessions s)\<rparr>"

definition GetOpenIDConnectSession :: "'x MemoryStore \<Rightarrow> string \<Rightarrow> 'x requester_scheme lookup" where
  "GetOpenIDConnectSession s authorizeCode = lookup_in (IDSessions s) authorizeCode"

definition DeleteOpenIDConnectSession :: "'x MemoryStore \<Rightarrow> string \<Rightarrow> 'x MemoryStore" where
  "DeleteOpenIDConnectSession s authorizeCode = s\<lparr>IDSessions := gdel authorizeCode (IDSessions s)\<rparr>"

section \<open>Upstreams and clients\<close>

definition GetUpstream :: "'x MemoryStore \<Rightarrow> string \<Rightarrow> upstream option" where
  "GetUpstream s nm = gget (Upstreams s) nm"

definition GetUpstreams :: "'x MemoryStore \<Rightarrow> upstream list" where
  "GetUpstreams s = map snd (Upstreams s)"

definition SetUpstream :: "'x MemoryStore \<Rightarrow> upstream \<Rightarrow> 'x MemoryStore" where
  "SetUpstream s u = s\<lparr>Upstreams := gput (uName' u) u (Upstreams s)\<rparr>"

definition DeleteUpstream :: "'x MemoryStore \<Rightarrow> string \<Rightarrow> 'x MemoryStore" where
  "DeleteUpstream s nm = s\<lparr>Upstreams := gdel nm (Upstreams s)\<rparr>"

definition GetKubauthClient :: "'x MemoryStore \<Rightarrow> string \<Rightarrow> StoreErr + kubauthClient" where
  "GetKubauthClient s cid = (case gget (Clients s) cid of None \<Rightarrow> Inl ErrNotFound | Some cl \<Rightarrow> Inr cl)"

definition SetClient :: "'x MemoryStore \<Rightarrow> kubauthClient \<Rightarrow> 'x MemoryStore \<times> StoreErr option" where
  "SetClient s client =
     (case gget (Clients s) (GetID client) of
        Some oldClient \<Rightarrow>
          if GetK8sId oldClient \<noteq> GetK8sId client then (s, Some (ClientDuplicationError (GetK8sId oldClient)))
          else (s\<lparr>Clients := gput (GetID client) client (Clients s)\<rparr>, None)
      | None \<Rightarrow> (s\<lparr>Clients := gput (GetID client) client (Clients s)\<rparr>, None))"

definition DeleteClient :: "'x MemoryStore \<Rightarrow> string \<Rightarrow> 'x MemoryStore" where
  "DeleteClient s cid = s\<lparr>Clients := gdel cid (Clients s)\<rparr>"

text \<open>
  \<^verbatim>\<open>SetTokenLifespans\<close>: the clients of the store are \<open>kubauthClient\<close>s, never the library's client type
  the assertion asks for.
\<close>

definition SetTokenLifespans :: "'x MemoryStore \<Rightarrow> string \<Rightarrow> StoreErr option" where
  "SetTokenLifespans s cid =
     (case gget (Clients s) cid of Some client \<Rightarrow> Some ErrTypeAssertion | None \<Rightarrow> Some ErrNotFound)"

section \<open>Identifiers of client assertions\<close>

definition ClientAssertionJWTValid :: "int \<Rightarrow> 'x MemoryStore \<Rightarrow> string \<Rightarrow> StoreErr option" where
  "ClientAssertionJWTValid now s jti =
     (case gget (BlacklistedJTIs s) jti of
        Some expiry \<Rightarrow> if expiry > now then Some ErrJTIKnown else None
      | None \<Rightarrow> None)"

definition SetClientAssertionJWT :: "int \<Rightarrow> 'x MemoryStore \<Rightarrow> string \<Rightarrow> int \<Rightarrow> 'x MemoryStore \<times> StoreErr option" where
  "SetClientAssertionJWT now s jti expiry =
     (let kept = filter (\<lambda>(j, e). \<not> e < now) (BlacklistedJTIs s);
          s' = s\<lparr>BlacklistedJTIs := kept\<rparr>
      in if gget kept jti \<noteq> None then (s', Some ErrJTIKnown)
         else (s'\<lparr>BlacklistedJTIs := gput jti expiry kept\<rparr>, None))"

definition IsJWTUsed :: "int \<Rightarrow> 'x MemoryStore \<Rightarrow> string \<Rightarrow> bool" where
  "IsJWTUsed now s jti = (case ClientAssertionJWTValid now s jti of Some err \<Rightarrow> True | None \<Rightarrow> False)"

definition MarkJWTUsedForTime :: "int \<Rightarrow> 'x MemoryStore \<Rightarrow> string \<Rightarrow> int \<Rightarrow> 'x MemoryStore \<times> StoreErr option" where
  "MarkJWTUsedForTime now s jti expiry = SetClientAssertionJWT now s jti expiry"

section \<open>Authorization codes\<close>

definition CreateAuthorizeCodeSession :: "'x MemoryStore \<Rightarrow> string \<Rightarrow> 'x requester_scheme \<Rightarrow> 'x MemoryStore" where
  "CreateAuthorizeCodeSession s code r =
     s\<lparr>AuthorizeCodes := gput code \<lparr>acActive = True, acRequester = r\<rparr> (AuthorizeCodes s)\<rparr>"

definition GetAuthorizeCodeSession :: "'x MemoryStore \<Rightarrow> string \<Rightarrow> 'x requester_scheme lookup" where
  "GetAuthorizeCodeSession s code =
     (case gget (AuthorizeCodes s) code of
        None \<Rightarrow> (None, Some ErrNotFound)
      | Some rel \<Rightarrow>
          if \<not> acActive rel then (Some (acRequester rel), Some ErrInvalidatedAuthorizeCode)
          else (Some (acRequester rel), None))"

definition InvalidateAuthorizeCodeSession :: "'x MemoryStore \<Rightarrow> string \<Rightarrow> 'x MemoryStore \<times> StoreErr option" where
  "InvalidateAuthorizeCodeSession s code =
     (case gget (AuthorizeCodes s) code of
        None \<Rightarrow> (s, Some ErrNotFound)
      | Some rel \<Rightarrow> (s\<lparr>AuthorizeCodes := gput code (rel\<lparr>acActive := False\<rparr>) (AuthorizeCodes s)\<rparr>, None))"

definition CreatePKCERequestSession :: "'x MemoryStore \<Rightarrow> string \<Rightarrow> 'x requester_scheme \<Rightarrow> 'x MemoryStore" where
  "CreatePKCERequestSession s code r = s\<lparr>PKCES := gput code r (PKCES s)\<rparr>"

definition GetPKCERequestSession :: "'x MemoryStore \<Rightarrow> string \<Rightarrow> 'x requester_scheme lookup" where
  "GetPKCERequestSession s code = lookup_in (PKCES s) code"

definition DeletePKCERequestSession :: "'x MemoryStore \<Rightarrow> string \<Rightarrow> 'x MemoryStore" where
  "DeletePKCERequestSession s code = s\<lparr>PKCES := gdel code (PKCES s)\<rparr>"

section \<open>Tokens\<close>

definition CreateAccessTokenSession :: "'x MemoryStore \<Rightarrow> string \<Rightarrow> 'x requester_scheme \<Rightarrow> 'x MemoryStore" where
  "CreateAccessTokenSession s signature r =
     s\<lparr>AccessTokens := gput signature r (AccessTokens s),
       AccessTokenRequestIDs := gput (reqId r) signature (AccessTokenRequestIDs s)\<rparr>"

definition GetAccessTokenSession :: "'x MemoryStore \<Rightarrow> string \<Rightarrow> 'x requester_scheme lookup" where
  "GetAccessTokenSession s signature = lookup_in (AccessTokens s) signature"

definition DeleteAccessTokenSession :: "'x MemoryStore \<Rightarrow> string \<Rightarrow> 'x MemoryStore" where
  "DeleteAccessTokenSession s signature = s\<lparr>AccessTokens := gdel signature (AccessTokens s)\<rparr>"

definition CreateRefreshTokenSession ::
  "'x MemoryStore \<Rightarrow> string \<Rightarrow> string \<Rightarrow> 'x requester_scheme \<Rightarrow> 'x MemoryStore" where
  "CreateRefreshTokenSession s signature accessTokenSignature r =
     s\<lparr>RefreshTokens := gput signature
           \<lparr>rtActive = True, rtAccessTokenSignature = accessTokenSignature, rtRequester = r\<rparr> (RefreshTokens s),
       RefreshTokenRequestIDs := gput (reqId r) signature (RefreshTokenRequestIDs s)\<rparr>"

definition GetRefreshTokenSession :: "'x MemoryStore \<Rightarrow> string \<Rightarrow> 'x requester_scheme lookup" where
  "GetRefreshTokenSession s signature =
     (case gget (RefreshTokens s) signature of
        None \<Rightarrow> (None, Some ErrNotFound)
      | Some rel \<Rightarrow>
          if \<not> rtActive rel then (Some (rtRequester rel), Some ErrInactiveToken)
          else (Some (rtRequester rel), None))"

definition DeleteRefreshTokenSession :: "'x MemoryStore \<Rightarrow> string \<Rightarrow> 'x MemoryStore" where
  "DeleteRefreshTokenSession s signature = s\<lparr>RefreshTokens := gdel signature (RefreshTokens s)\<rparr>"

definition RevokeRefreshToken :: "'x MemoryStore \<Rightarrow> string \<Rightarrow> 'x MemoryStore \<times> StoreErr option" where
  "RevokeRefreshToken s requestID =
     (case gget (RefreshTokenRequestIDs s) requestID of
        Some signature \<Rightarrow>
          (case gget (RefreshTokens s) signature of
             None \<Rightarrow> (s, Some ErrNotFound)
           | Some rel \<Rightarrow> (s\<lparr>RefreshTokens := gput signature (rel\<lparr>rtActive := False\<rparr>) (RefreshTokens s)\<rparr>, None))
      | None \<Rightarrow> (s, None))"

definition RevokeAccessToken :: "'x MemoryStore \<Rightarrow> string \<Rightarrow> 'x MemoryStore" where
  "RevokeAccessToken s requestID =
     (case gget (AccessTokenRequestIDs s) requestID of
        Some signature \<Rightarrow> DeleteAccessTokenSession s signature
      | None \<Rightarrow> s)"

definition RotateRefreshToken :: "'x MemoryStore \<Rightarrow> string \<Rightarrow> string \<Rightarrow> 'x MemoryStore \<times> StoreErr option" where
  "RotateRefreshToken s requestID refreshTokenSignature =
     (case RevokeRefreshToken s requestID of
        (s', Some err) \<Rightarrow> (s', Some err)
      | (s', None) \<Rightarrow> (RevokeAccessToken s' requestID, None))"

section \<open>Users, keys, pushed requests\<close>

text \<open>\<^verbatim>\<open>Authenticate\<close> reads the login of the user without testing that there is one.\<close>

definition memory_Authenticate :: "'x MemoryStore \<Rightarrow> string \<Rightarrow> string \<Rightarrow> (string + string) outcome" where
  "memory_Authenticate s nm secret =
     (case Authenticator s nm secret of
        Inl err \<Rightarrow> Returns (Inl err)
      | Inr usr \<Rightarrow> (case usr of None \<Rightarrow> Panics | Some u \<Rightarrow> Returns (Inr (ouLogin u))))"

definition AuthenticateUserWithClaims :: "'x MemoryStore \<Rightarrow> string \<Rightarrow> string \<Rightarrow> string + OidcUser option" where
  "AuthenticateUserWithClaims s nm secret = Authenticator s nm secret"

definition GetIssuer :: "'x MemoryStore \<Rightarrow> string" where [simp]:
  "GetIssuer s = Issuer s"

definition GetKeyID :: "'x MemoryStore \<Rightarrow> string" where [simp]:
  "GetKeyID s = KeyID s"

definition IsAllowPasswordGrant :: "'x MemoryStore \<Rightarrow> bool" where [simp]:
  "IsAllowPasswordGrant s = AllowPasswordGrant s"

definition subjectKeys :: "'x MemoryStore \<Rightarrow> string \<Rightarrow> string \<Rightarrow> PublicKeyScopes gomap option" where
  "subjectKeys s issuer subject =
     (case gget (IssuerPublicKeys s) issuer of
        Some issuerKeys \<Rightarrow> gget issuerKeys subject
      | None \<Rightarrow> None)"

definition GetPublicKey :: "'x MemoryStore \<Rightarrow> string \<Rightarrow> string \<Rightarrow> string \<Rightarrow> StoreErr + string" where
  "GetPublicKey s issuer subject keyId =
     (case subjectKeys s issuer subject of
        Some subKeys \<Rightarrow>
          (case gget subKeys keyId of Some keyScopes \<Rightarrow> Inr (pkKey keyScopes) | None \<Rightarrow> Inl ErrNotFound)
      | None \<Rightarrow> Inl ErrNotFound)"

definition GetPublicKeys :: "'x MemoryStore \<Rightarrow> string \<Rightarrow> string \<Rightarrow> StoreErr + string list" where
  "GetPublicKeys s issuer subject =
     (case subjectKeys s issuer subject of
        Some subKeys \<Rightarrow>
          if length subKeys = 0 then Inl ErrNotFound else Inr (map (\<lambda>(k, keyScopes). pkKey keyScopes) subKeys)
      | None \<Rightarrow> Inl ErrNotFound)"

definition GetPublicKeyScopes :: "'x MemoryStore \<Rightarrow> string \<Rightarrow> string \<Rightarrow> string \<Rightarrow> StoreErr + string list" where
  "GetPublicKeyScopes s issuer subject keyId =
     (case subjectKeys s issuer subject of
        Some subKeys \<Rightarrow>
          (case gget subKeys keyId of Some keyScopes \<Rightarrow> Inr (pkScopes keyScopes) | None \<Rightarrow> Inl ErrNotFound)
      | None \<Rightarrow> Inl ErrNotFound)"

definition CreatePARSession :: "'x MemoryStore \<Rightarrow> string \<Rightarrow> 'x requester_scheme \<Rightarrow> 'x MemoryStore" where
  "CreatePARSession s requestURI r = s\<lparr>PARSessions := gput requestURI r (PARSessions s)\<rparr>"

definition GetPARSession :: "'x MemoryStore \<Rightarrow> string \<Rightarrow> 'x requester_scheme lookup" where
  "GetPARSession s requestURI = lookup_in (PARSessions s) requestURI"

definition DeletePARSession :: "'x MemoryStore \<Rightarrow> string \<Rightarrow> 'x MemoryStore" where
  "DeletePARSession s requestURI = s\<lparr>PARSessions := gdel requestURI (PARSessions s)\<rparr>"

end
