(* ===== verification/StorageRuns.thy ===== *)
theory StorageRuns
  imports Storage
begin

text \<open>
  Sequences of operations of the store: the four plain session tables are finite maps, an authorization
  code is used once, rotating a refresh token revokes every token of its request, and the identifier of a
  client assertion is not accepted twice.
\<close>

section \<open>Sessions by key\<close>

text \<open>The operations of one table, and what a sequence of them does to an abstract map.\<close>

datatype 'r table_op = TCreate string 'r | TDelete string

fun table_run :: "('s \<Rightarrow> string \<Rightarrow> 'r \<Rightarrow> 's) \<Rightarrow> ('s \<Rightarrow> string \<Rightarrow> 's) \<Rightarrow> 'r table_op list \<Rightarrow> 's \<Rightarrow> 's" where
  "table_run create del [] s = s"
| "table_run create del (TCreate k r # ops) s = table_run create del ops (create s k r)"
| "table_run create del (TDelete k # ops) s = table_run create del ops (del s k)"

fun map_run :: "'r table_op list \<Rightarrow> (string \<rightharpoonup> 'r) \<Rightarrow> string \<rightharpoonup> 'r" where
  "map_run [] m = m"
| "map_run (TCreate k r # ops) m = map_run ops (m(k \<mapsto> r))"
| "map_run (TDelete k # ops) m = map_run ops (m(k := None))"

definition answer :: "'r option \<Rightarrow> 'r lookup" where
  "answer r = (r, if r = None then Some ErrNotFound else None)"

locale session_table =
  fixes create :: "'s \<Rightarrow> string \<Rightarrow> 'r \<Rightarrow> 's"
    and get :: "'s \<Rightarrow> string \<Rightarrow> 'r lookup"
    and del :: "'s \<Rightarrow> string \<Rightarrow> 's"
    and abs_table :: "'s \<Rightarrow> string \<rightharpoonup> 'r"
  assumes get_abs: "get s k = answer (abs_table s k)"
    and abs_create: "abs_table (create s k r) = (abs_table s)(k \<mapsto> r)"
    and abs_del: "abs_table (del s k) = (abs_table s)(k := None)"
begin

lemma abs_run: "abs_table (table_run create del ops s) = map_run ops (abs_table s)"
proof (induction ops arbitrary: s)
  case (Cons op ops)
  then show ?case by (cases op) (simp_all add: abs_create abs_del fun_upd_def)
qed simp

lemma get_run: "get (table_run create del ops s) k = answer (map_run ops (abs_table s) k)"
  by (simp add: get_abs abs_run)

end

lemma lookup_in_answer: "lookup_in m k = answer (gget m k)"
  by (simp add: lookup_in_def answer_def split: option.split)

lemmas table_defs = lookup_in_answer fun_eq_iff

interpretation openid_table: session_table CreateOpenIDConnectSession GetOpenIDConnectSession
    DeleteOpenIDConnectSession "\<lambda>s. gget (IDSessions s)"
  by unfold_locales
    (simp_all add: table_defs CreateOpenIDConnectSession_def GetOpenIDConnectSession_def DeleteOpenIDConnectSession_def)

interpretation pkce_table: session_table CreatePKCERequestSession GetPKCERequestSession
    DeletePKCERequestSession "\<lambda>s. gget (PKCES s)"
  by unfold_locales
    (simp_all add: table_defs CreatePKCERequestSession_def GetPKCERequestSession_def DeletePKCERequestSession_def)

interpretation par_table: session_table CreatePARSession GetPARSession DeletePARSession "\<lambda>s. gget (PARSessions s)"
  by unfold_locales (simp_all add: table_defs CreatePARSession_def GetPARSession_def DeletePARSession_def)

interpretation access_table: session_table CreateAccessTokenSession GetAccessTokenSession
    DeleteAccessTokenSession "\<lambda>s. gget (AccessTokens s)"
  by unfold_locales
    (simp_all add: table_defs CreateAccessTokenSession_def GetAccessTokenSession_def DeleteAccessTokenSession_def)


section \<open>Steps\<close>

datatype 'x store_op =
  OpCreateCode string "'x requester_scheme" | OpInvalidateCode string
| OpCreateAccess string "'x requester_scheme" | OpDeleteAccess string | OpRevokeAccess string
| OpCreateRefresh string string "'x requester_scheme" | OpDeleteRefresh string | OpRevokeRefresh string
| OpRotate string string
| OpSetJWT string int
| OpCreateOpenID string "'x requester_scheme" | OpDeleteOpenID string
| OpCreatePKCE string "'x requester_scheme" | OpDeletePKCE string
| OpCreatePAR string "'x requester_scheme" | OpDeletePAR string
| OpSetClient kubauthClient | OpDeleteClient string | OpSetUpstream upstream | OpDeleteUpstream string

fun store_step :: "int \<Rightarrow> 'x store_op \<Rightarrow> 'x MemoryStore \<Rightarrow> 'x MemoryStore" where
  "store_step now (OpCreateCode c r) s = CreateAuthorizeCodeSession s c r"
| "store_step now (OpInvalidateCode c) s = fst (InvalidateAuthorizeCodeSession s c)"
| "store_step now (OpCreateAccess g r) s = CreateAccessTokenSession s g r"
| "store_step now (OpDeleteAccess g) s = DeleteAccessTokenSession s g"
| "store_step now (OpRevokeAccess i) s = RevokeAccessToken s i"
| "store_step now (OpCreateRefresh g a r) s = CreateRefreshTokenSession s g a r"
| "store_step now (OpDeleteRefresh g) s = DeleteRefreshTokenSession s g"
| "store_step now (OpRevokeRefresh i) s = fst (RevokeRefreshToken s i)"
| "store_step now (OpRotate i g) s = fst (RotateRefreshToken s i g)"
| "store_step now (OpSetJWT j e) s = fst (SetClientAssertionJWT now s j e)"
| "store_step now (OpCreateOpenID c r) s = CreateOpenIDConnectSession s c r"
| "store_step now (OpDeleteOpenID c) s = DeleteOpenIDConnectSession s c"
| "store_step now (OpCreatePKCE c r) s = CreatePKCERequestSession s c r"
| "store_step now (OpDeletePKCE c) s = DeletePKCERequestSession s c"
| "store_step now (OpCreatePAR c r) s = CreatePARSession s c r"
| "store_step now (OpDeletePAR c) s = DeletePARSession s c"
| "store_step now (OpSetClient c) s = fst (SetClient s c)"
| "store_step now (OpDeleteClient i) s = DeleteClient s i"
| "store_step now (OpSetUpstream u) s = SetUpstream s u"
| "store_step now (OpDeleteUpstream n) s = DeleteUpstream s n"

definition store_run :: "(int \<times> 'x store_op) list \<Rightarrow> 'x MemoryStore \<Rightarrow> 'x MemoryStore" where
  "store_run ops s = fold (\<lambda>(now, op). store_step now op) ops s"

lemma store_run_simps [simp]:
  "store_run [] s = s"
  "store_run ((now, op) # ops) s = store_run ops (store_step now op s)"
  by (simp_all add: store_run_def)

lemmas code_ops = CreateAuthorizeCodeSession_def InvalidateAuthorizeCodeSession_def
lemmas access_ops = CreateAccessTokenSession_def DeleteAccessTokenSession_def RevokeAccessToken_def
lemmas refresh_ops = CreateRefreshTokenSession_def DeleteRefreshTokenSession_def RevokeRefreshToken_def RotateRefreshToken_def
lemmas session_ops = CreateOpenIDConnectSession_def DeleteOpenIDConnectSession_def CreatePKCERequestSession_def
  DeletePKCERequestSession_def CreatePARSession_def DeletePARSession_def
lemmas registry_ops = SetClient_def DeleteClient_def SetUpstream_def DeleteUpstream_def
lemmas store_ops = code_ops access_ops refresh_ops session_ops registry_ops SetClientAssertionJWT_def Let_def

section \<open>An authorization code is used once\<close>

lemma used_code_step:
  assumes "gget (AuthorizeCodes s) code = Some rel" "\<not> acActive rel" "\<forall>r. op \<noteq> OpCreateCode code r"
  shows "gget (AuthorizeCodes (store_step now op s)) code = Some rel"
  using assms by (cases op) (auto simp: store_ops split: option.splits)

lemma used_code_run:
  "gget (AuthorizeCodes s) code = Some rel \<Longrightarrow> \<not> acActive rel \<Longrightarrow> \<forall>r. OpCreateCode code r \<notin> snd ` set ops \<Longrightarrow>
     gget (AuthorizeCodes (store_run ops s)) code = Some rel"
proof (induction ops arbitrary: s)
  case (Cons top ops)
  obtain now op where "top = (now, op)" by force
  with Cons.prems used_code_step [of s code rel op now] show ?case
    by (auto intro!: Cons.IH)
qed simp

text \<open>
  C12: an authorization code is used once.  After a code that is in use has been invalidated, whatever the
  server does with the store except issuing the same code again, every lookup of the code reports that it
  was invalidated and still returns the request it belonged to, so that the tokens issued for it can be
  revoked.
\<close>

theorem authorize_code_single_use:
  assumes "GetAuthorizeCodeSession s code = (Some r, None)"
    and "InvalidateAuthorizeCodeSession s code = (s', err)"
    and "\<forall>r'. OpCreateCode code r' \<notin> snd ` set ops"
  shows "err = None \<and> GetAuthorizeCodeSession (store_run ops s') code = (Some r, Some ErrInvalidatedAuthorizeCode)"
proof -
  obtain rel where rel: "gget (AuthorizeCodes s) code = Some rel" "acRequester rel = r"
    using assms(1) by (auto simp: GetAuthorizeCodeSession_def split: option.splits if_splits)
  have "gget (AuthorizeCodes s') code = Some (rel\<lparr>acActive := False\<rparr>)" "err = None"
    using assms(2) rel(1) by (auto simp: InvalidateAuthorizeCodeSession_def)
  with used_code_run [of s' code "rel\<lparr>acActive := False\<rparr>" ops] assms(3) rel(2) show ?thesis
    by (simp add: GetAuthorizeCodeSession_def)
qed

theorem authorize_code_single_use_witness:
  "let s = CreateAuthorizeCodeSession (NewMemoryStore (\<lambda>l p. Inr None)) ''c'' \<lparr>reqId = ''r1''\<rparr>
   in GetAuthorizeCodeSession (store_run [(5, OpCreateCode ''d'' \<lparr>reqId = ''r2''\<rparr>), (6, OpRotate ''r1'' ''x'')]
        (fst (InvalidateAuthorizeCodeSession s ''c''))) ''c'' = (Some \<lparr>reqId = ''r1''\<rparr>, Some ErrInvalidatedAuthorizeCode)"
proof -
  let ?s = "CreateAuthorizeCodeSession (NewMemoryStore (\<lambda>l p. Inr None)) ''c'' \<lparr>reqId = ''r1''\<rparr>"
  have "GetAuthorizeCodeSession ?s ''c'' = (Some \<lparr>reqId = ''r1''\<rparr>, None)"
    by (simp add: GetAuthorizeCodeSession_def CreateAuthorizeCodeSession_def NewMemoryStore_def)
  from authorize_code_single_use [OF this surjective_pairing,
      of "[(5, OpCreateCode ''d'' \<lparr>reqId = ''r2''\<rparr>), (6, OpRotate ''r1'' ''x'')]"]
  show ?thesis by (simp add: Let_def)
qed

section \<open>Rotation revokes the tokens of a request\<close>

text \<open>
  How the OAuth2 library uses the store: a token is created with a new signature, and only for a request
  that has no usable token of the kind any more (a refresh is preceded by a rotation).
\<close>

fun disciplined :: "'x MemoryStore \<Rightarrow> 'x store_op \<Rightarrow> bool" where
  "disciplined s (OpCreateRefresh g a r) \<longleftrightarrow>
     g \<notin> snd ` set (RefreshTokenRequestIDs s)
     \<and> (\<forall>(g', rel) \<in> set (RefreshTokens s). rtActive rel \<longrightarrow> reqId (rtRequester rel) \<noteq> reqId r)"
| "disciplined s (OpCreateAccess g r) \<longleftrightarrow>
     g \<notin> snd ` set (AccessTokenRequestIDs s)
     \<and> (\<forall>(g', r') \<in> set (AccessTokens s). reqId r' \<noteq> reqId r)"
| "disciplined s _ \<longleftrightarrow> True"

inductive reachable_store :: "'x MemoryStore \<Rightarrow> bool" where
  new: "reachable_store (NewMemoryStore idp)"
| step: "reachable_store s \<Longrightarrow> disciplined s op \<Longrightarrow> reachable_store (store_step now op s)"

text \<open>
  The index from requests to signatures knows every usable token, and does not lead to a token of another
  request.
\<close>

definition refresh_index_ok :: "'x MemoryStore \<Rightarrow> bool" where
  "refresh_index_ok s \<longleftrightarrow>
     (\<forall>g rel. gget (RefreshTokens s) g = Some rel \<and> rtActive rel \<longrightarrow>
        gget (RefreshTokenRequestIDs s) (reqId (rtRequester rel)) = Some g)
     \<and> (\<forall>i g rel. gget (RefreshTokenRequestIDs s) i = Some g \<and> gget (RefreshTokens s) g = Some rel \<longrightarrow>
        reqId (rtRequester rel) = i)"

definition access_index_ok :: "'x MemoryStore \<Rightarrow> bool" where
  "access_index_ok s \<longleftrightarrow>
     (\<forall>g r. gget (AccessTokens s) g = Some r \<longrightarrow> gget (AccessTokenRequestIDs s) (reqId r) = Some g)
     \<and> (\<forall>i g r. gget (AccessTokenRequestIDs s) i = Some g \<and> gget (AccessTokens s) g = Some r \<longrightarrow> reqId r = i)"

lemma gget_in_ran: "gget m i = Some g \<Longrightarrow> g \<in> snd ` set m"
  by (force dest: map_of_SomeD)

lemma refresh_index_create:
  assumes "refresh_index_ok s" "disciplined s (OpCreateRefresh g a r)"
  shows "refresh_index_ok (CreateRefreshTokenSession s g a r)"
proof -
  have ids: "gget (RefreshTokenRequestIDs s) i \<noteq> Some g" for i
    using assms(2) gget_in_ran [of "RefreshTokenRequestIDs s" i g] by auto
  have idle: "gget (RefreshTokens s) g' = Some rel \<Longrightarrow> rtActive rel \<Longrightarrow> reqId (rtRequester rel) \<noteq> reqId r" for g' rel
    using assms(2) by (force dest: map_of_SomeD)
  show ?thesis
    using assms(1) ids idle
    by (auto simp: refresh_index_ok_def CreateRefreshTokenSession_def)
qed

lemma refresh_index_put_inactive:
  assumes "refresh_index_ok s" "gget (RefreshTokens s) g = Some rel"
  shows "refresh_index_ok (s\<lparr>RefreshTokens := gput g (rel\<lparr>rtActive := False\<rparr>) (RefreshTokens s)\<rparr>)"
  using assms by (auto simp: refresh_index_ok_def)

lemma refresh_index_revoke: "refresh_index_ok s \<Longrightarrow> refresh_index_ok (fst (RevokeRefreshToken s i))"
  by (auto simp: RevokeRefreshToken_def refresh_index_put_inactive split: option.split)

lemma refresh_index_frame:
  "RefreshTokens s' = RefreshTokens s \<Longrightarrow> RefreshTokenRequestIDs s' = RefreshTokenRequestIDs s \<Longrightarrow>
     refresh_index_ok s' = refresh_index_ok s"
  by (simp add: refresh_index_ok_def)

lemma RevokeAccessToken_frame [simp]:
  "RefreshTokens (RevokeAccessToken s i) = RefreshTokens s"
  "RefreshTokenRequestIDs (RevokeAccessToken s i) = RefreshTokenRequestIDs s"
  by (simp_all add: access_ops split: option.split)

lemma RevokeRefreshToken_frame [simp]:
  "AccessTokens (fst (RevokeRefreshToken s i)) = AccessTokens s"
  "AccessTokenRequestIDs (fst (RevokeRefreshToken s i)) = AccessTokenRequestIDs s"
  by (simp_all add: RevokeRefreshToken_def split: option.split)

lemma RotateRefreshToken_fst:
  "fst (RotateRefreshToken s i g) =
     (if snd (RevokeRefreshToken s i) = None then RevokeAccessToken (fst (RevokeRefreshToken s i)) i
      else fst (RevokeRefreshToken s i))"
  by (simp add: RotateRefreshToken_def split: prod.split option.split)

lemma refresh_index_delete: "refresh_index_ok s \<Longrightarrow> refresh_index_ok (DeleteRefreshTokenSession s g)"
  by (auto simp: refresh_index_ok_def DeleteRefreshTokenSession_def)

lemma refresh_index_rotate: "refresh_index_ok s \<Longrightarrow> refresh_index_ok (fst (RotateRefreshToken s i g))"
  using refresh_index_revoke [of s i]
    refresh_index_frame [of "RevokeAccessToken (fst (RevokeRefreshToken s i)) i" "fst (RevokeRefreshToken s i)"]
  by (simp add: RotateRefreshToken_fst)

lemma refresh_index_step:
  assumes "refresh_index_ok s" "disciplined s op"
  shows "refresh_index_ok (store_step now op s)"
proof (cases op)
  case (OpCreateRefresh g a r)
  with assms refresh_index_create show ?thesis by (simp del: disciplined.simps)
next
  case (OpDeleteRefresh g)
  with assms refresh_index_delete show ?thesis by simp
next
  case (OpRevokeRefresh i)
  with assms refresh_index_revoke show ?thesis by simp
next
  case (OpRotate i g)
  with assms refresh_index_rotate show ?thesis by simp
qed (use assms(1) in \<open>simp_all add: code_ops CreateAccessTokenSession_def DeleteAccessTokenSession_def session_ops
      registry_ops SetClientAssertionJWT_def Let_def refresh_index_ok_def split: option.split\<close>)

lemma access_index_delete: "access_index_ok s \<Longrightarrow> access_index_ok (DeleteAccessTokenSession s g)"
  by (auto simp: access_index_ok_def DeleteAccessTokenSession_def)

lemma access_index_revoke: "access_index_ok s \<Longrightarrow> access_index_ok (RevokeAccessToken s i)"
  by (simp add: RevokeAccessToken_def access_index_delete split: option.split)

lemma access_index_frame:
  "AccessTokens s' = AccessTokens s \<Longrightarrow> AccessTokenRequestIDs s' = AccessTokenRequestIDs s \<Longrightarrow>
     access_index_ok s' = access_index_ok s"
  by (simp add: access_index_ok_def)

lemma access_index_create:
  assumes "access_index_ok s" "disciplined s (OpCreateAccess g r)"
  shows "access_index_ok (CreateAccessTokenSession s g r)"
proof -
  have ids: "gget (AccessTokenRequestIDs s) i \<noteq> Some g" for i
    using assms(2) gget_in_ran [of "AccessTokenRequestIDs s" i g] by auto
  have idle: "gget (AccessTokens s) g' = Some r' \<Longrightarrow> reqId r' \<noteq> reqId r" for g' r'
    using assms(2) by (force dest: map_of_SomeD)
  show ?thesis
    using assms(1) ids idle by (auto simp: access_index_ok_def CreateAccessTokenSession_def)
qed

lemma access_index_step:
  assumes "access_index_ok s" "disciplined s op"
  shows "access_index_ok (store_step now op s)"
proof (cases op)
  case (OpCreateAccess g r)
  with assms access_index_create show ?thesis by (simp del: disciplined.simps)
next
  case (OpDeleteAccess g)
  with assms access_index_delete show ?thesis by simp
next
  case (OpRevokeAccess i)
  with assms access_index_revoke show ?thesis by simp
next
  case (OpRevokeRefresh i)
  with assms(1) access_index_frame [of "fst (RevokeRefreshToken s i)" s] show ?thesis by simp
next
  case (OpRotate i g)
  have "access_index_ok (fst (RevokeRefreshToken s i))"
    using assms(1) access_index_frame [of "fst (RevokeRefreshToken s i)" s] by simp
  with OpRotate show ?thesis by (simp add: RotateRefreshToken_fst access_index_revoke)
qed (use assms(1) in \<open>simp_all add: code_ops CreateRefreshTokenSession_def DeleteRefreshTokenSession_def session_ops
      registry_ops SetClientAssertionJWT_def Let_def access_index_ok_def split: option.split\<close>)

lemma reachable_indexes:
  "reachable_store s \<Longrightarrow> refresh_index_ok s \<and> access_index_ok s"
proof (induction rule: reachable_store.induct)
  case (new idp)
  show ?case by (simp add: refresh_index_ok_def access_index_ok_def NewMemoryStore_def)
next
  case (step s op now)
  then show ?case by (blast intro: refresh_index_step access_index_step)
qed

lemma usable_refresh_iff:
  "GetRefreshTokenSession s g = (Some r, None) \<longleftrightarrow>
     (\<exists>rel. gget (RefreshTokens s) g = Some rel \<and> rtActive rel \<and> rtRequester rel = r)"
  by (auto simp: GetRefreshTokenSession_def split: option.splits)

lemma usable_access_iff: "GetAccessTokenSession s g = (Some r, None) \<longleftrightarrow> gget (AccessTokens s) g = Some r"
  by (auto simp: GetAccessTokenSession_def lookup_in_def split: option.splits)

lemma RevokeRefreshToken_usable:
  assumes "refresh_index_ok s" "RevokeRefreshToken s i = (s', None)"
  shows "GetRefreshTokenSession s' g = (Some r, None) \<longleftrightarrow>
    GetRefreshTokenSession s g = (Some r, None) \<and> reqId r \<noteq> i"
proof (cases "gget (RefreshTokenRequestIDs s) i")
  case None
  with assms show ?thesis
    by (auto simp: RevokeRefreshToken_def refresh_index_ok_def usable_refresh_iff)
next
  case (Some h)
  then obtain rel where rel: "gget (RefreshTokens s) h = Some rel"
      "s' = s\<lparr>RefreshTokens := gput h (rel\<lparr>rtActive := False\<rparr>) (RefreshTokens s)\<rparr>"
    using assms(2) by (auto simp: RevokeRefreshToken_def split: option.splits)
  show ?thesis
    using assms(1) Some rel(1)
    by (auto simp: rel(2) refresh_index_ok_def usable_refresh_iff)
qed

lemma RevokeAccessToken_usable:
  assumes "access_index_ok s"
  shows "GetAccessTokenSession (RevokeAccessToken s i) g = (Some r, None) \<longleftrightarrow>
    GetAccessTokenSession s g = (Some r, None) \<and> reqId r \<noteq> i"
  using assms
  by (auto simp: RevokeAccessToken_def DeleteAccessTokenSession_def usable_access_iff access_index_ok_def
      split: option.splits)

lemma GetRefreshTokenSession_frame:
  "RefreshTokens s' = RefreshTokens s \<Longrightarrow> GetRefreshTokenSession s' g = GetRefreshTokenSession s g"
  by (simp add: GetRefreshTokenSession_def)

lemma GetAccessTokenSession_frame:
  "AccessTokens s' = AccessTokens s \<Longrightarrow> GetAccessTokenSession s' g = GetAccessTokenSession s g"
  by (simp add: GetAccessTokenSession_def)


definition sample_store :: "unit MemoryStore" where
  "sample_store = store_step 2 (OpCreateRefresh ''rt1'' ''at1'' \<lparr>reqId = ''r1''\<rparr>)
     (store_step 1 (OpCreateAccess ''at1'' \<lparr>reqId = ''r1''\<rparr>) (NewMemoryStore (\<lambda>l p. Inr None)))"

lemma sample_store_reachable: "reachable_store sample_store"
  unfolding sample_store_def
  by (intro reachable_store.intros) (simp_all add: NewMemoryStore_def CreateAccessTokenSession_def)


section \<open>Client assertions are not accepted twice\<close>

lemma known_jti_step:
  assumes "wf_gomap (BlacklistedJTIs s)" "gget (BlacklistedJTIs s) jti = Some e" "now \<le> e"
  shows "wf_gomap (BlacklistedJTIs (store_step now op s)) \<and> gget (BlacklistedJTIs (store_step now op s)) jti = Some e"
proof (cases op)
  case (OpSetJWT j e')
  with assms show ?thesis
    by (auto simp: SetClientAssertionJWT_def Let_def gget_filter wf_filter)
qed (use assms in \<open>auto simp: store_ops split: option.splits\<close>)

lemma known_jti_run:
  "wf_gomap (BlacklistedJTIs s) \<Longrightarrow> gget (BlacklistedJTIs s) jti = Some e \<Longrightarrow> \<forall>now \<in> fst ` set ops. now \<le> e \<Longrightarrow>
     wf_gomap (BlacklistedJTIs (store_run ops s)) \<and> gget (BlacklistedJTIs (store_run ops s)) jti = Some e"
proof (induction ops arbitrary: s)
  case (Cons top ops)
  obtain now op where "top = (now, op)" by force
  with Cons.prems known_jti_step [of s jti e now op] show ?case by (simp add: Cons.IH)
qed simp

lemma wf_jtis_step: "wf_gomap (BlacklistedJTIs s) \<Longrightarrow> wf_gomap (BlacklistedJTIs (store_step now op s))"
  by (cases op) (auto simp: store_ops wf_filter split: option.splits)

lemma wf_jtis_run: "wf_gomap (BlacklistedJTIs s) \<Longrightarrow> wf_gomap (BlacklistedJTIs (store_run ops s))"
proof (induction ops arbitrary: s)
  case (Cons top ops)
  then show ?case by (cases top) (simp add: wf_jtis_step)
qed simp

text \<open>
  C31: the identifier of a client assertion is refused until it expires.  Once the store has accepted an
  identifier with its expiry, it is reported as used and cannot be recorded again, at any time before the
  expiry and whatever happened to the store in between.
\<close>

theorem jti_replay_refused:
  assumes "SetClientAssertionJWT t (store_run before (NewMemoryStore idp)) jti e = (s, None)"
    and "\<forall>now \<in> fst ` set ops. now \<le> e" and "t' < e"
  shows "IsJWTUsed t' (store_run ops s) jti
    \<and> snd (SetClientAssertionJWT t' (store_run ops s) jti e') = Some ErrJTIKnown"
proof -
  have "wf_gomap (BlacklistedJTIs (store_run before (NewMemoryStore idp)))"
    by (rule wf_jtis_run) (simp add: NewMemoryStore_def)
  then have "wf_gomap (BlacklistedJTIs s)" "gget (BlacklistedJTIs s) jti = Some e"
    using assms(1) by (auto simp: SetClientAssertionJWT_def Let_def wf_filter split: if_splits)
  then have known: "wf_gomap (BlacklistedJTIs (store_run ops s))" "gget (BlacklistedJTIs (store_run ops s)) jti = Some e"
    using known_jti_run [of s jti e ops] assms(2) by auto
  have "gget (filter (\<lambda>(j, e). \<not> e < t') (BlacklistedJTIs (store_run ops s))) jti = Some e"
    using gget_filter [OF known(1), of "\<lambda>j e. \<not> e < t'" jti] known(2) assms(3) by simp
  moreover have "IsJWTUsed t' (store_run ops s) jti"
    using known(2) assms(3) by (simp add: IsJWTUsed_def ClientAssertionJWTValid_def)
  ultimately show ?thesis by (simp add: SetClientAssertionJWT_def Let_def)
qed

definition sample_jti_store :: "unit MemoryStore" where
  "sample_jti_store = store_run [(1, OpSetJWT ''old'' 3)] (NewMemoryStore (\<lambda>l p. Inr None))"

theorem jti_replay_refused_witness:
  "IsJWTUsed 9 (store_run [(8, OpSetJWT ''k'' 20)] (fst (SetClientAssertionJWT 5 sample_jti_store ''j'' 10))) ''j''"
proof -
  have "SetClientAssertionJWT 5 sample_jti_store ''j'' 10 = (fst (SetClientAssertionJWT 5 sample_jti_store ''j'' 10), None)"
    by (simp add: sample_jti_store_def SetClientAssertionJWT_def NewMemoryStore_def)
  from jti_replay_refused [OF this [unfolded sample_jti_store_def], of "[(8, OpSetJWT ''k'' 20)]" 9 11]
  show ?thesis unfolding sample_jti_store_def by simp
qed

section \<open>Wrong passwords\<close>

text \<open>
  The method \<^verbatim>\<open>Authenticate\<close> of the store panics exactly when the identity server answers that the
  password is not right: it dereferences the user that is not there.
\<close>

lemma memory_Authenticate_panics:
  "memory_Authenticate s nm secret = Panics \<longleftrightarrow> Authenticator s nm secret = Inr None"
  by (auto simp: memory_Authenticate_def split: sum.splits option.splits)

end
