(* ===== verification/FositePatch.thy ===== *)
theory FositePatch
  imports StorageRuns
begin

text \<open>
  \<^verbatim>\<open>cmd/oidc/fositepatch\<close>: the session of a token request, the scopes and audiences a request is granted,
  and the handler of the resource owner password grant.

  What the fosite library does is the parameter \<open>Fosite\<close>: the operations on argument lists, granting a
  scope, the scope and audience strategies, sanitising a request and generating tokens.
\<close>

section \<open>Sessions\<close>

record IDTokenClaims =
  itIssuer :: string
  itSubject :: string
  itAudience :: "string list"
  itIssuedAt :: int
  itRequestedAt :: int
  itAuthTime :: int
  itExtra :: "claims option"

record JWTClaims =
  jwIssuer :: string
  jwSubject :: string
  jwAudience :: "string list"
  jwIssuedAt :: int
  jwExpiresAt :: int
  jwExtra :: "claims option"

record OIDCSession =
  osIDTokenClaims :: "IDTokenClaims option"
  osJWTClaims :: "JWTClaims option"
  osHeaders :: "claims option"
  osExpiresAt :: "(TokenType \<times> int) list"
  osUsername :: string
  osSubject :: string

definition zeroIDTokenClaims :: IDTokenClaims where
  "zeroIDTokenClaims =
     \<lparr>itIssuer = [], itSubject = [], itAudience = [], itIssuedAt = 0, itRequestedAt = 0, itAuthTime = 0, itExtra = None\<rparr>"

definition zeroJWTClaims :: JWTClaims where
  "zeroJWTClaims = \<lparr>jwIssuer = [], jwSubject = [], jwAudience = [], jwIssuedAt = 0, jwExpiresAt = 0, jwExtra = None\<rparr>"

text \<open>\<^verbatim>\<open>SetAudience\<close> writes through both claim pointers.\<close>

definition SetAudience :: "OIDCSession \<Rightarrow> string list \<Rightarrow> OIDCSession outcome" where
  "SetAudience s audience =
     (case (osIDTokenClaims s, osJWTClaims s) of
        (Some it, Some jw) \<Rightarrow>
          Returns (s\<lparr>osIDTokenClaims := Some (it\<lparr>itAudience := audience\<rparr>), osJWTClaims := Some (jw\<lparr>jwAudience := audience\<rparr>)\<rparr>)
      | _ \<Rightarrow> Panics)"

definition SetExpiresAt :: "OIDCSession \<Rightarrow> TokenType \<Rightarrow> int \<Rightarrow> OIDCSession" where
  "SetExpiresAt s key t = s\<lparr>osExpiresAt := AList.update key t (osExpiresAt s)\<rparr>"

definition GetExpiresAt :: "OIDCSession \<Rightarrow> TokenType \<Rightarrow> int" where
  "GetExpiresAt s key = (case map_of (osExpiresAt s) key of None \<Rightarrow> 0 | Some t \<Rightarrow> t)"

definition SetSubject :: "OIDCSession \<Rightarrow> string \<Rightarrow> OIDCSession" where
  "SetSubject s subject = s\<lparr>osSubject := subject\<rparr>"

definition GetSubject :: "OIDCSession option \<Rightarrow> string" where
  "GetSubject s = (case s of None \<Rightarrow> [] | Some x \<Rightarrow> osSubject x)"

definition GetUsername :: "OIDCSession option \<Rightarrow> string" where
  "GetUsername s = (case s of None \<Rightarrow> [] | Some x \<Rightarrow> osUsername x)"

definition session_IDTokenClaims :: "OIDCSession \<Rightarrow> OIDCSession \<times> IDTokenClaims" where
  "session_IDTokenClaims s =
     (case osIDTokenClaims s of
        None \<Rightarrow> (s\<lparr>osIDTokenClaims := Some zeroIDTokenClaims\<rparr>, zeroIDTokenClaims)
      | Some c \<Rightarrow> (s, c))"

definition GetJWTClaims :: "OIDCSession \<Rightarrow> OIDCSession \<times> JWTClaims" where
  "GetJWTClaims s =
     (case osJWTClaims s of
        None \<Rightarrow> (s\<lparr>osJWTClaims := Some zeroJWTClaims\<rparr>, zeroJWTClaims)
      | Some c \<Rightarrow> (s, c))"

definition session_Headers :: "OIDCSession \<Rightarrow> OIDCSession \<times> claims" where
  "session_Headers s = (case osHeaders s of None \<Rightarrow> (s\<lparr>osHeaders := Some []\<rparr>, []) | Some h \<Rightarrow> (s, h))"

section \<open>Requests\<close>

record OAuthRequest = requester +
  oaClient :: kubauthClient
  oaRequestedScopes :: "string list"
  oaGrantedScopes :: "string list"
  oaRequestedAudience :: "string list"
  oaGrantedAudience :: "string list"
  oaGrantTypes :: "string list"
  oaForm :: "string gomap"
  oaSession :: "OIDCSession option"

type_synonym oidc_store = "unit OAuthRequest_ext MemoryStore"

record Fosite =
  fExactOne :: "string list \<Rightarrow> string \<Rightarrow> bool"
  fHas :: "string list \<Rightarrow> string \<Rightarrow> bool"
  fHasOneOf :: "string list \<Rightarrow> string list \<Rightarrow> bool"
  fGrant :: "string \<Rightarrow> string list \<Rightarrow> string list"
  fScopeStrategy :: "string list \<Rightarrow> string \<Rightarrow> bool"
  fAudienceStrategy :: "string list \<Rightarrow> string list \<Rightarrow> string option"
  fSanitize :: "OAuthRequest \<Rightarrow> OAuthRequest"
  fGenerateAccessToken :: "OAuthRequest \<Rightarrow> string + string \<times> string"
  fGenerateRefreshToken :: "OAuthRequest \<Rightarrow> string + string \<times> string"
  fGenerateIDToken :: "int \<Rightarrow> OAuthRequest \<Rightarrow> string + string"

record FositeConfig =
  cfAccessTokenLifespan :: int
  cfRefreshTokenLifespan :: int
  cfIDTokenLifespan :: int
  cfRefreshTokenScopes :: "string list"
  cfTokenEntropy :: int
  cfGlobalSecret :: string
  cfAuthorizeCodeLifespan :: int
  cfAccessTokenIssuer :: string
  cfIDTokenIssuer :: string
  cfEnforcePKCE :: bool
  cfEnforcePKCEForPublicClients :: bool
  cfEnablePKCEPlainChallengeMethod :: bool

text \<open>\<^verbatim>\<open>compose2.go\<close>: the handlers of the OAuth2 provider, in their order, and the form of its access tokens.\<close>

datatype CoreStrategy = OAuth2JWTStrategy | OAuth2HMACStrategy

datatype Factory =
    OAuth2AuthorizeExplicitFactory
  | OAuth2AuthorizeImplicitFactory
  | OAuth2ClientCredentialsGrantFactory
  | OAuth2RefreshTokenGrantFactory
  | OAuth2ResourceOwnerPasswordCredentialsFactory
  | RFC7523AssertionGrantFactory
  | OpenIDConnectExplicitFactory
  | OpenIDConnectImplicitFactory
  | OpenIDConnectHybridFactory
  | OpenIDConnectRefreshFactory
  | OAuth2TokenIntrospectionFactory
  | OAuth2TokenRevocationFactory
  | OAuth2PKCEFactory
  | PushedAuthorizeHandlerFactory

definition ComposeAllEnabled :: "bool \<Rightarrow> CoreStrategy \<times> Factory list" where
  "ComposeAllEnabled jwtAccessToken =
     (if jwtAccessToken then OAuth2JWTStrategy else OAuth2HMACStrategy,
      [OAuth2AuthorizeExplicitFactory, OAuth2AuthorizeImplicitFactory, OAuth2ClientCredentialsGrantFactory,
       OAuth2RefreshTokenGrantFactory, OAuth2ResourceOwnerPasswordCredentialsFactory, RFC7523AssertionGrantFactory,
       OpenIDConnectExplicitFactory, OpenIDConnectImplicitFactory, OpenIDConnectHybridFactory, OpenIDConnectRefreshFactory,
       OAuth2TokenIntrospectionFactory, OAuth2TokenRevocationFactory, OAuth2PKCEFactory, PushedAuthorizeHandlerFactory])"

definition GrantScope :: "Fosite \<Rightarrow> string \<Rightarrow> OAuthRequest \<Rightarrow> OAuthRequest" where
  "GrantScope f scope ar = ar\<lparr>oaGrantedScopes := fGrant f scope (oaGrantedScopes ar)\<rparr>"

definition GrantAudience :: "Fosite \<Rightarrow> string \<Rightarrow> OAuthRequest \<Rightarrow> OAuthRequest" where
  "GrantAudience f aud ar = ar\<lparr>oaGrantedAudience := fGrant f aud (oaGrantedAudience ar)\<rparr>"

definition HandleScopes :: "Fosite \<Rightarrow> OAuthRequest \<Rightarrow> OAuthRequest" where
  "HandleScopes f ar =
     (let ar' = fold (GrantScope f) (oaRequestedScopes ar) ar
      in if IsForceOpenIdScope (oaClient ar) then GrantScope f ''openid'' ar' else ar')"

definition HandleAudience :: "Fosite \<Rightarrow> OAuthRequest \<Rightarrow> OAuthRequest" where
  "HandleAudience f ar =
     (if length (oaRequestedAudience ar) > 0 then fold (GrantAudience f) (oaRequestedAudience ar) ar
      else GrantAudience f (GetID (oaClient ar)) ar)"

section \<open>The password grant\<close>

datatype FositeErr =
  ErrUnknownRequest | ErrRequestForbidden | ErrUnauthorizedClient | ErrInvalidScope string | ErrAudience string
| ErrInvalidRequest | ErrServerError string | ErrInvalidGrant | ErrTokenGeneration string

text \<open>
  The session of a user.  The claims of the user are one map that both tokens refer to, so the \<open>azp\<close> claim
  added to the ID token shows in the access token too, unless the user has no map at all.
\<close>

definition createSessionWithUserClaims ::
  "int \<Rightarrow> 'x MemoryStore \<Rightarrow> OidcUser option \<Rightarrow> string \<Rightarrow> OIDCSession" where
  "createSessionWithUserClaims now store user cid =
     (let subject = (case user of None \<Rightarrow> [] | Some u \<Rightarrow> ouLogin u);
          extra = map_option ouClaims user;
          idExtra = (if cid \<noteq> [] then Some (gput ''azp'' (VStr cid) (entries extra)) else extra);
          jwtExtra = (if extra = None then None else idExtra)
      in \<lparr>osIDTokenClaims = Some \<lparr>itIssuer = GetIssuer store, itSubject = subject, itAudience = [cid], itIssuedAt = now,
             itRequestedAt = now, itAuthTime = now, itExtra = idExtra\<rparr>,
          osJWTClaims = Some \<lparr>jwIssuer = GetIssuer store, jwSubject = subject, jwAudience = [cid], jwIssuedAt = now,
             jwExpiresAt = 0, jwExtra = jwtExtra\<rparr>,
          osHeaders = Some [(''kid'', VStr (GetKeyID store))],
          osExpiresAt = [], osUsername = subject, osSubject = subject\<rparr>)"

text \<open>\<^verbatim>\<open>Round(time.Second)\<close> of a time.\<close>

definition roundSecond :: "int \<Rightarrow> int" where
  "roundSecond t = (t + 500000000) div 1000000000 * 1000000000"

definition form_get :: "string gomap \<Rightarrow> string \<Rightarrow> string" where
  "form_get form key = (case gget form key of None \<Rightarrow> [] | Some v \<Rightarrow> v)"

definition expireTokens :: "Fosite \<Rightarrow> FositeConfig \<Rightarrow> int \<Rightarrow> OAuthRequest \<Rightarrow> OIDCSession \<Rightarrow> OIDCSession" where
  "expireTokens f cf now request session =
     (let client = oaClient request;
          atLife = GetEffectiveLifespan client AccessToken (cfAccessTokenLifespan cf);
          rtLife = GetEffectiveLifespan client RefreshToken (cfRefreshTokenLifespan cf);
          itLife = GetEffectiveLifespan client IDToken (cfIDTokenLifespan cf);
          s1 = SetExpiresAt session AccessToken (roundSecond (now + atLife));
          s2 = (if rtLife > -1 then SetExpiresAt s1 RefreshToken (roundSecond (now + rtLife)) else s1)
      in if fHas f (oaGrantedScopes request) ''openid'' then SetExpiresAt s2 IDToken (roundSecond (now + itLife)) else s2)"

definition CanHandleTokenEndpointRequest :: "Fosite \<Rightarrow> OAuthRequest \<Rightarrow> bool" where
  "CanHandleTokenEndpointRequest f request = fExactOne f (oaGrantTypes request) ''password''"

definition HandleTokenEndpointRequest ::
  "Fosite \<Rightarrow> FositeConfig \<Rightarrow> int \<Rightarrow> oidc_store \<Rightarrow> OAuthRequest \<Rightarrow> FositeErr + OAuthRequest" where
  "HandleTokenEndpointRequest f cf now store request =
     (if \<not> CanHandleTokenEndpointRequest f request then Inl ErrUnknownRequest
      else if \<not> IsAllowPasswordGrant store then Inl ErrRequestForbidden
      else if \<not> fHas f (GetGrantTypes (oaClient request)) ''password'' then Inl ErrUnauthorizedClient
      else
        (case find (\<lambda>scope. \<not> fScopeStrategy f (GetScopes (oaClient request)) scope) (oaRequestedScopes request) of
           Some scope \<Rightarrow> Inl (ErrInvalidScope scope)
         | None \<Rightarrow>
             (case fAudienceStrategy f (GetAudience (oaClient request)) (oaRequestedAudience request) of
                Some err \<Rightarrow> Inl (ErrAudience err)
              | None \<Rightarrow>
                  (let username = form_get (oaForm request) ''username'';
                       password = form_get (oaForm request) ''password'';
                       cid = form_get (oaForm request) ''client_id''
                   in if username = [] \<or> password = [] then Inl ErrInvalidRequest
                      else
                        (case AuthenticateUserWithClaims store username password of
                           Inl err \<Rightarrow> Inl (ErrServerError err)
                         | Inr None \<Rightarrow> Inl ErrInvalidGrant
                         | Inr (Some user) \<Rightarrow>
                             (let session = createSessionWithUserClaims now store (Some user) cid;
                                  granted = HandleAudience f (HandleScopes f
                                    (request\<lparr>oaSession := Some session, oaForm := gdel ''password'' (oaForm request)\<rparr>))
                              in Inr (granted\<lparr>oaSession := Some (expireTokens f cf now granted session)\<rparr>)))))))"

record AccessResponse =
  rpToken :: string
  rpTokenType :: string
  rpExpiresIn :: int
  rpScopes :: "string list"
  rpExtra :: "string gomap"

definition IssueAccessToken ::
  "Fosite \<Rightarrow> int \<Rightarrow> oidc_store \<Rightarrow> int \<Rightarrow> OAuthRequest \<Rightarrow> AccessResponse \<Rightarrow> oidc_store \<times> (FositeErr + string \<times> AccessResponse)" where
  "IssueAccessToken f now store atLifespan requester responder =
     (case fGenerateAccessToken f requester of
        Inl err \<Rightarrow> (store, Inl (ErrTokenGeneration err))
      | Inr (token, signature) \<Rightarrow>
          (let expires = (case oaSession requester of None \<Rightarrow> 0 | Some s \<Rightarrow> GetExpiresAt s AccessToken);
               lifespan = (if expires \<noteq> 0 then expires - now else atLifespan)
           in (CreateAccessTokenSession store signature (fSanitize f requester),
               Inr (signature, responder\<lparr>rpToken := token, rpTokenType := ''bearer'', rpExpiresIn := lifespan,
                 rpScopes := oaGrantedScopes requester\<rparr>))))"

definition addRefreshToken ::
  "Fosite \<Rightarrow> FositeConfig \<Rightarrow> oidc_store \<Rightarrow> string \<Rightarrow> OAuthRequest \<Rightarrow> AccessResponse \<Rightarrow> oidc_store \<times> (FositeErr + AccessResponse)" where
  "addRefreshToken f cf store accessTokenSignature requester responder =
     (if length (cfRefreshTokenScopes cf) = 0 \<or> fHasOneOf f (oaGrantedScopes requester) (cfRefreshTokenScopes cf) then
        (case fGenerateRefreshToken f requester of
           Inl err \<Rightarrow> (store, Inl (ErrServerError err))
         | Inr (refresh, refreshSignature) \<Rightarrow>
             (CreateRefreshTokenSession store refreshSignature accessTokenSignature (fSanitize f requester),
              Inr (if refresh \<noteq> [] then responder\<lparr>rpExtra := gput ''refresh_token'' refresh (rpExtra responder)\<rparr> else responder)))
      else (store, Inr responder))"

definition addIDToken ::
  "Fosite \<Rightarrow> FositeConfig \<Rightarrow> oidc_store \<Rightarrow> string \<Rightarrow> OAuthRequest \<Rightarrow> AccessResponse \<Rightarrow> oidc_store \<times> (FositeErr + AccessResponse)" where
  "addIDToken f cf store accessTokenSignature requester responder =
     (if fHas f (oaGrantedScopes requester) ''openid'' then
        (case fGenerateIDToken f (GetEffectiveLifespan (oaClient requester) IDToken (cfIDTokenLifespan cf)) requester of
           Inl err \<Rightarrow> (store, Inl (ErrServerError err))
         | Inr idToken \<Rightarrow>
             (CreateOpenIDConnectSession store accessTokenSignature (fSanitize f requester),
              Inr (responder\<lparr>rpExtra := gput ''id_token'' idToken (rpExtra responder)\<rparr>)))
      else (store, Inr responder))"

definition PopulateTokenEndpointResponse ::
  "Fosite \<Rightarrow> FositeConfig \<Rightarrow> int \<Rightarrow> oidc_store \<Rightarrow> OAuthRequest \<Rightarrow> AccessResponse \<Rightarrow> oidc_store \<times> (FositeErr + AccessResponse)" where
  "PopulateTokenEndpointResponse f cf now store requester responder =
     (if \<not> CanHandleTokenEndpointRequest f requester then (store, Inl ErrUnknownRequest)
      else
        (case IssueAccessToken f now store
                (GetEffectiveLifespan (oaClient requester) AccessToken (cfAccessTokenLifespan cf)) requester responder of
           (s1, Inl err) \<Rightarrow> (s1, Inl err)
         | (s1, Inr (signature, r1)) \<Rightarrow>
             (case addRefreshToken f cf s1 signature requester r1 of
                (s2, Inl err) \<Rightarrow> (s2, Inl err)
              | (s2, Inr r2) \<Rightarrow> addIDToken f cf s2 signature requester r2)))"

section \<open>What a request is granted\<close>

lemma GrantScope_frame [simp]:
  "oaClient (GrantScope f x ar) = oaClient ar" "oaForm (GrantScope f x ar) = oaForm ar"
  "oaSession (GrantScope f x ar) = oaSession ar" "oaGrantedAudience (GrantScope f x ar) = oaGrantedAudience ar"
  "oaRequestedAudience (GrantScope f x ar) = oaRequestedAudience ar"
  "oaGrantedScopes (GrantScope f x ar) = fGrant f x (oaGrantedScopes ar)"
  by (simp_all add: GrantScope_def)

lemma GrantAudience_frame [simp]:
  "oaClient (GrantAudience f x ar) = oaClient ar" "oaForm (GrantAudience f x ar) = oaForm ar"
  "oaSession (GrantAudience f x ar) = oaSession ar" "oaGrantedScopes (GrantAudience f x ar) = oaGrantedScopes ar"
  "oaGrantedAudience (GrantAudience f x ar) = fGrant f x (oaGrantedAudience ar)"
  by (simp_all add: GrantAudience_def)

lemma fold_GrantScope:
  "oaClient (fold (GrantScope f) xs ar) = oaClient ar" "oaForm (fold (GrantScope f) xs ar) = oaForm ar"
  "oaSession (fold (GrantScope f) xs ar) = oaSession ar"
  "oaGrantedAudience (fold (GrantScope f) xs ar) = oaGrantedAudience ar"
  "oaRequestedAudience (fold (GrantScope f) xs ar) = oaRequestedAudience ar"
  "oaGrantedScopes (fold (GrantScope f) xs ar) = fold (fGrant f) xs (oaGrantedScopes ar)"
  by (induction xs arbitrary: ar) simp_all

lemma fold_GrantAudience:
  "oaClient (fold (GrantAudience f) xs ar) = oaClient ar" "oaForm (fold (GrantAudience f) xs ar) = oaForm ar"
  "oaSession (fold (GrantAudience f) xs ar) = oaSession ar"
  "oaGrantedScopes (fold (GrantAudience f) xs ar) = oaGrantedScopes ar"
  "oaGrantedAudience (fold (GrantAudience f) xs ar) = fold (fGrant f) xs (oaGrantedAudience ar)"
  by (induction xs arbitrary: ar) simp_all

lemma HandleScopes_frame [simp]:
  "oaClient (HandleScopes f ar) = oaClient ar" "oaForm (HandleScopes f ar) = oaForm ar"
  "oaSession (HandleScopes f ar) = oaSession ar" "oaGrantedAudience (HandleScopes f ar) = oaGrantedAudience ar"
  "oaRequestedAudience (HandleScopes f ar) = oaRequestedAudience ar"
  by (simp_all add: HandleScopes_def fold_GrantScope Let_def)

lemma HandleAudience_frame [simp]:
  "oaClient (HandleAudience f ar) = oaClient ar" "oaForm (HandleAudience f ar) = oaForm ar"
  "oaSession (HandleAudience f ar) = oaSession ar" "oaGrantedScopes (HandleAudience f ar) = oaGrantedScopes ar"
  by (simp_all add: HandleAudience_def fold_GrantAudience)

text \<open>Granting adds an argument that is not there yet, the documented behaviour of the library.\<close>

definition grants :: "Fosite \<Rightarrow> bool" where
  "grants f \<longleftrightarrow> (\<forall>x xs. set (fGrant f x xs) = insert x (set xs))"

lemma set_fold_grant: "grants f \<Longrightarrow> set (fold (fGrant f) xs acc) = set acc \<union> set xs"
  by (induction xs arbitrary: acc) (auto simp: grants_def)

lemma HandleScopes_granted:
  "grants f \<Longrightarrow> set (oaGrantedScopes (HandleScopes f ar)) =
     set (oaGrantedScopes ar) \<union> set (oaRequestedScopes ar) \<union> (if IsForceOpenIdScope (oaClient ar) then {''openid''} else {})"
  using set_fold_grant [of f] by (auto simp: HandleScopes_def fold_GrantScope grants_def Let_def)

lemma HandleAudience_granted:
  "grants f \<Longrightarrow> set (oaGrantedAudience (HandleAudience f ar)) =
     set (oaGrantedAudience ar) \<union> (if oaRequestedAudience ar = [] then {clientId (oaClient ar)} else set (oaRequestedAudience ar))"
  using set_fold_grant [of f] by (auto simp: HandleAudience_def fold_GrantAudience grants_def)

lemma expireTokens_subject [simp]:
  "osSubject (expireTokens f cf now r s) = osSubject s" "osIDTokenClaims (expireTokens f cf now r s) = osIDTokenClaims s"
  by (simp_all add: expireTokens_def SetExpiresAt_def Let_def)

lemma createSession_subject [simp]:
  "osSubject (createSessionWithUserClaims now store (Some user) cid) = ouLogin user"
  by (simp add: createSessionWithUserClaims_def Let_def)

text \<open>
  C10: what the password grant requires.  A request that passes is for a server and a client that allow the
  grant, asks for scopes and audiences the client may have, and carries the name and the password of a user
  the identity server has authenticated with them.  The session is that user's, the granted scopes and
  audiences are the requested ones, with the forced openid scope and the client id as default audience, and
  the password does not stay in the request.
\<close>

theorem password_grant_guarded:
  assumes "HandleTokenEndpointRequest f cf now store request = Inr request'" and "grants f"
  shows "AllowPasswordGrant store
    \<and> fHas f (GetGrantTypes (oaClient request)) ''password''
    \<and> (\<forall>scope \<in> set (oaRequestedScopes request). fScopeStrategy f (GetScopes (oaClient request)) scope)
    \<and> fAudienceStrategy f (GetAudience (oaClient request)) (oaRequestedAudience request) = None
    \<and> (\<exists>user. Authenticator store (form_get (oaForm request) ''username'') (form_get (oaForm request) ''password'') =
           Inr (Some user) \<and> form_get (oaForm request) ''password'' \<noteq> [] \<and> GetSubject (oaSession request') = ouLogin user)
    \<and> set (oaGrantedScopes request') = set (oaGrantedScopes request) \<union> set (oaRequestedScopes request)
        \<union> (if IsForceOpenIdScope (oaClient request) then {''openid''} else {})
    \<and> set (oaGrantedAudience request') = set (oaGrantedAudience request)
        \<union> (if oaRequestedAudience request = [] then {clientId (oaClient request)} else set (oaRequestedAudience request))
    \<and> gget (oaForm request') ''password'' = None"
proof -
  let ?session = "\<lambda>user. createSessionWithUserClaims now store (Some user) (form_get (oaForm request) ''client_id'')"
  let ?granted = "\<lambda>user. HandleAudience f (HandleScopes f (request\<lparr>oaSession := Some (?session user),
    oaForm := gdel ''password'' (oaForm request)\<rparr>))"
  obtain user where guards: "AllowPasswordGrant store" "fHas f (GetGrantTypes (oaClient request)) ''password''"
      "find (\<lambda>scope. \<not> fScopeStrategy f (GetScopes (oaClient request)) scope) (oaRequestedScopes request) = None"
      "fAudienceStrategy f (GetAudience (oaClient request)) (oaRequestedAudience request) = None"
      "form_get (oaForm request) ''password'' \<noteq> []"
      "Authenticator store (form_get (oaForm request) ''username'') (form_get (oaForm request) ''password'') = Inr (Some user)"
    and run: "request' = ?granted user\<lparr>oaSession := Some (expireTokens f cf now (?granted user) (?session user))\<rparr>"
    using assms(1)
    by (auto simp: HandleTokenEndpointRequest_def AuthenticateUserWithClaims_def Let_def
        split: if_splits option.splits sum.splits)
  show ?thesis
    using guards run assms(2)
    by (auto simp: HandleScopes_granted HandleAudience_granted GetSubject_def find_None_iff)
qed

definition sample_fosite :: Fosite where
  "sample_fosite =
     \<lparr>fExactOne = (\<lambda>xs x. xs = [x]), fHas = (\<lambda>xs x. x \<in> set xs), fHasOneOf = (\<lambda>xs ys. \<exists>y \<in> set ys. y \<in> set xs),
      fGrant = (\<lambda>x xs. if x \<in> set xs then xs else xs @ [x]), fScopeStrategy = (\<lambda>hs s. s \<in> set hs),
      fAudienceStrategy = (\<lambda>hs ns. if set ns \<subseteq> set hs then None else Some ''audience''), fSanitize = (\<lambda>r. r),
      fGenerateAccessToken = (\<lambda>r. Inr (''at'', ''at.sig'')), fGenerateRefreshToken = (\<lambda>r. Inr (''rt'', ''rt.sig'')),
      fGenerateIDToken = (\<lambda>l r. Inr ''id'')\<rparr>"

definition sample_password_client :: kubauthClient where
  "sample_password_client =
     NewKubauthClient
       \<lparr>oMeta = \<lparr>mName = ''web'', mNamespace = ''apps'', mDeleting = False, mFinalizers = []\<rparr>,
        oSpec = \<lparr>ocEnabled = None, ocSecrets = None, ocRedirectURIs = [], ocGrantTypes = [''password''],
          ocResponseTypes = [''code''], ocScopes = [''openid'', ''offline''], ocPublic = True, ocAudiences = [],
          ocForceOpenIdScope = Some True, ocStyle = [], ocPostLogoutURL = [], ocDisplayName = [], ocDescription = [],
          ocEntryURL = [], ocAccessTokenLifespan = 0, ocRefreshTokenLifespan = 0, ocIDTokenLifespan = 0, ocClientId = [],
          ocUpstreamProviders = []\<rparr>,
        oStatus = \<lparr>otPhase = CPhaseReady, otClientId = ''apps-web'', otMessage = ''OK''\<rparr>\<rparr> ''apps-web'' []"

definition sample_password_store :: oidc_store where
  "sample_password_store =
     (NewMemoryStore (\<lambda>l p. Inr (if p = ''pw'' then Some \<lparr>ouLogin = l, ouClaims = [], ouFullName = []\<rparr> else None)))
       \<lparr>AllowPasswordGrant := True\<rparr>"

definition sample_password_request :: OAuthRequest where
  "sample_password_request =
     \<lparr>reqId = ''r1'', oaClient = sample_password_client, oaRequestedScopes = [''offline''], oaGrantedScopes = [],
      oaRequestedAudience = [], oaGrantedAudience = [], oaGrantTypes = [''password''],
      oaForm = [(''username'', ''jim''), (''password'', ''pw''), (''client_id'', ''apps-web'')], oaSession = None\<rparr>"

definition sample_fosite_config :: FositeConfig where
  "sample_fosite_config =
     \<lparr>cfAccessTokenLifespan = 3600, cfRefreshTokenLifespan = 7200, cfIDTokenLifespan = 3600, cfRefreshTokenScopes = [''offline''],
      cfTokenEntropy = 32, cfGlobalSecret = ''secret'', cfAuthorizeCodeLifespan = 600, cfAccessTokenIssuer = ''https://kubauth'',
      cfIDTokenIssuer = ''https://kubauth'', cfEnforcePKCE = False, cfEnforcePKCEForPublicClients = False,
      cfEnablePKCEPlainChallengeMethod = False\<rparr>"

lemma sample_fosite_grants: "grants sample_fosite"
  by (auto simp: grants_def sample_fosite_def)

theorem password_grant_guarded_witness:
  "\<exists>request'. HandleTokenEndpointRequest sample_fosite sample_fosite_config 10 sample_password_store sample_password_request =
       Inr request'
     \<and> GetSubject (oaSession request') = ''jim'' \<and> set (oaGrantedScopes request') = {''offline'', ''openid''}"
proof -
  have "\<exists>request'. HandleTokenEndpointRequest sample_fosite sample_fosite_config 10 sample_password_store
      sample_password_request = Inr request'"
    by (simp add: HandleTokenEndpointRequest_def CanHandleTokenEndpointRequest_def sample_fosite_def
        sample_password_store_def sample_password_request_def sample_password_client_def NewKubauthClient_def
        form_get_def AuthenticateUserWithClaims_def NewMemoryStore_def Let_def)
  then obtain request' where run: "HandleTokenEndpointRequest sample_fosite sample_fosite_config 10 sample_password_store
      sample_password_request = Inr request'" by blast
  have facts: "Authenticator sample_password_store (form_get (oaForm sample_password_request) ''username'')
        (form_get (oaForm sample_password_request) ''password'') =
        Inr (Some \<lparr>ouLogin = ''jim'', ouClaims = [], ouFullName = []\<rparr>)"
      "oaGrantedScopes sample_password_request = []" "oaRequestedScopes sample_password_request = [''offline'']"
      "IsForceOpenIdScope (oaClient sample_password_request)"
    by (simp_all add: sample_password_store_def sample_password_request_def sample_password_client_def form_get_def
        NewMemoryStore_def NewKubauthClient_def IsForceOpenIdScope_def)
  from password_grant_guarded [OF run sample_fosite_grants] run facts show ?thesis by auto
qed

section \<open>The tokens of the password grant\<close>

text \<open>
  A response with an access token means that the token's signature is stored with the sanitised request; a
  refresh token is stored with the signature of that access token.
\<close>

lemma IssueAccessToken_stored:
  assumes "IssueAccessToken f now store l r rs = (store', Inr (signature, rs'))"
  shows "GetAccessTokenSession store' signature = (Some (fSanitize f r), None)"
  using assms
  by (auto simp: IssueAccessToken_def GetAccessTokenSession_def lookup_in_def CreateAccessTokenSession_def Let_def
      split: sum.splits prod.splits)

lemma addRefreshToken_frame:
  "addRefreshToken f cf store g r rs = (store', res) \<Longrightarrow> AccessTokens store' = AccessTokens store"
  by (auto simp: addRefreshToken_def CreateRefreshTokenSession_def split: if_splits sum.splits prod.splits)

lemma addIDToken_frame: "addIDToken f cf store g r rs = (store', res) \<Longrightarrow> AccessTokens store' = AccessTokens store"
  by (auto simp: addIDToken_def CreateOpenIDConnectSession_def split: if_splits sum.splits prod.splits)

lemma PopulateTokenEndpointResponse_stored:
  assumes "PopulateTokenEndpointResponse f cf now store r rs = (store', Inr rs')"
  shows "\<exists>token signature. fGenerateAccessToken f r = Inr (token, signature)
    \<and> GetAccessTokenSession store' signature = (Some (fSanitize f r), None)"
proof -
  obtain s1 g r1 s2 r2 where steps: "IssueAccessToken f now store
        (GetEffectiveLifespan (oaClient r) AccessToken (cfAccessTokenLifespan cf)) r rs = (s1, Inr (g, r1))"
      "addRefreshToken f cf s1 g r r1 = (s2, Inr r2)" "addIDToken f cf s2 g r r2 = (store', Inr rs')"
    using assms by (auto simp: PopulateTokenEndpointResponse_def split: if_splits prod.splits sum.splits)
  have "AccessTokens store' = AccessTokens s1"
    using addRefreshToken_frame [OF steps(2)] addIDToken_frame [OF steps(3)] by simp
  then have "GetAccessTokenSession store' g = GetAccessTokenSession s1 g"
    by (rule GetAccessTokenSession_frame)
  moreover obtain token where "fGenerateAccessToken f r = Inr (token, g)"
    using steps(1) by (auto simp: IssueAccessToken_def Let_def split: sum.splits)
  ultimately show ?thesis using IssueAccessToken_stored [OF steps(1)] by auto
qed

end
