(* ===== verification/SessionStore.thy ===== *)
theory SessionStore
  imports K8s HttpProvider
begin

text \<open>
  The sessions of the login pages: \<^verbatim>\<open>cmd/oidc/sessioncodec/jsoncodec.go\<close> writes the values of a session
  as JSON, \<^verbatim>\<open>cmd/oidc/sessionstore/kubessostore.go\<close> keeps the SSO sessions as \<^verbatim>\<open>SsoSession\<close> resources,
  and \<^verbatim>\<open>kubessocleaner.go\<close> deletes the expired ones.

  A time is the number of nanoseconds since the zero time of Go, so \<^verbatim>\<open>IsZero\<close> is a comparison with 0.  How
  a time is written in JSON is the parameter \<open>TimeText\<close>.  The bytes of a session are empty, a JSON document
  or something else.  The API server is the record of its objects and of the errors it answers with.
\<close>

section \<open>The codec\<close>

datatype raw = RawEmpty | RawJson json | RawJunk string

record TimeText =
  timeText :: "int \<Rightarrow> string"
  timeRead :: "string \<Rightarrow> int option"

record sessionEnvelope =
  envDeadline :: int
  envValues :: "claims option"

fun into_time :: "TimeText \<Rightarrow> json \<Rightarrow> int \<Rightarrow> int option" where
  "into_time tt (JStr s) old = timeRead tt s"
| "into_time tt JNull old = Some old"
| "into_time tt _ old = None"

definition envelope_fields :: "TimeText \<Rightarrow> sessionEnvelope field list" where
  "envelope_fields tt =
     [(''deadline'', \<lambda>j e. map_option (\<lambda>x. e\<lparr>envDeadline := x\<rparr>) (into_time tt j (envDeadline e))),
      (''values'', \<lambda>j e. map_option (\<lambda>x. e\<lparr>envValues := x\<rparr>) (into_claims j (envValues e)))]"

text \<open>\<^verbatim>\<open>json.Unmarshal\<close> into a struct: a member without a field is ignored.\<close>

fun unmarshal_members :: "'r field list \<Rightarrow> (string \<times> json) list \<Rightarrow> 'r \<Rightarrow> 'r option" where
  "unmarshal_members fs [] dst = Some dst"
| "unmarshal_members fs ((name, j) # es) dst =
     (case find_field fs name of
        None \<Rightarrow> unmarshal_members fs es dst
      | Some f \<Rightarrow>
          (case snd f j dst of
             None \<Rightarrow> None
           | Some dst' \<Rightarrow> unmarshal_members fs es dst'))"

fun unmarshal :: "'r field list \<Rightarrow> json \<Rightarrow> 'r \<Rightarrow> 'r option" where
  "unmarshal fs (JObj es) dst = unmarshal_members fs es dst"
| "unmarshal fs JNull dst = Some dst"
| "unmarshal fs _ dst = None"

definition zero_envelope :: sessionEnvelope where
  "zero_envelope = \<lparr>envDeadline = 0, envValues = None\<rparr>"

fun read_envelope :: "TimeText \<Rightarrow> raw \<Rightarrow> sessionEnvelope option" where
  "read_envelope tt RawEmpty = Some zero_envelope"
| "read_envelope tt (RawJson j) = unmarshal (envelope_fields tt) j zero_envelope"
| "read_envelope tt (RawJunk s) = None"

definition codec_Encode :: "TimeText \<Rightarrow> int \<Rightarrow> claims option \<Rightarrow> raw" where
  "codec_Encode tt deadline values =
     RawJson (JObj [(''deadline'', JStr (timeText tt deadline)), (''values'', j_claims values)])"

definition codec_Decode :: "TimeText \<Rightarrow> raw \<Rightarrow> (int \<times> claims) option" where
  "codec_Decode tt b =
     (if b = RawEmpty then Some (0, [])
      else
        (case read_envelope tt b of
           None \<Rightarrow> None
         | Some payload \<Rightarrow> Some (envDeadline payload, entries (envValues payload))))"

section \<open>The store\<close>

record SsoSession =
  ssName :: string
  ssAnnotations :: "raw gomap option"
  ssLogin :: string
  ssFullName :: string
  ssWebToken :: string
  ssDeadline :: int
  ssExpiry :: int
  ssClaims :: "json option"

record SsoApi =
  ssoObjects :: "SsoSession gomap"
  ssoGetErr :: "string \<Rightarrow> kerr option"
  ssoCreateErr :: "string \<Rightarrow> kerr option"
  ssoUpdateErr :: "string \<Rightarrow> kerr option"
  ssoDeleteErr :: "string \<Rightarrow> kerr option"
  ssoListErr :: "kerr option"

definition sso_get :: "SsoApi \<Rightarrow> string \<Rightarrow> kerr + SsoSession" where
  "sso_get api name =
     (case ssoGetErr api name of
        Some e \<Rightarrow> Inl e
      | None \<Rightarrow> (case gget (ssoObjects api) name of None \<Rightarrow> Inl KNotFound | Some o' \<Rightarrow> Inr o'))"

definition sso_create :: "SsoApi \<Rightarrow> SsoSession \<Rightarrow> SsoApi \<times> kerr option" where
  "sso_create api ss =
     (case ssoCreateErr api (ssName ss) of
        Some e \<Rightarrow> (api, Some e)
      | None \<Rightarrow>
          if gget (ssoObjects api) (ssName ss) \<noteq> None then (api, Some (KError ''already exists''))
          else (api\<lparr>ssoObjects := gput (ssName ss) ss (ssoObjects api)\<rparr>, None))"

definition sso_update :: "SsoApi \<Rightarrow> SsoSession \<Rightarrow> SsoApi \<times> kerr option" where
  "sso_update api ss =
     (case ssoUpdateErr api (ssName ss) of
        Some e \<Rightarrow> (api, Some e)
      | None \<Rightarrow> (api\<lparr>ssoObjects := gput (ssName ss) ss (ssoObjects api)\<rparr>, None))"

definition sso_delete :: "SsoApi \<Rightarrow> string \<Rightarrow> SsoApi \<times> kerr option" where
  "sso_delete api name =
     (case ssoDeleteErr api name of
        Some e \<Rightarrow> (api, Some e)
      | None \<Rightarrow>
          if gget (ssoObjects api) name = None then (api, Some KNotFound)
          else (api\<lparr>ssoObjects := gdel name (ssoObjects api)\<rparr>, None))"

definition annotationRawSession :: string where
  "annotationRawSession = ''kubauth.kubotal.io/session''"

text \<open>\<^verbatim>\<open>encodeName\<close>, with the hexadecimal SHA-256 digest as a parameter.\<close>

definition encodeName :: "(string \<Rightarrow> string) \<Rightarrow> string \<Rightarrow> string" where
  "encodeName sha token = ''h-'' @ sha token"

definition FindCtx :: "(string \<Rightarrow> string) \<Rightarrow> SsoApi \<Rightarrow> string \<Rightarrow> raw option \<times> kerr option" where
  "FindCtx sha api token =
     (case sso_get api (encodeName sha token) of
        Inl e \<Rightarrow> (None, IgnoreNotFound (Some e))
      | Inr sess \<Rightarrow>
          (case ssAnnotations sess of
             None \<Rightarrow> (None, None)
           | Some annotations \<Rightarrow>
               (case gget annotations annotationRawSession of
                  None \<Rightarrow> (None, None)
                | Some raw \<Rightarrow> if raw = RawEmpty then (None, None) else (Some raw, None))))"

text \<open>\<^verbatim>\<open>v.(map[string]interface{})\<close> with a failed assertion ignored: a nil map.\<close>

fun as_map :: "gval \<Rightarrow> claims option" where
  "as_map (VMap m) = Some m"
| "as_map _ = None"

definition either_key :: "claims \<Rightarrow> string \<Rightarrow> string \<Rightarrow> gval option" where
  "either_key m k k' = (case gget m k of Some v \<Rightarrow> Some v | None \<Rightarrow> gget m k')"

definition asUser :: "gval \<Rightarrow> (string \<times> claims option \<times> string) option" where
  "asUser v =
     (case v of
        VMap m \<Rightarrow>
          (case either_key m ''Login'' ''login'' of
             None \<Rightarrow> None
           | Some loginV \<Rightarrow>
               Some (as_string (Some loginV),
                     (case either_key m ''Claims'' ''claims'' of None \<Rightarrow> None | Some c \<Rightarrow> as_map c),
                     as_string (either_key m ''FullName'' ''fullName'')))
      | _ \<Rightarrow> None)"

fun firstUser :: "claims \<Rightarrow> string \<times> claims option \<times> string" where
  "firstUser [] = ([], None, [])"
| "firstUser ((k, v) # es) = (case asUser v of Some u \<Rightarrow> u | None \<Rightarrow> firstUser es)"

definition extractUser :: "claims option \<Rightarrow> string \<times> claims option \<times> string" where
  "extractUser values =
     (case values of
        None \<Rightarrow> ([], None, [])
      | Some vs \<Rightarrow>
          (case gget vs ''ssoUser'' of
             Some v \<Rightarrow> (case asUser v of Some u \<Rightarrow> u | None \<Rightarrow> firstUser vs)
           | None \<Rightarrow> firstUser vs))"

definition CommitCtx ::
  "TimeText \<Rightarrow> (string \<Rightarrow> string) \<Rightarrow> SsoApi \<Rightarrow> string \<Rightarrow> raw \<Rightarrow> int \<Rightarrow> SsoApi \<times> kerr option" where
  "CommitCtx tt sha api token b expiry =
     (case read_envelope tt b of
        None \<Rightarrow> (api, Some (KError ''invalid session''))
      | Some env \<Rightarrow>
          (case extractUser (envValues env) of
             (login, cs, fullName) \<Rightarrow>
               if login = [] then (api, None)
               else
                 (let name = encodeName sha token;
                      claimsJson = map_option json_of_claims cs
                  in case sso_get api name of
                       Inl e \<Rightarrow>
                         sso_create api
                           \<lparr>ssName = name, ssAnnotations = Some [(annotationRawSession, b)], ssLogin = login,
                            ssFullName = fullName, ssWebToken = token, ssDeadline = envDeadline env,
                            ssExpiry = expiry, ssClaims = claimsJson\<rparr>
                     | Inr existing \<Rightarrow>
                         sso_update api
                           (existing\<lparr>ssAnnotations := Some (gput annotationRawSession b (entries (ssAnnotations existing))),
                              ssLogin := login, ssFullName := fullName, ssWebToken := token,
                              ssDeadline := envDeadline env, ssExpiry := expiry, ssClaims := claimsJson\<rparr>))))"

definition DeleteCtx :: "(string \<Rightarrow> string) \<Rightarrow> SsoApi \<Rightarrow> string \<Rightarrow> SsoApi \<times> kerr option" where
  "DeleteCtx sha api token = sso_delete api (encodeName sha token)"

definition AllCtx :: "SsoApi \<Rightarrow> kerr + string list" where
  "AllCtx api =
     (case ssoListErr api of
        Some e \<Rightarrow> Inl e
      | None \<Rightarrow> Inr (filter (\<lambda>t. t \<noteq> []) (map (\<lambda>(n, ss). ssWebToken ss) (ssoObjects api))))"

section \<open>The cleaner\<close>

definition session_expired :: "int \<Rightarrow> SsoSession \<Rightarrow> bool" where
  "session_expired now item \<longleftrightarrow>
     (ssExpiry item \<noteq> 0 \<and> now > ssExpiry item) \<or> (ssDeadline item \<noteq> 0 \<and> now > ssDeadline item)"

fun cleanLoop :: "int \<Rightarrow> SsoSession list \<Rightarrow> SsoApi \<Rightarrow> SsoApi" where
  "cleanLoop now [] api = api"
| "cleanLoop now (item # items) api =
     cleanLoop now items (if session_expired now item then fst (sso_delete api (ssName item)) else api)"

definition cleanupOnce :: "int \<Rightarrow> SsoApi \<Rightarrow> SsoApi" where
  "cleanupOnce now api =
     (if ssoListErr api \<noteq> None then api else cleanLoop now (map snd (ssoObjects api)) api)"

section \<open>A session comes back\<close>

text \<open>How a user is stored in a session.\<close>

definition user_value :: "OidcUser \<Rightarrow> gval" where
  "user_value u =
     VMap [(''Login'', VStr (ouLogin u)), (''Claims'', VMap (ouClaims u)), (''FullName'', VStr (ouFullName u))]"

definition json_trip :: "gval \<Rightarrow> gval" where
  "json_trip v = json_any (json_of v)"

lemma json_trip_map:
  assumes "wf_gomap m"
  shows "\<exists>n. json_trip (VMap m) = VMap n \<and> wf_gomap n \<and> (\<forall>k. gget n k = map_option json_trip (gget m k))"
proof -
  let ?n = "on_values json_any (sort_key fst (on_values json_of m))"
  have "json_trip (VMap m) = VMap ?n" using assms by (simp add: json_trip_def)
  moreover have "gget ?n k = map_option json_trip (gget m k)" for k
    using assms by (cases "gget m k") (simp_all add: gget_on_values gget_sort_key json_trip_def comp_def)
  ultimately show ?thesis using assms by auto
qed

lemma json_trip_Str [simp]: "json_trip (VStr s) = VStr s"
  by (simp add: json_trip_def)

lemma user_value_trip:
  assumes "wf_gomap (ouClaims u)"
  shows "\<exists>m c. json_trip (user_value u) = VMap m \<and> gget m ''Login'' = Some (VStr (ouLogin u))
    \<and> gget m ''FullName'' = Some (VStr (ouFullName u)) \<and> gget m ''Claims'' = Some (VMap c)
    \<and> json_trip (VMap (ouClaims u)) = VMap c"
proof -
  let ?u = "[(''Login'', VStr (ouLogin u)), (''Claims'', VMap (ouClaims u)), (''FullName'', VStr (ouFullName u))]"
  obtain m where m: "json_trip (user_value u) = VMap m" "\<forall>k. gget m k = map_option json_trip (gget ?u k)"
    using json_trip_map [of ?u] by (auto simp: user_value_def)
  obtain c where "json_trip (VMap (ouClaims u)) = VMap c" using json_trip_map [OF assms] by blast
  with m show ?thesis by auto
qed

lemma read_envelope_Encode:
  assumes "timeRead tt (timeText tt d) = Some d" "wf_gomap vs"
  shows "\<exists>n. read_envelope tt (codec_Encode tt d (Some vs)) = Some \<lparr>envDeadline = d, envValues = Some n\<rparr>
    \<and> json_trip (VMap vs) = VMap n"
proof -
  have ff: "find_field (envelope_fields tt) ''deadline'' =
        Some (''deadline'', \<lambda>j e. map_option (\<lambda>x. e\<lparr>envDeadline := x\<rparr>) (into_time tt j (envDeadline e)))"
      "find_field (envelope_fields tt) ''values'' =
        Some (''values'', \<lambda>j e. map_option (\<lambda>x. e\<lparr>envValues := x\<rparr>) (into_claims j (envValues e)))"
    by (simp_all add: find_field_def envelope_fields_def)
  obtain n where n: "json_trip (VMap vs) = VMap n" using json_trip_map [OF assms(2)] by blast
  have "into_claims (json_of_claims vs) None = Some (Some n)"
    using n by (simp add: json_of_claims_def json_trip_def)
  with n show ?thesis
    by (simp add: codec_Encode_def ff zero_envelope_def assms(1))
qed

lemma extractUser_trip:
  assumes "wf_gomap (ouClaims u)" "json_trip (VMap [(''ssoUser'', user_value u)]) = VMap n"
  shows "fst (extractUser (Some n)) = ouLogin u"
proof -
  obtain m where m: "json_trip (user_value u) = VMap m" "gget m ''Login'' = Some (VStr (ouLogin u))"
    using user_value_trip [OF assms(1)] by blast
  have "gget n ''ssoUser'' = Some (VMap m)"
    using json_trip_map [of "[(''ssoUser'', user_value u)]"] assms(2) m(1) by auto
  with m(2) show ?thesis by (simp add: extractUser_def asUser_def either_key_def)
qed

lemma CommitCtx_stored:
  assumes "read_envelope tt b = Some env" "fst (extractUser (envValues env)) \<noteq> []"
    and "CommitCtx tt sha api token b expiry = (api', None)"
    and "b \<noteq> RawEmpty" "ssoGetErr api = (\<lambda>n. None)" "\<forall>n ss. gget (ssoObjects api) n = Some ss \<longrightarrow> ssName ss = n"
  shows "\<exists>ss. ssoObjects api' = gput (encodeName sha token) ss (ssoObjects api) \<and> ssoGetErr api' = (\<lambda>n. None)
    \<and> ssAnnotations ss \<noteq> None \<and> gget (entries (ssAnnotations ss)) annotationRawSession = Some b
    \<and> ssExpiry ss = expiry \<and> ssDeadline ss = envDeadline env"
proof -
  obtain login cs fullName where u: "extractUser (envValues env) = (login, cs, fullName)" "login \<noteq> []"
    using assms(2) by (metis fst_conv prod_cases3)
  show ?thesis
  proof (cases "gget (ssoObjects api) (encodeName sha token)")
    case None
    with assms u show ?thesis
      by (auto simp: CommitCtx_def sso_get_def sso_create_def Let_def split: option.splits)
  next
    case (Some ss)
    with assms(6) have "ssName ss = encodeName sha token" by blast
    with Some assms u show ?thesis
      by (auto simp: CommitCtx_def sso_get_def sso_update_def Let_def split: option.splits)
  qed
qed

lemma FindCtx_object:
  assumes "ssoGetErr api = (\<lambda>n. None)"
  shows "FindCtx sha api token =
    (case gget (ssoObjects api) (encodeName sha token) of
       None \<Rightarrow> (None, None)
     | Some ss \<Rightarrow>
         (case gget (entries (ssAnnotations ss)) annotationRawSession of
            None \<Rightarrow> (None, None) | Some raw \<Rightarrow> (if raw = RawEmpty then None else Some raw, None)))"
  using assms by (auto simp: FindCtx_def sso_get_def split: option.split)


section \<open>Expired sessions\<close>

definition wf_sso :: "SsoApi \<Rightarrow> bool" where
  "wf_sso api \<longleftrightarrow> wf_gomap (ssoObjects api) \<and> (\<forall>(n, ss) \<in> set (ssoObjects api). ssName ss = n)"

lemma sso_delete_objects:
  "gget (ssoObjects (fst (sso_delete api name))) n =
     (if n = name \<and> ssoDeleteErr api name = None then None else gget (ssoObjects api) n)"
  "ssoDeleteErr (fst (sso_delete api name)) = ssoDeleteErr api"
  by (auto simp: sso_delete_def split: option.splits)

lemma cleanLoop_objects:
  "gget (ssoObjects (cleanLoop now items api)) n =
     (if ssoDeleteErr api n = None \<and> (\<exists>item \<in> set items. ssName item = n \<and> session_expired now item) then None
      else gget (ssoObjects api) n)"
proof (induction items arbitrary: api)
  case (Cons item items)
  show ?case by (auto simp: Cons.IH sso_delete_objects)
qed simp

lemma cleanupOnce_objects:
  assumes "wf_sso api" "ssoListErr api = None"
  shows "gget (ssoObjects (cleanupOnce now api)) n =
    (case gget (ssoObjects api) n of
       None \<Rightarrow> None
     | Some ss \<Rightarrow> if session_expired now ss \<and> ssoDeleteErr api n = None then None else Some ss)"
proof -
  have wf: "wf_gomap (ssoObjects api)" and names: "\<And>n ss. (n, ss) \<in> set (ssoObjects api) \<Longrightarrow> ssName ss = n"
    using assms(1) by (auto simp: wf_sso_def)
  have "(\<exists>item \<in> set (map snd (ssoObjects api)). ssName item = n \<and> session_expired now item) \<longleftrightarrow>
      (\<exists>ss. gget (ssoObjects api) n = Some ss \<and> session_expired now ss)"
    using names by (force simp: wf_gget_iff [OF wf])
  then show ?thesis
    using assms(2) by (auto simp: cleanupOnce_def cleanLoop_objects split: option.splits)
qed

lemma cleanLoop_GetErr: "ssoGetErr (cleanLoop now items api) = ssoGetErr api"
  by (induction items arbitrary: api) (auto simp: sso_delete_def split: option.splits)

text \<open>
  C37: what ends an SSO session.  A run of the cleaner deletes exactly the sessions whose expiry or deadline
  has passed and that the API server lets it delete.  It is the only thing that ends a session: as long as
  the cleaner has not run, a lookup still returns a session that has expired.
\<close>

theorem sso_cleanup:
  assumes "wf_sso api" and "ssoListErr api = None" and "ssoGetErr api = (\<lambda>n. None)"
    and "gget (ssoObjects api) (encodeName sha token) = Some ss"
    and "gget (entries (ssAnnotations ss)) annotationRawSession = Some b" and "b \<noteq> RawEmpty"
  shows "FindCtx sha api token = (Some b, None)
    \<and> FindCtx sha (cleanupOnce now api) token =
        (if session_expired now ss \<and> ssoDeleteErr api (encodeName sha token) = None then (None, None) else (Some b, None))
    \<and> (\<forall>n. n \<noteq> encodeName sha token \<longrightarrow>
         gget (ssoObjects (cleanupOnce now api)) n =
           (case gget (ssoObjects api) n of
              None \<Rightarrow> None
            | Some ss' \<Rightarrow> if session_expired now ss' \<and> ssoDeleteErr api n = None then None else Some ss'))"
proof -
  have "ssoGetErr (cleanupOnce now api) = (\<lambda>n. None)"
    using assms(3) by (simp add: cleanupOnce_def cleanLoop_GetErr)
  with assms cleanupOnce_objects [OF assms(1,2), of now] show ?thesis
    by (simp add: FindCtx_object)
qed

definition sample_sso_api :: SsoApi where
  "sample_sso_api =
     \<lparr>ssoObjects =
        [(''h-abc'',
          \<lparr>ssName = ''h-abc'', ssAnnotations = Some [(annotationRawSession, RawJson JNull)], ssLogin = ''jim'',
           ssFullName = [], ssWebToken = ''abc'', ssDeadline = 100, ssExpiry = 100, ssClaims = None\<rparr>)],
      ssoGetErr = (\<lambda>n. None), ssoCreateErr = (\<lambda>n. None), ssoUpdateErr = (\<lambda>n. None), ssoDeleteErr = (\<lambda>n. None),
      ssoListErr = None\<rparr>"

theorem sso_cleanup_witness:
  "FindCtx (\<lambda>t. t) sample_sso_api ''abc'' = (Some (RawJson JNull), None)
   \<and> FindCtx (\<lambda>t. t) (cleanupOnce 101 sample_sso_api) ''abc'' = (None, None)"
  using sso_cleanup [of sample_sso_api "\<lambda>t. t" "''abc''" _ "RawJson JNull" 101]
  by (simp add: sample_sso_api_def wf_sso_def encodeName_def session_expired_def)

definition sample_time :: TimeText where
  "sample_time = \<lparr>timeText = (\<lambda>t. if t = 100 then ''T'' else []), timeRead = (\<lambda>s. if s = ''T'' then Some 100 else None)\<rparr>"

definition sample_oidc_user :: OidcUser where
  "sample_oidc_user = \<lparr>ouLogin = ''jim'', ouClaims = [(''groups'', VStrs [''ops''])], ouFullName = ''Jim''\<rparr>"


end
