(* ===== verification/GoText.thy ===== *)
theory GoText
  imports Prelude
begin

text \<open>
  The functions of Go's standard library on texts that the servers use: \<^verbatim>\<open>strings.TrimSpace\<close> and
  \<^verbatim>\<open>strings.ToUpper\<close>, and the query strings of \<^verbatim>\<open>net/url\<close>.  A text is its list of bytes.
\<close>

section \<open>White space\<close>

text \<open>The encodings of the white space runes of Unicode.\<close>

definition white_runes :: "string list" where
  "white_runes =
     [[CHR 0x09], [CHR 0x0A], [CHR 0x0B], [CHR 0x0C], [CHR 0x0D], [CHR 0x20], [CHR 0xC2, CHR 0x85], [CHR 0xC2, CHR 0xA0],
      [CHR 0xE1, CHR 0x9A, CHR 0x80], [CHR 0xE2, CHR 0x80, CHR 0x80], [CHR 0xE2, CHR 0x80, CHR 0x81],
      [CHR 0xE2, CHR 0x80, CHR 0x82], [CHR 0xE2, CHR 0x80, CHR 0x83], [CHR 0xE2, CHR 0x80, CHR 0x84],
      [CHR 0xE2, CHR 0x80, CHR 0x85], [CHR 0xE2, CHR 0x80, CHR 0x86], [CHR 0xE2, CHR 0x80, CHR 0x87],
      [CHR 0xE2, CHR 0x80, CHR 0x88], [CHR 0xE2, CHR 0x80, CHR 0x89], [CHR 0xE2, CHR 0x80, CHR 0x8A],
      [CHR 0xE2, CHR 0x80, CHR 0xA8], [CHR 0xE2, CHR 0x80, CHR 0xA9], [CHR 0xE2, CHR 0x80, CHR 0xAF],
      [CHR 0xE2, CHR 0x81, CHR 0x9F], [CHR 0xE3, CHR 0x80, CHR 0x80]]"

definition begins_with :: "string list \<Rightarrow> string \<Rightarrow> string option" where
  "begins_with ws s = find (\<lambda>w. w \<noteq> [] \<and> take (length w) s = w) ws"

lemma begins_with_shorter: "begins_with ws s = Some w \<Longrightarrow> length (drop (length w) s) < length s"
  by (cases s) (auto simp: begins_with_def find_Some_iff)

function strip :: "string list \<Rightarrow> string \<Rightarrow> string" where
  "strip ws s = (case begins_with ws s of None \<Rightarrow> s | Some w \<Rightarrow> strip ws (drop (length w) s))"
  by pat_completeness auto
termination
  by (relation "measure (\<lambda>(ws, s). length s)") (auto dest: begins_with_shorter)

declare strip.simps [simp del]

definition TrimSpace :: "string \<Rightarrow> string" where
  "TrimSpace s = rev (strip (map rev white_runes) (rev (strip white_runes s)))"

section \<open>Upper case\<close>

definition upper :: "char \<Rightarrow> char" where
  "upper c = (if CHR ''a'' \<le> c \<and> c \<le> CHR ''z'' then char_of (of_char c - 32 :: nat) else c)"

text \<open>
  \<^verbatim>\<open>ToUpper\<close>, as far as the result is ASCII: besides the small letters, the dotless i and the long s are the
  runes with an ASCII capital.
\<close>

fun ToUpper :: "string \<Rightarrow> string" where
  "ToUpper [] = []"
| "ToUpper [c] = [upper c]"
| "ToUpper (c # d # cs) =
     (if c = CHR 0xC4 \<and> d = CHR 0xB1 then CHR ''I'' # ToUpper cs
      else if c = CHR 0xC5 \<and> d = CHR 0xBF then CHR ''S'' # ToUpper cs
      else upper c # ToUpper (d # cs))"

section \<open>Query strings\<close>

fun cut :: "char \<Rightarrow> string \<Rightarrow> string \<times> string" where
  "cut sep [] = ([], [])"
| "cut sep (c # cs) = (if c = sep then ([], cs) else (let (a, b) = cut sep cs in (c # a, b)))"

fun pieces :: "char \<Rightarrow> string \<Rightarrow> string list" where
  "pieces sep [] = [[]]"
| "pieces sep (c # cs) =
     (if c = sep then [] # pieces sep cs
      else (case pieces sep cs of [] \<Rightarrow> [[c]] | p # ps \<Rightarrow> (c # p) # ps))"

definition hex_digit :: "nat \<Rightarrow> char" where
  "hex_digit n = ''0123456789ABCDEF'' ! n"

definition unhex :: "char \<Rightarrow> nat option" where
  "unhex c =
     (if CHR ''0'' \<le> c \<and> c \<le> CHR ''9'' then Some (of_char c - 48)
      else if CHR ''a'' \<le> c \<and> c \<le> CHR ''f'' then Some (of_char c - 87)
      else if CHR ''A'' \<le> c \<and> c \<le> CHR ''F'' then Some (of_char c - 55)
      else None)"

definition unreserved :: "char \<Rightarrow> bool" where
  "unreserved c \<longleftrightarrow>
     (CHR ''a'' \<le> c \<and> c \<le> CHR ''z'') \<or> (CHR ''A'' \<le> c \<and> c \<le> CHR ''Z'') \<or> (CHR ''0'' \<le> c \<and> c \<le> CHR ''9'')
     \<or> c \<in> set ''-_.~''"

fun QueryEscape :: "string \<Rightarrow> string" where
  "QueryEscape [] = []"
| "QueryEscape (c # cs) =
     (if unreserved c then c # QueryEscape cs
      else if c = CHR '' '' then CHR ''+'' # QueryEscape cs
      else CHR ''%'' # hex_digit (of_char c div 16) # hex_digit (of_char c mod 16) # QueryEscape cs)"

fun QueryUnescape :: "string \<Rightarrow> string option" where
  "QueryUnescape [] = Some []"
| "QueryUnescape (c # cs) =
     (if c = CHR ''%'' then
        (case cs of
           h # l # rest \<Rightarrow>
             (case (unhex h, unhex l) of
                (Some a, Some b) \<Rightarrow> map_option ((#) (char_of (16 * a + b))) (QueryUnescape rest)
              | _ \<Rightarrow> None)
         | _ \<Rightarrow> None)
      else if c = CHR ''+'' then map_option ((#) (CHR '' '')) (QueryUnescape cs)
      else map_option ((#) c) (QueryUnescape cs))"

text \<open>
  \<^verbatim>\<open>url.ParseQuery\<close>: the first value of every key, and whether there was an error.  What could be read before
  and after a faulty part stays; too many parameters are refused as a whole.
\<close>

definition query_pair :: "string gomap \<times> bool \<Rightarrow> string \<Rightarrow> string gomap \<times> bool" where
  "query_pair acc piece =
     (let (m, failed) = acc; (k, v) = cut (CHR ''='') piece
      in if CHR '';'' \<in> set piece then (m, True)
         else if piece = [] then (m, failed)
         else
           (case (QueryUnescape k, QueryUnescape v) of
              (Some k', Some v') \<Rightarrow> (if gget m k' = None then gput k' v' m else m, failed)
            | _ \<Rightarrow> (m, True)))"

definition ParseQuery :: "string \<Rightarrow> string gomap \<times> bool" where
  "ParseQuery query =
     (let ps = pieces (CHR ''&'') query
      in if length ps > 10000 then ([], True) else foldl query_pair ([], False) ps)"

section \<open>Escaping is undone by parsing\<close>

lemma hex_digits: "list_all (\<lambda>n. unhex (hex_digit n) = Some n \<and> unreserved (hex_digit n)) [0..<16]"
  by code_simp

lemma unhex_hex_digit: "n < 16 \<Longrightarrow> unhex (hex_digit n) = Some n"
  and hex_digit_unreserved: "n < 16 \<Longrightarrow> unreserved (hex_digit n)"
  using hex_digits by (simp_all add: list_all_iff)

lemma of_char_div_16: "(of_char c :: nat) div 16 < 16"
proof -
  have "(of_char c :: nat) < 256" by (metis of_char_mod_256 mod_less_divisor zero_less_numeral)
  then show ?thesis by (intro less_mult_imp_div_less) simp
qed

lemma QueryUnescape_QueryEscape [simp]: "QueryUnescape (QueryEscape s) = Some s"
proof (induction s)
  case (Cons c cs)
  have *: "\<not> unreserved (CHR ''%'')" "\<not> unreserved (CHR ''+'')" by (simp_all add: unreserved_def less_eq_char_def)
  have "char_of (43 :: nat) = CHR ''+''" "char_of (37 :: nat) = CHR ''%''" by code_simp+
  then show ?case
    using Cons * by (auto simp: unhex_hex_digit of_char_div_16)
qed simp

lemma QueryEscape_chars: "c \<in> set (QueryEscape s) \<Longrightarrow> unreserved c \<or> c = CHR ''+'' \<or> c = CHR ''%''"
  by (induction s) (auto simp: hex_digit_unreserved of_char_div_16 split: if_splits)

lemma pieces_none: "sep \<notin> set s \<Longrightarrow> pieces sep s = [s]"
  by (induction s) auto

lemma cut_found: "sep \<notin> set a \<Longrightarrow> cut sep (a @ sep # b) = (a, b)"
  by (induction a) auto

lemma unreserved_separators: "\<not> unreserved (CHR ''&'')" "\<not> unreserved (CHR '';'')" "\<not> unreserved (CHR ''='')"
  by (simp_all add: unreserved_def less_eq_char_def)

text \<open>A single escaped parameter comes back.\<close>

lemma ParseQuery_single:
  "ParseQuery (QueryEscape k @ CHR ''='' # QueryEscape v) = ([(k, v)], False)"
proof -
  have clean: "x \<notin> set (QueryEscape s)" if "x \<in> set ''&;=''" for x s
    using QueryEscape_chars [of x s] that unreserved_separators by auto
  show ?thesis
    using clean by (simp add: ParseQuery_def pieces_none query_pair_def cut_found)
qed

end
