(* ===== verification/OidcServer.thy ===== *)
theory OidcServer
  imports FositePatch SessionStore GoText "HOL-Library.Product_Lexorder"
begin

text \<open>
  \<^verbatim>\<open>cmd/oidc/oidcserver\<close>: the endpoints of the OIDC server.  A handler is a function from the server, the
  sessions of the browser and the request to the list of its effects in the order in which they happen:
  replies, redirects and pages, changes of the two sessions, events (the reason and the name the message
  quotes), and authorize or token responses of the OAuth2 library.  Nothing stops a handler at its first
  reply but its own \<^verbatim>\<open>return\<close>, so a list may hold several.

  The OAuth2 and OpenID Connect libraries, the templates and the random numbers are the parameter
  \<open>ServerEnv\<close>; what the OAuth2 library does to the store on the way is not followed.  A session manager keeps
  a pointer to the user it is given and writes the session with the response: \<open>ESsoPut\<close> records the user as
  the handler leaves it, when \<open>newSession\<close> has added the \<open>azp\<close> claim to the same map.  A nil claims map of a
  user is the empty map.  A form that cannot be parsed is \<open>None\<close>; of the values of a query parameter only
  the first is kept.
\<close>

section \<open>State\<close>

datatype SsoMode = SsoAlways | SsoOnDemand | SsoNever

text \<open>An RSA key: its public parts, and the rest.\<close>

record rsaKey =
  rkN :: nat
  rkE :: nat
  rkPrivate :: string

record OIDCServer =
  svIssuer :: string
  svStorage :: oidc_store
  svIdentify :: "string \<Rightarrow> string \<Rightarrow> string + OidcUser \<times> Status"
  svAuthenticate :: "string \<Rightarrow> string \<Rightarrow> string + OidcUser option"
  svPostLogoutURL :: string
  svDefaultStyle :: string
  svSsoMode :: SsoMode
  svDefaultLoginLabel :: string
  svPrivateKey :: rsaKey
  svKeyID :: string
  svAccessTokenLifespan :: int
  svRefreshTokenLifespan :: int
  svAllowPasswordGrant :: bool
  svEnforcePKCE :: bool
  svAllowPKCEPlain :: bool
  svJwtAccessToken :: bool

record WebRequest =
  wMethod :: string
  wRawQuery :: string
  wPostForm :: "string gomap option"
  wHeaders :: "string gomap"

record OAuth2Provider =
  oNewAuthorizeRequest :: "WebRequest \<Rightarrow> string + OAuthRequest"
  oNewAuthorizeResponse :: "OAuthRequest \<Rightarrow> OIDCSession \<Rightarrow> string + string"
  oNewAccessRequest :: "WebRequest \<Rightarrow> OIDCSession \<Rightarrow> string + OAuthRequest"
  oNewAccessResponse :: "OAuthRequest \<Rightarrow> string + AccessResponse"
  oIntrospectToken :: "string \<Rightarrow> TokenType \<Rightarrow> OIDCSession \<Rightarrow> string list \<Rightarrow> string + TokenType \<times> OAuthRequest"
  oNewIntrospectionRequest :: "WebRequest \<Rightarrow> OIDCSession \<Rightarrow> string + string"

text \<open>The options of the oauth2 library, and the token it gets from an upstream provider.\<close>

datatype AuthCodeOption =
    AuthURLParam string string
  | AccessTypeOffline
  | S256Challenge string
  | Verifier string

record OAuthToken =
  tkAccessToken :: string
  tkIdToken :: "gval option"

record ServerEnv =
  evFosite :: Fosite
  evOauth2 :: OAuth2Provider
  evOidc :: OidcLib
  evNow :: int
  evNewRequest :: "string \<Rightarrow> string option"
  evTemplate :: "string option"
  evExchange :: "OAuth2AuthCodeSettings \<Rightarrow> string \<Rightarrow> AuthCodeOption list \<Rightarrow> string + OAuthToken"
  evAuthCodeURL :: "OAuth2AuthCodeSettings \<Rightarrow> string \<Rightarrow> AuthCodeOption list \<Rightarrow> string"

text \<open>\<^verbatim>\<open>r.URL.Query().Get(key)\<close>, which ignores the errors of the parser.\<close>

definition query_get :: "string \<Rightarrow> string \<Rightarrow> string" where
  "query_get rawQuery key = form_get (fst (ParseQuery rawQuery)) key"

record LoginSession =
  lgStrings :: "string gomap"
  lgPendingUser :: raw

definition GetString :: "LoginSession \<Rightarrow> string \<Rightarrow> string" where
  "GetString ls key = form_get (lgStrings ls) key"

record UpstreamButtonModel =
  ubName :: string
  ubDisplayName :: string

record LoginModel =
  lmInvalidLogin :: bool
  lmStyle :: string
  lmUpstreamButtons :: "UpstreamButtonModel list"
  lmShowLoginForm :: bool
  lmFieldsetLabel :: string
  lmShowNoProviderMessage :: bool
  lmShowSsoCheck :: bool

record indexEntry =
  ieDisplayName :: string
  ieDescription :: string
  ieEntryURL :: string

datatype effect =
    EReply nat string
  | ERedirect string
  | EHeader string string
  | EJson json
  | ELoginPage LoginModel
  | EWelcomePage string string
  | EIndexPage "indexEntry list" string
  | ELoginPut string string
  | ELoginPutUser json
  | ELoginRemove string
  | ELoginDestroy
  | ESsoRenew
  | ESsoPut OidcUser
  | ESsoDestroy
  | EEvent string string
  | EAuthorizeError string
  | EAuthorizeResponse OAuthRequest OIDCSession string
  | EAccessError string
  | EAccessResponse OAuthRequest AccessResponse
  | EIntrospectionError string
  | EIntrospectionResponse string
  | EActiveToken TokenType OAuthRequest

section \<open>Sessions of a request\<close>

definition newSession :: "ServerEnv \<Rightarrow> OIDCServer \<Rightarrow> OidcUser option \<Rightarrow> string \<Rightarrow> OIDCSession" where
  "newSession env s user cid =
     (let now = evNow env;
          subject = (case user of None \<Rightarrow> [] | Some u \<Rightarrow> ouLogin u);
          extra = map_option ouClaims user;
          extra' = (if cid \<noteq> [] then Some (gput ''azp'' (VStr cid) (entries extra)) else extra)
      in \<lparr>osIDTokenClaims = Some \<lparr>itIssuer = svIssuer s, itSubject = subject, itAudience = [cid], itIssuedAt = now,
             itRequestedAt = now, itAuthTime = now, itExtra = extra'\<rparr>,
          osJWTClaims = Some \<lparr>jwIssuer = svIssuer s, jwSubject = subject, jwAudience = [cid], jwIssuedAt = now,
             jwExpiresAt = now + svAccessTokenLifespan s, jwExtra = extra'\<rparr>,
          osHeaders = Some [(''kid'', VStr (svKeyID s))],
          osExpiresAt = [], osUsername = subject, osSubject = subject\<rparr>)"

definition GetClientIdFromRequest :: "ServerEnv \<Rightarrow> WebRequest \<Rightarrow> string" where
  "GetClientIdFromRequest env r =
     (case wPostForm r of
        None \<Rightarrow> []
      | Some post \<Rightarrow>
          (case gget post ''client_id'' of Some v \<Rightarrow> v | None \<Rightarrow> query_get (wRawQuery r) ''client_id''))"

definition clientIDFromRawQuery :: "string \<Rightarrow> string" where
  "clientIDFromRawQuery rawQuery =
     (if rawQuery = [] then []
      else (let (v, failed) = ParseQuery rawQuery in if failed then [] else form_get v ''client_id''))"

section \<open>The login page\<close>

definition getStyle :: "OIDCServer \<Rightarrow> string \<Rightarrow> string" where
  "getStyle s cid =
     (if cid = [] then svDefaultStyle s
      else (case GetKubauthClient (svStorage s) cid of
              Inl e \<Rightarrow> svDefaultStyle s
            | Inr client \<Rightarrow> GetStyle client))"

definition button_of :: "upstream \<Rightarrow> UpstreamButtonModel" where
  "button_of u = \<lparr>ubName = uName' u, ubDisplayName = GetDisplayName u\<rparr>"

text \<open>The loop over the upstreams a client names: events for the missing ones, the internal one, the buttons.\<close>

fun clientUpstreams :: "OIDCServer \<Rightarrow> string list \<Rightarrow> effect list \<times> upstream option \<times> UpstreamButtonModel list
    \<Rightarrow> effect list \<times> upstream option \<times> UpstreamButtonModel list" where
  "clientUpstreams s [] acc = acc"
| "clientUpstreams s (nm # nms) (evs, internal, buttons) =
     clientUpstreams s nms
       (case GetUpstream (svStorage s) nm of
          None \<Rightarrow> (evs @ [EEvent ''InvalidUpstreamProvider'' nm], internal, buttons)
        | Some u \<Rightarrow>
            if GetProviderType u = UpstreamProviderTypeInternal then (evs, Some u, buttons)
            else (evs, internal, buttons @ [button_of u]))"

fun globalUpstreams :: "upstream list \<Rightarrow> upstream option \<times> UpstreamButtonModel list
    \<Rightarrow> upstream option \<times> UpstreamButtonModel list" where
  "globalUpstreams [] acc = acc"
| "globalUpstreams (u # us) (internal, buttons) =
     globalUpstreams us
       (if \<not> IsClientSpecific u then
          (if GetProviderType u = UpstreamProviderTypeInternal then (Some u, buttons)
           else (internal, buttons @ [button_of u]))
        else (internal, buttons))"

definition upstreamChoices :: "OIDCServer \<Rightarrow> kubauthClient \<Rightarrow> effect list \<times> upstream option \<times> UpstreamButtonModel list" where
  "upstreamChoices s client =
     (let names = GetUpstreamProviders client
      in if length names > 0 then clientUpstreams s names ([], None, [])
         else
           (let us = GetUpstreams (svStorage s)
            in if length us > 0
               then ([], globalUpstreams (sort_key uName' us) (None, []))
               else ([], Some (NewInternalUpstream (svDefaultLoginLabel s)), [])))"

definition populateLoginModelWithUpstreams :: "OIDCServer \<Rightarrow> kubauthClient \<Rightarrow> LoginModel \<Rightarrow> effect list \<times> LoginModel" where
  "populateLoginModelWithUpstreams s client model =
     (case upstreamChoices s client of
        (evs, internal, buttons) \<Rightarrow>
          (let m1 = (if length buttons > 0 then model\<lparr>lmUpstreamButtons := buttons\<rparr> else model);
               m2 = (case internal of
                       Some u \<Rightarrow> m1\<lparr>lmShowLoginForm := True, lmFieldsetLabel := GetDisplayName u\<rparr>
                     | None \<Rightarrow> m1);
               m3 = (if length buttons = 0 \<and> internal = None then m2\<lparr>lmShowNoProviderMessage := True\<rparr> else m2)
           in (evs, m3)))"

definition loginModel :: "OIDCServer \<Rightarrow> string \<Rightarrow> bool \<Rightarrow> effect list \<times> LoginModel" where
  "loginModel s cid invalidLogin =
     (let model = \<lparr>lmInvalidLogin = invalidLogin, lmStyle = getStyle s cid, lmUpstreamButtons = [],
                   lmShowLoginForm = False, lmFieldsetLabel = [], lmShowNoProviderMessage = False,
                   lmShowSsoCheck = (svSsoMode s = SsoOnDemand)\<rparr>
      in if cid \<noteq> [] then
           (case GetKubauthClient (svStorage s) cid of
              Inl e \<Rightarrow> ([], model)
            | Inr client \<Rightarrow> populateLoginModelWithUpstreams s client model)
         else ([], model))"

definition showLogin :: "ServerEnv \<Rightarrow> bool \<Rightarrow> LoginModel \<Rightarrow> effect list" where
  "showLogin env invalidLogin model =
     (if \<not> invalidLogin \<and> \<not> lmShowLoginForm model \<and> \<not> lmShowNoProviderMessage model
         \<and> length (lmUpstreamButtons model) = 1
      then [ERedirect (''/upstream/go?upstreamProvider='' @ QueryEscape (ubName (lmUpstreamButtons model ! 0)))]
      else
        [EHeader ''Content-Type'' ''text/html; charset=utf-8'', ELoginPage model] @
        (case evTemplate env of None \<Rightarrow> [] | Some e \<Rightarrow> [EReply 500 ''Internal server error'']))"

definition displayLoginResponse :: "ServerEnv \<Rightarrow> OIDCServer \<Rightarrow> string \<Rightarrow> bool \<Rightarrow> effect list" where
  "displayLoginResponse env s cid invalidLogin =
     fst (loginModel s cid invalidLogin) @ showLogin env invalidLogin (snd (loginModel s cid invalidLogin))"

section \<open>Login\<close>

text \<open>The request \<^verbatim>\<open>/oauth2/auth?rawQuery\<close> the handlers make again from the query kept in the session.\<close>

definition recreated :: "string \<Rightarrow> WebRequest" where
  "recreated rawQuery = \<lparr>wMethod = ''GET'', wRawQuery = rawQuery, wPostForm = Some [], wHeaders = []\<rparr>"

definition handleAuthorize :: "ServerEnv \<Rightarrow> WebRequest \<Rightarrow> effect list" where
  "handleAuthorize env r =
     (case oNewAuthorizeRequest (evOauth2 env) r of
        Inl err \<Rightarrow> [EAuthorizeError err]
      | Inr ar \<Rightarrow>
          if wMethod r = ''GET'' then [ERedirect (''/oauth2/login?'' @ wRawQuery r)]
          else [EReply 405 ''method not allowed''])"

text \<open>
  The flow with the user of the SSO session: the authorize response, or \<open>None\<close> for any of the failures
  that lead to the login page.
\<close>

definition ssoAuthorize ::
  "ServerEnv \<Rightarrow> OIDCServer \<Rightarrow> gval option \<Rightarrow> string \<Rightarrow> string \<Rightarrow> effect option outcome" where
  "ssoAuthorize env s sso rawQuery cid =
     (case sso of
        Some (VMap u) \<Rightarrow>
          if as_string (gget u ''Login'') = [] then Returns None
          else
            (case gget u ''Claims'' of
               Some (VMap claims) \<Rightarrow>
                 Returns
                   (if rawQuery = [] then None
                    else
                      (case evNewRequest env (''/oauth2/auth?'' @ rawQuery) of
                         Some err \<Rightarrow> None
                       | None \<Rightarrow>
                           (case oNewAuthorizeRequest (evOauth2 env) (recreated rawQuery) of
                              Inl err \<Rightarrow> None
                            | Inr ar0 \<Rightarrow>
                                (let ar = HandleAudience (evFosite env) (HandleScopes (evFosite env) ar0);
                                     session = newSession env s
                                       (Some \<lparr>ouLogin = as_string (gget u ''Login''), ouClaims = claims, ouFullName = []\<rparr>) cid
                                 in case oNewAuthorizeResponse (evOauth2 env) ar session of
                                      Inl err \<Rightarrow> None
                                    | Inr response \<Rightarrow> Some (EAuthorizeResponse ar session response)))))
             | _ \<Rightarrow> Panics)
      | _ \<Rightarrow> Returns None)"

definition loginGet :: "ServerEnv \<Rightarrow> OIDCServer \<Rightarrow> gval option \<Rightarrow> WebRequest \<Rightarrow> effect list outcome" where
  "loginGet env s sso r =
     (let rawQuery = wRawQuery r;
          cid = query_get rawQuery ''client_id'';
          puts = [ELoginPut ''authQuery'' rawQuery, ELoginPut ''clientId'' cid]
      in case ssoAuthorize env s sso rawQuery cid of
           Panics \<Rightarrow> Panics
         | Returns (Some response) \<Rightarrow> Returns (puts @ [response])
         | Returns None \<Rightarrow> Returns (puts @ displayLoginResponse env s cid False))"

text \<open>The user once \<open>newSession\<close> was called on it, which happens when the authorize request is accepted.\<close>

definition after_newSession :: "ServerEnv \<Rightarrow> string \<Rightarrow> string \<Rightarrow> OidcUser \<Rightarrow> OidcUser" where
  "after_newSession env rawQuery cid user =
     (if cid \<noteq> [] \<and> evNewRequest env (''/oauth2/auth?'' @ rawQuery) = None
         \<and> \<not> isl (oNewAuthorizeRequest (evOauth2 env) (recreated rawQuery))
      then user\<lparr>ouClaims := gput ''azp'' (VStr cid) (ouClaims user)\<rparr> else user)"

text \<open>The end of the POST branch, once the user is authenticated.\<close>

definition loginAuthorize :: "ServerEnv \<Rightarrow> OIDCServer \<Rightarrow> OidcUser \<Rightarrow> string \<Rightarrow> string \<Rightarrow> effect list" where
  "loginAuthorize env s user rawQuery cid =
     (case evNewRequest env (''/oauth2/auth?'' @ rawQuery) of
        Some err \<Rightarrow> [EReply 500 ''internal error'']
      | None \<Rightarrow>
          (case oNewAuthorizeRequest (evOauth2 env) (recreated rawQuery) of
             Inl err \<Rightarrow> [EAuthorizeError err]
           | Inr ar0 \<Rightarrow>
               (let ar = HandleAudience (evFosite env) (HandleScopes (evFosite env) ar0);
                    session = newSession env s (Some user) cid
                in case oNewAuthorizeResponse (evOauth2 env) ar session of
                     Inl err \<Rightarrow> [EAuthorizeError err]
                   | Inr response \<Rightarrow> [EAuthorizeResponse ar session response])))"

definition loginPost :: "ServerEnv \<Rightarrow> OIDCServer \<Rightarrow> LoginSession \<Rightarrow> WebRequest \<Rightarrow> effect list" where
  "loginPost env s ls r =
     (case wPostForm r of
        None \<Rightarrow> [EReply 400 ''bad request'']
      | Some form \<Rightarrow>
          (let login = form_get form ''login'';
               password = form_get form ''password'';
               remember = (form_get form ''remember'' = ''on'');
               rawQuery = GetString ls ''authQuery''
           in if rawQuery = [] then [EReply 400 ''Session expired. Please restart the login flow.'']
              else
                (let cid = query_get rawQuery ''client_id''
                 in case svAuthenticate s login password of
                      Inl err \<Rightarrow> [EReply 500 ''Internal error on ID provider subsystem. Contact your system administrator'']
                    | Inr None \<Rightarrow> displayLoginResponse env s cid True
                    | Inr (Some user) \<Rightarrow>
                        [ESsoRenew] @
                        (if svSsoMode s = SsoAlways \<or> (svSsoMode s = SsoOnDemand \<and> remember)
                         then [ESsoPut (after_newSession env rawQuery cid user)] else []) @
                        loginAuthorize env s user rawQuery cid)))"

definition handleLogin ::
  "ServerEnv \<Rightarrow> OIDCServer \<Rightarrow> gval option \<Rightarrow> LoginSession \<Rightarrow> WebRequest \<Rightarrow> effect list outcome" where
  "handleLogin env s sso ls r =
     (if wMethod r = ''GET'' then loginGet env s sso r
      else if wMethod r = ''POST'' then Returns (loginPost env s ls r)
      else Returns [EReply 405 ''method not allowed''])"

section \<open>Login with an upstream provider\<close>

definition sessUpstreamState :: string where
  "sessUpstreamState = ''upstreamOAuthState''"

definition sessUpstreamNonce :: string where
  "sessUpstreamNonce = ''upstreamOAuthNonce''"

definition sessUpstreamVerifier :: string where
  "sessUpstreamVerifier = ''upstreamPkceVerifier''"

definition sessUpstreamPKCE :: string where
  "sessUpstreamPKCE = ''upstreamPkceUsed''"

definition sessUpstreamProvider :: string where
  "sessUpstreamProvider = ''upstreamOAuthProvider''"

definition sessPendingUpstreamUser :: string where
  "sessPendingUpstreamUser = ''pendingUpstreamUser''"

lemmas sess_key_defs =
  sessUpstreamState_def sessUpstreamNonce_def sessUpstreamVerifier_def sessUpstreamPKCE_def sessUpstreamProvider_def sessPendingUpstreamUser_def

text \<open>The keys are compared by these facts rather than letter by letter.\<close>

lemma sess_keys [simp]:
  "sessUpstreamState \<noteq> sessUpstreamNonce" "sessUpstreamState \<noteq> sessUpstreamVerifier" "sessUpstreamState \<noteq> sessUpstreamPKCE"
  "sessUpstreamState \<noteq> sessUpstreamProvider" "sessUpstreamState \<noteq> sessPendingUpstreamUser" "sessUpstreamState \<noteq> ''authQuery''"
  "''authQuery'' \<noteq> sessUpstreamState" "sessUpstreamState \<noteq> ''clientId''" "''clientId'' \<noteq> sessUpstreamState"
  "sessUpstreamNonce \<noteq> sessUpstreamState" "sessUpstreamNonce \<noteq> sessUpstreamVerifier" "sessUpstreamNonce \<noteq> sessUpstreamPKCE"
  "sessUpstreamNonce \<noteq> sessUpstreamProvider" "sessUpstreamNonce \<noteq> sessPendingUpstreamUser" "sessUpstreamNonce \<noteq> ''authQuery''"
  "''authQuery'' \<noteq> sessUpstreamNonce" "sessUpstreamNonce \<noteq> ''clientId''" "''clientId'' \<noteq> sessUpstreamNonce"
  "sessUpstreamVerifier \<noteq> sessUpstreamState" "sessUpstreamVerifier \<noteq> sessUpstreamNonce" "sessUpstreamVerifier \<noteq> sessUpstreamPKCE"
  "sessUpstreamVerifier \<noteq> sessUpstreamProvider" "sessUpstreamVerifier \<noteq> sessPendingUpstreamUser"
  "sessUpstreamVerifier \<noteq> ''authQuery''" "''authQuery'' \<noteq> sessUpstreamVerifier" "sessUpstreamVerifier \<noteq> ''clientId''"
  "''clientId'' \<noteq> sessUpstreamVerifier" "sessUpstreamPKCE \<noteq> sessUpstreamState" "sessUpstreamPKCE \<noteq> sessUpstreamNonce"
  "sessUpstreamPKCE \<noteq> sessUpstreamVerifier" "sessUpstreamPKCE \<noteq> sessUpstreamProvider"
  "sessUpstreamPKCE \<noteq> sessPendingUpstreamUser" "sessUpstreamPKCE \<noteq> ''authQuery''" "''authQuery'' \<noteq> sessUpstreamPKCE"
  "sessUpstreamPKCE \<noteq> ''clientId''" "''clientId'' \<noteq> sessUpstreamPKCE" "sessUpstreamProvider \<noteq> sessUpstreamState"
  "sessUpstreamProvider \<noteq> sessUpstreamNonce" "sessUpstreamProvider \<noteq> sessUpstreamVerifier"
  "sessUpstreamProvider \<noteq> sessUpstreamPKCE" "sessUpstreamProvider \<noteq> sessPendingUpstreamUser"
  "sessUpstreamProvider \<noteq> ''authQuery''" "''authQuery'' \<noteq> sessUpstreamProvider" "sessUpstreamProvider \<noteq> ''clientId''"
  "''clientId'' \<noteq> sessUpstreamProvider" "sessPendingUpstreamUser \<noteq> sessUpstreamState"
  "sessPendingUpstreamUser \<noteq> sessUpstreamNonce" "sessPendingUpstreamUser \<noteq> sessUpstreamVerifier"
  "sessPendingUpstreamUser \<noteq> sessUpstreamPKCE" "sessPendingUpstreamUser \<noteq> sessUpstreamProvider"
  "sessPendingUpstreamUser \<noteq> ''authQuery''" "''authQuery'' \<noteq> sessPendingUpstreamUser" "sessPendingUpstreamUser \<noteq> ''clientId''"
  "''clientId'' \<noteq> sessPendingUpstreamUser"
  by (simp_all add: sess_key_defs)

text \<open>\<^verbatim>\<open>base64.RawURLEncoding\<close>, on bytes.\<close>

definition b64_char :: "nat \<Rightarrow> char" where
  "b64_char n = ''ABCDEFGHIJKLMNOPQRSTUVWXYZabcdefghijklmnopqrstuvwxyz0123456789-_'' ! n"

fun RawURLEncoding :: "string \<Rightarrow> string" where
  "RawURLEncoding [] = []"
| "RawURLEncoding [a] = [b64_char (of_char a div 4), b64_char (of_char a mod 4 * 16)]"
| "RawURLEncoding [a, b] =
     [b64_char (of_char a div 4), b64_char (of_char a mod 4 * 16 + of_char b div 16), b64_char (of_char b mod 16 * 4)]"
| "RawURLEncoding (a # b # c # bs) =
     [b64_char (of_char a div 4), b64_char (of_char a mod 4 * 16 + of_char b div 16),
      b64_char (of_char b mod 16 * 4 + of_char c div 64), b64_char (of_char c mod 64)] @ RawURLEncoding bs"

text \<open>What \<^verbatim>\<open>rand.Read\<close> delivers to a request, and the PKCE verifier of the oauth2 library.\<close>

record UpstreamRandom =
  rnState :: "string + string"
  rnNonce :: "string + string"
  rnVerifier :: string

definition randomURLSafeString :: "string + string \<Rightarrow> string + string" where
  "randomURLSafeString bytes = (case bytes of Inl err \<Rightarrow> Inl err | Inr b \<Rightarrow> Inr (RawURLEncoding b))"

definition upstreamRedirect ::
  "ServerEnv \<Rightarrow> UpstreamRandom \<Rightarrow> string \<Rightarrow> OAuth2AuthCodeSettings \<Rightarrow> string \<Rightarrow> string \<Rightarrow> effect list" where
  "upstreamRedirect env rnd name settings state nonce =
     (let opts = [AuthURLParam ''nonce'' nonce, AccessTypeOffline]
      in [ELoginPut sessUpstreamState state, ELoginPut sessUpstreamNonce nonce, ELoginPut sessUpstreamProvider name,
          ELoginPut sessUpstreamPKCE []] @
         (if sSupportsPKCES256 settings
          then [ELoginPut sessUpstreamVerifier (rnVerifier rnd), ELoginPut sessUpstreamPKCE ''1'',
                ERedirect (evAuthCodeURL env settings state (opts @ [S256Challenge (rnVerifier rnd)]))]
          else [ERedirect (evAuthCodeURL env settings state opts)]))"

definition handleUpstreamGo ::
  "ServerEnv \<Rightarrow> UpstreamRandom \<Rightarrow> OIDCServer \<Rightarrow> LoginSession \<Rightarrow> WebRequest \<Rightarrow> effect list" where
  "handleUpstreamGo env rnd s ls r =
     (if wMethod r \<noteq> ''GET'' then [EReply 405 ''method not allowed'']
      else
        (let name = query_get (wRawQuery r) ''upstreamProvider''
         in if name = [] then [EReply 400 ''missing upstreamProvider parameter'']
            else if GetString ls ''authQuery'' = []
            then [EReply 400 ''session expired: restart login from the client application'']
            else
              (case GetUpstream (svStorage s) name of
                 None \<Rightarrow> [EReply 404 ''unknown upstream provider'']
               | Some u \<Rightarrow>
                   (case AuthCodeSettings u of
                      None \<Rightarrow> [EReply 400 ''upstream does not support external OIDC login'']
                    | Some settings \<Rightarrow>
                        (case randomURLSafeString (rnState rnd) of
                           Inl err \<Rightarrow> [EReply 500 ''internal error'']
                         | Inr state \<Rightarrow>
                             (case randomURLSafeString (rnNonce rnd) of
                                Inl err \<Rightarrow> [EReply 500 ''internal error'']
                              | Inr nonce \<Rightarrow> upstreamRedirect env rnd name settings state nonce))))))"

text \<open>The claims of the ID token, when the upstream provider delivers one.\<close>

definition idTokenClaims ::
  "ServerEnv \<Rightarrow> upstream \<Rightarrow> LoginSession \<Rightarrow> OAuthToken \<Rightarrow> (nat \<times> string) + claims option" where
  "idTokenClaims env u ls tok =
     (case tkIdToken tok of
        Some (VStr rawID) \<Rightarrow>
          if rawID = [] then Inr None
          else
            (case ParseAndVerifyIDToken (evOidc env) u rawID of
               Inl err \<Rightarrow> Inl (502, ''invalid id_token'')
             | Inr idClaims0 \<Rightarrow>
                 (let idClaims = NormalizeStringArray (Some idClaims0);
                      wantNonce = GetString ls sessUpstreamNonce;
                      gotNonce = as_string (gget (entries idClaims) ''nonce'')
                  in if wantNonce \<noteq> [] \<and> gotNonce \<noteq> wantNonce then Inl (400, ''invalid nonce'')
                     else Inr idClaims))
      | _ \<Rightarrow> Inr None)"

text \<open>The claims an upstream provider delivers, renamed and cleaned.\<close>

definition upstreamClaims ::
  "ServerEnv \<Rightarrow> upstream \<Rightarrow> LoginSession \<Rightarrow> OAuthToken \<Rightarrow> (nat \<times> string) + claims option" where
  "upstreamClaims env u ls tok =
     (case idTokenClaims env u ls tok of
        Inl reply \<Rightarrow> Inl reply
      | Inr idClaims \<Rightarrow>
          if UseUserInfo u then
            (case FetchUserInfoClaims (evOidc env) u (tkAccessToken tok) of
               Inl err \<Rightarrow> Inl (502, ''userinfo failed'')
             | Inr uiClaims \<Rightarrow>
                 Inr (CleanupClaims u (PerformRenaming u
                   (Some (MergeMaps (entries idClaims) (entries (NormalizeStringArray uiClaims)))))))
          else Inr (CleanupClaims u (PerformRenaming u idClaims)))"

text \<open>
  The user of the callback.  A missing \<open>sub\<close> and a failing identity server are replied to, but the handler
  goes on.
\<close>

definition upstreamUser :: "OIDCServer \<Rightarrow> upstream \<Rightarrow> claims option \<Rightarrow> effect list \<times> OidcUser" where
  "upstreamUser s u idClaims =
     (let sub = as_string (gget (entries idClaims) ''sub'');
          e1 = (if sub = [] then [EReply 502 ''Missing sub claim''] else []);
          fromClaims = \<lparr>ouLogin = sub, ouClaims = entries idClaims,
                        ouFullName = as_string (gget (entries idClaims) ''name'')\<rparr>
      in if LocalEnrichment u then
           (case svIdentify s sub [] of
              Inl err \<Rightarrow> (e1 @ [EReply 500 ''Error authenticating user''], fromClaims)
            | Inr (user, status) \<Rightarrow>
                (e1, user\<lparr>ouClaims := MergeMaps (entries idClaims) (entries (NormalizeStringArray (Some (ouClaims user))))\<rparr>))
         else (e1, fromClaims))"

text \<open>\<^verbatim>\<open>upstream_claims_map.go\<close>, which no handler calls.\<close>

definition mapUpstreamClaimsToUser :: "claims option \<Rightarrow> string + OidcUser" where
  "mapUpstreamClaimsToUser claims =
     (case claims of
        None \<Rightarrow> Inl ''no claims''
      | Some cs \<Rightarrow>
          if as_string (gget cs ''sub'') = [] then Inl ''missing sub claim''
          else Inr \<lparr>ouLogin = as_string (gget cs ''sub''), ouClaims = cs, ouFullName = as_string (gget cs ''name'')\<rparr>)"

definition completeUpstreamAuthorize :: "ServerEnv \<Rightarrow> OIDCServer \<Rightarrow> string \<Rightarrow> OidcUser \<Rightarrow> effect list" where
  "completeUpstreamAuthorize env s rawQuery user =
     (let cid = clientIDFromRawQuery rawQuery
      in case evNewRequest env (''/oauth2/auth?'' @ rawQuery) of
           Some err \<Rightarrow> [EReply 500 ''internal error'']
         | None \<Rightarrow>
             (case oNewAuthorizeRequest (evOauth2 env) (recreated rawQuery) of
                Inl err \<Rightarrow> [EAuthorizeError err]
              | Inr ar0 \<Rightarrow>
                  (let ar = HandleAudience (evFosite env) (HandleScopes (evFosite env) ar0);
                       session = newSession env s (Some user) cid
                   in case oNewAuthorizeResponse (evOauth2 env) ar session of
                        Inl err \<Rightarrow> [EAuthorizeError err]
                      | Inr response \<Rightarrow> [EAuthorizeResponse ar session response])))"

text \<open>\<^verbatim>\<open>json.Marshal(user)\<close>; a user's claims came from JSON or from the identity server and can always be marshalled.\<close>

definition user_json :: "OidcUser \<Rightarrow> json" where
  "user_json u =
     JObj [(''Login'', JStr (ouLogin u)), (''Claims'', json_of_claims (ouClaims u)), (''FullName'', JStr (ouFullName u))]"

definition upstreamFinish :: "ServerEnv \<Rightarrow> OIDCServer \<Rightarrow> string \<Rightarrow> OidcUser \<Rightarrow> effect list" where
  "upstreamFinish env s rawQuery user =
     [ESsoRenew, ELoginRemove sessUpstreamState, ELoginRemove sessUpstreamNonce, ELoginRemove sessUpstreamVerifier,
      ELoginRemove sessUpstreamPKCE, ELoginRemove sessUpstreamProvider] @
     (case svSsoMode s of
        SsoOnDemand \<Rightarrow> [ELoginPutUser (user_json user), ERedirect ''/upstream/welcome'']
      | SsoAlways \<Rightarrow>
          ESsoPut (after_newSession env rawQuery (clientIDFromRawQuery rawQuery) user)
            # completeUpstreamAuthorize env s rawQuery user
      | SsoNever \<Rightarrow> completeUpstreamAuthorize env s rawQuery user)"

definition upstreamExchange ::
  "ServerEnv \<Rightarrow> LoginSession \<Rightarrow> OAuth2AuthCodeSettings \<Rightarrow> string \<Rightarrow> string + OAuthToken" where
  "upstreamExchange env ls settings code =
     (if GetString ls sessUpstreamPKCE = ''1''
      then evExchange env settings code [Verifier (GetString ls sessUpstreamVerifier)]
      else evExchange env settings code [])"

definition handleUpstreamCallback ::
  "ServerEnv \<Rightarrow> OIDCServer \<Rightarrow> LoginSession \<Rightarrow> WebRequest \<Rightarrow> effect list" where
  "handleUpstreamCallback env s ls r =
     (if wMethod r \<noteq> ''GET'' then [EReply 405 ''method not allowed'']
      else if query_get (wRawQuery r) ''error'' \<noteq> [] then [EReply 400 ''upstream login failed'']
      else
        (let code = query_get (wRawQuery r) ''code'';
             state = query_get (wRawQuery r) ''state'';
             wantState = GetString ls sessUpstreamState;
             name = GetString ls sessUpstreamProvider;
             rawQuery = GetString ls ''authQuery''
         in if code = [] \<or> state = [] then [EReply 400 ''missing code or state'']
            else if wantState = [] \<or> wantState \<noteq> state then [EReply 400 ''invalid state'']
            else if name = [] \<or> rawQuery = [] then [EReply 400 ''session expired'']
            else
              (case GetUpstream (svStorage s) name of
                 None \<Rightarrow> [EReply 400 ''unknown upstream'']
               | Some u \<Rightarrow>
                   (case AuthCodeSettings u of
                      None \<Rightarrow> [EReply 400 ''upstream misconfigured'']
                    | Some settings \<Rightarrow>
                        (case upstreamExchange env ls settings code of
                           Inl err \<Rightarrow> [EReply 502 ''token exchange failed'']
                         | Inr tok \<Rightarrow>
                             (case upstreamClaims env u ls tok of
                                Inl (status, text) \<Rightarrow> [EReply status text]
                              | Inr idClaims \<Rightarrow>
                                  (case upstreamUser s u idClaims of
                                     (replies, user) \<Rightarrow> replies @ upstreamFinish env s rawQuery user)))))))"

section \<open>The welcome page\<close>

definition zero_oidc_user :: OidcUser where
  "zero_oidc_user = \<lparr>ouLogin = [], ouClaims = [], ouFullName = []\<rparr>"

definition oidc_user_fields :: "OidcUser field list" where
  "oidc_user_fields =
     [(''Login'', \<lambda>j u. map_option (\<lambda>x. u\<lparr>ouLogin := x\<rparr>) (into_string j (ouLogin u))),
      (''Claims'', \<lambda>j u. map_option (\<lambda>x. u\<lparr>ouClaims := entries x\<rparr>) (into_claims j (Some (ouClaims u)))),
      (''FullName'', \<lambda>j u. map_option (\<lambda>x. u\<lparr>ouFullName := x\<rparr>) (into_string j (ouFullName u)))]"

definition loadPendingUpstreamUser :: "LoginSession \<Rightarrow> OidcUser option" where
  "loadPendingUpstreamUser ls =
     (case lgPendingUser ls of
        RawJson j \<Rightarrow>
          (case unmarshal oidc_user_fields j zero_oidc_user of
             None \<Rightarrow> None
           | Some u \<Rightarrow> if ouLogin u = [] then None else Some u)
      | _ \<Rightarrow> None)"

fun firstName :: "claims \<Rightarrow> string list \<Rightarrow> string" where
  "firstName cs [] = []"
| "firstName cs (k # ks) =
     (case gget cs k of
        Some (VStr v) \<Rightarrow> if TrimSpace v \<noteq> [] then TrimSpace v else firstName cs ks
      | _ \<Rightarrow> firstName cs ks)"

definition welcomeUserName :: "OidcUser option \<Rightarrow> string" where
  "welcomeUserName user0 =
     (case user0 of
        None \<Rightarrow> []
      | Some user \<Rightarrow>
          if TrimSpace (ouFullName user) \<noteq> [] then TrimSpace (ouFullName user)
          else
            (let t = firstName (ouClaims user) [''name'', ''preferred_username'', ''nickname'', ''email''];
                 given = TrimSpace (as_string (gget (ouClaims user) ''given_name''));
                 family = TrimSpace (as_string (gget (ouClaims user) ''family_name''))
             in if t \<noteq> [] then t
                else if given \<noteq> [] \<and> family \<noteq> [] then given @ '' '' @ family
                else if given \<noteq> [] then given
                else if family \<noteq> [] then family
                else TrimSpace (ouLogin user)))"

definition handleUpstreamWelcome :: "ServerEnv \<Rightarrow> OIDCServer \<Rightarrow> LoginSession \<Rightarrow> WebRequest \<Rightarrow> effect list" where
  "handleUpstreamWelcome env s ls r =
     (if svSsoMode s \<noteq> SsoOnDemand then [EReply 404 ''404 page not found'']
      else
        (case loadPendingUpstreamUser ls of
           None \<Rightarrow> [EReply 400 ''session expired: restart login from the client application'']
         | Some user \<Rightarrow>
             (let rawQuery = GetString ls ''authQuery''
              in if wMethod r = ''GET'' then
                   [EHeader ''Content-Type'' ''text/html; charset=utf-8'',
                    EWelcomePage (welcomeUserName (Some user)) (getStyle s (clientIDFromRawQuery rawQuery))] @
                   (case evTemplate env of None \<Rightarrow> [] | Some e \<Rightarrow> [EReply 500 ''internal server error''])
                 else if wMethod r = ''POST'' then
                   (case wPostForm r of
                      None \<Rightarrow> [EReply 400 ''bad request'']
                    | Some form \<Rightarrow>
                        if rawQuery = [] then [EReply 400 ''session expired: restart login from the client application'']
                        else
                          [ELoginRemove sessPendingUpstreamUser] @
                          (if form_get form ''remember'' = ''on''
                           then [ESsoPut (after_newSession env rawQuery (clientIDFromRawQuery rawQuery) user)] else []) @
                          completeUpstreamAuthorize env s rawQuery user)
                 else [EReply 405 ''method not allowed''])))"

section \<open>The other endpoints\<close>

definition handleToken :: "ServerEnv \<Rightarrow> OIDCServer \<Rightarrow> WebRequest \<Rightarrow> effect list" where
  "handleToken env s r =
     (case oNewAccessRequest (evOauth2 env) r (newSession env s None (GetClientIdFromRequest env r)) of
        Inl err \<Rightarrow> [EAccessError err]
      | Inr req0 \<Rightarrow>
          (let req = (if fExactOne (evFosite env) (oaGrantTypes req0) ''client_credentials''
                      then HandleAudience (evFosite env) (HandleScopes (evFosite env) req0) else req0)
           in case oNewAccessResponse (evOauth2 env) req of
                Inl err \<Rightarrow> [EAccessError err]
              | Inr response \<Rightarrow> [EAccessResponse req response]))"

definition userInfoClaims :: "IDTokenClaims \<Rightarrow> claims" where
  "userInfoClaims idClaims =
     gput ''sub'' (VStr (itSubject idClaims)) (filter (\<lambda>(k, v). k \<noteq> ''azp'') (entries (itExtra idClaims)))"

definition dquoted :: "string \<Rightarrow> string" where
  "dquoted s = [CHR 0x22] @ s @ [CHR 0x22]"

definition handleUserInfo :: "ServerEnv \<Rightarrow> OIDCServer \<Rightarrow> WebRequest \<Rightarrow> effect list" where
  "handleUserInfo env s r =
     (let authz = form_get (wHeaders r) ''Authorization''
      in if authz = [] \<or> take 7 authz \<noteq> ''Bearer '' then
           [EHeader ''WWW-Authenticate''
              (''Bearer error='' @ dquoted ''invalid_token'' @ '', error_description='' @ dquoted ''missing bearer token''),
            EReply 401 ''unauthorized'']
         else
           (case oIntrospectToken (evOauth2 env) (drop 7 authz) AccessToken
                   (newSession env s None (GetClientIdFromRequest env r)) [''openid''] of
              Inl err \<Rightarrow>
                [EHeader ''WWW-Authenticate''
                   (''Bearer error='' @ dquoted ''invalid_token'' @ '', error_description='' @ dquoted ''token invalid or expired''),
                 EReply 401 ''unauthorized'']
            | Inr (tt, ar) \<Rightarrow>
                (case oaSession ar of
                   None \<Rightarrow> [EReply 500 ''internal server error'']
                 | Some sess \<Rightarrow>
                     (case osIDTokenClaims sess of
                        None \<Rightarrow> [EReply 500 ''internal server error'']
                      | Some idClaims \<Rightarrow>
                          [EHeader ''Content-Type'' ''application/json'', EJson (json_of_claims (userInfoClaims idClaims))]))))"

definition publicIntrospection :: "ServerEnv \<Rightarrow> OIDCServer \<Rightarrow> WebRequest \<Rightarrow> string gomap \<Rightarrow> OIDCSession \<Rightarrow> effect list" where
  "publicIntrospection env s r form session =
     (let tt = (if form_get form ''token_type_hint'' = ''refresh_token'' then RefreshToken else AccessToken)
      in case oIntrospectToken (evOauth2 env) (form_get form ''token'') tt session [] of
           Inl err \<Rightarrow> [EHeader ''Content-Type'' ''application/json;charset=UTF-8'', EJson (JObj [(''active'', JBool False)])]
         | Inr (tokenType, accessRequest) \<Rightarrow> [EActiveToken tokenType accessRequest])"

definition publicClient :: "OIDCServer \<Rightarrow> string \<Rightarrow> bool" where
  "publicClient s cid =
     (case GetKubauthClient (svStorage s) cid of Inl e \<Rightarrow> False | Inr client \<Rightarrow> IsPublic client)"

definition HandleTokenIntrospection :: "ServerEnv \<Rightarrow> OIDCServer \<Rightarrow> WebRequest \<Rightarrow> effect list" where
  "HandleTokenIntrospection env s r =
     (let session = newSession env s None (GetClientIdFromRequest env r)
      in case oNewIntrospectionRequest (evOauth2 env) r session of
           Inr ir \<Rightarrow> [EIntrospectionResponse ir]
         | Inl err \<Rightarrow>
             (case wPostForm r of
                None \<Rightarrow> [EIntrospectionError err]
              | Some form \<Rightarrow>
                  if form_get (wHeaders r) ''Authorization'' = [] \<and> form_get form ''client_id'' \<noteq> []
                     \<and> form_get form ''token'' \<noteq> [] \<and> publicClient s (form_get form ''client_id'')
                  then publicIntrospection env s r form session
                  else [EIntrospectionError err]))"

definition handleLogout :: "ServerEnv \<Rightarrow> OIDCServer \<Rightarrow> LoginSession \<Rightarrow> WebRequest \<Rightarrow> effect list" where
  "handleLogout env s ls r =
     (let cid = query_get (wRawQuery r) ''client_id'';
          ofClient = (if cid = [] then []
                      else (case GetKubauthClient (svStorage s) cid of
                              Inl err \<Rightarrow> []
                            | Inr client \<Rightarrow> GetPostLogoutURL client));
          plo = query_get (wRawQuery r) ''post_logout_redirect_uri'';
          url = (if plo \<noteq> [] then plo else if ofClient \<noteq> [] then ofClient else svPostLogoutURL s)
      in [ESsoDestroy, ELoginDestroy, ELoginPut ''clientId'' (GetString ls ''clientId''), ERedirect url])"

definition index_entry :: "kubauthClient \<Rightarrow> indexEntry" where
  "index_entry client =
     \<lparr>ieDisplayName = GetClientDisplayName client, ieDescription = GetDescription client,
      ieEntryURL = GetEntryURL client\<rparr>"

definition index_entries :: "kubauthClient list \<Rightarrow> indexEntry list" where
  "index_entries clients =
     sort_key (\<lambda>e. (ieDisplayName e, ieEntryURL e))
       (filter (\<lambda>e. ieDisplayName e \<noteq> [] \<and> ieEntryURL e \<noteq> []) (map index_entry clients))"

definition handleIndex :: "ServerEnv \<Rightarrow> OIDCServer \<Rightarrow> LoginSession \<Rightarrow> effect list" where
  "handleIndex env s ls =
     [EIndexPage (index_entries (map snd (Clients (svStorage s)))) (getStyle s (GetString ls ''clientId''))] @
     (case evTemplate env of None \<Rightarrow> [] | Some e \<Rightarrow> [EReply 500 ''Internal server error''])"

definition getSupportedPKCEMethods :: "OIDCServer \<Rightarrow> string list" where
  "getSupportedPKCEMethods s = [''S256''] @ (if svAllowPKCEPlain s then [''plain''] else [])"

definition json_strings :: "string list \<Rightarrow> json" where
  "json_strings xs = JArr (map JStr xs)"

definition handleOpenIDConfiguration :: "OIDCServer \<Rightarrow> effect list" where
  "handleOpenIDConfiguration s =
     (let base = svIssuer s;
          grants = [''authorization_code'', ''client_credentials'', ''refresh_token''] @
                   (if svAllowPasswordGrant s then [''password''] else [])
      in [EHeader ''Content-Type'' ''application/json'',
          EJson (JObj
            [(''issuer'', JStr base),
             (''authorization_endpoint'', JStr (base @ ''/oauth2/auth'')),
             (''token_endpoint'', JStr (base @ ''/oauth2/token'')),
             (''userinfo_endpoint'', JStr (base @ ''/userinfo'')),
             (''end_session_endpoint'', JStr (base @ ''/oauth2/logout'')),
             (''jwks_uri'', JStr (base @ ''/.well-known/jwks.json'')),
             (''introspection_endpoint'', JStr (base @ ''/oauth2/introspect'')),
             (''response_types_supported'', json_strings [''code'', ''token'', ''id_token'', ''code token'', ''code id_token'']),
             (''subject_types_supported'', json_strings [''public'']),
             (''id_token_signing_alg_values_supported'', json_strings [''RS256'']),
             (''scopes_supported'',
                json_strings [''openid'', ''profile'', ''email'', ''offline'', ''address'', ''phone'', ''groups'']),
             (''token_endpoint_auth_methods_supported'', json_strings [''client_secret_basic'', ''client_secret_post'']),
             (''claims_supported'',
                json_strings [''sub'', ''iss'', ''name'', ''email'', ''profile'', ''email_verified'', ''groups'']),
             (''code_challenge_methods_supported'', json_strings (getSupportedPKCEMethods s)),
             (''grant_types_supported'', json_strings grants)])])"

text \<open>\<^verbatim>\<open>big.Int.Bytes\<close>: big endian, without leading zeros.\<close>

fun big_bytes :: "nat \<Rightarrow> string" where
  "big_bytes n = (if n = 0 then [] else big_bytes (n div 256) @ [char_of (n mod 256)])"

declare big_bytes.simps [simp del]

definition handleJWKS :: "OIDCServer \<Rightarrow> effect list" where
  "handleJWKS s =
     [EHeader ''Content-Type'' ''application/json'',
      EJson (JObj [(''keys'', JArr [JObj
        [(''kty'', JStr ''RSA''), (''use'', JStr ''sig''), (''alg'', JStr ''RS256''), (''kid'', JStr (svKeyID s)),
         (''n'', JStr (RawURLEncoding (big_bytes (rkN (svPrivateKey s))))),
         (''e'', JStr (RawURLEncoding (big_bytes (rkE (svPrivateKey s)))))]])])]"

section \<open>The signing key\<close>

text \<open>
  The secrets of the API server and what the key handling uses of \<^verbatim>\<open>crypto/rsa\<close>, \<^verbatim>\<open>crypto/x509\<close> and
  \<^verbatim>\<open>encoding/pem\<close>.
\<close>

record SecretApi =
  saSecrets :: "string \<times> string \<Rightarrow> string gomap option"
  saGetErr :: "string option"
  saCreateErr :: "string option"

record KeyLib =
  kyPemDecode :: "string \<Rightarrow> (string \<times> string) option"
  kyPemEncode :: "string \<Rightarrow> string \<Rightarrow> string + string"
  kyParsePKCS1 :: "string \<Rightarrow> string + rsaKey"
  kyParsePKCS8 :: "string \<Rightarrow> string + (string + rsaKey)"
  kyMarshalPKCS1 :: "rsaKey \<Rightarrow> string"
  kyGenerateKey :: "string + rsaKey"
  kyNewKID :: string

definition secret_Get :: "SecretApi \<Rightarrow> string \<times> string \<Rightarrow> kerr + string gomap" where
  "secret_Get api key =
     (case saGetErr api of
        Some e \<Rightarrow> Inl (KError e)
      | None \<Rightarrow> (case saSecrets api key of None \<Rightarrow> Inl KNotFound | Some data \<Rightarrow> Inr data))"

definition secret_Create :: "SecretApi \<Rightarrow> string \<times> string \<Rightarrow> string gomap \<Rightarrow> SecretApi \<times> string option" where
  "secret_Create api key data =
     (case saCreateErr api of
        Some e \<Rightarrow> (api, Some e)
      | None \<Rightarrow>
          if saSecrets api key \<noteq> None then (api, Some ''already exists'')
          else (api\<lparr>saSecrets := (saSecrets api)(key := Some data)\<rparr>, None))"

text \<open>A namespaced name as it is printed.  Parsing PKCS8 gives an RSA key or the name of another type.\<close>

definition key_text :: "string \<times> string \<Rightarrow> string" where
  "key_text key = fst key @ ''/'' @ snd key"

definition loadSigningKey :: "KeyLib \<Rightarrow> string \<times> string \<Rightarrow> string gomap \<Rightarrow> string + rsaKey \<times> string" where
  "loadSigningKey lib key data =
     (case (gget data ''key.pem'', gget data ''kid'') of
        (Some pemBytes, Some kid) \<Rightarrow>
          (case kyPemDecode lib pemBytes of
             None \<Rightarrow> Inl (''failed to decode PEM from secret '' @ key_text key)
           | Some (type, bytes) \<Rightarrow>
               if type = ''RSA PRIVATE KEY'' then
                 (case kyParsePKCS1 lib bytes of
                    Inl err \<Rightarrow> Inl (''failed parsing PKCS1 private key from secret: '' @ err)
                  | Inr p \<Rightarrow> Inr (p, kid))
               else if type = ''PRIVATE KEY'' then
                 (case kyParsePKCS8 lib bytes of
                    Inl err \<Rightarrow> Inl (''failed parsing PKCS8 private key from secret: '' @ err)
                  | Inr (Inl other) \<Rightarrow> Inl (''unsupported private key type in secret: '' @ other)
                  | Inr (Inr k) \<Rightarrow> Inr (k, kid))
               else Inl (''unsupported PEM block type in secret: '' @ type))
      | _ \<Rightarrow> Inl (''secret '' @ key_text key @ '' missing required data keys''))"

definition createSigningKey :: "KeyLib \<Rightarrow> string \<times> string \<Rightarrow> SecretApi \<Rightarrow> SecretApi \<times> (string + rsaKey \<times> string)" where
  "createSigningKey lib key api =
     (case kyGenerateKey lib of
        Inl err \<Rightarrow> (api, Inl (''failed to generate RSA key: '' @ err))
      | Inr priv \<Rightarrow>
          (case kyPemEncode lib ''RSA PRIVATE KEY'' (kyMarshalPKCS1 lib priv) of
             Inl err \<Rightarrow> (api, Inl (''failed to encode PEM: '' @ err))
           | Inr buf \<Rightarrow>
               (case secret_Create api key [(''key.pem'', buf), (''kid'', kyNewKID lib)] of
                  (api', Some err) \<Rightarrow> (api', Inl (''failed creating secret: '' @ err))
                | (api', None) \<Rightarrow> (api', Inr (priv, kyNewKID lib)))))"

definition ensureJwtSigningKey :: "KeyLib \<Rightarrow> string \<times> string \<Rightarrow> SecretApi \<Rightarrow> SecretApi \<times> (string + rsaKey \<times> string)" where
  "ensureJwtSigningKey lib key api =
     (case secret_Get api key of
        Inr data \<Rightarrow> (api, loadSigningKey lib key data)
      | Inl KNotFound \<Rightarrow> createSigningKey lib key api
      | Inl (KError err) \<Rightarrow> (api, Inl (''failed to load JWT signing key: '' @ err)))"

section \<open>The whole server\<close>

text \<open>\<^verbatim>\<open>Setup\<close>: the key, the fields of the store and the configuration of the OAuth2 library.\<close>

definition fositeConfig :: "int \<Rightarrow> OIDCServer \<Rightarrow> FositeConfig" where
  "fositeConfig defaultIDTokenLifespan s =
     \<lparr>cfAccessTokenLifespan = svAccessTokenLifespan s, cfRefreshTokenLifespan = svRefreshTokenLifespan s,
      cfIDTokenLifespan = defaultIDTokenLifespan, cfRefreshTokenScopes = [''offline'', ''offline_access''],
      cfTokenEntropy = 32, cfGlobalSecret = ''some-secret-that-is-32-bytes-long'', cfAuthorizeCodeLifespan = 600000000000,
      cfAccessTokenIssuer = svIssuer s, cfIDTokenIssuer = svIssuer s, cfEnforcePKCE = svEnforcePKCE s,
      cfEnforcePKCEForPublicClients = svEnforcePKCE s, cfEnablePKCEPlainChallengeMethod = svAllowPKCEPlain s\<rparr>"

definition oauth2Provider :: "int \<Rightarrow> OIDCServer \<Rightarrow> FositeConfig \<times> CoreStrategy \<times> Factory list" where
  "oauth2Provider defaultIDTokenLifespan s = (fositeConfig defaultIDTokenLifespan s, ComposeAllEnabled (svJwtAccessToken s))"

definition Setup :: "KeyLib \<Rightarrow> string \<times> string \<Rightarrow> SecretApi \<Rightarrow> OIDCServer \<Rightarrow> SecretApi \<times> (string + OIDCServer)" where
  "Setup lib key api s =
     (case ensureJwtSigningKey lib key api of
        (api', Inl err) \<Rightarrow> (api', Inl (''failed to load/generate JWT signing key: '' @ err))
      | (api', Inr (priv, kid)) \<Rightarrow>
          (api', Inr (s\<lparr>svPrivateKey := priv, svKeyID := kid,
             svStorage := (svStorage s)\<lparr>Authenticator := svAuthenticate s, Issuer := svIssuer s, KeyID := kid,
               AllowPasswordGrant := svAllowPasswordGrant s\<rparr>\<rparr>)))"

text \<open>
  The routes, on what a browser holds: the login session and the value \<open>ssoUser\<close> of the SSO session.  The
  result is \<open>None\<close> for a path without a handler and for the static files.
\<close>

record browser =
  brLogin :: LoginSession
  brSso :: "gval option"

record Visit =
  vEnv :: ServerEnv
  vServer :: OIDCServer
  vRandom :: UpstreamRandom
  vPath :: string
  vRequest :: WebRequest

definition serve :: "browser \<Rightarrow> Visit \<Rightarrow> effect list outcome option" where
  "serve b v =
     (let env = vEnv v; s = vServer v; r = vRequest v; ls = brLogin b; p = vPath v
      in if p = ''/oauth2/auth'' then Some (Returns (handleAuthorize env r))
         else if p = ''/oauth2/login'' then Some (handleLogin env s (brSso b) ls r)
         else if p = ''/oauth2/logout'' then Some (Returns (handleLogout env s ls r))
         else if p = ''/oauth2/token'' then Some (Returns (handleToken env s r))
         else if p = ''/.well-known/openid-configuration'' then Some (Returns (handleOpenIDConfiguration s))
         else if p = ''/userinfo'' then Some (Returns (handleUserInfo env s r))
         else if p = ''/.well-known/jwks.json'' then Some (Returns (handleJWKS s))
         else if p = ''/oauth2/introspect'' then Some (Returns (HandleTokenIntrospection env s r))
         else if p = ''/index'' then Some (Returns (handleIndex env s ls))
         else if p = ''/upstream/go'' then Some (Returns (handleUpstreamGo env (vRandom v) s ls r))
         else if p = ''/upstream/callback'' then Some (Returns (handleUpstreamCallback env s ls r))
         else if p = ''/upstream/welcome'' then Some (Returns (handleUpstreamWelcome env s ls r))
         else None)"

text \<open>
  The session managers write their sessions when the handler writes for the first time, and that first
  write is what the browser is answered; a change made later is lost.
\<close>

fun writes :: "effect \<Rightarrow> bool" where
  "writes (EHeader k v) = False"
| "writes (ELoginPut k v) = False"
| "writes (ELoginPutUser j) = False"
| "writes (ELoginRemove k) = False"
| "writes ELoginDestroy = False"
| "writes ESsoRenew = False"
| "writes (ESsoPut u) = False"
| "writes ESsoDestroy = False"
| "writes (EEvent reason text) = False"
| "writes _ = True"

definition empty_login :: LoginSession where
  "empty_login = \<lparr>lgStrings = [], lgPendingUser = RawEmpty\<rparr>"

text \<open>The user of an SSO session as the next request reads it, after the JSON codec.\<close>

definition sso_value :: "OidcUser \<Rightarrow> gval" where
  "sso_value u = json_any (json_of (user_value u))"

fun touch :: "effect \<Rightarrow> browser \<Rightarrow> browser" where
  "touch (ELoginPut k v) b = b\<lparr>brLogin := (brLogin b)\<lparr>lgStrings := gput k v (lgStrings (brLogin b))\<rparr>\<rparr>"
| "touch (ELoginPutUser j) b = b\<lparr>brLogin := (brLogin b)\<lparr>lgPendingUser := RawJson j\<rparr>\<rparr>"
| "touch (ELoginRemove k) b =
     b\<lparr>brLogin := (if k = sessPendingUpstreamUser then (brLogin b)\<lparr>lgPendingUser := RawEmpty\<rparr>
                    else (brLogin b)\<lparr>lgStrings := gdel k (lgStrings (brLogin b))\<rparr>)\<rparr>"
| "touch ELoginDestroy b = b\<lparr>brLogin := empty_login\<rparr>"
| "touch (ESsoPut u) b = b\<lparr>brSso := Some (sso_value u)\<rparr>"
| "touch ESsoDestroy b = b\<lparr>brSso := None\<rparr>"
| "touch _ b = b"

fun commit :: "effect list \<Rightarrow> browser \<Rightarrow> browser" where
  "commit [] b = b"
| "commit (e # es) b = (if writes e then b else commit es (touch e b))"

definition answer :: "effect list \<Rightarrow> effect option" where
  "answer es = find writes es"

definition visit_step :: "browser \<Rightarrow> Visit \<Rightarrow> browser" where
  "visit_step b v = (case serve b v of Some (Returns es) \<Rightarrow> commit es b | _ \<Rightarrow> b)"

definition fresh_browser :: browser where
  "fresh_browser = \<lparr>brLogin = empty_login, brSso = None\<rparr>"

text \<open>
  What a browser holds after a sequence of visits, each with the server as it is then; a session may expire
  between two visits.
\<close>

inductive browsed :: "Visit list \<Rightarrow> browser \<Rightarrow> bool" where
  fresh: "browsed [] fresh_browser"
| visit: "browsed vs b \<Longrightarrow> browsed (vs @ [v]) (visit_step b v)"
| login_expires: "browsed vs b \<Longrightarrow> browsed vs (b\<lparr>brLogin := empty_login\<rparr>)"
| sso_expires: "browsed vs b \<Longrightarrow> browsed vs (b\<lparr>brSso := None\<rparr>)"

end
