(* ===== verification/OidcFlows.thy ===== *)
theory OidcFlows
  imports OidcServer
begin

text \<open>
  The login flows of \<^verbatim>\<open>cmd/oidc/oidcserver\<close> across requests: what a visit leaves in the sessions of a
  browser, whom an authorize response is for, the state of an upstream login, and the signing key across
  restarts.
\<close>

section \<open>What a visit leaves in the sessions\<close>

named_theorems commits

lemma commit_append: "list_all (\<lambda>e. \<not> writes e) xs \<Longrightarrow> commit (xs @ ys) b = commit ys (commit xs b)"
  by (induction xs arbitrary: b) simp_all

lemma answer_Cons [simp]: "answer (e # es) = (if writes e then Some e else answer es)"
  by (simp add: answer_def)

lemma answer_Nil [simp]: "answer [] = None"
  by (simp add: answer_def)

lemma answer_append: "answer (xs @ ys) = (case answer xs of Some e \<Rightarrow> Some e | None \<Rightarrow> answer ys)"
  by (induction xs) simp_all

text \<open>A list of effects that ends its request: it changes no session, and the library answers nothing in it.\<close>

fun event :: "effect \<Rightarrow> bool" where
  "event (EEvent reason text) = True"
| "event _ = False"

lemma events_commit: "list_all event evs \<Longrightarrow> commit (evs @ es) b = commit es b"
  by (induction evs arbitrary: b) (auto elim!: event.elims)

lemma events_answer: "list_all event evs \<Longrightarrow> answer (evs @ es) = answer es"
  by (induction evs) (auto elim!: event.elims)

lemma clientUpstreams_events: "list_all event (fst acc) \<Longrightarrow> list_all event (fst (clientUpstreams s nms acc))"
  by (induction s nms acc rule: clientUpstreams.induct) (auto split: option.splits if_splits)

lemma upstreamChoices_events: "list_all event (fst (upstreamChoices s client))"
  by (simp add: upstreamChoices_def Let_def clientUpstreams_events)

lemma populate_events: "list_all event (fst (populateLoginModelWithUpstreams s client model))"
  using upstreamChoices_events [of s client]
  by (auto simp: populateLoginModelWithUpstreams_def Let_def split: prod.split)

lemma loginModel_events: "list_all event (fst (loginModel s cid bad))"
  by (simp add: loginModel_def Let_def populate_events split: sum.split)

lemma commit_displayLoginResponse [commits]: "commit (displayLoginResponse env s cid bad) b = b"
  by (simp add: displayLoginResponse_def events_commit loginModel_events showLogin_def)

lemma answer_displayLoginResponse: "answer (displayLoginResponse env s cid bad) \<noteq> Some (EAuthorizeResponse ar session text)"
  by (simp add: displayLoginResponse_def events_answer loginModel_events showLogin_def)

lemma commit_loginAuthorize [commits]: "commit (loginAuthorize env s user rawQuery cid) b = b"
  by (simp add: loginAuthorize_def Let_def split: option.split sum.split)

lemma commit_completeUpstreamAuthorize [commits]: "commit (completeUpstreamAuthorize env s rawQuery user) b = b"
  by (simp add: completeUpstreamAuthorize_def Let_def split: option.split sum.split)

lemma newSession_subject [simp]: "osSubject (newSession env s (Some u) cid) = ouLogin u"
  by (simp add: newSession_def Let_def)

lemma answer_loginAuthorize:
  "answer (loginAuthorize env s user rawQuery cid) = Some (EAuthorizeResponse ar session text)
     \<Longrightarrow> osSubject session = ouLogin user"
  by (auto simp: loginAuthorize_def Let_def split: option.splits sum.splits)

lemma answer_completeUpstreamAuthorize:
  "answer (completeUpstreamAuthorize env s rawQuery user) = Some (EAuthorizeResponse ar session text)
     \<Longrightarrow> osSubject session = ouLogin user"
  by (auto simp: completeUpstreamAuthorize_def Let_def split: option.splits sum.splits)

lemma after_newSession_login [simp]: "ouLogin (after_newSession env rawQuery cid user) = ouLogin user"
  by (simp add: after_newSession_def)

section \<open>Who is logged in\<close>

text \<open>The form of the login page was posted with the credentials of \<open>l\<close>, and the identity server accepted them.\<close>

definition password_login :: "Visit \<Rightarrow> string \<Rightarrow> bool" where
  "password_login v l \<longleftrightarrow>
     vPath v = ''/oauth2/login'' \<and> wMethod (vRequest v) = ''POST'' \<and>
     (\<exists>form u. wPostForm (vRequest v) = Some form
        \<and> svAuthenticate (vServer v) (form_get form ''login'') (form_get form ''password'') = Inr (Some u) \<and> ouLogin u = l)"

text \<open>The upstream login of a login session was started by the visit \<open>g\<close>.\<close>

definition started :: "Visit \<Rightarrow> LoginSession \<Rightarrow> bool" where
  "started g ls \<longleftrightarrow>
     vPath g = ''/upstream/go''
     \<and> randomURLSafeString (rnState (vRandom g)) = Inr (GetString ls sessUpstreamState)
     \<and> randomURLSafeString (rnNonce (vRandom g)) = Inr (GetString ls sessUpstreamNonce)
     \<and> GetString ls sessUpstreamProvider = query_get (wRawQuery (vRequest g)) ''upstreamProvider''
     \<and> (GetString ls sessUpstreamPKCE = ''1'' \<longrightarrow> GetString ls sessUpstreamVerifier = rnVerifier (vRandom g))"

text \<open>
  The callback of an upstream login that this browser started before, with its state, for which the
  upstream provider accepted the code and delivered claims, gave the user \<open>l\<close>.
\<close>

definition upstream_login :: "Visit list \<Rightarrow> Visit \<Rightarrow> string \<Rightarrow> bool" where
  "upstream_login us v l \<longleftrightarrow>
     vPath v = ''/upstream/callback'' \<and>
     (\<exists>g ls u settings tok claims user.
        g \<in> set us \<and> started g ls
        \<and> query_get (wRawQuery (vRequest v)) ''state'' = GetString ls sessUpstreamState
        \<and> GetString ls sessUpstreamState \<noteq> []
        \<and> GetUpstream (svStorage (vServer v)) (GetString ls sessUpstreamProvider) = Some u
        \<and> AuthCodeSettings u = Some settings
        \<and> upstreamExchange (vEnv v) ls settings (query_get (wRawQuery (vRequest v)) ''code'') = Inr tok
        \<and> upstreamClaims (vEnv v) u ls tok = Inr claims
        \<and> upstreamUser (vServer v) u claims = ([], user) \<and> ouLogin user = l)"

definition vouched :: "Visit list \<Rightarrow> string \<Rightarrow> bool" where
  "vouched vs l \<longleftrightarrow>
     (\<exists>v \<in> set vs. password_login v l) \<or> (\<exists>us v ws. vs = us @ v # ws \<and> upstream_login us v l)"

lemma vouched_later: "vouched vs l \<Longrightarrow> vouched (vs @ [v]) l"
  unfolding vouched_def by (elim disjE exE conjE bexE) (auto simp: append_assoc)

lemma vouched_password: "password_login v l \<Longrightarrow> vouched (vs @ [v]) l"
  by (auto simp: vouched_def)

lemma vouched_upstream: "upstream_login vs v l \<Longrightarrow> vouched (vs @ [v]) l"
  by (auto simp: vouched_def)

text \<open>The logins a browser can be answered for without another proof: the SSO user and the pending upstream user.\<close>

definition sso_login :: "browser \<Rightarrow> string" where
  "sso_login b = (case brSso b of Some (VMap m) \<Rightarrow> as_string (gget m ''Login'') | _ \<Rightarrow> [])"

definition pending_login :: "LoginSession \<Rightarrow> string" where
  "pending_login ls = (case loadPendingUpstreamUser ls of Some u \<Rightarrow> ouLogin u | None \<Rightarrow> [])"

definition trusted :: "Visit list \<Rightarrow> browser \<Rightarrow> bool" where
  "trusted vs b \<longleftrightarrow>
     (GetString (brLogin b) sessUpstreamState \<noteq> [] \<longrightarrow> (\<exists>g \<in> set vs. started g (brLogin b)))
     \<and> (pending_login (brLogin b) \<noteq> [] \<longrightarrow> vouched vs (pending_login (brLogin b)))
     \<and> (sso_login b \<noteq> [] \<longrightarrow> vouched vs (sso_login b))"

lemma form_get_gput [simp]: "form_get (gput k v m) k' = (if k' = k then v else form_get m k')"
  by (simp add: form_get_def)

lemma form_get_gdel [simp]: "form_get (gdel k m) k' = (if k' = k then [] else form_get m k')"
  by (simp add: form_get_def)

lemma pending_login_strings [simp]: "pending_login (ls\<lparr>lgStrings := m\<rparr>) = pending_login ls"
  by (simp add: pending_login_def loadPendingUpstreamUser_def)

lemma pending_login_none [simp]: "pending_login (ls\<lparr>lgPendingUser := RawEmpty\<rparr>) = []"
  by (simp add: pending_login_def loadPendingUpstreamUser_def)

lemma pending_login_empty [simp]: "pending_login empty_login = []"
  by (simp add: pending_login_def loadPendingUpstreamUser_def empty_login_def)

lemma pending_login_put [simp]: "pending_login (ls\<lparr>lgPendingUser := RawJson (user_json u)\<rparr>) = ouLogin u"
  by (simp add: pending_login_def loadPendingUpstreamUser_def user_json_def oidc_user_fields_def find_field_def
      json_of_claims_def zero_oidc_user_def)

lemma sso_login_put [simp]: "sso_login (b\<lparr>brSso := Some (sso_value u)\<rparr>) = ouLogin u"
  by (simp add: sso_login_def sso_value_def user_value_def)

lemma sso_login_simps [simp]:
  "sso_login (b\<lparr>brLogin := ls\<rparr>) = sso_login b" "sso_login (b\<lparr>brSso := None\<rparr>) = []"
  by (simp_all add: sso_login_def)

lemma GetString_simps [simp]:
  "GetString (ls\<lparr>lgPendingUser := x\<rparr>) k = GetString ls k"
  "GetString (ls\<lparr>lgStrings := m\<rparr>) k = form_get m k"
  "GetString empty_login k = []"
  by (simp_all add: GetString_def empty_login_def form_get_def)

lemma empty_login_strings [simp]: "lgStrings empty_login = []" "form_get [] k = []"
  by (simp_all add: empty_login_def form_get_def)

lemma trusted_later: "trusted vs b \<Longrightarrow> trusted (vs @ [v]) b"
  by (auto simp: trusted_def vouched_later)

text \<open>A change of the login session that leaves the upstream login alone.\<close>

lemma started_cong:
  "(\<And>k. k \<in> {sessUpstreamState, sessUpstreamNonce, sessUpstreamProvider, sessUpstreamPKCE, sessUpstreamVerifier}
      \<Longrightarrow> GetString ls' k = GetString ls k) \<Longrightarrow> started g ls' = started g ls"
  by (simp add: started_def)

subsection \<open>Every endpoint keeps the sessions trusted\<close>

lemma commit_read_only [commits]:
  "commit (handleAuthorize env r) b = b"
  "commit (handleToken env s r) b = b"
  "commit (handleOpenIDConfiguration s) b = b"
  "commit (handleUserInfo env s r) b = b"
  "commit (handleJWKS s) b = b"
  "commit (handleIndex env s ls) b = b"
  by (simp_all add: handleAuthorize_def handleToken_def handleOpenIDConfiguration_def handleUserInfo_def handleJWKS_def
      handleIndex_def Let_def split: sum.split option.split prod.split)

lemma commit_introspection [commits]: "commit (HandleTokenIntrospection env s r) b = b"
  by (simp add: HandleTokenIntrospection_def publicIntrospection_def Let_def split: sum.split option.split prod.split)

lemma trusted_logout: "trusted vs b \<Longrightarrow> trusted vs (commit (handleLogout env s (brLogin b) r) b)"
  by (simp add: handleLogout_def Let_def trusted_def form_get_def)

lemma ssoAuthorize_answers:
  assumes "ssoAuthorize env s sso rawQuery cid = Returns (Some e)"
  shows "writes e"
    and "\<exists>m ar session text. sso = Some (VMap m) \<and> as_string (gget m ''Login'') \<noteq> []
      \<and> e = EAuthorizeResponse ar session text \<and> osSubject session = as_string (gget m ''Login'')"
  using assms by (auto simp: ssoAuthorize_def Let_def split: option.splits gval.splits if_splits sum.splits)

lemma commit_loginGet:
  assumes "loginGet env s sso r = Returns es"
  shows "commit es b = b\<lparr>brLogin := (brLogin b)\<lparr>lgStrings :=
    gput ''clientId'' (query_get (wRawQuery r) ''client_id'') (gput ''authQuery'' (wRawQuery r) (lgStrings (brLogin b)))\<rparr>\<rparr>"
  using assms ssoAuthorize_answers(1)
  by (auto simp: loginGet_def Let_def commits split: outcome.splits option.splits)

lemma trusted_login_strings:
  assumes "trusted vs b" "k \<notin> {sessUpstreamState, sessUpstreamNonce, sessUpstreamProvider, sessUpstreamPKCE, sessUpstreamVerifier}"
  shows "trusted vs (b\<lparr>brLogin := (brLogin b)\<lparr>lgStrings := gput k x (lgStrings (brLogin b))\<rparr>\<rparr>)"
proof -
  have "started g ((brLogin b)\<lparr>lgStrings := gput k x (lgStrings (brLogin b))\<rparr>) = started g (brLogin b)" for g
    by (rule started_cong) (use assms(2) in \<open>auto simp: GetString_def\<close>)
  then show ?thesis
    using assms by (auto simp: trusted_def GetString_def)
qed

lemma trusted_loginGet:
  assumes "trusted vs b" "loginGet env s sso r = Returns es"
  shows "trusted vs (commit es b)"
  using trusted_login_strings [OF trusted_login_strings [OF assms(1), of "''authQuery''" "wRawQuery r"],
      of "''clientId''" "query_get (wRawQuery r) ''client_id''"]
  by (simp add: commit_loginGet [OF assms(2)])

lemma trusted_sso:
  assumes "trusted vs b" "vouched vs (ouLogin u)"
  shows "trusted vs (b\<lparr>brSso := Some (sso_value u)\<rparr>)"
  using assms by (simp add: trusted_def)

lemma trusted_pending_used: "trusted vs b \<Longrightarrow> trusted vs (b\<lparr>brLogin := (brLogin b)\<lparr>lgPendingUser := RawEmpty\<rparr>\<rparr>)"
  by (simp add: trusted_def started_def)

lemma commit_loginPost:
  "commit (loginPost env s ls r) b = b
   \<or> (\<exists>form u q c. wPostForm r = Some form
        \<and> svAuthenticate s (form_get form ''login'') (form_get form ''password'') = Inr (Some u)
        \<and> commit (loginPost env s ls r) b = b\<lparr>brSso := Some (sso_value (after_newSession env q c u))\<rparr>)"
  by (auto simp: loginPost_def Let_def commits split: option.split sum.split)

lemma trusted_loginPost:
  assumes "trusted (vs @ [v]) b" "vPath v = ''/oauth2/login''" "wMethod (vRequest v) = ''POST''"
  shows "trusted (vs @ [v]) (commit (loginPost (vEnv v) (vServer v) ls (vRequest v)) b)"
  using commit_loginPost [of "vEnv v" "vServer v" ls "vRequest v" b]
proof (elim disjE exE conjE)
  fix form u q c
  assume "wPostForm (vRequest v) = Some form"
    "svAuthenticate (vServer v) (form_get form ''login'') (form_get form ''password'') = Inr (Some u)"
  then have "vouched (vs @ [v]) (ouLogin (after_newSession (vEnv v) q c u))"
    using assms by (intro vouched_password) (auto simp: password_login_def)
  moreover assume "commit (loginPost (vEnv v) (vServer v) ls (vRequest v)) b =
    b\<lparr>brSso := Some (sso_value (after_newSession (vEnv v) q c u))\<rparr>"
  ultimately show ?thesis using trusted_sso [OF assms(1)] by simp
qed (simp add: assms)

lemma commit_handleUpstreamGo:
  "commit (handleUpstreamGo env rnd s (brLogin b) r) b = b
   \<or> (\<exists>settings state nonce. randomURLSafeString (rnState rnd) = Inr state \<and> randomURLSafeString (rnNonce rnd) = Inr nonce
        \<and> commit (handleUpstreamGo env rnd s (brLogin b) r) b =
            commit (upstreamRedirect env rnd (query_get (wRawQuery r) ''upstreamProvider'') settings state nonce) b)"
  unfolding handleUpstreamGo_def Let_def by (auto split: option.split sum.split)

lemma trusted_handleUpstreamGo:
  assumes "trusted (vs @ [v]) b" "vPath v = ''/upstream/go''"
  shows "trusted (vs @ [v]) (commit (handleUpstreamGo (vEnv v) (vRandom v) (vServer v) (brLogin b) (vRequest v)) b)"
  using commit_handleUpstreamGo [of "vEnv v" "vRandom v" "vServer v" b "vRequest v"]
proof (elim disjE exE conjE)
  fix settings state nonce
  let ?b = "commit (upstreamRedirect (vEnv v) (vRandom v) (query_get (wRawQuery (vRequest v)) ''upstreamProvider'')
    settings state nonce) b"
  assume "randomURLSafeString (rnState (vRandom v)) = Inr state" "randomURLSafeString (rnNonce (vRandom v)) = Inr nonce"
  then have "started v (brLogin ?b)"
    using assms(2) by (simp add: upstreamRedirect_def Let_def started_def)
  moreover have "pending_login (brLogin ?b) = pending_login (brLogin b)" "sso_login ?b = sso_login b"
    by (simp_all add: upstreamRedirect_def Let_def)
  moreover assume "commit (handleUpstreamGo (vEnv v) (vRandom v) (vServer v) (brLogin b) (vRequest v)) b = ?b"
  ultimately show ?thesis using assms(1) by (auto simp: trusted_def)
qed (simp add: assms)

text \<open>What the callback does: it refuses, or it is the end of an upstream login.\<close>

definition callback_user :: "ServerEnv \<Rightarrow> OIDCServer \<Rightarrow> LoginSession \<Rightarrow> WebRequest \<Rightarrow> effect list \<Rightarrow> OidcUser \<Rightarrow> bool" where
  "callback_user env s ls r replies user \<longleftrightarrow>
     (\<exists>u settings tok claims.
        query_get (wRawQuery r) ''state'' = GetString ls sessUpstreamState \<and> GetString ls sessUpstreamState \<noteq> []
        \<and> GetUpstream (svStorage s) (GetString ls sessUpstreamProvider) = Some u
        \<and> AuthCodeSettings u = Some settings
        \<and> upstreamExchange env ls settings (query_get (wRawQuery r) ''code'') = Inr tok
        \<and> upstreamClaims env u ls tok = Inr claims \<and> upstreamUser s u claims = (replies, user))"

lemma handleUpstreamCallback_cases:
  obtains (refused) status msg where "handleUpstreamCallback env s ls r = [EReply status msg]"
  | (ended) replies user where "callback_user env s ls r replies user"
      "handleUpstreamCallback env s ls r = replies @ upstreamFinish env s (GetString ls ''authQuery'') user"
proof (cases "\<exists>status msg. handleUpstreamCallback env s ls r = [EReply status msg]")
  case True
  then show ?thesis using refused by (elim exE)
next
  case no: False
  then have "\<exists>replies user. callback_user env s ls r replies user
      \<and> handleUpstreamCallback env s ls r = replies @ upstreamFinish env s (GetString ls ''authQuery'') user"
    unfolding handleUpstreamCallback_def callback_user_def Let_def
    by (simp split: if_split_asm option.split_asm sum.split_asm prod.split_asm)
  then show ?thesis using ended by (elim exE conjE)
qed

lemma upstreamUser_replies: "upstreamUser s u claims = (replies, user) \<Longrightarrow> list_all (\<lambda>e. \<exists>n t. e = EReply n t) replies"
  by (auto simp: upstreamUser_def Let_def split: if_splits sum.splits prod.splits)

lemma callback_user_replies:
  assumes "callback_user env s ls r replies user" "replies \<noteq> []"
  obtains n t es where "replies = EReply n t # es"
proof -
  obtain u claims where "upstreamUser s u claims = (replies, user)" using assms(1) by (auto simp: callback_user_def)
  then have "list_all (\<lambda>e. \<exists>n t. e = EReply n t) replies" by (rule upstreamUser_replies)
  then show thesis using assms(2) that by (cases replies) auto
qed

lemma callback_user_answered:
  assumes "callback_user env s ls r replies user" "\<forall>n t. answer (replies @ es) \<noteq> Some (EReply n t)"
  shows "replies = []"
proof (rule ccontr)
  assume "replies \<noteq> []"
  then obtain n t es' where "replies = EReply n t # es'" by (rule callback_user_replies [OF assms(1)])
  then have "answer (replies @ es) = Some (EReply n t)" by simp
  then show False using assms(2) by (simp only: simp_thms)
qed

lemma callback_user_login:
  assumes "callback_user (vEnv v) (vServer v) (brLogin b) (vRequest v) [] user" "trusted vs b" "vPath v = ''/upstream/callback''"
  shows "vouched (vs @ [v]) (ouLogin user)"
proof -
  have "GetString (brLogin b) sessUpstreamState \<noteq> []" using assms(1) by (auto simp: callback_user_def)
  then obtain g where "g \<in> set vs" "started g (brLogin b)" using assms(2) by (auto simp: trusted_def)
  then have "upstream_login vs v (ouLogin user)"
    using assms(1,3) unfolding upstream_login_def callback_user_def by blast
  then show ?thesis by (rule vouched_upstream)
qed

lemma commit_upstreamFinish:
  "GetString (brLogin (commit (upstreamFinish env s q user) b)) sessUpstreamState = []"
  "pending_login (brLogin (commit (upstreamFinish env s q user) b)) \<in> {pending_login (brLogin b), ouLogin user}"
  "sso_login (commit (upstreamFinish env s q user) b) \<in> {sso_login b, ouLogin user}"
  by (simp_all add: upstreamFinish_def commits split: SsoMode.split)

lemma trusted_handleUpstreamCallback:
  assumes "trusted vs b" "vPath v = ''/upstream/callback''"
  shows "trusted (vs @ [v]) (commit (handleUpstreamCallback (vEnv v) (vServer v) (brLogin b) (vRequest v)) b)"
proof (cases rule: handleUpstreamCallback_cases [of "vEnv v" "vServer v" "brLogin b" "vRequest v"])
  case refused
  then show ?thesis using trusted_later [OF assms(1)] by simp
next
  case (ended replies user)
  show ?thesis
  proof (cases "replies = []")
    case True
    let ?b = "commit (upstreamFinish (vEnv v) (vServer v) (GetString (brLogin b) ''authQuery'') user) b"
    have "vouched (vs @ [v]) (ouLogin user)"
      using callback_user_login [OF _ assms] ended(1) True by simp
    then have "trusted (vs @ [v]) ?b"
      using trusted_later [OF assms(1), of v]
        commit_upstreamFinish [of "vEnv v" "vServer v" "GetString (brLogin b) ''authQuery''" user b]
      unfolding trusted_def by auto
    then show ?thesis using ended(2) True by simp
  next
    case False
    then obtain n t es where "replies = EReply n t # es" by (rule callback_user_replies [OF ended(1)])
    then show ?thesis using ended(2) trusted_later [OF assms(1)] by simp
  qed
qed

lemma trusted_handleUpstreamWelcome:
  assumes "trusted vs b"
  shows "trusted vs (commit (handleUpstreamWelcome env s (brLogin b) r) b)"
proof (cases "loadPendingUpstreamUser (brLogin b)")
  case None
  then show ?thesis using assms by (simp add: handleUpstreamWelcome_def)
next
  case (Some user)
  have "ouLogin user \<noteq> []" using Some by (auto simp: loadPendingUpstreamUser_def split: raw.splits option.splits if_splits)
  then have "vouched vs (ouLogin user)" using Some assms by (simp add: trusted_def pending_login_def)
  then show ?thesis
    using Some trusted_pending_used [OF assms] trusted_sso [OF trusted_pending_used [OF assms]] assms
    by (simp add: handleUpstreamWelcome_def Let_def commits split: option.split)
qed

lemma trusted_handleLogin:
  assumes "trusted vs b" "vPath v = ''/oauth2/login''"
    "handleLogin (vEnv v) (vServer v) sso (brLogin b) (vRequest v) = Returns es"
  shows "trusted (vs @ [v]) (commit es b)"
proof -
  have t: "trusted (vs @ [v]) b" by (rule trusted_later [OF assms(1)])
  show ?thesis
    using assms(3) t trusted_loginGet [OF t] trusted_loginPost [OF t assms(2)]
    by (auto simp: handleLogin_def split: if_splits)
qed

lemma trusted_visit:
  assumes "trusted vs b"
  shows "trusted (vs @ [v]) (visit_step b v)"
proof -
  have t: "trusted (vs @ [v]) b" by (rule trusted_later [OF assms])
  have "trusted (vs @ [v]) (commit es b)" if "serve b v = Some (Returns es)" for es
    using that trusted_handleLogin [OF assms, of v] trusted_handleUpstreamGo [OF t] trusted_handleUpstreamCallback [OF assms, of v]
      trusted_handleUpstreamWelcome [OF t] trusted_logout [OF t] t
    by (auto simp: serve_def Let_def commits split: if_split_asm)
  then show ?thesis
    using t by (simp add: visit_step_def split: option.split outcome.split)
qed

lemma browsed_trusted: "browsed vs b \<Longrightarrow> trusted vs b"
proof (induction rule: browsed.induct)
  case fresh
  show ?case by (simp add: trusted_def fresh_browser_def sso_login_def)
next
  case (visit vs b v)
  show ?case by (rule trusted_visit [OF visit.IH])
qed (simp_all add: trusted_def)

subsection \<open>Whom an authorize response is for\<close>

lemma answer_others:
  "answer (handleAuthorize env r) \<noteq> Some (EAuthorizeResponse ar session text)"
  "answer (handleToken env s r) \<noteq> Some (EAuthorizeResponse ar session text)"
  "answer (handleOpenIDConfiguration s) \<noteq> Some (EAuthorizeResponse ar session text)"
  "answer (handleUserInfo env s r) \<noteq> Some (EAuthorizeResponse ar session text)"
  "answer (handleJWKS s) \<noteq> Some (EAuthorizeResponse ar session text)"
  "answer (handleIndex env s ls) \<noteq> Some (EAuthorizeResponse ar session text)"
  "answer (handleLogout env s ls r) \<noteq> Some (EAuthorizeResponse ar session text)"
  by (simp_all add: handleAuthorize_def handleToken_def handleOpenIDConfiguration_def handleUserInfo_def handleJWKS_def
      handleIndex_def handleLogout_def Let_def split: sum.split option.split prod.split)

lemma answer_introspection: "answer (HandleTokenIntrospection env s r) \<noteq> Some (EAuthorizeResponse ar session text)"
  by (simp add: HandleTokenIntrospection_def publicIntrospection_def Let_def split: sum.split option.split prod.split)

lemma answer_handleUpstreamGo: "answer (handleUpstreamGo env rnd s ls r) \<noteq> Some (EAuthorizeResponse ar session text)"
  by (simp add: handleUpstreamGo_def upstreamRedirect_def Let_def split: sum.split option.split)

lemma answer_loginGet:
  assumes "loginGet env s (brSso b) r = Returns es" "answer es = Some (EAuthorizeResponse ar session text)"
  shows "osSubject session = sso_login b \<and> sso_login b \<noteq> []"
proof -
  have "\<exists>e. ssoAuthorize env s (brSso b) (wRawQuery r) (query_get (wRawQuery r) ''client_id'') = Returns (Some e)
      \<and> e = EAuthorizeResponse ar session text"
    using assms ssoAuthorize_answers(1)
    by (auto simp: loginGet_def Let_def answer_displayLoginResponse split: outcome.splits option.splits if_splits)
  then show ?thesis
    using ssoAuthorize_answers(2) by (fastforce simp: sso_login_def)
qed

lemma answer_loginPost:
  assumes "answer (loginPost env s ls r) = Some (EAuthorizeResponse ar session text)"
  shows "\<exists>form u. wPostForm r = Some form
    \<and> svAuthenticate s (form_get form ''login'') (form_get form ''password'') = Inr (Some u) \<and> ouLogin u = osSubject session"
  using assms answer_displayLoginResponse answer_loginAuthorize
  by (auto simp: loginPost_def Let_def split: option.splits sum.splits if_splits)

lemma answer_upstreamFinish:
  "answer (upstreamFinish env s q user) = Some (EAuthorizeResponse ar session text) \<Longrightarrow> osSubject session = ouLogin user"
  by (auto simp: upstreamFinish_def dest: answer_completeUpstreamAuthorize split: SsoMode.splits)

lemma answer_handleUpstreamCallback:
  assumes "answer (handleUpstreamCallback env s ls r) = Some (EAuthorizeResponse ar session text)"
  shows "\<exists>user. callback_user env s ls r [] user \<and> osSubject session = ouLogin user"
proof (cases rule: handleUpstreamCallback_cases [of env s ls r])
  case refused
  then show ?thesis using assms by simp
next
  case (ended replies user)
  have "replies = []"
    using assms ended(2)
    by (intro callback_user_answered [OF ended(1), of "upstreamFinish env s (GetString ls ''authQuery'') user"]) simp
  then show ?thesis using ended assms answer_upstreamFinish by auto
qed

lemma answer_handleUpstreamWelcome:
  assumes "answer (handleUpstreamWelcome env s ls r) = Some (EAuthorizeResponse ar session text)"
  shows "osSubject session = pending_login ls \<and> pending_login ls \<noteq> []"
proof -
  obtain user where user: "loadPendingUpstreamUser ls = Some user"
    using assms by (cases "loadPendingUpstreamUser ls") (simp_all add: handleUpstreamWelcome_def split: if_splits)
  moreover from this have "ouLogin user \<noteq> []"
    by (auto simp: loadPendingUpstreamUser_def split: raw.splits option.splits if_splits)
  moreover have "osSubject session = ouLogin user"
    using assms user answer_completeUpstreamAuthorize
    by (auto simp: handleUpstreamWelcome_def Let_def split: option.splits if_splits)
  ultimately show ?thesis by (simp add: pending_login_def)
qed

lemma answer_handleLogin_other:
  assumes "handleLogin env s sso ls r = Returns es" "answer es = Some (EAuthorizeResponse ar session text)"
  shows "loginGet env s sso r = Returns es \<or> (wMethod r = ''POST'' \<and> es = loginPost env s ls r)"
  using assms by (simp add: handleLogin_def split: if_split_asm) auto

text \<open>The endpoints that answer with an authorize response.\<close>

lemma authorize_endpoints:
  assumes "serve b v = Some (Returns es)" "answer es = Some (EAuthorizeResponse ar session text)"
  shows "loginGet (vEnv v) (vServer v) (brSso b) (vRequest v) = Returns es
    \<or> (vPath v = ''/oauth2/login'' \<and> wMethod (vRequest v) = ''POST''
        \<and> es = loginPost (vEnv v) (vServer v) (brLogin b) (vRequest v))
    \<or> (vPath v = ''/upstream/callback'' \<and> es = handleUpstreamCallback (vEnv v) (vServer v) (brLogin b) (vRequest v))
    \<or> es = handleUpstreamWelcome (vEnv v) (vServer v) (brLogin b) (vRequest v)"
proof -
  let ?env = "vEnv v" and ?s = "vServer v" and ?r = "vRequest v" and ?ls = "brLogin b"
  have "es \<in> {handleAuthorize ?env ?r, handleLogout ?env ?s ?ls ?r, handleToken ?env ?s ?r, handleOpenIDConfiguration ?s,
        handleUserInfo ?env ?s ?r, handleJWKS ?s, HandleTokenIntrospection ?env ?s ?r, handleIndex ?env ?s ?ls,
        handleUpstreamGo ?env (vRandom v) ?s ?ls ?r}
    \<or> (vPath v = ''/oauth2/login'' \<and> handleLogin ?env ?s (brSso b) ?ls ?r = Returns es)
    \<or> (vPath v = ''/upstream/callback'' \<and> es = handleUpstreamCallback ?env ?s ?ls ?r)
    \<or> es = handleUpstreamWelcome ?env ?s ?ls ?r"
    using assms(1) unfolding serve_def Let_def by (simp split: if_split_asm)
  moreover have "es \<notin> {handleAuthorize ?env ?r, handleLogout ?env ?s ?ls ?r, handleToken ?env ?s ?r, handleOpenIDConfiguration ?s,
        handleUserInfo ?env ?s ?r, handleJWKS ?s, HandleTokenIntrospection ?env ?s ?r, handleIndex ?env ?s ?ls,
        handleUpstreamGo ?env (vRandom v) ?s ?ls ?r}"
    using assms(2) by (auto simp: answer_others answer_introspection answer_handleUpstreamGo)
  moreover have "loginGet ?env ?s (brSso b) ?r = Returns es \<or> (wMethod ?r = ''POST'' \<and> es = loginPost ?env ?s ?ls ?r)"
    if "handleLogin ?env ?s (brSso b) ?ls ?r = Returns es"
    by (rule answer_handleLogin_other [OF that assms(2)])
  ultimately show ?thesis by blast
qed

text \<open>
  C2: nobody gets an authorization code without having proved who they are.  Whatever a browser visited before,
  and however its sessions expired in between, when a visit is answered with an authorize response, the
  subject of the response was vouched for during these visits: either the login form was posted with that
  user's credentials and the identity server accepted them, or the browser came back from an upstream login
  that it had started itself, with the state of that start, the provider accepted the code, an ID token it
  delivered verified with the nonce of that start, and the claims gave that user without an error reply.
\<close>

theorem authorize_response_vouched:
  assumes "browsed vs b" "serve b v = Some (Returns es)" "answer es = Some (EAuthorizeResponse ar session text)"
  shows "vouched (vs @ [v]) (osSubject session)"
proof -
  have t: "trusted vs b" by (rule browsed_trusted [OF assms(1)])
  consider (get) "loginGet (vEnv v) (vServer v) (brSso b) (vRequest v) = Returns es"
    | (post) "vPath v = ''/oauth2/login''" "wMethod (vRequest v) = ''POST''"
        "es = loginPost (vEnv v) (vServer v) (brLogin b) (vRequest v)"
    | (callback) "vPath v = ''/upstream/callback''" "es = handleUpstreamCallback (vEnv v) (vServer v) (brLogin b) (vRequest v)"
    | (pending) "es = handleUpstreamWelcome (vEnv v) (vServer v) (brLogin b) (vRequest v)"
    using authorize_endpoints [OF assms(2,3)] by (elim disjE conjE)
  then show ?thesis
  proof cases
    case get
    then show ?thesis using answer_loginGet [OF get assms(3)] t vouched_later by (simp add: trusted_def)
  next
    case post
    then show ?thesis
      using answer_loginPost assms(3) by (intro vouched_password) (simp add: password_login_def)
  next
    case callback
    then show ?thesis using answer_handleUpstreamCallback assms(3) callback_user_login [OF _ t] by metis
  next
    case pending
    then show ?thesis using answer_handleUpstreamWelcome assms(3) t vouched_later by (simp add: trusted_def)
  qed
qed

section \<open>The state of an upstream login\<close>

lemma callback_state_refused:
  assumes "GetString ls sessUpstreamState = [] \<or> query_get (wRawQuery r) ''state'' \<noteq> GetString ls sessUpstreamState"
  shows "\<exists>n t. n \<in> {400, 405} \<and> handleUpstreamCallback env s ls r = [EReply n t]"
  using assms by (auto simp: handleUpstreamCallback_def Let_def)

text \<open>
  C5: the state of an upstream login is bound to the browser and used once.  A callback whose state is not the
  one in the login session, or that comes when none is there, gets an error reply (a client error, of
  status 400 or 405), changes no session and does nothing else.  A callback that ends the upstream login, so
  that it is answered with something other than an error reply, leaves no state in the session: until the
  browser starts another upstream login, every further callback is refused in this way, the same request
  included.
\<close>

theorem upstream_state_single_use:
  assumes "vPath v = ''/upstream/callback''"
  shows "(GetString (brLogin b) sessUpstreamState = []
       \<or> query_get (wRawQuery (vRequest v)) ''state'' \<noteq> GetString (brLogin b) sessUpstreamState \<longrightarrow>
         (\<exists>n t. n \<in> {400, 405} \<and> serve b v = Some (Returns [EReply n t])) \<and> visit_step b v = b)
    \<and> (\<forall>es. serve b v = Some (Returns es) \<and> (\<forall>n t. answer es \<noteq> Some (EReply n t)) \<longrightarrow>
         (\<forall>w. vPath w = ''/upstream/callback'' \<longrightarrow>
            (\<exists>n t. n \<in> {400, 405} \<and> serve (visit_step b v) w = Some (Returns [EReply n t]))
            \<and> visit_step (visit_step b v) w = visit_step b v))"
proof -
  have serve: "serve c w = Some (Returns (handleUpstreamCallback (vEnv w) (vServer w) (brLogin c) (vRequest w)))"
    if "vPath w = ''/upstream/callback''" for c w
    using that by (simp add: serve_def Let_def)
  have refused: "(\<exists>n t. n \<in> {400, 405} \<and> serve c w = Some (Returns [EReply n t])) \<and> visit_step c w = c"
    if path: "vPath w = ''/upstream/callback''" and state: "GetString (brLogin c) sessUpstreamState = []
      \<or> query_get (wRawQuery (vRequest w)) ''state'' \<noteq> GetString (brLogin c) sessUpstreamState" for c w
  proof -
    obtain n t where nt: "n \<in> {400, 405}" "handleUpstreamCallback (vEnv w) (vServer w) (brLogin c) (vRequest w) = [EReply n t]"
      using callback_state_refused [OF state, of "vEnv w" "vServer w"] by (elim exE conjE)
    then have "serve c w = Some (Returns [EReply n t])" using serve [OF path, of c] by simp
    then show ?thesis using nt(1) unfolding visit_step_def by fastforce
  qed
  have used: "GetString (brLogin (visit_step b v)) sessUpstreamState = []"
    if "\<forall>n t. answer (handleUpstreamCallback (vEnv v) (vServer v) (brLogin b) (vRequest v)) \<noteq> Some (EReply n t)"
  proof (cases rule: handleUpstreamCallback_cases [of "vEnv v" "vServer v" "brLogin b" "vRequest v"])
    case refused
    then show ?thesis using that by simp
  next
    case (ended replies user)
    have "replies = []" by (rule callback_user_answered [OF ended(1)]) (rule that [unfolded ended(2)])
    then show ?thesis
      using ended(2) by (simp add: visit_step_def serve [OF assms] commit_upstreamFinish)
  qed
  show ?thesis
  proof (intro conjI allI impI)
    fix es and w :: Visit
    assume es: "serve b v = Some (Returns es) \<and> (\<forall>n t. answer es \<noteq> Some (EReply n t))"
      and w: "vPath w = ''/upstream/callback''"
    then have "GetString (brLogin (visit_step b v)) sessUpstreamState = []"
      using serve [OF assms, of b] by (intro used) simp
    then show "\<exists>n t. n \<in> {400, 405} \<and> serve (visit_step b v) w = Some (Returns [EReply n t])"
      "visit_step (visit_step b v) w = visit_step b v"
      using refused [OF w, of "visit_step b v"] by (simp_all only: simp_thms)
  qed (use refused [OF assms, of b] in \<open>simp_all only: simp_thms\<close>)
qed

section \<open>After an error reply\<close>

text \<open>
  The callback does not stop at its own error replies: without a \<open>sub\<close> claim it answers with status 502 and
  then lets the library make an authorize response for the empty subject, in the same request.
\<close>

lemma callback_goes_on:
  assumes "callback_user env s ls r replies user" "handleUpstreamCallback env s ls r =
      replies @ upstreamFinish env s (GetString ls ''authQuery'') user"
    and "replies = [EReply 502 ''Missing sub claim'']" "svSsoMode s = SsoNever"
    and "completeUpstreamAuthorize env s (GetString ls ''authQuery'') user = [EAuthorizeResponse ar session text]"
  shows "EReply 502 ''Missing sub claim'' \<in> set (handleUpstreamCallback env s ls r)
    \<and> EAuthorizeResponse ar session text \<in> set (handleUpstreamCallback env s ls r)"
  using assms by (simp add: upstreamFinish_def)

text \<open>The identity server's verdict plays no role in an upstream login: a disabled user is accepted like any other.\<close>

lemma upstream_status_ignored:
  assumes "svIdentify s (as_string (gget (entries claims) ''sub'')) [] = Inr (user, st)" "LocalEnrichment u"
  shows "upstreamUser (s\<lparr>svIdentify := (\<lambda>l p. Inr (user, Disabled))\<rparr>) u claims = upstreamUser s u claims"
  using assms by (simp add: upstreamUser_def Let_def)

section \<open>A login across four visits\<close>

text \<open>
  A browser opens the login page of a client, chooses the upstream provider \<^verbatim>\<open>corp\<close>, comes back with the code
  and the state, and confirms on the welcome page.
\<close>

definition sample_corp :: upstream where
  "sample_corp =
     (NewInternalUpstream ''corp'')\<lparr>uName' := ''corp'', uSpec := zeroSpec\<lparr>usLocalEnrichment := Some False\<rparr>,
        uProvider := Some \<lparr>pvIssuer = ''https://corp'',
          pvEndpoint = \<lparr>epAuthURL = ''auth'', epTokenURL = ''token'', epDeviceAuthURL = []\<rparr>, pvUserInfoEndpoint = []\<rparr>\<rparr>"

definition sample_state :: string where
  "sample_state = RawURLEncoding ''abc''"

definition sample_nonce :: string where
  "sample_nonce = RawURLEncoding ''xyz''"

definition sample_auth :: string where
  "sample_auth = ''client_id=apps-web''"

definition sample_go :: string where
  "sample_go = ''upstreamProvider='' @ QueryEscape ''corp''"

definition sample_back :: string where
  "sample_back = ''code=c1&state='' @ sample_state"

definition sample_env :: ServerEnv where
  "sample_env =
     \<lparr>evFosite = sample_fosite,
      evOauth2 = \<lparr>oNewAuthorizeRequest = (\<lambda>r. Inr sample_password_request), oNewAuthorizeResponse = (\<lambda>ar s. Inr ''code''),
        oNewAccessRequest = (\<lambda>r s. Inl ''no''), oNewAccessResponse = (\<lambda>r. Inl ''no''),
        oIntrospectToken = (\<lambda>t tt s sc. Inl ''no''), oNewIntrospectionRequest = (\<lambda>r s. Inl ''no'')\<rparr>,
      evOidc = \<lparr>discover = (\<lambda>h i. Inl ''no''), providerClaims = (\<lambda>p. Inl ''no''),
        configProvider = (\<lambda>h c. \<lparr>pvIssuer = [], pvEndpoint = \<lparr>epAuthURL = [], epTokenURL = [], epDeviceAuthURL = []\<rparr>,
          pvUserInfoEndpoint = []\<rparr>),
        verifyIDToken = (\<lambda>p c t. Inr [(''sub'', VStr ''jim''), (''nonce'', VStr sample_nonce)]), userInfo = (\<lambda>p t. Inl ''no'')\<rparr>,
      evNow = 5, evNewRequest = (\<lambda>u. None), evTemplate = None,
      evExchange = (\<lambda>s c o'. Inr \<lparr>tkAccessToken = ''at'', tkIdToken = Some (VStr ''jwt'')\<rparr>),
      evAuthCodeURL = (\<lambda>s st o'. ''https://corp/auth'')\<rparr>"

definition sample_server :: OIDCServer where
  "sample_server =
     \<lparr>svIssuer = ''https://kubauth'', svStorage = SetUpstream sample_password_store sample_corp,
      svIdentify = (\<lambda>l p. Inl ''down''), svAuthenticate = (\<lambda>l p. Inr None), svPostLogoutURL = ''/index'',
      svDefaultStyle = ''dark'', svSsoMode = SsoOnDemand, svDefaultLoginLabel = [],
      svPrivateKey = \<lparr>rkN = 0, rkE = 0, rkPrivate = []\<rparr>, svKeyID = ''k1'', svAccessTokenLifespan = 3600,
      svRefreshTokenLifespan = 3600, svAllowPasswordGrant = False, svEnforcePKCE = False,
      svAllowPKCEPlain = False, svJwtAccessToken = False\<rparr>"

definition sample_visit :: "string \<Rightarrow> string \<Rightarrow> string \<Rightarrow> Visit" where
  "sample_visit path meth q =
     \<lparr>vEnv = sample_env, vServer = sample_server,
      vRandom = \<lparr>rnState = Inr ''abc'', rnNonce = Inr ''xyz'', rnVerifier = ''v''\<rparr>, vPath = path,
      vRequest = \<lparr>wMethod = meth, wRawQuery = q, wPostForm = Some [], wHeaders = []\<rparr>\<rparr>"

definition sample_browser :: "string gomap \<Rightarrow> raw \<Rightarrow> browser" where
  "sample_browser m p = \<lparr>brLogin = \<lparr>lgStrings = m, lgPendingUser = p\<rparr>, brSso = None\<rparr>"

definition sample_jim :: OidcUser where
  "sample_jim = \<lparr>ouLogin = ''jim'', ouClaims = [(''sub'', VStr ''jim'')], ouFullName = []\<rparr>"

abbreviation "sample_asked \<equiv> [(''authQuery'', sample_auth), (''clientId'', ''apps-web'')]"

abbreviation "sample_going \<equiv>
  sample_asked @ [(sessUpstreamState, sample_state), (sessUpstreamNonce, sample_nonce), (sessUpstreamProvider, ''corp''),
    (sessUpstreamPKCE, [])]"

lemma RawURLEncoding_Nil_iff [simp]: "RawURLEncoding s = [] \<longleftrightarrow> s = []"
  by (cases s rule: RawURLEncoding.cases) simp_all

lemma sample_not_empty [simp]: "sample_state \<noteq> []" "sample_nonce \<noteq> []" "sample_auth \<noteq> []"
  by (simp_all add: sample_state_def sample_nonce_def sample_auth_def del: RawURLEncoding.simps)

lemma sample_env_simps [simp]:
  "evNewRequest sample_env u = None" "evTemplate sample_env = None"
  "oNewAuthorizeRequest (evOauth2 sample_env) r = Inr sample_password_request"
  "oNewAuthorizeResponse (evOauth2 sample_env) ar s = Inr ''code''"
  "evExchange sample_env settings c os = Inr \<lparr>tkAccessToken = ''at'', tkIdToken = Some (VStr ''jwt'')\<rparr>"
  "GetUpstream (svStorage sample_server) ''corp'' = Some sample_corp"
  "svSsoMode sample_server = SsoOnDemand"
  by (simp_all add: sample_env_def sample_server_def GetUpstream_def SetUpstream_def sample_corp_def)

lemma sample_queries [simp]:
  "query_get sample_auth ''client_id'' = ''apps-web''" "query_get sample_go ''upstreamProvider'' = ''corp''"
  "query_get sample_back ''error'' = []" "query_get sample_back ''code'' = ''c1''" "query_get sample_back ''state'' = sample_state"
  by code_simp+

lemma sample_step1:
  "visit_step fresh_browser (sample_visit ''/oauth2/login'' ''GET'' sample_auth) = sample_browser sample_asked RawEmpty"
  by (simp add: visit_step_def serve_def sample_visit_def handleLogin_def loginGet_def ssoAuthorize_def fresh_browser_def
      commits form_get_def sample_browser_def empty_login_def Let_def)

lemma sample_settings: "\<exists>st. AuthCodeSettings sample_corp = Some st \<and> \<not> sSupportsPKCES256 st"
  by (simp add: AuthCodeSettings_def sample_corp_def supportsPKCES256_def NewInternalUpstream_def zeroExtra_def)

lemma sample_step2:
  "visit_step (sample_browser sample_asked RawEmpty) (sample_visit ''/upstream/go'' ''GET'' sample_go) =
     sample_browser sample_going RawEmpty"
proof -
  obtain st where "AuthCodeSettings sample_corp = Some st" "\<not> sSupportsPKCES256 st"
    using sample_settings by (elim exE conjE)
  then show ?thesis
    by (simp add: visit_step_def serve_def sample_visit_def handleUpstreamGo_def upstreamRedirect_def GetString_def
        form_get_def sample_browser_def randomURLSafeString_def Let_def sample_state_def sample_nonce_def
        del: RawURLEncoding.simps)
qed

lemma sample_claims:
  "upstreamClaims sample_env sample_corp \<lparr>lgStrings = sample_going, lgPendingUser = RawEmpty\<rparr>
     \<lparr>tkAccessToken = ''at'', tkIdToken = Some (VStr ''jwt'')\<rparr> = Inr (Some [(''sub'', VStr ''jim'')])"
  by (simp add: upstreamClaims_def idTokenClaims_def ParseAndVerifyIDToken_def sample_corp_def sample_env_def
      NormalizeStringArray_def GetString_def form_get_def UseUserInfo_def zeroSpec_def PerformRenaming_def CleanupClaims_def
      cloneClaimSet_def gcopy_def oidcIDTokenRegisteredClaims_def Let_def)

lemma sample_user: "upstreamUser sample_server sample_corp (Some [(''sub'', VStr ''jim'')]) = ([], sample_jim)"
  by (simp add: upstreamUser_def LocalEnrichment_def sample_corp_def zeroSpec_def BoolPtrTrue_def sample_jim_def Let_def)

lemma sample_callback:
  "serve (sample_browser sample_going RawEmpty) (sample_visit ''/upstream/callback'' ''GET'' sample_back) =
     Some (Returns (upstreamFinish sample_env sample_server sample_auth sample_jim))"
proof -
  obtain st where st: "AuthCodeSettings sample_corp = Some st"
    using sample_settings by (elim exE conjE)
  have "handleUpstreamCallback sample_env sample_server (brLogin (sample_browser sample_going RawEmpty))
      (vRequest (sample_visit ''/upstream/callback'' ''GET'' sample_back)) = upstreamFinish sample_env sample_server sample_auth sample_jim"
    using sample_claims
    by (simp add: handleUpstreamCallback_def sample_visit_def sample_browser_def GetString_def
        form_get_def upstreamExchange_def sample_user st Let_def)
  then show ?thesis by (simp add: serve_def sample_visit_def Let_def)
qed

lemma sample_finish:
  "upstreamFinish sample_env sample_server sample_auth sample_jim =
     [ESsoRenew, ELoginRemove sessUpstreamState, ELoginRemove sessUpstreamNonce, ELoginRemove sessUpstreamVerifier,
      ELoginRemove sessUpstreamPKCE, ELoginRemove sessUpstreamProvider, ELoginPutUser (user_json sample_jim),
      ERedirect ''/upstream/welcome'']"
  by (simp add: upstreamFinish_def)

lemma sample_step3:
  "visit_step (sample_browser sample_going RawEmpty) (sample_visit ''/upstream/callback'' ''GET'' sample_back) =
     sample_browser sample_asked (RawJson (user_json sample_jim))"
  unfolding visit_step_def sample_callback sample_finish
  by (simp add: sample_browser_def)

theorem upstream_state_single_use_witness:
  "\<exists>n t. serve (sample_browser sample_asked (RawJson (user_json sample_jim)))
     (sample_visit ''/upstream/callback'' ''GET'' sample_back) = Some (Returns [EReply n t])"
proof -
  let ?b = "sample_browser sample_going RawEmpty" and ?v = "sample_visit ''/upstream/callback'' ''GET'' sample_back"
  have path: "vPath ?v = ''/upstream/callback''" by (simp add: sample_visit_def)
  have "serve ?b ?v = Some (Returns (upstreamFinish sample_env sample_server sample_auth sample_jim))
      \<and> (\<forall>n t. answer (upstreamFinish sample_env sample_server sample_auth sample_jim) \<noteq> Some (EReply n t))"
    unfolding sample_callback by (simp add: sample_finish)
  then have "(\<exists>n t. n \<in> {400, 405} \<and> serve (visit_step ?b ?v) ?v = Some (Returns [EReply n t]))"
    using upstream_state_single_use [OF path, of ?b] path by blast
  then show ?thesis unfolding sample_step3 by blast
qed

lemma sample_welcome:
  "\<exists>ar session text. answer (handleUpstreamWelcome sample_env sample_server
      (brLogin (sample_browser sample_asked (RawJson (user_json sample_jim))))
      (vRequest (sample_visit ''/upstream/welcome'' ''POST'' []))) = Some (EAuthorizeResponse ar session text)
    \<and> osSubject session = ''jim''"
  by (simp add: handleUpstreamWelcome_def loadPendingUpstreamUser_def sample_browser_def sample_visit_def user_json_def
      oidc_user_fields_def find_field_def json_of_claims_def zero_oidc_user_def sample_jim_def GetString_def form_get_def
      completeUpstreamAuthorize_def Let_def)

lemma sample_browsed:
  "browsed [sample_visit ''/oauth2/login'' ''GET'' sample_auth, sample_visit ''/upstream/go'' ''GET'' sample_go,
      sample_visit ''/upstream/callback'' ''GET'' sample_back] (sample_browser sample_asked (RawJson (user_json sample_jim)))"
  using browsed.visit [OF browsed.visit [OF browsed.visit [OF browsed.fresh, of "sample_visit ''/oauth2/login'' ''GET'' sample_auth"],
      of "sample_visit ''/upstream/go'' ''GET'' sample_go"], of "sample_visit ''/upstream/callback'' ''GET'' sample_back"]
  unfolding sample_step1 sample_step2 sample_step3 by simp

theorem authorize_response_vouched_witness:
  "vouched [sample_visit ''/oauth2/login'' ''GET'' sample_auth, sample_visit ''/upstream/go'' ''GET'' sample_go,
      sample_visit ''/upstream/callback'' ''GET'' sample_back, sample_visit ''/upstream/welcome'' ''POST'' []] ''jim''"
proof -
  let ?b = "sample_browser sample_asked (RawJson (user_json sample_jim))"
    and ?v = "sample_visit ''/upstream/welcome'' ''POST'' []"
  let ?es = "handleUpstreamWelcome sample_env sample_server (brLogin ?b) (vRequest ?v)"
  obtain ar session code where a: "answer ?es = Some (EAuthorizeResponse ar session code)" "osSubject session = ''jim''"
    using sample_welcome by (elim exE conjE)
  have "serve ?b ?v = Some (Returns ?es)" by (simp add: serve_def sample_visit_def Let_def)
  from authorize_response_vouched [OF sample_browsed this a(1)] a(2) show ?thesis by simp
qed

end
