(* ===== verification/OidcKeys.thy ===== *)
theory OidcKeys
  imports OidcServer
begin

text \<open>
  The signing key of the OIDC server (\<^verbatim>\<open>ensureJwtSigningKey\<close> of \<^verbatim>\<open>oidcserver.go\<close> and \<^verbatim>\<open>handle-jwks.go\<close>):
  it survives restarts, an existing secret is never overwritten, and the published key set determines the
  public key.
\<close>

section \<open>Base64\<close>

lemma b64_char_inj: "i < 64 \<Longrightarrow> j < 64 \<Longrightarrow> b64_char i = b64_char j \<longleftrightarrow> i = j"
  unfolding b64_char_def by (rule nth_eq_iff_index_eq) simp_all

lemma of_char_byte: "(of_char c :: nat) < 256"
  by (metis of_char_mod_256 mod_less_divisor zero_less_numeral)

lemma of_char_cong: "(of_char a :: nat) div 4 = of_char b div 4 \<Longrightarrow> (of_char a :: nat) mod 4 = of_char b mod 4 \<Longrightarrow> a = b"
  by (metis div_mult_mod_eq of_char_eq_iff)

text \<open>The six bits of each letter give the bytes back.\<close>

lemma b64_head:
  assumes "b64_char (of_char a div 4) = b64_char (of_char a' div 4)"
    "b64_char (of_char a mod 4 * 16 + n) = b64_char (of_char a' mod 4 * 16 + n')" "n < 16" "n' < 16"
  shows "a = a'" "n = n'"
proof -
  have "(of_char a :: nat) div 4 = of_char a' div 4"
    using assms(1) of_char_byte [of a] of_char_byte [of a'] by (subst (asm) b64_char_inj) (simp_all add: less_mult_imp_div_less)
  moreover have *: "(of_char a :: nat) mod 4 * 16 + n = of_char a' mod 4 * 16 + n'"
    using assms(2-4) by (subst (asm) b64_char_inj) (auto intro: order_less_le_trans [of _ "3 * 16 + 16"])
  then have "((of_char a :: nat) mod 4 * 16 + n) div 16 = (of_char a' mod 4 * 16 + n') div 16" by simp
  then have "(of_char a :: nat) mod 4 = of_char a' mod 4" using assms(3,4) by simp
  ultimately show "a = a'" by (rule of_char_cong)
  then show "n = n'" using * by simp
qed

lemma b64_nibbles:
  assumes "b64_char (of_char a mod 16 * 4 + n) = b64_char (of_char a' mod 16 * 4 + n')" "n < 4" "n' < 4"
    "(of_char a :: nat) div 16 = of_char a' div 16"
  shows "a = a'" "n = n'"
proof -
  have *: "(of_char a :: nat) mod 16 * 4 + n = of_char a' mod 16 * 4 + n'"
    using assms(1-3) by (subst (asm) b64_char_inj) (auto intro: order_less_le_trans [of _ "15 * 4 + 4"])
  then have "((of_char a :: nat) mod 16 * 4 + n) div 4 = (of_char a' mod 16 * 4 + n') div 4" by simp
  then have "(of_char a :: nat) mod 16 = of_char a' mod 16" using assms(2,3) by simp
  then show "a = a'" using assms(4) by (metis div_mult_mod_eq of_char_eq_iff)
  then show "n = n'" using * by simp
qed

lemma b64_last:
  assumes "b64_char (of_char a mod 64) = b64_char (of_char a' mod 64)" "(of_char a :: nat) div 64 = of_char a' div 64"
  shows "a = a'"
proof -
  have "(of_char a :: nat) mod 64 = of_char a' mod 64" using assms(1) by (subst (asm) b64_char_inj) simp_all
  then show ?thesis using assms(2) by (metis div_mult_mod_eq of_char_eq_iff)
qed

lemma of_char_div: "(of_char c :: nat) div 16 < 16" "(of_char c :: nat) div 64 < 4"
  using of_char_byte [of c] by (simp_all add: less_mult_imp_div_less)

text \<open>Different random numbers give different states, and the key set determines the modulus.\<close>

lemma RawURLEncoding_inj: "RawURLEncoding x = RawURLEncoding y \<Longrightarrow> x = y"
proof (induction x arbitrary: y rule: RawURLEncoding.induct)
  case 1
  then show ?case by (cases y rule: RawURLEncoding.cases) simp_all
next
  case (2 a)
  then show ?case
    using b64_head [of a _ 0 0] by (cases y rule: RawURLEncoding.cases) auto
next
  case (3 a b)
  then show ?case
    using b64_head [of a _ "of_char b div 16"] b64_nibbles [of b 0 _ 0] of_char_div
    by (cases y rule: RawURLEncoding.cases) auto
next
  case (4 a b c bs)
  show ?case
  proof (cases y rule: RawURLEncoding.cases)
    case (4 a' b' c' bs')
    with "4.prems" have e: "b64_char (of_char a div 4) = b64_char (of_char a' div 4)"
      "b64_char (of_char a mod 4 * 16 + of_char b div 16) = b64_char (of_char a' mod 4 * 16 + of_char b' div 16)"
      "b64_char (of_char b mod 16 * 4 + of_char c div 64) = b64_char (of_char b' mod 16 * 4 + of_char c' div 64)"
      "b64_char (of_char c mod 64) = b64_char (of_char c' mod 64)" "RawURLEncoding bs = RawURLEncoding bs'"
      by simp_all
    note ab = b64_head [OF e(1,2) of_char_div(1) of_char_div(1)]
    note bc = b64_nibbles [OF e(3) of_char_div(2) of_char_div(2) ab(2)]
    show ?thesis using 4 ab(1) bc(1) b64_last [OF e(4) bc(2)] "4.IH" [OF e(5)] by simp
  qed (use "4.prems" in simp_all)
qed

lemma big_bytes_value: "foldl (\<lambda>n c. n * 256 + of_char c) 0 (big_bytes n) = n"
proof (induction n rule: big_bytes.induct)
  case (1 n)
  show ?case
  proof (cases "n = 0")
    case False
    have "foldl (\<lambda>n c. n * 256 + of_char c) 0 (big_bytes n) =
        foldl (\<lambda>n c. n * 256 + of_char c) 0 (big_bytes (n div 256)) * 256 + n mod 256"
      using False by (simp add: big_bytes.simps [of n])
    then show ?thesis using 1 False by simp
  qed (simp add: big_bytes.simps)
qed

lemma big_bytes_inj: "big_bytes n = big_bytes m \<Longrightarrow> n = m"
  by (metis big_bytes_value)

lemma handleJWKS_determines_key:
  "handleJWKS s = handleJWKS s' \<longleftrightarrow>
     svKeyID s = svKeyID s' \<and> rkN (svPrivateKey s) = rkN (svPrivateKey s') \<and> rkE (svPrivateKey s) = rkE (svPrivateKey s')"
  by (auto simp: handleJWKS_def dest!: RawURLEncoding_inj big_bytes_inj)

section \<open>Restarts\<close>

text \<open>What the key handling relies on: encoding and decoding of keys are inverse to each other.\<close>

definition key_codec :: "KeyLib \<Rightarrow> bool" where
  "key_codec lib \<longleftrightarrow>
     (\<forall>k. kyParsePKCS1 lib (kyMarshalPKCS1 lib k) = Inr k)
     \<and> (\<forall>type bytes p. kyPemEncode lib type bytes = Inr p \<longrightarrow> kyPemDecode lib p = Some (type, bytes))"

text \<open>The library at another start: other random numbers.\<close>

abbreviation restarted :: "KeyLib \<Rightarrow> string + rsaKey \<Rightarrow> string \<Rightarrow> KeyLib" where
  "restarted lib g u \<equiv> lib\<lparr>kyGenerateKey := g, kyNewKID := u\<rparr>"

lemma loadSigningKey_restarted [simp]: "loadSigningKey (restarted lib g u) = loadSigningKey lib"
  by (auto simp: loadSigningKey_def fun_eq_iff split: option.split sum.split)

lemma created_secret_loads:
  assumes "key_codec lib" "kyPemEncode lib ''RSA PRIVATE KEY'' (kyMarshalPKCS1 lib priv) = Inr buf"
  shows "loadSigningKey lib key [(''key.pem'', buf), (''kid'', kid)] = Inr (priv, kid)"
  using assms by (simp add: loadSigningKey_def key_codec_def)

text \<open>A started server leaves a secret that loads as its key.\<close>

lemma ensureJwtSigningKey_leaves:
  assumes "key_codec lib" "ensureJwtSigningKey lib key api = (api', Inr (priv, kid))"
  obtains d where "secret_Get api' key = Inr d" "loadSigningKey lib key d = Inr (priv, kid)"
proof (cases "secret_Get api key")
  case (Inr d)
  then show ?thesis using assms(2) that by (simp add: ensureJwtSigningKey_def)
next
  case (Inl e)
  then have e: "e = KNotFound" "createSigningKey lib key api = (api', Inr (priv, kid))"
    using assms(2) by (simp_all add: ensureJwtSigningKey_def split: kerr.splits)
  then obtain buf where buf: "kyPemEncode lib ''RSA PRIVATE KEY'' (kyMarshalPKCS1 lib priv) = Inr buf" "kid = kyNewKID lib"
    "secret_Create api key [(''key.pem'', buf), (''kid'', kid)] = (api', None)"
    by (auto simp: createSigningKey_def split: sum.splits prod.splits option.splits)
  have "saGetErr api = None" using Inl e(1) by (auto simp: secret_Get_def split: option.splits)
  then have "secret_Get api' key = Inr [(''key.pem'', buf), (''kid'', kid)]"
    using buf(3) by (auto simp: secret_Create_def secret_Get_def split: option.splits if_splits)
  then show ?thesis using that created_secret_loads [OF assms(1) buf(1)] by blast
qed

lemma ensureJwtSigningKey_keeps:
  assumes "ensureJwtSigningKey lib key api = (api', res)"
  shows "saSecrets api key \<noteq> None \<or> saGetErr api \<noteq> None \<Longrightarrow> api' = api"
    and "k \<noteq> key \<Longrightarrow> saSecrets api' k = saSecrets api k"
    and "saGetErr api = Some e \<Longrightarrow> \<exists>err. res = Inl err"
  using assms
  by (auto simp: ensureJwtSigningKey_def createSigningKey_def secret_Get_def secret_Create_def
      split: option.splits sum.splits if_splits prod.splits)

text \<open>
  C11: the signing key survives restarts.  Once the server has started, every later start on the resulting
  secrets, whatever random numbers it would draw, succeeds with the same key and key id, publishes the same
  key set and changes no secret, so tokens issued before stay verifiable.  A start never overwrites an
  existing secret and touches no other one, and when the secret cannot be read for another reason than
  being absent, it fails without creating a key.
\<close>

theorem signing_key_stable:
  assumes "key_codec lib" "Setup lib key api s = (api', res)"
  shows "(saSecrets api key \<noteq> None \<or> saGetErr api \<noteq> None \<longrightarrow> api' = api)
    \<and> (\<forall>k. k \<noteq> key \<longrightarrow> saSecrets api' k = saSecrets api k)
    \<and> (saGetErr api \<noteq> None \<longrightarrow> (\<exists>err. res = Inl err))
    \<and> (\<forall>s1 g u t. res = Inr s1 \<longrightarrow>
         (\<exists>s2. Setup (restarted lib g u) key api' t = (api', Inr s2)
            \<and> svPrivateKey s2 = svPrivateKey s1 \<and> svKeyID s2 = svKeyID s1 \<and> handleJWKS s2 = handleJWKS s1))"
proof -
  obtain kres where k: "ensureJwtSigningKey lib key api = (api', kres)"
    using assms(2) by (cases "ensureJwtSigningKey lib key api") (auto simp: Setup_def split: sum.splits prod.splits)
  have fails: "\<exists>err. res = Inl err" if "saGetErr api \<noteq> None"
    using ensureJwtSigningKey_keeps(3) [OF k] that assms(2) k by (auto simp: Setup_def)
  have "\<exists>s2. Setup (restarted lib g u) key api' t = (api', Inr s2)
      \<and> svPrivateKey s2 = svPrivateKey s1 \<and> svKeyID s2 = svKeyID s1 \<and> handleJWKS s2 = handleJWKS s1"
    if started: "res = Inr s1" for s1 g u t
  proof -
    obtain priv kid where pk: "kres = Inr (priv, kid)" "svPrivateKey s1 = priv" "svKeyID s1 = kid"
      using started assms(2) k by (cases kres) (auto simp: Setup_def)
    then obtain d where "secret_Get api' key = Inr d" "loadSigningKey lib key d = Inr (priv, kid)"
      using ensureJwtSigningKey_leaves [OF assms(1)] k by blast
    then have "ensureJwtSigningKey (restarted lib g u) key api' = (api', Inr (priv, kid))"
      by (simp add: ensureJwtSigningKey_def)
    then show ?thesis using pk by (simp add: Setup_def handleJWKS_def)
  qed
  then show ?thesis
    using ensureJwtSigningKey_keeps(1,2) [OF k] fails by (intro conjI allI impI) (simp_all only: simp_thms)
qed

definition sample_key_lib :: KeyLib where
  "sample_key_lib =
     \<lparr>kyPemDecode = (\<lambda>p. Some (''RSA PRIVATE KEY'', p)),
      kyPemEncode = (\<lambda>t b. if t = ''RSA PRIVATE KEY'' then Inr b else Inl ''type''),
      kyParsePKCS1 = (\<lambda>b. Inr \<lparr>rkN = length (takeWhile (\<lambda>c. c = CHR ''n'') b),
         rkE = length (takeWhile (\<lambda>c. c = CHR ''e'') (drop (Suc (length (takeWhile (\<lambda>c. c = CHR ''n'') b))) b)),
         rkPrivate = drop (Suc (length (takeWhile (\<lambda>c. c = CHR ''e'') (drop (Suc (length (takeWhile (\<lambda>c. c = CHR ''n'') b))) b))))
           (drop (Suc (length (takeWhile (\<lambda>c. c = CHR ''n'') b))) b)\<rparr>),
      kyParsePKCS8 = (\<lambda>b. Inr (Inl ''ed25519.PrivateKey'')),
      kyMarshalPKCS1 = (\<lambda>k. replicate (rkN k) CHR ''n'' @ CHR ''-'' # replicate (rkE k) CHR ''e'' @ CHR ''-'' # rkPrivate k),
      kyGenerateKey = Inr \<lparr>rkN = 3, rkE = 2, rkPrivate = ''p''\<rparr>, kyNewKID = ''kid1''\<rparr>"

lemma takeWhile_replicate_stop: "x \<noteq> y \<Longrightarrow> takeWhile (\<lambda>c. c = x) (replicate n x @ y # zs) = replicate n x"
  by (induction n) simp_all

lemma sample_key_codec: "key_codec sample_key_lib"
  by (simp add: key_codec_def sample_key_lib_def takeWhile_replicate_stop)

definition sample_secrets :: SecretApi where
  "sample_secrets = \<lparr>saSecrets = (\<lambda>k. None), saGetErr = None, saCreateErr = None\<rparr>"

definition sample_blank_server :: OIDCServer where
  "sample_blank_server =
     \<lparr>svIssuer = ''https://kubauth'', svStorage = sample_password_store, svIdentify = (\<lambda>l p. Inl ''down''),
      svAuthenticate = (\<lambda>l p. Inr None), svPostLogoutURL = ''/index'', svDefaultStyle = ''dark'', svSsoMode = SsoNever,
      svDefaultLoginLabel = [], svPrivateKey = \<lparr>rkN = 0, rkE = 0, rkPrivate = []\<rparr>, svKeyID = [],
      svAccessTokenLifespan = 3600, svRefreshTokenLifespan = 3600, svAllowPasswordGrant = False, svEnforcePKCE = False,
      svAllowPKCEPlain = False, svJwtAccessToken = False\<rparr>"

lemma sample_ensure:
  "ensureJwtSigningKey sample_key_lib (''ns'', ''key'') sample_secrets =
     (sample_secrets\<lparr>saSecrets := (\<lambda>k. None)((''ns'', ''key'') := Some [(''key.pem'', ''nnn-ee-p''), (''kid'', ''kid1'')])\<rparr>,
      Inr (\<lparr>rkN = 3, rkE = 2, rkPrivate = ''p''\<rparr>, ''kid1''))"
  by (simp add: ensureJwtSigningKey_def createSigningKey_def secret_Get_def secret_Create_def
      sample_secrets_def sample_key_lib_def numeral_3_eq_3 numeral_2_eq_2)

theorem signing_key_stable_witness:
  "\<exists>api' s1 s2. Setup sample_key_lib (''ns'', ''key'') sample_secrets sample_blank_server = (api', Inr s1)
     \<and> Setup (restarted sample_key_lib (Inl ''no entropy'') ''kid2'') (''ns'', ''key'') api' sample_blank_server = (api', Inr s2)
     \<and> svKeyID s2 = ''kid1'' \<and> handleJWKS s2 = handleJWKS s1"
proof -
  have "\<exists>api' s1. Setup sample_key_lib (''ns'', ''key'') sample_secrets sample_blank_server = (api', Inr s1)
      \<and> svKeyID s1 = ''kid1''"
    unfolding Setup_def sample_ensure by simp
  then obtain api' s1 where s1: "Setup sample_key_lib (''ns'', ''key'') sample_secrets sample_blank_server = (api', Inr s1)"
    "svKeyID s1 = ''kid1''" by (elim exE conjE)
  obtain s2 where
    "Setup (restarted sample_key_lib (Inl ''no entropy'') ''kid2'') (''ns'', ''key'') api' sample_blank_server = (api', Inr s2)"
    "svPrivateKey s2 = svPrivateKey s1" "svKeyID s2 = svKeyID s1" "handleJWKS s2 = handleJWKS s1"
    using signing_key_stable [OF sample_key_codec s1(1), THEN conjunct2, THEN conjunct2, THEN conjunct2, rule_format, OF refl,
        where g = "Inl ''no entropy''" and u = "''kid2''" and t = sample_blank_server]
    by (elim exE conjE)
  then have "Setup sample_key_lib (''ns'', ''key'') sample_secrets sample_blank_server = (api', Inr s1)
     \<and> Setup (restarted sample_key_lib (Inl ''no entropy'') ''kid2'') (''ns'', ''key'') api' sample_blank_server = (api', Inr s2)
     \<and> svKeyID s2 = ''kid1'' \<and> handleJWKS s2 = handleJWKS s1"
    using s1 by (simp only: simp_thms)
  then show ?thesis by (intro exI)
qed

end
