(* ===== verification/ExpandEnv.thy ===== *)
theory ExpandEnv
  imports Prelude
begin

text \<open>
  \<^verbatim>\<open>internal/misc/expandenv.go\<close>: expansion of \<^verbatim>\<open>${VAR}\<close> in a configuration file.  The loop is modelled
  with its indexes, its slices (which panic out of range) and its line counter, and is shown to compute
  a direct recursive function over the text, never to panic, and to expand templates as expected.
\<close>

section \<open>The loop\<close>

datatype state = STATE_NOMINAL | STATE_AFTER_TOKEN | STATE_IN_VAR

datatype expand_error =
    MissingVariableError (missing_line: nat) (missing_variable: string)
  | SlicePanic

record expand_state =
  outbuf :: string
  variable :: string
  chunkStart :: int
  line :: nat
  mode :: state
  chunkEnd :: int

definition isAlphanumeric :: "char \<Rightarrow> bool" where
  "isAlphanumeric b \<longleftrightarrow>
     (CHR ''a'' \<le> b \<and> b \<le> CHR ''z'') \<or> (CHR ''A'' \<le> b \<and> b \<le> CHR ''Z'')
     \<or> (CHR ''0'' \<le> b \<and> b \<le> CHR ''9'') \<or> b = CHR ''_''"

text \<open>\<^verbatim>\<open>s[from:to]\<close>, which panics unless \<^verbatim>\<open>0 <= from <= to <= len(s)\<close>.\<close>

definition go_slice :: "string \<Rightarrow> int \<Rightarrow> int \<Rightarrow> string option" where
  "go_slice s from to =
     (if 0 \<le> from \<and> from \<le> to \<and> to \<le> int (length s)
      then Some (drop (nat from) (take (nat to) s)) else None)"

text \<open>The body of the loop at position \<^verbatim>\<open>i\<close>; \<open>env\<close> is \<^verbatim>\<open>os.Getenv\<close>.\<close>

definition expandStep ::
  "(string \<Rightarrow> string) \<Rightarrow> string \<Rightarrow> nat \<Rightarrow> expand_state \<Rightarrow> expand_error + expand_state" where
  "expandStep env s i st0 =
     (let c = s ! i;
          st = (if c = CHR 0x0A then st0\<lparr>line := line st0 + 1\<rparr> else st0)
      in case mode st of
           STATE_NOMINAL \<Rightarrow>
             if c = CHR ''$'' then Inr (st\<lparr>mode := STATE_AFTER_TOKEN, chunkEnd := int i\<rparr>)
             else Inr st
         | STATE_AFTER_TOKEN \<Rightarrow>
             if c = CHR ''{'' then Inr (st\<lparr>mode := STATE_IN_VAR, variable := []\<rparr>)
             else Inr (st\<lparr>mode := STATE_NOMINAL, chunkEnd := - 1\<rparr>)
         | STATE_IN_VAR \<Rightarrow>
             if c = CHR ''}'' then
               let val = env (variable st) in
               if val = [] then Inl (MissingVariableError (line st) (variable st))
               else (case go_slice s (chunkStart st) (chunkEnd st) of
                       None \<Rightarrow> Inl SlicePanic
                     | Some chunk \<Rightarrow>
                         Inr (st\<lparr>outbuf := outbuf st @ chunk @ val, chunkStart := int i + 1,
                                chunkEnd := - 1, mode := STATE_NOMINAL\<rparr>))
             else if isAlphanumeric c then Inr (st\<lparr>variable := variable st @ [c]\<rparr>)
             else Inr (st\<lparr>mode := STATE_NOMINAL, chunkEnd := - 1\<rparr>))"

function expandLoop ::
  "(string \<Rightarrow> string) \<Rightarrow> string \<Rightarrow> nat \<Rightarrow> expand_state \<Rightarrow> expand_error + expand_state" where
  "expandLoop env s i st =
     (if i < length s
      then (case expandStep env s i st of
              Inl e \<Rightarrow> Inl e
            | Inr st' \<Rightarrow> expandLoop env s (Suc i) st')
      else Inr st)"
  by pat_completeness auto
termination by (relation "measure (\<lambda>(env, s, i, st). length s - i)") auto

declare expandLoop.simps [simp del]

definition ExpandEnv :: "(string \<Rightarrow> string) \<Rightarrow> string \<Rightarrow> expand_error + string" where
  "ExpandEnv env s =
     (case expandLoop env s 0
             \<lparr>outbuf = [], variable = [], chunkStart = 0, line = 1, mode = STATE_NOMINAL, chunkEnd = - 1\<rparr> of
        Inl e \<Rightarrow> Inl e
      | Inr st \<Rightarrow>
          (case go_slice s (chunkStart st) (int (length s)) of
             None \<Rightarrow> Inl SlicePanic
           | Some chunk \<Rightarrow> Inr (outbuf st @ chunk)))"

section \<open>A direct reading of the text\<close>

fun prefixed :: "string \<Rightarrow> expand_error + string \<Rightarrow> expand_error + string" where
  "prefixed p (Inl e) = Inl e"
| "prefixed p (Inr x) = Inr (p @ x)"

definition newline :: "char \<Rightarrow> nat" where
  "newline c = (if c = CHR 0x0A then 1 else 0)"

text \<open>
  A \<^verbatim>\<open>$\<close> that does not open a variable takes the next character with it, and so does a rejected
  variable with the character that made it invalid: these characters are never looked at again.
\<close>

function expand_ref :: "(string \<Rightarrow> string) \<Rightarrow> nat \<Rightarrow> string \<Rightarrow> expand_error + string" where
  "expand_ref env n s =
     (case s of
        [] \<Rightarrow> Inr []
      | c # t \<Rightarrow>
          if c \<noteq> CHR ''$'' then prefixed [c] (expand_ref env (n + newline c) t)
          else (case t of
                  [] \<Rightarrow> Inr [c]
                | d # u \<Rightarrow>
                    if d \<noteq> CHR ''{'' then prefixed [c, d] (expand_ref env (n + newline d) u)
                    else let name = takeWhile isAlphanumeric u in
                      (case dropWhile isAlphanumeric u of
                         [] \<Rightarrow> Inr s
                       | e # v \<Rightarrow>
                           if e = CHR ''}'' then
                             if env name = [] then Inl (MissingVariableError n name)
                             else prefixed (env name) (expand_ref env n v)
                           else prefixed ([c, d] @ name @ [e]) (expand_ref env (n + newline e) v))))"
  by pat_completeness auto
termination
proof (relation "measure (\<lambda>(env, n, s). length s)", goal_cases)
  case (4 env n s c t d u name e v)
  then show ?case using length_dropWhile_le [of isAlphanumeric u] by simp
next
  case (5 env n s c t d u name e v)
  then show ?case using length_dropWhile_le [of isAlphanumeric u] by simp
qed auto

declare expand_ref.simps [simp del]

text \<open>A configuration file as it is meant: literal text and variables.\<close>

datatype segment = Lit string | Var string

fun print_segment :: "segment \<Rightarrow> string" where
  "print_segment (Lit t) = t"
| "print_segment (Var v) = ''${'' @ v @ ''}''"

definition print_segments :: "segment list \<Rightarrow> string" where
  "print_segments segs = concat (map print_segment segs)"

fun wf_segment :: "segment \<Rightarrow> bool" where
  "wf_segment (Lit t) = (CHR ''$'' \<notin> set t)"
| "wf_segment (Var v) = list_all isAlphanumeric v"

fun expand_segments :: "(string \<Rightarrow> string) \<Rightarrow> nat \<Rightarrow> segment list \<Rightarrow> expand_error + string" where
  "expand_segments env n [] = Inr []"
| "expand_segments env n (Lit t # segs) =
     prefixed t (expand_segments env (n + count_list t (CHR 0x0A)) segs)"
| "expand_segments env n (Var v # segs) =
     (if env v = [] then Inl (MissingVariableError n v)
      else prefixed (env v) (expand_segments env n segs))"

section \<open>The loop computes the direct reading\<close>

text \<open>The text up to which a loop state has been dealt with: a possible variable is still open.\<close>

definition settled :: "nat \<Rightarrow> expand_state \<Rightarrow> nat" where
  "settled i st = (if mode st = STATE_NOMINAL then i else nat (chunkEnd st))"

definition expand_inv :: "string \<Rightarrow> nat \<Rightarrow> expand_state \<Rightarrow> bool" where
  "expand_inv s i st \<longleftrightarrow>
     0 \<le> chunkStart st \<and> chunkStart st \<le> int (settled i st) \<and> settled i st \<le> i \<and> i \<le> length s
     \<and> (mode st = STATE_AFTER_TOKEN \<longrightarrow>
          0 \<le> chunkEnd st \<and> drop (settled i st) (take i s) = ''$'')
     \<and> (mode st = STATE_IN_VAR \<longrightarrow>
          0 \<le> chunkEnd st \<and> drop (settled i st) (take i s) = ''${'' @ variable st
          \<and> list_all isAlphanumeric (variable st))"

lemma special_not_alnum [simp]:
  "\<not> isAlphanumeric CHR ''$''" "\<not> isAlphanumeric CHR ''{''" "\<not> isAlphanumeric CHR ''}''"
  "\<not> isAlphanumeric CHR 0x0A"
  by (simp_all add: isAlphanumeric_def less_eq_char_def)

lemma newline_special [simp]:
  "newline CHR ''$'' = 0" "newline CHR ''{'' = 0" "newline CHR ''}'' = 0"
  by (simp_all add: newline_def)

lemma alnum_newline [simp]: "isAlphanumeric c \<Longrightarrow> newline c = 0"
  by (auto simp: newline_def)

lemma drop_step: "i < length s \<Longrightarrow> drop i s = s ! i # drop (Suc i) s"
  by (simp add: Cons_nth_drop_Suc)

lemma settled_rest: "j \<le> i \<Longrightarrow> drop j s = drop j (take i s) @ drop i s"
  using append_take_drop_id [of "i - j" "drop j s"] by (simp add: drop_take)

lemma drop_take_Suc:
  "j \<le> i \<Longrightarrow> i < length s \<Longrightarrow> drop j (take (Suc i) s) = drop j (take i s) @ [s ! i]"
  by (simp add: take_Suc_conv_app_nth)

lemma prefixed_prefixed [simp]: "prefixed p (prefixed q r) = prefixed (p @ q) r"
  by (cases r) auto

lemma prefixed_Nil [simp]: "prefixed [] r = r"
  by (cases r) auto

lemma slice_split:
  assumes "a \<le> j" "j \<le> n"
  shows "drop a (take n s) = drop a (take j s) @ drop j (take n s)"
proof -
  have "take n s = take j s @ take (n - j) (drop j s)"
    using take_add [of j "n - j" s] assms by simp
  then show ?thesis
    using assms by (cases "length s \<le> j") (simp_all add: drop_take)
qed

lemma ref_plain: "c \<noteq> CHR ''$'' \<Longrightarrow>
    expand_ref env n (c # t) = prefixed [c] (expand_ref env (n + newline c) t)"
  by (subst expand_ref.simps) simp

lemma ref_single: "d \<noteq> CHR ''{'' \<Longrightarrow>
    expand_ref env n (CHR ''$'' # d # t) = prefixed [CHR ''$'', d] (expand_ref env (n + newline d) t)"
  by (subst expand_ref.simps) simp

lemma takeWhile_alnum:
  "list_all P v \<Longrightarrow> \<not> P c \<Longrightarrow> takeWhile P (v @ c # t) = v \<and> dropWhile P (v @ c # t) = c # t"
  by (induction v) auto

lemma ref_var: "list_all isAlphanumeric v \<Longrightarrow>
    expand_ref env n (CHR ''$'' # CHR ''{'' # v @ CHR ''}'' # t) =
      (if env v = [] then Inl (MissingVariableError n v)
       else prefixed (env v) (expand_ref env n t))"
  by (subst expand_ref.simps) (simp add: takeWhile_alnum)

lemma ref_reject: "list_all isAlphanumeric v \<Longrightarrow> \<not> isAlphanumeric c \<Longrightarrow> c \<noteq> CHR ''}'' \<Longrightarrow>
    expand_ref env n (CHR ''$'' # CHR ''{'' # v @ c # t) =
      prefixed (''${'' @ v @ [c]) (expand_ref env (n + newline c) t)"
  by (subst expand_ref.simps) (simp add: takeWhile_alnum)

lemma ref_end:
  "expand_ref env n [] = Inr []"
  "expand_ref env n ''$'' = Inr ''$''"
  "list_all isAlphanumeric v \<Longrightarrow> expand_ref env n (CHR ''$'' # CHR ''{'' # v) = Inr (''${'' @ v)"
  by (subst expand_ref.simps, simp add: list_all_iff dropWhile_eq_Nil_conv [THEN iffD2] takeWhile_eq_all_conv [THEN iffD2])+

text \<open>What is still to come from a loop state, read directly.\<close>

definition outlook :: "(string \<Rightarrow> string) \<Rightarrow> string \<Rightarrow> nat \<Rightarrow> expand_state \<Rightarrow> expand_error + string" where
  "outlook env s i st =
     prefixed (outbuf st @ drop (nat (chunkStart st)) (take (settled i st) s))
       (expand_ref env (line st) (drop (settled i st) s))"

lemma go_slice_ok:
  "0 \<le> a \<Longrightarrow> a \<le> b \<Longrightarrow> b \<le> int (length s) \<Longrightarrow> go_slice s a b = Some (drop (nat a) (take (nat b) s))"
  by (simp add: go_slice_def)

lemma step_nominal:
  assumes "expand_inv s i st" "i < length s" "mode st = STATE_NOMINAL"
  obtains st' where "expandStep env s i st = Inr st'" "expand_inv s (Suc i) st'"
    "outlook env s (Suc i) st' = outlook env s i st"
proof (cases "s ! i = CHR ''$''")
  case True
  with assms show ?thesis
    by (intro that [of "st\<lparr>mode := STATE_AFTER_TOKEN, chunkEnd := int i\<rparr>"])
      (auto simp: expandStep_def expand_inv_def settled_def outlook_def drop_take_Suc)
next
  case False
  let ?st = "st\<lparr>line := line st + newline (s ! i)\<rparr>"
  have "expandStep env s i st = Inr ?st"
    using assms False by (auto simp: expandStep_def newline_def)
  moreover have "expand_inv s (Suc i) ?st"
    using assms by (auto simp: expand_inv_def settled_def)
  moreover have "outlook env s (Suc i) ?st = outlook env s i st"
    using assms False
    by (simp add: outlook_def settled_def drop_step [of i] ref_plain drop_take_Suc expand_inv_def
        nat_le_iff)
  ultimately show ?thesis by (rule that)
qed

lemma step_after:
  assumes "expand_inv s i st" "i < length s" "mode st = STATE_AFTER_TOKEN"
  obtains st' where "expandStep env s i st = Inr st'" "expand_inv s (Suc i) st'"
    "outlook env s (Suc i) st' = outlook env s i st"
proof (cases "s ! i = CHR ''{''")
  case True
  with assms show ?thesis
    by (intro that [of "st\<lparr>mode := STATE_IN_VAR, variable := []\<rparr>"])
      (auto simp: expandStep_def expand_inv_def settled_def outlook_def drop_take_Suc)
next
  case False
  let ?j = "settled i st"
  let ?st = "st\<lparr>line := line st + newline (s ! i), mode := STATE_NOMINAL, chunkEnd := - 1\<rparr>"
  have j: "?j \<le> i" "i \<le> length s" "drop ?j (take i s) = ''$''" "chunkStart st \<le> int ?j" "0 \<le> chunkStart st"
    using assms by (auto simp: expand_inv_def)
  have "expandStep env s i st = Inr ?st"
    using assms False by (auto simp: expandStep_def newline_def)
  moreover have "expand_inv s (Suc i) ?st"
    using assms by (auto simp: expand_inv_def settled_def)
  moreover have "outlook env s (Suc i) ?st = outlook env s i st"
  proof -
    have "drop ?j s = CHR ''$'' # s ! i # drop (Suc i) s"
      using settled_rest [of ?j i s] j assms(2) by (simp add: drop_step [of i])
    moreover have "drop (nat (chunkStart st)) (take (Suc i) s)
        = drop (nat (chunkStart st)) (take ?j s) @ [CHR ''$'', s ! i]"
      using slice_split [of "nat (chunkStart st)" ?j "Suc i" s] j assms(2)
      by (simp add: drop_take_Suc nat_le_iff)
    ultimately show ?thesis
      using False by (simp add: outlook_def settled_def [of "Suc i"] ref_single)
  qed
  ultimately show ?thesis by (rule that)
qed

lemma step_in_var:
  assumes "expand_inv s i st" "i < length s" "mode st = STATE_IN_VAR"
  shows "case expandStep env s i st of
      Inl e \<Rightarrow> outlook env s i st = Inl e \<and> e \<noteq> SlicePanic
    | Inr st' \<Rightarrow> expand_inv s (Suc i) st' \<and> outlook env s (Suc i) st' = outlook env s i st"
proof -
  let ?j = "settled i st" and ?v = "variable st" and ?c = "s ! i"
  have j: "?j \<le> i" "drop ?j (take i s) = ''${'' @ ?v" "list_all isAlphanumeric ?v"
    "chunkStart st \<le> int ?j" "0 \<le> chunkStart st" "0 \<le> chunkEnd st" "?j = nat (chunkEnd st)"
    using assms by (auto simp: expand_inv_def settled_def)
  have rest: "drop ?j s = CHR ''$'' # CHR ''{'' # ?v @ ?c # drop (Suc i) s"
    using settled_rest [OF j(1), of s] j(2) assms(2) by (simp add: drop_step [of i])
  consider (close) "?c = CHR ''}''" | (more) "isAlphanumeric ?c"
    | (reject) "?c \<noteq> CHR ''}''" "\<not> isAlphanumeric ?c" by auto
  then show ?thesis
  proof cases
    case close
    have "go_slice s (chunkStart st) (chunkEnd st) = Some (drop (nat (chunkStart st)) (take ?j s))"
      using j assms(2) by (subst go_slice_ok) auto
    with close j rest assms show ?thesis
      by (auto simp: expandStep_def outlook_def ref_var expand_inv_def settled_def Let_def)
  next
    case more
    with j assms show ?thesis
      by (auto simp: expandStep_def outlook_def expand_inv_def settled_def Let_def drop_take_Suc)
  next
    case reject
    let ?st = "st\<lparr>line := line st + newline ?c, mode := STATE_NOMINAL, chunkEnd := - 1\<rparr>"
    have "drop (nat (chunkStart st)) (take (Suc i) s)
        = drop (nat (chunkStart st)) (take ?j s) @ ''${'' @ ?v @ [?c]"
      using slice_split [of "nat (chunkStart st)" ?j "Suc i" s] j assms(2)
      by (simp add: drop_take_Suc nat_le_iff)
    with reject rest j(3) have "outlook env s (Suc i) ?st = outlook env s i st"
      by (simp add: outlook_def settled_def [of "Suc i"] ref_reject)
    moreover have "expandStep env s i st = Inr ?st"
      using assms reject by (auto simp: expandStep_def newline_def)
    moreover have "expand_inv s (Suc i) ?st"
      using assms by (auto simp: expand_inv_def settled_def)
    ultimately show ?thesis by simp
  qed
qed

definition expand_finish :: "string \<Rightarrow> expand_error + expand_state \<Rightarrow> expand_error + string" where
  "expand_finish s r =
     (case r of
        Inl e \<Rightarrow> Inl e
      | Inr st \<Rightarrow>
          (case go_slice s (chunkStart st) (int (length s)) of
             None \<Rightarrow> Inl SlicePanic
           | Some chunk \<Rightarrow> Inr (outbuf st @ chunk)))"

lemma expand_done:
  assumes "expand_inv s (length s) st"
  shows "expand_finish s (Inr st) = outlook env s (length s) st"
proof -
  let ?j = "settled (length s) st" and ?c = "nat (chunkStart st)"
  have j: "?c \<le> ?j" "?j \<le> length s" "0 \<le> chunkStart st"
    using assms by (auto simp: expand_inv_def)
  have "expand_ref env (line st) (drop ?j s) = Inr (drop ?j s)"
    using assms by (cases "mode st") (auto simp: expand_inv_def settled_def ref_end)
  then show ?thesis
    using j slice_split [of ?c ?j "length s" s] go_slice_ok [of "chunkStart st" "int (length s)" s]
    by (simp add: expand_finish_def outlook_def)
qed

lemma expandLoop_outlook:
  "expand_inv s i st \<Longrightarrow> expand_finish s (expandLoop env s i st) = outlook env s i st"
proof (induction env s i st rule: expandLoop.induct)
  case (1 env s i st)
  show ?case
  proof (cases "i < length s")
    case True
    have "case expandStep env s i st of
        Inl e \<Rightarrow> outlook env s i st = Inl e
      | Inr st' \<Rightarrow> expand_inv s (Suc i) st' \<and> outlook env s (Suc i) st' = outlook env s i st"
    proof (cases "mode st")
      case STATE_NOMINAL
      show ?thesis by (rule step_nominal [OF "1.prems" True STATE_NOMINAL, of env]) simp
    next
      case STATE_AFTER_TOKEN
      show ?thesis by (rule step_after [OF "1.prems" True STATE_AFTER_TOKEN, of env]) simp
    next
      case STATE_IN_VAR
      show ?thesis
        using step_in_var [OF "1.prems" True STATE_IN_VAR, of env] by (auto split: sum.splits)
    qed
    with True "1.IH" show ?thesis
      by (cases "expandStep env s i st")
        (simp_all add: expandLoop.simps [of env s i] expand_finish_def)
  next
    case False
    with "1.prems" have "i = length s" by (simp add: expand_inv_def)
    with "1.prems" show ?thesis by (simp add: expandLoop.simps expand_done)
  qed
qed

lemma ExpandEnv_expand_ref: "ExpandEnv env s = expand_ref env 1 s"
  using expandLoop_outlook [of s 0
    "\<lparr>outbuf = [], variable = [], chunkStart = 0, line = 1, mode = STATE_NOMINAL, chunkEnd = - 1\<rparr>" env]
  by (simp add: ExpandEnv_def expand_finish_def outlook_def settled_def expand_inv_def)

lemma expand_ref_no_panic: "expand_ref env n s \<noteq> Inl SlicePanic"
proof (induction env n s rule: expand_ref.induct)
  case (1 env n s)
  have prefixed: "\<And>p r. prefixed p r = Inl SlicePanic \<longleftrightarrow> r = Inl SlicePanic"
    by (case_tac r) auto
  show ?case
    by (subst expand_ref.simps)
      (auto simp: Let_def prefixed 1 split: list.split)
qed

lemma expand_ref_Lit:
  "CHR ''$'' \<notin> set t \<Longrightarrow>
     expand_ref env n (t @ s) = prefixed t (expand_ref env (n + count_list t CHR 0x0A) s)"
  by (induction t arbitrary: n) (auto simp: ref_plain newline_def)

lemma expand_ref_segments:
  "list_all wf_segment segs \<Longrightarrow>
     expand_ref env n (print_segments segs) = expand_segments env n segs"
  by (induction env n segs rule: expand_segments.induct)
    (auto simp: print_segments_def ref_end expand_ref_Lit ref_var)

text \<open>
  C32: the index-and-chunk loop of \<open>ExpandEnv\<close> computes the direct reading of the text, output and
  error alike, and never slices out of range.
\<close>

theorem ExpandEnv_ref: "ExpandEnv env s = expand_ref env 1 s \<and> ExpandEnv env s \<noteq> Inl SlicePanic"
  by (simp add: ExpandEnv_expand_ref expand_ref_no_panic)

text \<open>
  On a text made of literals without \<^verbatim>\<open>$\<close> and of variables, adjacent ones included, \<open>ExpandEnv\<close>
  replaces every variable by its value, or reports the first unset (or empty) variable with the line it
  is on.
\<close>

theorem ExpandEnv_template:
  assumes "list_all wf_segment segs"
  shows "ExpandEnv env (print_segments segs) = expand_segments env 1 segs"
  using assms by (simp add: ExpandEnv_expand_ref expand_ref_segments)

theorem ExpandEnv_template_witness:
  "ExpandEnv (\<lambda>v. if v = ''A'' then ''x'' else [])
     (print_segments [Lit ''u='', Var ''A'', Lit [CHR 0x0A], Var ''A'', Var ''B''])
   = Inl (MissingVariableError 2 ''B'')"
  by (subst ExpandEnv_template) (simp_all add: isAlphanumeric_def less_eq_char_def)

end
