(* ===== verification/Config.thy ===== *)
theory Config
  imports ExpandEnv
begin

text \<open>
  Reading configuration files: \<^verbatim>\<open>internal/misc/adjustpath.go\<close> with the parts of \<^verbatim>\<open>path/filepath\<close> it
  uses, and \<^verbatim>\<open>internal/misc/loadconfig.go\<close> over the file system and the YAML decoder, which are
  arguments.
\<close>

section \<open>path/filepath\<close>

text \<open>The components between the slashes of a path.\<close>

fun split_path :: "string \<Rightarrow> string list" where
  "split_path [] = [[]]"
| "split_path (c # cs) =
     (if c = CHR ''/'' then [] # split_path cs
      else (case split_path cs of [] \<Rightarrow> [[c]] | w # ws \<Rightarrow> (c # w) # ws))"

fun join_path :: "string list \<Rightarrow> string" where
  "join_path [] = []"
| "join_path [w] = w"
| "join_path (w # ws) = w @ ''/'' @ join_path ws"

definition IsAbs :: "string \<Rightarrow> bool" where
  "IsAbs path = (case path of [] \<Rightarrow> False | c # cs \<Rightarrow> c = CHR ''/'')"

text \<open>The components that stay, the last one first.\<close>

fun clean_components :: "bool \<Rightarrow> string list \<Rightarrow> string list \<Rightarrow> string list" where
  "clean_components rooted stack [] = stack"
| "clean_components rooted stack (w # ws) =
     (if w = [] \<or> w = ''.'' then clean_components rooted stack ws
      else if w = ''..'' then
        (case stack of
           d # rest \<Rightarrow>
             if d \<noteq> ''..'' then clean_components rooted rest ws
             else clean_components rooted (w # stack) ws
         | [] \<Rightarrow> if rooted then clean_components rooted [] ws else clean_components rooted [w] ws)
      else clean_components rooted (w # stack) ws)"

definition Clean :: "string \<Rightarrow> string" where
  "Clean path =
     (let p = (if IsAbs path then ''/'' else []) @
                join_path (rev (clean_components (IsAbs path) [] (split_path path)))
      in if p = [] then ''.'' else p)"

definition Join :: "string \<Rightarrow> string \<Rightarrow> string" where
  "Join a b =
     (if a \<noteq> [] then Clean (a @ ''/'' @ b) else if b \<noteq> [] then Clean b else [])"

section \<open>adjustpath.go and loadconfig.go\<close>

definition AdjustPath :: "string \<Rightarrow> string \<Rightarrow> string" where
  "AdjustPath baseFolder path =
     (if path \<noteq> [] then Clean (if \<not> IsAbs path then Join baseFolder path else path) else path)"

datatype yaml_error = YamlEOF | YamlError string

datatype config_error = AbsError | ReadError | EnvError expand_error | DecodeError string

text \<open>
  \<^verbatim>\<open>LoadConfig\<close>: the absolute file name, and the error or the configuration.  \<open>absPath\<close> is
  \<^verbatim>\<open>filepath.Abs\<close>, \<open>readFile\<close> is \<^verbatim>\<open>os.ReadFile\<close>, \<open>decode\<close> the strict YAML decoder, which updates the
  configuration it is given.
\<close>

definition LoadConfig ::
  "(string \<Rightarrow> string option) \<Rightarrow> (string \<Rightarrow> string option) \<Rightarrow> (string \<Rightarrow> string) \<Rightarrow> (string \<Rightarrow> 'c \<Rightarrow> yaml_error + 'c)
    \<Rightarrow> string \<Rightarrow> 'c \<Rightarrow> string \<times> (config_error + 'c)" where
  "LoadConfig absPath readFile env decode configFile conf =
     (case absPath configFile of
        None \<Rightarrow> ([], Inl AbsError)
      | Some absConfigFile \<Rightarrow>
          (absConfigFile,
           case readFile absConfigFile of
             None \<Rightarrow> Inl ReadError
           | Some content \<Rightarrow>
               (case ExpandEnv env content of
                  Inl err \<Rightarrow> Inl (EnvError err)
                | Inr content2 \<Rightarrow>
                    (case decode content2 conf of
                       Inl YamlEOF \<Rightarrow> Inr conf
                     | Inl (YamlError t) \<Rightarrow> Inl (DecodeError (''file '' @ quoted configFile @ '': '' @ t))
                     | Inr conf' \<Rightarrow> Inr conf'))))"

section \<open>Paths\<close>

definition proper :: "string \<Rightarrow> bool" where
  "proper w \<longleftrightarrow> w \<noteq> [] \<and> w \<noteq> ''.'' \<and> w \<noteq> ''..''"

text \<open>Of a rooted path only proper names stay; of another one, names under leading \<^verbatim>\<open>..\<close>.\<close>

definition clean_stack :: "bool \<Rightarrow> string list \<Rightarrow> bool" where
  "clean_stack rooted stack \<longleftrightarrow>
     (\<forall>w \<in> set (dropWhile proper stack). w = ''..'') \<and> (rooted \<longrightarrow> list_all proper stack)"

lemma clean_stack_Nil [simp]: "clean_stack rooted []"
  by (simp add: clean_stack_def)

lemma clean_stack_Cons_proper [simp]: "proper w \<Longrightarrow> clean_stack rooted (w # stack) = clean_stack rooted stack"
  by (simp add: clean_stack_def)

lemma clean_stack_Cons_up [simp]:
  "clean_stack rooted (''..'' # stack) \<longleftrightarrow> \<not> rooted \<and> (\<forall>w \<in> set stack. w = ''..'')"
  by (auto simp: clean_stack_def proper_def)

lemma clean_stack_head: "clean_stack rooted (w # stack) \<Longrightarrow> proper w \<or> w = ''..''"
  by (auto simp: clean_stack_def split: if_splits)

lemma clean_components_stack:
  "clean_stack rooted stack \<Longrightarrow> clean_stack rooted (clean_components rooted stack ws)"
proof (induction ws arbitrary: stack)
  case (Cons w ws)
  consider (skip) "w = [] \<or> w = ''.''" | (up) "w = ''..''" | (name) "proper w"
    by (auto simp: proper_def)
  then show ?case
  proof cases
    case up
    show ?thesis
    proof (cases stack)
      case Nil
      with up Cons.IH [of "[]"] Cons.IH [of "[''..'']"] show ?thesis by (cases rooted) simp_all
    next
      case (Cons d rest)
      then have "proper d \<or> d = ''..''" using Cons.prems clean_stack_head by blast
      then show ?thesis
      proof
        assume "proper d"
        then show ?thesis using up Cons Cons.prems Cons.IH [of rest] by (auto simp: proper_def)
      next
        assume "d = ''..''"
        then show ?thesis using up Cons Cons.prems Cons.IH [of "''..'' # stack"] by simp
      qed
    qed
  qed (use Cons in \<open>auto simp: proper_def\<close>)
qed simp

lemma Clean_abs:
  assumes "IsAbs p"
  shows "IsAbs (Clean p)" "\<exists>ws. Clean p = ''/'' @ join_path ws \<and> list_all proper ws"
proof -
  have "clean_stack True (clean_components True [] (split_path p))"
    by (rule clean_components_stack) simp
  then have "list_all proper (rev (clean_components True [] (split_path p)))"
    by (simp add: clean_stack_def)
  with assms show "\<exists>ws. Clean p = ''/'' @ join_path ws \<and> list_all proper ws"
    by (auto simp: Clean_def Let_def)
  with assms show "IsAbs (Clean p)" by (auto simp: IsAbs_def)
qed

text \<open>
  A path of a configuration file, adjusted to an absolute folder, is absolute and contains no empty,
  \<^verbatim>\<open>.\<close> or \<^verbatim>\<open>..\<close> component; an empty path stays empty.
\<close>

theorem AdjustPath_absolute:
  assumes "IsAbs baseFolder"
  shows "AdjustPath baseFolder [] = [] \<and>
    (path \<noteq> [] \<longrightarrow> (\<exists>ws. AdjustPath baseFolder path = ''/'' @ join_path ws \<and> list_all proper ws))"
proof -
  have "baseFolder \<noteq> []" using assms by (auto simp: IsAbs_def)
  moreover have "IsAbs (baseFolder @ ''/'' @ path)"
    using assms by (auto simp: IsAbs_def split: list.splits)
  ultimately have "IsAbs (if \<not> IsAbs path then Join baseFolder path else path)"
    by (simp add: Join_def Clean_abs(1))
  from Clean_abs(2) [OF this] show ?thesis by (simp add: AdjustPath_def)
qed

theorem AdjustPath_absolute_witness:
  "\<exists>ws. AdjustPath ''/etc/kubauth'' ''../tls/./ca.crt'' = ''/'' @ join_path ws \<and> list_all proper ws"
  using AdjustPath_absolute [of "''/etc/kubauth''" "''../tls/./ca.crt''"] by (simp add: IsAbs_def)

end
