(* ===== verification/EventLoop.thy ===== *)
theory EventLoop
  imports Prelude
begin

text \<open>
  A \<^verbatim>\<open>for { select { ... } }\<close> loop: it takes one event after the other and returns at an event that asks for
  it, which may never come.  The events are a sequence, the outcome of the runtime's choices; a loop that
  does not return has the value \<open>None\<close>.
\<close>

partial_function (option) event_loop :: "('s \<Rightarrow> 'e \<Rightarrow> 's option) \<Rightarrow> (nat \<Rightarrow> 'e) \<Rightarrow> nat \<Rightarrow> 's \<Rightarrow> 's option" where
  "event_loop step src i s =
     (case step s (src i) of None \<Rightarrow> Some s | Some s' \<Rightarrow> event_loop step src (Suc i) s')"

text \<open>A loop whose events alone decide whether it returns.\<close>

locale stoppable_loop =
  fixes step :: "'s \<Rightarrow> 'e \<Rightarrow> 's option" and stop :: "'e \<Rightarrow> bool"
  assumes stops_iff: "step s e = None \<longleftrightarrow> stop e"
begin

definition pass :: "'s \<Rightarrow> 'e \<Rightarrow> 's" where
  "pass s e = (case step s e of None \<Rightarrow> s | Some s' \<Rightarrow> s')"

lemma stops: "stop (src i) \<Longrightarrow> event_loop step src i s = Some s"
  using stops_iff [of s "src i"] by (subst event_loop.simps) simp

lemma goes_on: "\<not> stop (src i) \<Longrightarrow> event_loop step src i s = event_loop step src (Suc i) (pass s (src i))"
  using stops_iff [of s "src i"] by (subst event_loop.simps) (auto simp: pass_def)

lemma returns:
  assumes "\<forall>k < n. \<not> stop (src (i + k))" "stop (src (i + n))"
  shows "event_loop step src i s = Some (foldl pass s (map src [i..<i + n]))"
  using assms
proof (induction n arbitrary: i s)
  case 0
  then show ?case by (simp add: stops)
next
  case (Suc n)
  have "\<not> stop (src i)" using Suc.prems(1) [rule_format, of 0] by simp
  moreover have "event_loop step src (Suc i) (pass s (src i)) =
      Some (foldl pass (pass s (src i)) (map src [Suc i..<Suc i + n]))"
    using Suc.prems by (intro Suc.IH) (auto simp: less_Suc_eq_0_disj)
  moreover have "[i..<i + Suc n] = i # [Suc i..<Suc i + n]" by (simp add: upt_conv_Cons)
  ultimately show ?case by (simp add: goes_on)
qed

lemma returns_stopped:
  assumes "event_loop step src i s = Some t"
  shows "\<exists>n \<ge> i. stop (src n)"
proof -
  have "step = step \<longrightarrow> (\<exists>n \<ge> i. stop (src n))"
  proof (rule event_loop.raw_induct [where P = "\<lambda>step' src i s t. step' = step \<longrightarrow> (\<exists>n \<ge> i. stop (src n))", OF _ assms], rule impI)
    fix loop step' src i s t
    assume IH: "\<And>step' src i s t. loop step' src i s = Some t \<Longrightarrow> step' = step \<longrightarrow> (\<exists>n \<ge> i. stop (src n))"
      and run: "(case step' s (src i) of None \<Rightarrow> Some s | Some s' \<Rightarrow> loop step' src (Suc i) s') = Some t" and eq: "step' = step"
    show "\<exists>n \<ge> i. stop (src n)"
    proof (cases "step s (src i)")
      case None
      then show ?thesis using stops_iff by blast
    next
      case (Some s')
      then have "loop step' src (Suc i) s' = Some t" using run eq by simp
      then obtain n where "Suc i \<le> n" "stop (src n)" using IH eq by blast
      then show ?thesis by (meson Suc_leD)
    qed
  qed
  then show ?thesis by simp
qed

text \<open>The loop returns exactly when a stopping event comes, after the passes before the first one.\<close>

lemma returns_value:
  assumes "\<forall>k < n. \<not> stop (src k)" "stop (src n)"
  shows "event_loop step src 0 s = Some (foldl pass s (map src [0..<n]))"
  using returns [of n src 0 s] assms by simp

lemma returns_iff: "(\<exists>t. event_loop step src 0 s = Some t) \<longleftrightarrow> (\<exists>n. stop (src n))"
proof
  assume "\<exists>n. stop (src n)"
  then obtain n where "stop (src n)" "\<forall>k < n. \<not> stop (src k)"
    using exists_least_iff [of "\<lambda>n. stop (src n)"] by blast
  then have "event_loop step src 0 s = Some (foldl pass s (map src [0..<n]))" by (intro returns_value)
  then show "\<exists>t. event_loop step src 0 s = Some t" by (rule exI)
qed (use returns_stopped in blast)

end

end
