(* ===== verification/HttpSrv.thy ===== *)
theory HttpSrv
  imports GoValues Config EventLoop "HOL-Library.Word"
begin

text \<open>
  \<^verbatim>\<open>internal/httpsrv\<close>: the HTTP server all commands share, with its exchange log (\<^verbatim>\<open>logging.go\<close>), the
  handler for unknown URLs (\<^verbatim>\<open>notfound.go\<close>), start and shutdown (\<^verbatim>\<open>httpsrv.go\<close>) and the reloading of the
  server certificate (\<^verbatim>\<open>certwatcher\<close>).

  A handler is the list of what it writes, for a request; no handler of the program looks at the result of
  a write.  How much of a write the connection takes, the JSON decoder, the printing of URLs, the network
  and the file notifications are parameters.  Cookies and headers that only the log prints are left out.
\<close>

section \<open>Bodies in the log\<close>

definition printable :: "char \<Rightarrow> bool" where
  "printable b \<longleftrightarrow> (32 \<le> (of_char b :: nat) \<and> (of_char b :: nat) \<le> 126) \<or> (of_char b :: nat) \<in> {10, 13, 9}"

text \<open>
  \<^verbatim>\<open>float64(n) / float64(len) >= 0.8\<close>: a quotient of integers below 2 to the 50 that is less than 4/5 is so by
  more than the rounding, so the comparison is exact.
\<close>

definition isPrintable :: "string \<Rightarrow> bool" where
  "isPrintable bytes = (bytes = [] \<or> 5 * length (filter printable bytes) \<ge> 4 * length bytes)"

definition getSafeBodyString :: "string \<Rightarrow> string" where
  "getSafeBodyString body =
     (if length body = 0 then []
      else if \<not> isPrintable body then ''[binary content]''
      else if length body > 192 then take 192 body @ ''... [truncated]''
      else body)"

text \<open>\<^verbatim>\<open>d.Truncate(m)\<close>, rounding towards zero, and the unit a duration is printed in.\<close>

definition Truncate :: "int \<Rightarrow> int \<Rightarrow> int" where
  "Truncate m d = (if m \<le> 0 then d else if d \<ge> 0 then d - d mod m else d + (- d) mod m)"

definition formatDuration :: "(int \<Rightarrow> string) \<Rightarrow> int \<Rightarrow> string" where
  "formatDuration durText d =
     (if d < 1000 then durText d
      else if d < 1000000 then durText (Truncate 1000 d)
      else durText (Truncate 1000000 d))"

section \<open>The wrapped response writer\<close>

datatype hop = HWriteHeader int | HWrite string

text \<open>How many bytes of a write the connection takes, given what was written before.\<close>

type_synonym connection = "hop list \<Rightarrow> string \<Rightarrow> nat"

record responseWriter =
  rwUnder :: "hop list"
  rwStatusCode :: int
  rwBody :: string
  rwSize :: int

definition newResponseWriter :: responseWriter where
  "newResponseWriter = \<lparr>rwUnder = [], rwStatusCode = 200, rwBody = [], rwSize = 0\<rparr>"

definition rw_Write :: "connection \<Rightarrow> responseWriter \<Rightarrow> string \<Rightarrow> responseWriter" where
  "rw_Write conn rw b =
     (let n = min (conn (rwUnder rw) b) (length b)
      in rw\<lparr>rwUnder := rwUnder rw @ [HWrite b],
            rwBody := (if length (rwBody rw) < 4096 then rwBody rw @ take n b else rwBody rw),
            rwSize := wrap64 (rwSize rw + int n)\<rparr>)"

definition rw_WriteHeader :: "responseWriter \<Rightarrow> int \<Rightarrow> responseWriter" where
  "rw_WriteHeader rw code = rw\<lparr>rwUnder := rwUnder rw @ [HWriteHeader code], rwStatusCode := code\<rparr>"

fun rw_hop :: "connection \<Rightarrow> responseWriter \<Rightarrow> hop \<Rightarrow> responseWriter" where
  "rw_hop conn rw (HWrite b) = rw_Write conn rw b"
| "rw_hop conn rw (HWriteHeader code) = rw_WriteHeader rw code"

section \<open>The exchange log\<close>

text \<open>The body of a request: the bytes it delivers and the error that ends it, if any.\<close>

record HttpRequest =
  hrMethod :: string
  hrPath :: string
  hrRawQuery :: string
  hrHost :: string
  hrRemoteAddr :: string
  hrTls :: bool
  hrHeader :: "string gomap"
  hrContentLength :: int
  hrBody :: "(string \<times> string option) option"

definition header_get :: "HttpRequest \<Rightarrow> string \<Rightarrow> string" where
  "header_get r k = (case gget (hrHeader r) k of None \<Rightarrow> [] | Some v \<Rightarrow> v)"

record requestLog =
  lqId :: int
  lqRequest :: HttpRequest
  lqBodySize :: int
  lqBodyAsString :: string
  lqBodyAsJson :: "claims option"

record responseLog =
  lpId :: int
  lpStatusCode :: int
  lpResponseSize :: int
  lpDuration :: int
  lpBodyAsString :: string
  lpBodyAsJson :: "claims option"

datatype logEntry =
    ShortRequest string string string
  | LongRequest HttpRequest int string
  | DumpRequest requestLog
  | ShortResponse int int
  | LongResponse int int int string
  | DumpResponse responseLog
  | NotFoundWarning HttpRequest

type_synonym handler = "connection \<Rightarrow> int \<Rightarrow> HttpRequest \<Rightarrow> hop list \<times> logEntry list \<times> int"

record LogWorld =
  lwLogger :: bool
  lwUnmarshal :: "string \<Rightarrow> claims option"
  lwDuration :: int
  lwResponseType :: "hop list \<Rightarrow> string"

definition json_type :: "string \<Rightarrow> bool" where
  "json_type t = (take (length ''application/json'') t = ''application/json'')"

text \<open>The body of a dump: as JSON when it is declared so and decodes, else as a safe string.\<close>

definition dump_body :: "LogWorld \<Rightarrow> string \<Rightarrow> string \<Rightarrow> string \<times> claims option" where
  "dump_body w ctype body =
     (if json_type ctype then
        (case lwUnmarshal w body of None \<Rightarrow> (getSafeBodyString body, None) | Some m \<Rightarrow> ([], Some m))
      else (getSafeBodyString body, None))"

definition request_log :: "LogWorld \<Rightarrow> int \<Rightarrow> int \<Rightarrow> HttpRequest \<Rightarrow> string \<Rightarrow> logEntry list \<times> int" where
  "request_log w level count r body =
     (if lwLogger w \<and> level = 1 then ([ShortRequest (hrMethod r) (hrPath r) (hrRawQuery r)], count)
      else if lwLogger w \<and> level = 2 then ([LongRequest r (int (length body)) (getSafeBodyString body)], count)
      else if level \<ge> 3 then
        (let (asString, asJson) = dump_body w (header_get r ''Content-Type'') body
         in ([DumpRequest \<lparr>lqId = wrap64 (count + 1), lqRequest = r, lqBodySize = int (length body),
                lqBodyAsString = asString, lqBodyAsJson = asJson\<rparr>], wrap64 (count + 1)))
      else ([], count))"

definition response_log :: "LogWorld \<Rightarrow> int \<Rightarrow> int \<Rightarrow> responseWriter \<Rightarrow> logEntry list \<times> int" where
  "response_log w level count rw =
     (if lwLogger w \<and> level = 1 then ([ShortResponse (rwStatusCode rw) (rwSize rw)], count)
      else if lwLogger w \<and> level = 2 then
        ([LongResponse (rwStatusCode rw) (rwSize rw) (lwDuration w) (getSafeBodyString (rwBody rw))], count)
      else if level \<ge> 3 then
        (let (asString, asJson) = dump_body w (lwResponseType w (rwUnder rw)) (rwBody rw)
         in ([DumpResponse \<lparr>lpId = wrap64 (count + 1), lpStatusCode = rwStatusCode rw, lpResponseSize = rwSize rw,
                lpDuration = lwDuration w, lpBodyAsString = asString, lpBodyAsJson = asJson\<rparr>], wrap64 (count + 1)))
      else ([], count))"

definition LoggingMiddleware :: "LogWorld \<Rightarrow> handler \<Rightarrow> int \<Rightarrow> handler" where
  "LoggingMiddleware w next_handler level conn count r =
     (let body = (case hrBody r of None \<Rightarrow> [] | Some (b, err) \<Rightarrow> b);
          r' = (case hrBody r of None \<Rightarrow> r | Some (b, err) \<Rightarrow> r\<lparr>hrBody := Some (b, None)\<rparr>);
          (log1, count1) = request_log w level count r body;
          (hops, inner, count2) = next_handler conn count1 r';
          rw = foldl (rw_hop conn) newResponseWriter hops;
          (log2, count3) = response_log w level count2 rw
      in (rwUnder rw, log1 @ inner @ log2, count3))"

section \<open>Unknown URLs\<close>

definition getScheme :: "HttpRequest \<Rightarrow> string" where
  "getScheme r =
     (if hrTls r then ''https''
      else if header_get r ''X-Forwarded-Proto'' \<noteq> [] then header_get r ''X-Forwarded-Proto''
      else if header_get r ''X-Forwarded-Protocol'' \<noteq> [] then header_get r ''X-Forwarded-Protocol''
      else if header_get r ''X-Forwarded-Ssl'' = ''on'' then ''https''
      else ''http'')"

text \<open>\<^verbatim>\<open>http.Error\<close>.\<close>

definition http_Error :: "string \<Rightarrow> int \<Rightarrow> hop list" where
  "http_Error msg code = [HWriteHeader code, HWrite (msg @ [CHR 0x0A])]"

definition NotFoundHandler :: "bool \<Rightarrow> (string \<Rightarrow> string \<Rightarrow> string \<Rightarrow> string \<Rightarrow> string) \<Rightarrow> handler" where
  "NotFoundHandler logger urlText conn count r =
     (http_Error (''The requested URL '' @ hrMethod r @ '' ''
          @ urlText (getScheme r) (hrHost r) (hrPath r) (hrRawQuery r) @ '' was not found on this server.'') 404,
      (if logger then [NotFoundWarning r] else []), count)"

text \<open>The icon (\<^verbatim>\<open>cmd/oidc/handlers/favicon.go\<close>); the content type is left out.\<close>

definition FaviconHandler :: "(string \<Rightarrow> string + string) \<Rightarrow> string \<Rightarrow> handler" where
  "FaviconHandler readFile iconPath conn count r =
     ((case readFile iconPath of
         Inl err \<Rightarrow> http_Error ''Favicon not found'' 500
       | Inr data \<Rightarrow> [HWriteHeader 200, HWrite data]),
      [], count)"

section \<open>The server\<close>

record HttpdConfig =
  hsBindAddr :: string
  hsBindPort :: nat
  hsTls :: bool
  hsCertDir :: string
  hsCertName :: string
  hsKeyName :: string
  hsDumpExchanges :: int
  hsAllowedOrigins :: "string list"

record httpServer =
  hsName :: string
  hsConfig :: HttpdConfig
  hsRouter :: handler

definition httpsrv_New ::
  "(string list \<Rightarrow> handler \<Rightarrow> handler) \<Rightarrow> LogWorld \<Rightarrow> string \<Rightarrow> HttpdConfig \<Rightarrow> handler \<Rightarrow> httpServer" where
  "httpsrv_New cors w name config router =
     (let r1 = (if length (hsAllowedOrigins config) > 0 then cors (hsAllowedOrigins config) router else router);
          r2 = (if hsDumpExchanges config > 0 then LoggingMiddleware w r1 (hsDumpExchanges config) else r1)
      in \<lparr>hsName = name, hsConfig = config, hsRouter = r2\<rparr>)"

text \<open>
  A context with its state and deadline; \<^verbatim>\<open>context.WithTimeout\<close> of a context that is done is done at once.
  \<^verbatim>\<open>srv.Shutdown\<close> closes the listeners and waits until the connections, which need the time \<open>busy\<close>, are idle.
\<close>

record go_context =
  ctxDone :: bool
  ctxDeadline :: "int option"

definition WithTimeout :: "int \<Rightarrow> go_context \<Rightarrow> int \<Rightarrow> go_context" where
  "WithTimeout now parent d =
     \<lparr>ctxDone = ctxDone parent,
      ctxDeadline = Some (case ctxDeadline parent of None \<Rightarrow> now + d | Some t \<Rightarrow> min t (now + d))\<rparr>"

definition Shutdown :: "int \<Rightarrow> go_context \<Rightarrow> int \<Rightarrow> string option" where
  "Shutdown now ctx busy =
     (if busy \<le> 0 then None
      else if ctxDone ctx then Some ''context canceled''
      else
        (case ctxDeadline ctx of
           None \<Rightarrow> None
         | Some t \<Rightarrow> if now + busy \<le> t then None else Some ''context deadline exceeded''))"

text \<open>The goroutine that waits for the end of the server's context and then shuts down.\<close>

definition shutdownWhenDone :: "int \<Rightarrow> go_context \<Rightarrow> int \<Rightarrow> string option" where
  "shutdownWhenDone now ctx busy = Shutdown now (WithTimeout now (ctx\<lparr>ctxDone := True\<rparr>) 30000000000) busy"

text \<open>What starting needs from outside: the certificate watcher, the listeners, and how serving ends.\<close>

record NetEnv =
  neListen :: "string \<Rightarrow> string option"
  neTlsListen :: "string \<Rightarrow> string option"
  neCertWatcher :: "string \<Rightarrow> string \<Rightarrow> string option"
  neServe :: "string option"

definition bindAddress :: "HttpdConfig \<Rightarrow> string" where
  "bindAddress c = hsBindAddr c @ '':'' @ nat_text (hsBindPort c)"

definition openListener :: "NetEnv \<Rightarrow> httpServer \<Rightarrow> string option" where
  "openListener net hs =
     (let c = hsConfig hs;
          fails = (\<lambda>what err. Some (''httpServer '' @ hsName hs @ '': Error on '' @ what @ '': '' @ err))
      in if \<not> hsTls c then
           (case neListen net (bindAddress c) of None \<Rightarrow> None | Some err \<Rightarrow> fails ''net.Listen()'' err)
         else if hsCertDir c = [] then
           Some (''httpServer '' @ hsName hs @ '': CertDir is not defined while '' @ quoted ''tls'' @ quoted [] @ '' is true'')
         else
           (case neCertWatcher net (Join (hsCertDir c) (hsCertName c)) (Join (hsCertDir c) (hsKeyName c)) of
              Some err \<Rightarrow> fails ''certwatcher.New()'' err
            | None \<Rightarrow>
                (case neTlsListen net (bindAddress c) of None \<Rightarrow> None | Some err \<Rightarrow> fails ''tls.Listen()'' err)))"

text \<open>The logger of the context gets its name before it is compared with nil, so without one the call panics.\<close>

definition httpsrv_Start :: "NetEnv \<Rightarrow> bool \<Rightarrow> httpServer \<Rightarrow> string option outcome" where
  "httpsrv_Start net logger hs =
     (if \<not> logger then Panics
      else
        (case openListener net hs of
           Some err \<Rightarrow> Returns (Some err)
         | None \<Rightarrow>
             (case neServe net of
                None \<Rightarrow> Returns None
              | Some err \<Rightarrow> Returns (Some (''httpServer '' @ hsName hs @ '': Error on srv.Serve(): '' @ err)))))"

section \<open>The server certificate\<close>

unbundle bit_operations_syntax

record fsEvent =
  feName :: string
  feOp :: "32 word"

definition isCreate :: "fsEvent \<Rightarrow> bool" where
  "isCreate e = (feOp e AND 1 = 1)"

definition isWrite :: "fsEvent \<Rightarrow> bool" where
  "isWrite e = (feOp e AND 2 = 2)"

definition isRemove :: "fsEvent \<Rightarrow> bool" where
  "isRemove e = (feOp e AND 4 = 4)"

text \<open>The files as they are when an event is handled: loading the key pair, and watching a file.\<close>

record 'c certWorld =
  cyLoad :: "string \<Rightarrow> string \<Rightarrow> string + 'c"
  cyAdd :: "string \<Rightarrow> string option"

record 'c CertWatcher =
  cwCertPath :: string
  cwKeyPath :: string
  cwCurrentCert :: "'c option"
  cwAdded :: "string list"

definition ReadCertificate :: "'c certWorld \<Rightarrow> 'c CertWatcher \<Rightarrow> 'c CertWatcher \<times> string option" where
  "ReadCertificate w cw =
     (case cyLoad w (cwCertPath cw) (cwKeyPath cw) of
        Inl err \<Rightarrow> (cw, Some err)
      | Inr cert \<Rightarrow> (cw\<lparr>cwCurrentCert := Some cert\<rparr>, None))"

definition certwatcher_New :: "'c certWorld \<Rightarrow> string option \<Rightarrow> string \<Rightarrow> string \<Rightarrow> string + 'c CertWatcher" where
  "certwatcher_New w watcherErr certPath keyPath =
     (case ReadCertificate w \<lparr>cwCertPath = certPath, cwKeyPath = keyPath, cwCurrentCert = None, cwAdded = []\<rparr> of
        (cw, Some err) \<Rightarrow> Inl err
      | (cw, None) \<Rightarrow> (case watcherErr of Some err \<Rightarrow> Inl err | None \<Rightarrow> Inr cw))"

definition GetCertificate :: "'c CertWatcher \<Rightarrow> 'c option" where
  "GetCertificate cw = cwCurrentCert cw"

definition watcher_Add :: "'c certWorld \<Rightarrow> 'c CertWatcher \<Rightarrow> string \<Rightarrow> 'c CertWatcher \<times> string option" where
  "watcher_Add w cw f =
     (case cyAdd w f of Some err \<Rightarrow> (cw, Some err) | None \<Rightarrow> (cw\<lparr>cwAdded := cwAdded cw @ [f]\<rparr>, None))"

definition handleEvent :: "'c certWorld \<Rightarrow> 'c CertWatcher \<Rightarrow> fsEvent \<Rightarrow> 'c CertWatcher" where
  "handleEvent w cw e =
     (if \<not> (isWrite e \<or> isRemove e \<or> isCreate e) then cw
      else fst (ReadCertificate w (if isRemove e then fst (watcher_Add w cw (feName e)) else cw)))"

datatype 'c watched = WatchEvent fsEvent "'c certWorld" | WatchError string | WatchClosed

fun watch_step :: "'c CertWatcher \<Rightarrow> 'c watched \<Rightarrow> 'c CertWatcher option" where
  "watch_step cw (WatchEvent e w) = Some (handleEvent w cw e)"
| "watch_step cw (WatchError err) = Some cw"
| "watch_step cw WatchClosed = None"

definition Watch :: "(nat \<Rightarrow> 'c watched) \<Rightarrow> 'c CertWatcher \<Rightarrow> 'c CertWatcher option" where
  "Watch src cw = event_loop watch_step src 0 cw"

text \<open>\<^verbatim>\<open>Start\<close>: both files are watched, then the loop runs until the channels are closed.\<close>

definition certwatcher_Start :: "'c certWorld \<Rightarrow> (nat \<Rightarrow> 'c watched) \<Rightarrow> 'c CertWatcher \<Rightarrow> string + 'c CertWatcher option" where
  "certwatcher_Start w src cw =
     (case watcher_Add w cw (cwCertPath cw) of
        (cw1, Some err) \<Rightarrow> Inl err
      | (cw1, None) \<Rightarrow>
          (case watcher_Add w cw1 (cwKeyPath cw1) of
             (cw2, Some err) \<Rightarrow> Inl err
           | (cw2, None) \<Rightarrow> Inr (Watch src cw2)))"

section \<open>What the log captures\<close>

text \<open>The bytes of an answer the connection took, from a given state of the connection on.\<close>

fun delivered :: "connection \<Rightarrow> hop list \<Rightarrow> hop list \<Rightarrow> string" where
  "delivered conn sent [] = []"
| "delivered conn sent (HWrite b # hops) =
     take (min (conn sent b) (length b)) b @ delivered conn (sent @ [HWrite b]) hops"
| "delivered conn sent (HWriteHeader code # hops) = delivered conn (sent @ [HWriteHeader code]) hops"

fun last_status :: "int \<Rightarrow> hop list \<Rightarrow> int" where
  "last_status c [] = c"
| "last_status c (HWriteHeader code # hops) = last_status code hops"
| "last_status c (HWrite b # hops) = last_status c hops"

lemma rw_hop_under [simp]: "rwUnder (rw_hop conn rw h) = rwUnder rw @ [h]"
  by (cases h) (simp_all add: rw_Write_def rw_WriteHeader_def Let_def)

lemma rwUnder_foldl: "rwUnder (foldl (rw_hop conn) rw hops) = rwUnder rw @ hops"
  by (induction hops arbitrary: rw) simp_all

lemma rwStatusCode_foldl: "rwStatusCode (foldl (rw_hop conn) rw hops) = last_status (rwStatusCode rw) hops"
proof (induction hops arbitrary: rw)
  case (Cons h hops)
  then show ?case by (cases h) (simp_all add: rw_Write_def rw_WriteHeader_def Let_def)
qed simp

lemma rwSize_foldl:
  "in_int64 (rwSize rw) \<Longrightarrow>
     rwSize (foldl (rw_hop conn) rw hops) = wrap64 (rwSize rw + int (length (delivered conn (rwUnder rw) hops)))"
proof (induction hops arbitrary: rw)
  case (Cons h hops)
  then show ?case by (cases h) (simp_all add: rw_Write_def rw_WriteHeader_def Let_def algebra_simps)
qed simp

text \<open>The captured body: a beginning of the delivered bytes, all of them while it is short, then no more.\<close>

lemma rwBody_full: "length (rwBody rw) \<ge> 4096 \<Longrightarrow> rwBody (foldl (rw_hop conn) rw hops) = rwBody rw"
proof (induction hops arbitrary: rw)
  case (Cons h hops)
  then show ?case by (cases h) (simp_all add: rw_Write_def rw_WriteHeader_def Let_def)
qed simp

lemma rwBody_foldl:
  assumes "length (rwBody rw) < 4096"
  shows "\<exists>rest. rwBody rw @ delivered conn (rwUnder rw) hops = rwBody (foldl (rw_hop conn) rw hops) @ rest
    \<and> (rest \<noteq> [] \<longrightarrow> length (rwBody (foldl (rw_hop conn) rw hops)) \<ge> 4096)"
  using assms
proof (induction hops arbitrary: rw)
  case (Cons h hops)
  show ?case
  proof (cases h)
    case (HWriteHeader code)
    then show ?thesis using Cons.IH [of "rw_WriteHeader rw code"] Cons.prems by (simp add: rw_WriteHeader_def)
  next
    case (HWrite b)
    let ?rw = "rw_Write conn rw b"
    have body: "rwBody ?rw = rwBody rw @ take (min (conn (rwUnder rw) b) (length b)) b" "rwUnder ?rw = rwUnder rw @ [HWrite b]"
      using Cons.prems by (simp_all add: rw_Write_def Let_def)
    show ?thesis
    proof (cases "length (rwBody ?rw) < 4096")
      case True
      then show ?thesis using Cons.IH [OF True] HWrite by (simp add: body)
    next
      case False
      then have full: "rwBody (foldl (rw_hop conn) ?rw hops) = rwBody ?rw" by (intro rwBody_full) simp
      show ?thesis
        using HWrite False full body by (intro exI [of _ "delivered conn (rwUnder rw @ [HWrite b]) hops"]) simp
    qed
  qed
qed simp

lemma rwBody_bound:
  assumes "\<forall>b. HWrite b \<in> set hops \<longrightarrow> length b \<le> k" "length (rwBody rw) \<le> 4095 + k"
  shows "length (rwBody (foldl (rw_hop conn) rw hops)) \<le> 4095 + k"
  using assms
proof (induction hops arbitrary: rw)
  case (Cons h hops)
  have "length (rwBody (rw_hop conn rw h)) \<le> 4095 + k"
    using Cons.prems by (cases h) (auto simp: rw_Write_def rw_WriteHeader_def Let_def)
  then show ?case using Cons by simp
qed simp

lemma getSafeBodyString_short: "length (getSafeBodyString body) \<le> 207"
  by (simp add: getSafeBodyString_def)


definition sample_http_request :: HttpRequest where
  "sample_http_request =
     \<lparr>hrMethod = ''POST'', hrPath = ''/x'', hrRawQuery = [], hrHost = ''h'', hrRemoteAddr = ''a'', hrTls = False, hrHeader = [],
      hrContentLength = 2, hrBody = Some (''hi'', None)\<rparr>"

definition sample_log_world :: LogWorld where
  "sample_log_world = \<lparr>lwLogger = True, lwUnmarshal = (\<lambda>b. None), lwDuration = 7, lwResponseType = (\<lambda>h. [])\<rparr>"

definition sample_handler :: handler where
  "sample_handler conn count r = ([HWriteHeader 404, HWrite ''no''], [], count)"


section \<open>Shutting down\<close>

text \<open>
  The time limit of the graceful shutdown is void: its context comes from the one that has just ended, so a
  server with a busy connection gives up at once.
\<close>

lemma shutdown_without_grace: "busy > 0 \<Longrightarrow> shutdownWhenDone now ctx busy = Some ''context canceled''"
  by (simp add: shutdownWhenDone_def Shutdown_def WithTimeout_def)

section \<open>Which certificate is served\<close>

interpretation cert_loop: stoppable_loop watch_step "\<lambda>e. e = WatchClosed"
proof
  fix cw :: "'a CertWatcher" and e
  show "watch_step cw e = None \<longleftrightarrow> e = WatchClosed" by (cases e) simp_all
qed

definition relevant :: "fsEvent \<Rightarrow> bool" where
  "relevant e \<longleftrightarrow> isWrite e \<or> isRemove e \<or> isCreate e"

text \<open>The last pair that could be loaded at a relevant event.\<close>

fun served :: "string \<Rightarrow> string \<Rightarrow> 'c \<Rightarrow> 'c watched list \<Rightarrow> 'c" where
  "served cert key c [] = c"
| "served cert key c (WatchEvent e w # es) =
     served cert key (if relevant e then (case cyLoad w cert key of Inl err \<Rightarrow> c | Inr c' \<Rightarrow> c') else c) es"
| "served cert key c (ev # es) = served cert key c es"

lemma handleEvent_cert:
  assumes "cwCurrentCert cw = Some c"
  shows "cwCurrentCert (handleEvent w cw e) =
      Some (if relevant e then (case cyLoad w (cwCertPath cw) (cwKeyPath cw) of Inl err \<Rightarrow> c | Inr c' \<Rightarrow> c') else c)"
    "cwCertPath (handleEvent w cw e) = cwCertPath cw" "cwKeyPath (handleEvent w cw e) = cwKeyPath cw"
  using assms
  by (auto simp: handleEvent_def ReadCertificate_def watcher_Add_def relevant_def split: sum.splits option.splits)

lemma served_foldl:
  "cwCurrentCert cw = Some c \<Longrightarrow>
     cwCurrentCert (foldl cert_loop.pass cw evs) = Some (served (cwCertPath cw) (cwKeyPath cw) c evs)"
proof (induction evs arbitrary: cw c)
  case (Cons ev evs)
  then show ?case by (cases ev) (simp_all add: cert_loop.pass_def handleEvent_cert)
qed simp

lemma certwatcher_New_serves:
  assumes "certwatcher_New w err cert key = Inr cw"
  obtains c where "cyLoad w cert key = Inr c" "cwCurrentCert cw = Some c" "cwCertPath cw = cert" "cwKeyPath cw = key"
  using assms by (auto simp: certwatcher_New_def ReadCertificate_def split: sum.splits option.splits)

end
