(* ===== verification/AuditServer.thy ===== *)
theory AuditServer
  imports Merger K8s
begin

text \<open>
  \<^verbatim>\<open>cmd/audit\<close>: the identity server that passes requests through to the next one and writes a
  LoginAttempt resource for every answer, and the cleaner that removes old ones.  The part of the
  cluster that matters is the list of LoginAttempt resources; what the API server refuses is an
  argument.
\<close>

section \<open>LoginAttempt\<close>

record LoginAttemptUser =
  laLogin :: string
  laUid :: "int option"
  laName :: string
  laEmails :: "string list"
  laGroups :: "string list"
  laClaims :: "json option"

record LoginAttemptDetail =
  ladProvider :: ProviderSpec
  ladUser :: LoginAttemptUser
  ladStatus :: string
  ladClaims :: "json option"
  ladGroups :: "string list"
  ladUid :: "int option"

record LoginAttempt =
  atName :: string
  atNamespace :: string
  atLabel :: string
  atWhen :: int
  atUser :: LoginAttemptUser
  atAuthority :: string
  atStatus :: string
  atDetails :: "LoginAttemptDetail list"

text \<open>A moment, with the civil fields the local time zone gives it.\<close>

record moment =
  instant :: int
  Year :: nat
  Month :: nat
  Day :: nat
  Hour :: nat
  Minute :: nat
  Sec :: nat
  Nanosecond :: nat

text \<open>
  The API server: creating a resource whose name is taken is an error, as is whatever \<open>admit\<close> refuses
  (a name or a label that is not valid, missing rights); \<open>deny\<close> does the same for deletions.
\<close>

definition create ::
  "(LoginAttempt \<Rightarrow> kerr option) \<Rightarrow> LoginAttempt list \<Rightarrow> LoginAttempt \<Rightarrow> kerr option \<times> LoginAttempt list" where
  "create admit db x =
     (if \<exists>y \<in> set db. atName y = atName x \<and> atNamespace y = atNamespace x
      then (Some (KError ''already exists''), db)
      else (case admit x of Some err \<Rightarrow> (Some err, db) | None \<Rightarrow> (None, db @ [x])))"

section \<open>auditauthenticator.go\<close>

text \<open>\<^verbatim>\<open>%0nd\<close>.\<close>

definition pad :: "nat \<Rightarrow> nat \<Rightarrow> string" where
  "pad width n = (let t = nat_text n in replicate (width - length t) CHR ''0'' @ t)"

definition recordName :: "string \<Rightarrow> moment \<Rightarrow> string" where
  "recordName login now =
     login @ ''-'' @ pad 4 (Year now) @ ''-'' @ pad 2 (Month now) @ ''-'' @ pad 2 (Day now) @ ''-''
       @ pad 2 (Hour now) @ ''-'' @ pad 2 (Minute now) @ ''-'' @ pad 2 (Sec now) @ ''-''
       @ pad 3 (Nanosecond now div 1000000)"

definition claimsJSON :: "claims option \<Rightarrow> json option" where
  "claimsJSON c = map_option json_of_claims c"

definition attemptUser :: "User \<Rightarrow> LoginAttemptUser" where
  "attemptUser u =
     \<lparr>laLogin = uLogin u, laUid = uUid u, laName = uName u, laEmails = uEmails u, laGroups = uGroups u,
      laClaims = claimsJSON (uClaims u)\<rparr>"

definition convertDetail :: "UserDetail \<Rightarrow> LoginAttemptDetail" where
  "convertDetail d =
     \<lparr>ladProvider = dProvider d, ladUser = attemptUser (dUser d),
      ladStatus = text_of_status (dStatus d),
      ladClaims = claimsJSON (tClaims (dTranslated d)),
      ladGroups = tGroups (dTranslated d), ladUid = tUid (dTranslated d)\<rparr>"

text \<open>A nil detail is dereferenced: \<open>None\<close> is the panic.\<close>

definition convertDetails :: "UserDetail option list \<Rightarrow> LoginAttemptDetail list option" where
  "convertDetails details = those (map (map_option convertDetail) details)"

definition loginRecord :: "string \<Rightarrow> moment \<Rightarrow> IdentityResponse \<Rightarrow> LoginAttempt option" where
  "loginRecord namespace now response =
     (case convertDetails (rsDetails response) of
        None \<Rightarrow> None
      | Some details \<Rightarrow>
          Some \<lparr>atName = recordName (uLogin (rsUser response)) now, atNamespace = namespace,
                atLabel = uLogin (rsUser response), atWhen = instant now,
                atUser = attemptUser (rsUser response), atAuthority = rsAuthority response,
                atStatus = text_of_status (rsStatus response), atDetails = details\<rparr>)"

text \<open>
  \<^verbatim>\<open>Authenticate\<close>: a panic is caught by the HTTP server and ends the request like an error; a record
  that cannot be created is only logged.
\<close>

definition audit_Authenticate ::
  "transport \<Rightarrow> (LoginAttempt \<Rightarrow> kerr option) \<Rightarrow> string \<Rightarrow> moment
    \<Rightarrow> LoginAttempt list authenticate" where
  "audit_Authenticate send admit namespace now db request =
     (case Exchange send ''GET'' ''v1/identity'' request of
        Inl err \<Rightarrow> (Inl err, db)
      | Inr response \<Rightarrow>
          (case loginRecord namespace now response of
             None \<Rightarrow> (Inl ''panic: nil pointer dereference'', db)
           | Some rec \<Rightarrow>
               (let (err, db') = create admit db rec in (Inr response, db'))))"

section \<open>cleaner.go\<close>

definition attempt_expired :: "int \<Rightarrow> LoginAttempt \<Rightarrow> bool" where
  "attempt_expired cutoffTime x \<longleftrightarrow> atWhen x < cutoffTime"

fun cleanupLoop ::
  "(LoginAttempt \<Rightarrow> kerr option) \<Rightarrow> int \<Rightarrow> LoginAttempt list \<Rightarrow> LoginAttempt list \<times> nat \<times> nat
    \<Rightarrow> LoginAttempt list \<times> nat \<times> nat" where
  "cleanupLoop deny cutoffTime [] st = st"
| "cleanupLoop deny cutoffTime (x # items) (db, deletedCount, errorCount) =
     cleanupLoop deny cutoffTime items
       (if attempt_expired cutoffTime x
        then (case deny x of
                Some err \<Rightarrow> (db, deletedCount, Suc errorCount)
              | None \<Rightarrow> (filter (\<lambda>y. \<not> (atName y = atName x \<and> atNamespace y = atNamespace x)) db,
                         Suc deletedCount, errorCount))
        else (db, deletedCount, errorCount))"

text \<open>The database afterwards, and how many records were deleted and how many deletions failed.\<close>

definition cleanupAudit ::
  "bool \<Rightarrow> (LoginAttempt \<Rightarrow> kerr option) \<Rightarrow> string \<Rightarrow> int \<Rightarrow> int \<Rightarrow> LoginAttempt list
    \<Rightarrow> LoginAttempt list \<times> nat \<times> nat" where
  "cleanupAudit listFails deny namespace recordLifetime now db =
     (let cutoffTime = now - recordLifetime in
      if listFails then (db, 0, 0)
      else cleanupLoop deny cutoffTime (filter (\<lambda>x. atNamespace x = namespace) db) (db, 0, 0))"

section \<open>Results\<close>

definition attempt_key :: "LoginAttempt \<Rightarrow> string \<times> string" where
  "attempt_key x = (atNamespace x, atName x)"

definition wf_attempts :: "LoginAttempt list \<Rightarrow> bool" where
  "wf_attempts db \<longleftrightarrow> distinct (map attempt_key db)"

lemma create_key:
  "snd (create admit db x) = (if admit x = None \<and> attempt_key x \<notin> attempt_key ` set db then db @ [x] else db)"
proof -
  have "(\<exists>y \<in> set db. atName y = atName x \<and> atNamespace y = atNamespace x) \<longleftrightarrow> attempt_key x \<in> attempt_key ` set db"
    by (auto simp: attempt_key_def image_iff) metis+
  then show ?thesis by (auto simp: create_def split: option.split)
qed

lemma create_wf: "wf_attempts db \<Longrightarrow> wf_attempts (snd (create admit db x))"
  by (auto simp: create_def wf_attempts_def attempt_key_def split: option.split)

lemma same_key_filter:
  assumes "wf_attempts db" "x \<in> set db" "set db' \<subseteq> set db"
  shows "filter (\<lambda>y. \<not> (atName y = atName x \<and> atNamespace y = atNamespace x)) db' = filter (\<lambda>y. y \<noteq> x) db'"
proof (rule filter_cong [OF refl])
  fix y assume "y \<in> set db'"
  then have "attempt_key y = attempt_key x \<Longrightarrow> y = x"
    using assms by (metis distinct_map inj_onD subsetD wf_attempts_def)
  then show "(\<not> (atName y = atName x \<and> atNamespace y = atNamespace x)) = (y \<noteq> x)"
    by (auto simp: attempt_key_def)
qed

lemma cleanupLoop_result:
  assumes "wf_attempts db" "set items \<subseteq> set db" "set db0 \<subseteq> set db"
  shows "fst (cleanupLoop deny t items (db0, d, e)) =
      filter (\<lambda>y. \<not> (y \<in> set items \<and> attempt_expired t y \<and> deny y = None)) db0"
  using assms(2,3)
proof (induction items arbitrary: db0 d e)
  case (Cons x items)
  let ?keep = "\<lambda>y. \<not> (y \<in> set items \<and> attempt_expired t y \<and> deny y = None)"
  show ?case
  proof (cases "attempt_expired t x \<and> deny x = None")
    case True
    let ?db1 = "filter (\<lambda>y. \<not> (atName y = atName x \<and> atNamespace y = atNamespace x)) db0"
    have "?db1 = filter (\<lambda>y. y \<noteq> x) db0"
      using same_key_filter [OF assms(1)] Cons.prems by simp
    moreover have "fst (cleanupLoop deny t items (?db1, Suc d, e)) = filter ?keep ?db1"
      using Cons.prems by (intro Cons.IH) auto
    ultimately show ?thesis
      using True by (auto intro!: filter_cong)
  next
    case False
    then show ?thesis
      using Cons.IH [of db0] Cons.prems by (auto split: option.split intro!: filter_cong)
  qed
qed simp

text \<open>
  C16: auditing is transparent and complete.  The answer of the next server is passed on unchanged, whether
  or not the record could be written; when the API server admits the record and its name is free,
  exactly one record is added, with the login, the authority and the status of the answer and one entry
  per provider detail, and its text decodes back to the status; an error of the next server leaves the
  records alone.
\<close>

theorem audit_transparent:
  assumes "\<forall>d \<in> set (rsDetails rs). d \<noteq> None" "Exchange send ''GET'' ''v1/identity'' rq = Inr rs"
  shows "fst (audit_Authenticate send admit ns now db rq) = Inr rs
    \<and> (\<exists>x. loginRecord ns now rs = Some x \<and> atUser x = attemptUser (rsUser rs) \<and> atAuthority x = rsAuthority rs
        \<and> status_of_text (atStatus x) = rsStatus rs \<and> length (atDetails x) = length (rsDetails rs)
        \<and> snd (audit_Authenticate send admit ns now db rq) =
            (if admit x = None \<and> attempt_key x \<notin> attempt_key ` set db then db @ [x] else db))
    \<and> (\<forall>err. Exchange send ''GET'' ''v1/identity'' rq' = Inl err \<longrightarrow>
         audit_Authenticate send admit ns now db rq' = (Inl err, db))"
proof -
  have "\<forall>d \<in> set ds. d \<noteq> None \<Longrightarrow> \<exists>es. those (map (map_option convertDetail) ds) = Some es \<and> length es = length ds" for ds
    by (induction ds) (auto split: option.splits)
  then obtain details where d: "convertDetails (rsDetails rs) = Some details" "length details = length (rsDetails rs)"
    using assms(1) unfolding convertDetails_def by blast
  have st: "status_of_text (text_of_status (rsStatus rs)) = rsStatus rs"
    using assms(2) response_wf_status
    by (auto simp: Exchange_def wf_status_def split: sum.splits option.splits)
  obtain x where x: "loginRecord ns now rs = Some x" using d(1) by (simp add: loginRecord_def)
  then have "audit_Authenticate send admit ns now db rq = (Inr rs,
      if admit x = None \<and> attempt_key x \<notin> attempt_key ` set db then db @ [x] else db)"
    using assms(2) by (simp add: audit_Authenticate_def create_key case_prod_unfold)
  moreover have "atUser x = attemptUser (rsUser rs)" "atAuthority x = rsAuthority rs"
    "status_of_text (atStatus x) = rsStatus rs" "length (atDetails x) = length (rsDetails rs)"
    using d st x by (auto simp: loginRecord_def)
  ultimately show ?thesis using x by (auto simp: audit_Authenticate_def)
qed

text \<open>
  C36: the cleaner removes from its namespace exactly the records older than the record lifetime that the
  API server lets it delete, keeps every other record in place, and touches nothing when the records
  cannot be listed.
\<close>

theorem cleanupAudit_exact:
  assumes "wf_attempts db"
  shows "fst (cleanupAudit False deny ns lifetime now db) =
      filter (\<lambda>x. \<not> (atNamespace x = ns \<and> atWhen x < now - lifetime \<and> deny x = None)) db
    \<and> cleanupAudit True deny ns lifetime now db = (db, 0, 0)"
  using cleanupLoop_result [OF assms, of "filter (\<lambda>x. atNamespace x = ns) db" db]
  by (auto simp: cleanupAudit_def attempt_expired_def intro!: filter_cong)

lemma audited:
  assumes "authenticator a"
  shows "authenticator (\<lambda>rq. fst (audit_Authenticate (remote entry protect t s a) admit ns now db rq))"
proof
  fix rq rs assume run: "fst (audit_Authenticate (remote entry protect t s a) admit ns now db rq) = Inr rs"
  then have ex: "Exchange (remote entry protect t s a) ''GET'' ''v1/identity'' rq = Inr rs"
    by (auto simp: audit_Authenticate_def split: sum.splits option.splits prod.splits)
  then obtain rs0 where rs0: "a rq = Inr rs0" "response_FromJson (Some (j_response rs0)) = Some rs"
    using remote_answer [OF ex] by blast
  have same: "rsStatus rs = rsStatus rs0" "uLogin (rsUser rs) = uLogin (rsUser rs0)"
    using response_wire_status [OF authenticator.status_ok [OF assms rs0(1)] rs0(2)] by simp_all
  show "uLogin (rsUser rs) = rqLogin rq" using same authenticator.same_login [OF assms rs0(1)] by simp
  show "wf_status (rsStatus rs)" using same authenticator.status_ok [OF assms rs0(1)] by simp
  show "\<not> password_tested (rsStatus rs)" if "rqPassword rq = []"
    using same authenticator.no_password [OF assms rs0(1) that] by simp
qed

definition sample_moment :: moment where
  "sample_moment = \<lparr>instant = 100, Year = 2025, Month = 3, Day = 7, Hour = 9, Minute = 5, Sec = 2,
     Nanosecond = 31000000\<rparr>"

theorem audit_transparent_witness:
  "\<exists>x. snd (audit_Authenticate (\<lambda>m p b. Inr (Some (j_response (sample_answer PasswordFail []))))
        (\<lambda>x. None) ''audit'' sample_moment [] sample_login) = [x]
     \<and> status_of_text (atStatus x) = PasswordFail"
proof -
  let ?send = "\<lambda>m p b. Inr (Some (j_response (sample_answer PasswordFail [])))"
  have "Exchange ?send ''GET'' ''v1/identity'' sample_login = Inr (sample_answer PasswordFail [])"
    by (simp add: Exchange_def sample_answer_wire)
  from audit_transparent [OF _ this, where admit = "\<lambda>x. None" and ns = "''audit''" and now = sample_moment and db = "[]"]
  show ?thesis by (auto simp: sample_answer_def)
qed

definition sample_attempt :: "string \<Rightarrow> int \<Rightarrow> LoginAttempt" where
  "sample_attempt name t = \<lparr>atName = name, atNamespace = ''audit'', atLabel = ''jim'', atWhen = t,
     atUser = attemptUser (InitUser ''jim''), atAuthority = [], atStatus = ''disabled'', atDetails = []\<rparr>"

theorem cleanupAudit_exact_witness:
  "fst (cleanupAudit False (\<lambda>x. None) ''audit'' 50 100 [sample_attempt ''a'' 10, sample_attempt ''b'' 50])
     = [sample_attempt ''b'' 50]"
  using cleanupAudit_exact [of "[sample_attempt ''a'' 10, sample_attempt ''b'' 50]" "\<lambda>x. None" "''audit''" 50 100]
  by (simp add: wf_attempts_def attempt_key_def sample_attempt_def)

end
