(* ===== verification/Background.thy ===== *)
theory Background
  imports HttpSrv AuditServer SessionStore
begin

text \<open>
  The loops that run beside the servers: the cleaner of the login records (\<^verbatim>\<open>startAuditCleaner\<close> of
  \<^verbatim>\<open>cmd/audit/cleaner.go\<close>), the cleaner of the SSO sessions (\<^verbatim>\<open>Start\<close> of \<^verbatim>\<open>kubessocleaner.go\<close>) and the
  certificate watcher.  A cleaner wakes up when its ticker fires or when its context ends; between two passes
  the servers change the records, which a tick says together with the world of its pass.
\<close>

section \<open>The cleaners\<close>

datatype 'w wakeup = CtxDone | Tick 'w

record auditTick =
  akMeantime :: "LoginAttempt list \<Rightarrow> LoginAttempt list"
  akListFails :: bool
  akDeny :: "LoginAttempt \<Rightarrow> kerr option"
  akNow :: int

definition audit_pass :: "string \<Rightarrow> int \<Rightarrow> LoginAttempt list \<Rightarrow> auditTick \<Rightarrow> LoginAttempt list" where
  "audit_pass ns lifetime db k =
     fst (cleanupAudit (akListFails k) (akDeny k) ns lifetime (akNow k) (akMeantime k db))"

fun audit_step :: "string \<Rightarrow> int \<Rightarrow> LoginAttempt list \<Rightarrow> auditTick wakeup \<Rightarrow> LoginAttempt list option" where
  "audit_step ns lifetime db CtxDone = None"
| "audit_step ns lifetime db (Tick k) = Some (audit_pass ns lifetime db k)"

definition startAuditCleaner ::
  "string \<Rightarrow> int \<Rightarrow> auditTick \<Rightarrow> (nat \<Rightarrow> auditTick wakeup) \<Rightarrow> LoginAttempt list \<Rightarrow> LoginAttempt list option" where
  "startAuditCleaner ns lifetime first src db =
     event_loop (audit_step ns lifetime) src 0 (audit_pass ns lifetime db first)"

record ssoTick =
  skMeantime :: "SsoApi \<Rightarrow> SsoApi"
  skNow :: int

definition sso_pass :: "SsoApi \<Rightarrow> ssoTick \<Rightarrow> SsoApi" where
  "sso_pass api k = cleanupOnce (skNow k) (skMeantime k api)"

fun sso_step :: "SsoApi \<Rightarrow> ssoTick wakeup \<Rightarrow> SsoApi option" where
  "sso_step api CtxDone = None"
| "sso_step api (Tick k) = Some (sso_pass api k)"

definition ssoCleaner_Start :: "ssoTick \<Rightarrow> (nat \<Rightarrow> ssoTick wakeup) \<Rightarrow> SsoApi \<Rightarrow> SsoApi option" where
  "ssoCleaner_Start first src api = event_loop sso_step src 0 (sso_pass api first)"

section \<open>The loops return when they are told to\<close>

interpretation audit_loop: stoppable_loop "audit_step ns lifetime" "\<lambda>e. e = CtxDone" for ns lifetime
proof
  fix db e
  show "audit_step ns lifetime db e = None \<longleftrightarrow> e = CtxDone" by (cases e) simp_all
qed

interpretation sso_loop: stoppable_loop sso_step "\<lambda>e. e = CtxDone"
proof
  fix api e
  show "sso_step api e = None \<longleftrightarrow> e = CtxDone" by (cases e) simp_all
qed

lemma audit_loop_pass: "audit_loop.pass ns lifetime db e = (case e of CtxDone \<Rightarrow> db | Tick k \<Rightarrow> audit_pass ns lifetime db k)"
  by (cases e) (simp_all add: audit_loop.pass_def)

lemma sso_loop_pass: "sso_loop.pass api e = (case e of CtxDone \<Rightarrow> api | Tick k \<Rightarrow> sso_pass api k)"
  by (cases e) (simp_all add: sso_loop.pass_def)

text \<open>
  C20: the background loops end when they are told to, and only then.  The two cleaners return exactly when
  their context ends, and the certificate watcher exactly when its channels are closed.  A cleaner that
  returns leaves the records after its first pass and one pass for every tick before the end; the watcher
  leaves the key pair that could be loaded last, so that a server that started with a certificate always
  has one, whatever happens to the files.
\<close>

theorem background_loops_return:
  assumes "certwatcher_New w err cert key = Inr cw"
  shows "((\<exists>db'. startAuditCleaner ns lifetime first src db = Some db') \<longleftrightarrow> (\<exists>n. src n = CtxDone))
    \<and> ((\<exists>api'. ssoCleaner_Start first2 src2 api = Some api') \<longleftrightarrow> (\<exists>n. src2 n = CtxDone))
    \<and> ((\<exists>cw'. Watch src3 cw = Some cw') \<longleftrightarrow> (\<exists>n. src3 n = WatchClosed))
    \<and> (\<forall>n ks. (\<forall>i < n. src i = Tick (ks i)) \<and> src n = CtxDone \<longrightarrow>
         startAuditCleaner ns lifetime first src db =
           Some (foldl (audit_pass ns lifetime) (audit_pass ns lifetime db first) (map ks [0..<n])))
    \<and> (\<forall>n ks. (\<forall>i < n. src2 i = Tick (ks i)) \<and> src2 n = CtxDone \<longrightarrow>
         ssoCleaner_Start first2 src2 api = Some (foldl sso_pass (sso_pass api first2) (map ks [0..<n])))
    \<and> (\<exists>c0. cyLoad w cert key = Inr c0 \<and> (\<forall>n. (\<forall>i < n. src3 i \<noteq> WatchClosed) \<and> src3 n = WatchClosed \<longrightarrow>
         (\<exists>cw'. Watch src3 cw = Some cw' \<and> GetCertificate cw' = Some (served cert key c0 (map src3 [0..<n])))))"
proof (intro conjI allI impI)
  show "(\<exists>db'. startAuditCleaner ns lifetime first src db = Some db') \<longleftrightarrow> (\<exists>n. src n = CtxDone)"
    unfolding startAuditCleaner_def by (rule audit_loop.returns_iff)
  show "(\<exists>api'. ssoCleaner_Start first2 src2 api = Some api') \<longleftrightarrow> (\<exists>n. src2 n = CtxDone)"
    unfolding ssoCleaner_Start_def by (rule sso_loop.returns_iff)
  show "(\<exists>cw'. Watch src3 cw = Some cw') \<longleftrightarrow> (\<exists>n. src3 n = WatchClosed)"
    unfolding Watch_def by (rule cert_loop.returns_iff)
next
  fix n ks assume ticks: "(\<forall>i < n. src i = Tick (ks i)) \<and> src n = CtxDone"
  then have "foldl (audit_loop.pass ns lifetime) d (map src [0..<n]) = foldl (audit_pass ns lifetime) d (map ks [0..<n])" for d
    unfolding foldl_map by (intro foldl_cong) (auto simp: audit_loop_pass)
  then show "startAuditCleaner ns lifetime first src db =
      Some (foldl (audit_pass ns lifetime) (audit_pass ns lifetime db first) (map ks [0..<n]))"
    using audit_loop.returns_value [of n src ns lifetime] ticks unfolding startAuditCleaner_def by simp
next
  fix n ks assume ticks: "(\<forall>i < n. src2 i = Tick (ks i)) \<and> src2 n = CtxDone"
  then have "foldl sso_loop.pass a (map src2 [0..<n]) = foldl sso_pass a (map ks [0..<n])" for a
    unfolding foldl_map by (intro foldl_cong) (auto simp: sso_loop_pass)
  then show "ssoCleaner_Start first2 src2 api = Some (foldl sso_pass (sso_pass api first2) (map ks [0..<n]))"
    using sso_loop.returns_value [of n src2] ticks unfolding ssoCleaner_Start_def by simp
next
  obtain c where c: "cyLoad w cert key = Inr c" "cwCurrentCert cw = Some c" "cwCertPath cw = cert" "cwKeyPath cw = key"
    by (rule certwatcher_New_serves [OF assms])
  have "\<exists>cw'. Watch src3 cw = Some cw' \<and> GetCertificate cw' = Some (served cert key c (map src3 [0..<n]))"
    if "(\<forall>i < n. src3 i \<noteq> WatchClosed) \<and> src3 n = WatchClosed" for n
    using cert_loop.returns_value [of n src3 cw] that served_foldl [OF c(2), of "map src3 [0..<n]"] c(3,4)
    by (simp add: Watch_def GetCertificate_def)
  then show "\<exists>c0. cyLoad w cert key = Inr c0 \<and> (\<forall>n. (\<forall>i < n. src3 i \<noteq> WatchClosed) \<and> src3 n = WatchClosed \<longrightarrow>
      (\<exists>cw'. Watch src3 cw = Some cw' \<and> GetCertificate cw' = Some (served cert key c0 (map src3 [0..<n]))))"
    using c(1) by blast
qed

definition sample_cert_world :: "string \<Rightarrow> string certWorld" where
  "sample_cert_world c = \<lparr>cyLoad = (\<lambda>p k. if c = [] then Inl ''no such file'' else Inr c), cyAdd = (\<lambda>f. None)\<rparr>"

text \<open>A certificate is replaced, then removed: the replacement stays.\<close>

definition sample_cert_events :: "nat \<Rightarrow> string watched" where
  "sample_cert_events n =
     (if n = 0 then WatchEvent \<lparr>feName = ''tls.crt'', feOp = 2\<rparr> (sample_cert_world ''new'')
      else if n = 1 then WatchEvent \<lparr>feName = ''tls.crt'', feOp = 4\<rparr> (sample_cert_world [])
      else WatchClosed)"

theorem background_loops_return_witness:
  "\<exists>cw cw'. certwatcher_New (sample_cert_world ''old'') None ''tls.crt'' ''tls.key'' = Inr cw
     \<and> Watch sample_cert_events cw = Some cw' \<and> GetCertificate cw' = Some ''new''"
proof -
  obtain cw where cw: "certwatcher_New (sample_cert_world ''old'') None ''tls.crt'' ''tls.key'' = Inr cw"
    by (simp add: certwatcher_New_def ReadCertificate_def sample_cert_world_def)
  have "(\<forall>i < 2. sample_cert_events i \<noteq> WatchClosed) \<and> sample_cert_events 2 = WatchClosed"
    by (simp add: sample_cert_events_def)
  moreover have "served ''tls.crt'' ''tls.key'' c (map sample_cert_events [0..<2]) = ''new''" for c
    by (simp add: upt_rec sample_cert_events_def sample_cert_world_def relevant_def isWrite_def)
  ultimately show ?thesis
    using background_loops_return [OF cw, of undefined undefined undefined undefined undefined undefined undefined undefined
        sample_cert_events] cw by fastforce
qed

end
