(* ===== verification/Ldap.thy ===== *)
theory Ldap
  imports Config IdentityHandler K8s GoText
begin

text \<open>
  \<^verbatim>\<open>cmd/ldap\<close>: the identity server over an LDAP directory.  The directory and the go-ldap library are a
  record of functions; what the library documents of a connection is modelled: a successful bind sets
  the identity of the connection, a failed one makes it anonymous, and every search is done under the
  identity of the moment.
\<close>

section \<open>Configuration\<close>

record UserSearch =
  usrBaseDN :: string
  usrFilter :: string
  usrLoginAttr :: string
  usrScope :: string
  usrNumericalIdAttr :: string
  usrEmailAttr :: string
  usrCnAttr :: string

record GroupSearch =
  grpBaseDN :: string
  grpFilter :: string
  grpScope :: string
  grpNameAttr :: string
  grpLinkUserAttr :: string
  grpLinkGroupAttr :: string

record LdapConfig =
  Host :: string
  Port :: string
  TimeoutSec :: int
  InsecureNoSSL :: bool
  InsecureSkipVerify :: bool
  StartTLS :: bool
  RootCaPath :: string
  RootCaData :: string
  RootCaSecret :: string
  RootCaSecretPath :: string
  ClientCert :: string
  ClientKey :: string
  BindDN :: string
  BindPW :: string
  UserSearchCfg :: UserSearch
  GroupSearchCfg :: GroupSearch

datatype scope = ScopeBaseObject | ScopeSingleLevel | ScopeWholeSubtree

text \<open>The TLS setup: server name, whether to skip verification, trusted roots and client certificates.\<close>

record tlsConfig =
  ServerName :: string
  SkipVerify :: bool
  RootCAs :: "string option"
  Certificates :: "string list"

record ldapAuthenticator =
  lconfig :: LdapConfig
  hostPort :: string
  tls :: tlsConfig
  userSearchScope :: scope
  groupSearchScope :: scope

section \<open>Setup (ldapauthenticator.go)\<close>

definition parseScope :: "string \<Rightarrow> scope option" where
  "parseScope s =
     (if s = [] \<or> s = ''sub'' then Some ScopeWholeSubtree
      else if s = ''one'' then Some ScopeSingleLevel
      else None)"

text \<open>
  What setup uses of its surroundings: files, base64, the secrets of the cluster by namespace and name,
  the PEM parser (whether any certificate was found) and the key pair loader.
\<close>

record ldap_env =
  readFile :: "string \<Rightarrow> string + string"
  base64Decode :: "string \<Rightarrow> string + string"
  getSecret :: "string \<Rightarrow> string \<Rightarrow> string + string gomap"
  pemOk :: "string \<Rightarrow> bool"
  loadKeyPair :: "string \<Rightarrow> string \<Rightarrow> string + string"

definition getCurrentNamespace :: "ldap_env \<Rightarrow> string \<Rightarrow> string + string" where
  "getCurrentNamespace env namespace =
     (if namespace \<noteq> [] then Inr namespace
      else (case readFile env ''/var/run/secrets/kubernetes.io/serviceaccount/namespace'' of
              Inl err \<Rightarrow> Inl (''error reading namespace file: '' @ err
                 @ ''. If running out or Kubernetes context, set namespace explicitly (--namespace)'')
            | Inr data \<Rightarrow> Inr (TrimSpace data)))"

text \<open>The checks at the start of \<^verbatim>\<open>New\<close>: the first violated requirement.\<close>

definition missingRequired :: "LdapConfig \<Rightarrow> string option" where
  "missingRequired c =
     (if Host c = [] then Some ''missing required ldap.host''
      else if usrBaseDN (UserSearchCfg c) = [] then Some ''missing required ldap.userSearch.baseDN''
      else if usrLoginAttr (UserSearchCfg c) = [] then Some ''missing required ldap.userSearch.loginAttr''
      else if grpBaseDN (GroupSearchCfg c) \<noteq> [] then
        (if grpBaseDN (GroupSearchCfg c) = [] then Some ''missing required ldap.groupSearch.baseDN''
         else if grpNameAttr (GroupSearchCfg c) = [] then Some ''missing required ldap.groupSearch.nameAttr''
         else if grpLinkGroupAttr (GroupSearchCfg c) = [] then Some ''missing required ldap.groupSearch.linkGroupAttr''
         else if grpLinkUserAttr (GroupSearchCfg c) = [] then Some ''missing required ldap.groupSearch.linkUserAttr''
         else None)
      else None)"

text \<open>Defaults: the port, the timeout, and the paths relative to the configuration folder.\<close>

definition withDefaults :: "string \<Rightarrow> LdapConfig \<Rightarrow> LdapConfig" where
  "withDefaults configFolder c =
     c\<lparr>Port := (if Port c = [] then (if InsecureNoSSL c then ''389'' else ''636'') else Port c),
       TimeoutSec := (if TimeoutSec c = 0 then 10 else TimeoutSec c),
       RootCaPath := AdjustPath configFolder (RootCaPath c),
       ClientCert := AdjustPath configFolder (ClientCert c),
       ClientKey := AdjustPath configFolder (ClientKey c)\<rparr>"

text \<open>The root certificates: from inline data, from a file, from a secret, in this order.\<close>

definition rootCaFromData :: "ldap_env \<Rightarrow> LdapConfig \<Rightarrow> string option \<Rightarrow> string + string option" where
  "rootCaFromData env c data =
     (if RootCaData c \<noteq> [] then
        (case base64Decode env (RootCaData c) of
           Inl err \<Rightarrow> Inl (''error while parsing RootCaData : '' @ err)
         | Inr d \<Rightarrow> Inr (Some d))
      else Inr data)"

definition rootCaFromPath :: "ldap_env \<Rightarrow> LdapConfig \<Rightarrow> string option \<Rightarrow> string + string option" where
  "rootCaFromPath env c data =
     (if RootCaPath c \<noteq> [] then
        (case readFile env (RootCaPath c) of
           Inl err \<Rightarrow> Inl (''error while reading CA file: '' @ err)
         | Inr d \<Rightarrow> Inr (Some d))
      else Inr data)"

definition rootCaFromSecret :: "ldap_env \<Rightarrow> string \<Rightarrow> LdapConfig \<Rightarrow> string option \<Rightarrow> string + string option" where
  "rootCaFromSecret env namespace0 c data =
     (if RootCaSecret c \<noteq> [] then
        (case getCurrentNamespace env namespace0 of
           Inl err \<Rightarrow> Inl err
         | Inr namespace \<Rightarrow>
             (case getSecret env namespace (RootCaSecret c) of
                Inl err \<Rightarrow> Inl (''error while getting root CA secret '' @ quoted (namespace @ ''/'' @ RootCaSecret c) @ '': '' @ err)
              | Inr secret \<Rightarrow>
                  (let caName = (if RootCaPath c = [] then ''ca.crt'' else RootCaPath c) in
                   case gget secret caName of
                     None \<Rightarrow> Inl (''cA data not found in secret '' @ quoted (''namespace/'' @ RootCaSecret c)
                                    @ '' CA path:'' @ quoted caName)
                   | Some d \<Rightarrow> Inr (Some d))))
      else Inr data)"

definition rootCAs :: "ldap_env \<Rightarrow> string \<Rightarrow> LdapConfig \<Rightarrow> string + string option" where
  "rootCAs env namespace c =
     (if CountTrue [RootCaData c \<noteq> [], RootCaSecret c \<noteq> [], RootCaPath c \<noteq> []] > 1
      then Inl (''at most one of '' @ quoted ''rootCaData'' @ '', '' @ quoted ''rootCaSecret'' @ '' or ''
                @ quoted ''rootCaPath'' @ '' must be specified'')
      else case rootCaFromData env c None of
             Inl err \<Rightarrow> Inl err
           | Inr d1 \<Rightarrow>
               (case rootCaFromPath env c d1 of
                  Inl err \<Rightarrow> Inl err
                | Inr d2 \<Rightarrow>
                    (case rootCaFromSecret env namespace c d2 of
                       Inl err \<Rightarrow> Inl err
                     | Inr None \<Rightarrow> Inr None
                     | Inr (Some pem) \<Rightarrow>
                         if pemOk env pem then Inr (Some pem) else Inl ''no certs found in ca file'')))"

definition ldap_New :: "ldap_env \<Rightarrow> LdapConfig \<Rightarrow> string \<Rightarrow> string \<Rightarrow> string + ldapAuthenticator" where
  "ldap_New env ldapConfig configFolder namespace =
     (case missingRequired ldapConfig of
        Some err \<Rightarrow> Inl err
      | None \<Rightarrow>
          (let c = withDefaults configFolder ldapConfig in
           case rootCAs env namespace c of
             Inl err \<Rightarrow> Inl err
           | Inr cas \<Rightarrow>
               (case (if ClientKey c \<noteq> [] \<and> ClientCert c \<noteq> []
                      then (case loadKeyPair env (ClientCert c) (ClientKey c) of
                              Inl err \<Rightarrow> Inl (''load client cert failed: '' @ err)
                            | Inr cert \<Rightarrow> Inr [cert])
                      else Inr []) of
                  Inl err \<Rightarrow> Inl err
                | Inr certs \<Rightarrow>
                    (case parseScope (usrScope (UserSearchCfg c)) of
                       None \<Rightarrow> Inl (''userSearch.Scope unknown value '' @ usrScope (UserSearchCfg c))
                     | Some us \<Rightarrow>
                         (case parseScope (grpScope (GroupSearchCfg c)) of
                            None \<Rightarrow> Inl (''groupSearch.Scope unknown value '' @ grpScope (GroupSearchCfg c))
                          | Some gs \<Rightarrow>
                              Inr \<lparr>lconfig = c, hostPort = Host c @ '':'' @ Port c,
                                   tls = \<lparr>ServerName = Host c, SkipVerify = InsecureSkipVerify c,
                                          RootCAs = cas, Certificates = certs\<rparr>,
                                   userSearchScope = us, groupSearchScope = gs\<rparr>)))))"

section \<open>The directory and its connections\<close>

record Entry =
  DN :: string
  Attributes :: "(string \<times> string list) list"

record SearchRequest =
  sBaseDN :: string
  sFilter :: string
  sScope :: scope
  sAttributes :: "string list"

text \<open>An error of the library: an LDAP result code, or anything else.\<close>

datatype ldap_error = LdapError nat string | OtherError string

fun ldap_text :: "ldap_error \<Rightarrow> string" where
  "ldap_text (LdapError n t) = t"
| "ldap_text (OtherError t) = t"

definition LDAPResultConstraintViolation :: nat where
  "LDAPResultConstraintViolation = 19"

definition LDAPResultInvalidCredentials :: nat where
  "LDAPResultInvalidCredentials = 49"

record directory =
  dialTcp :: "string \<Rightarrow> string option"
  dialTLS :: "string \<Rightarrow> tlsConfig \<Rightarrow> string option"
  startTLS :: "string \<Rightarrow> tlsConfig \<Rightarrow> string option"
  checkBind :: "string \<Rightarrow> string \<Rightarrow> ldap_error option"
  checkUnauthBind :: "string \<Rightarrow> ldap_error option"
  searchAs :: "string option \<Rightarrow> SearchRequest \<Rightarrow> ldap_error + Entry list"
  EscapeFilter :: "string \<Rightarrow> string"

text \<open>A connection: who it is bound as, and the searches done so far with the identity they ran under.\<close>

record conn =
  boundAs :: "string option"
  searches :: "(string option \<times> SearchRequest) list"

definition conn_Bind :: "directory \<Rightarrow> conn \<Rightarrow> string \<Rightarrow> string \<Rightarrow> ldap_error option \<times> conn" where
  "conn_Bind dir c dn pw =
     (case checkBind dir dn pw of
        None \<Rightarrow> (None, c\<lparr>boundAs := Some dn\<rparr>)
      | Some err \<Rightarrow> (Some err, c\<lparr>boundAs := None\<rparr>))"

definition conn_UnauthenticatedBind :: "directory \<Rightarrow> conn \<Rightarrow> string \<Rightarrow> ldap_error option \<times> conn" where
  "conn_UnauthenticatedBind dir c dn =
     (case checkUnauthBind dir dn of
        None \<Rightarrow> (None, c\<lparr>boundAs := Some dn\<rparr>)
      | Some err \<Rightarrow> (Some err, c\<lparr>boundAs := None\<rparr>))"

definition conn_Search :: "directory \<Rightarrow> conn \<Rightarrow> SearchRequest \<Rightarrow> (ldap_error + Entry list) \<times> conn" where
  "conn_Search dir c req =
     (searchAs dir (boundAs c) req, c\<lparr>searches := searches c @ [(boundAs c, req)]\<rparr>)"

section \<open>authenticate.go\<close>

definition serviceBind :: "directory \<Rightarrow> conn \<Rightarrow> string \<Rightarrow> string \<Rightarrow> ldap_error option \<times> conn" where
  "serviceBind dir c bindDN bindPW =
     (if bindPW = [] then conn_UnauthenticatedBind dir c bindDN else conn_Bind dir c bindDN bindPW)"

fun scopeString :: "scope \<Rightarrow> string" where
  "scopeString ScopeBaseObject = ''base''"
| "scopeString ScopeSingleLevel = ''one''"
| "scopeString ScopeWholeSubtree = ''sub''"

definition searchDesc :: "SearchRequest \<Rightarrow> string" where
  "searchDesc req = ''baseDN:'' @ quoted (sBaseDN req) @ '' scope:'' @ quoted (scopeString (sScope req))
     @ '' filter:'' @ quoted (sFilter req)"

definition bindDesc :: "string \<Rightarrow> string" where
  "bindDesc dn = ''conn.Bind('' @ dn @ '', xxxxxxxx)''"

definition equalityFilter :: "string \<Rightarrow> string \<Rightarrow> string \<Rightarrow> string" where
  "equalityFilter extra attr val =
     (let flt = ''('' @ attr @ ''='' @ val @ '')''
      in if extra \<noteq> [] then ''(&'' @ extra @ flt @ '')'' else flt)"

definition userRequest :: "ldapAuthenticator \<Rightarrow> directory \<Rightarrow> string \<Rightarrow> SearchRequest" where
  "userRequest l dir login =
     (let u = UserSearchCfg (lconfig l);
          link = grpLinkUserAttr (GroupSearchCfg (lconfig l))
      in \<lparr>sBaseDN = usrBaseDN u,
          sFilter = equalityFilter (usrFilter u) (usrLoginAttr u) (EscapeFilter dir login),
          sScope = userSearchScope l,
          sAttributes = [usrLoginAttr u] @
            filter (\<lambda>a. a \<noteq> []) [usrNumericalIdAttr u, usrEmailAttr u, usrCnAttr u, link]\<rparr>)"

definition lookupUser ::
  "ldapAuthenticator \<Rightarrow> directory \<Rightarrow> conn \<Rightarrow> string \<Rightarrow> (string + Entry option) \<times> conn" where
  "lookupUser l dir c login =
     (let req = userRequest l dir login;
          (resp, c') = conn_Search dir c req
      in (case resp of
            Inl err \<Rightarrow> Inl (''search ['' @ searchDesc req @ ''] failed: '' @ ldap_text err)
          | Inr [] \<Rightarrow> Inr None
          | Inr [e] \<Rightarrow> Inr (Some e)
          | Inr es \<Rightarrow> Inl (''filter returned multiple ('' @ nat_text (length es) @ '') results: '' @ sFilter req),
          c'))"

definition checkPassword ::
  "directory \<Rightarrow> conn \<Rightarrow> Entry \<Rightarrow> string \<Rightarrow> (string + Status) \<times> conn" where
  "checkPassword dir c user password =
     (if password = [] then (Inr PasswordFail, c)
      else let (res, c') = conn_Bind dir c (DN user) password
           in (case res of
                 None \<Rightarrow> Inr PasswordChecked
               | Some (LdapError code t) \<Rightarrow>
                   if code = LDAPResultInvalidCredentials then Inr PasswordFail
                   else if code = LDAPResultConstraintViolation then Inr PasswordFail
                   else Inl (bindDesc (DN user) @ '' => failed: '' @ t)
               | Some (OtherError t) \<Rightarrow> Inl (bindDesc (DN user) @ '' => failed: '' @ t),
               c'))"

definition getAttrs :: "Entry \<Rightarrow> string \<Rightarrow> string list" where
  "getAttrs e name =
     (if name = ''DN'' then [DN e]
      else (case find (\<lambda>a. fst a = name) (Attributes e) of Some a \<Rightarrow> snd a | None \<Rightarrow> []))"

definition getAttr :: "Entry \<Rightarrow> string \<Rightarrow> string" where
  "getAttr e name =
     (if name = [] then [] else (case getAttrs e name of a # as \<Rightarrow> a | [] \<Rightarrow> []))"

text \<open>go-ldap's \<^verbatim>\<open>GetAttributeValue\<close>: the first value of the attribute, or nothing.\<close>

definition GetAttributeValue :: "Entry \<Rightarrow> string \<Rightarrow> string" where
  "GetAttributeValue e name =
     (case find (\<lambda>a. fst a = name) (Attributes e) of Some (n, v # vs) \<Rightarrow> v | _ \<Rightarrow> [])"

definition groupRequest :: "ldapAuthenticator \<Rightarrow> directory \<Rightarrow> string \<Rightarrow> SearchRequest" where
  "groupRequest l dir attr =
     (let g = GroupSearchCfg (lconfig l) in
      if ToUpper (grpLinkGroupAttr g) = ''DN''
      then \<lparr>sBaseDN = attr,
            sFilter = (if grpFilter g \<noteq> [] then grpFilter g else ''(objectClass=top)''),
            sScope = ScopeBaseObject, sAttributes = [grpNameAttr g]\<rparr>
      else \<lparr>sBaseDN = grpBaseDN g,
            sFilter = equalityFilter (grpFilter g) (grpLinkGroupAttr g) (EscapeFilter dir attr),
            sScope = groupSearchScope l, sAttributes = [grpNameAttr g]\<rparr>)"

fun groupLoop ::
  "ldapAuthenticator \<Rightarrow> directory \<Rightarrow> conn \<Rightarrow> string list \<Rightarrow> Entry list \<Rightarrow> (string + Entry list) \<times> conn" where
  "groupLoop l dir c [] ldapGroups = (Inr ldapGroups, c)"
| "groupLoop l dir c (attr # attrs) ldapGroups =
     (let req = groupRequest l dir attr;
          (resp, c') = conn_Search dir c req
      in case resp of
           Inl err \<Rightarrow> (Inl (''search ['' @ searchDesc req @ ''] failed: '' @ ldap_text err), c')
         | Inr es \<Rightarrow> groupLoop l dir c' attrs (ldapGroups @ es))"

definition lookupGroups ::
  "ldapAuthenticator \<Rightarrow> directory \<Rightarrow> conn \<Rightarrow> Entry \<Rightarrow> (string + string list) \<times> conn" where
  "lookupGroups l dir c user =
     (let (res, c') = groupLoop l dir c (getAttrs user (grpLinkUserAttr (GroupSearchCfg (lconfig l)))) []
      in (case res of
            Inl err \<Rightarrow> Inl err
          | Inr ldapGroups \<Rightarrow>
              Inr (filter (\<lambda>g. g \<noteq> [])
                     (map (\<lambda>e. GetAttributeValue e (grpNameAttr (GroupSearchCfg (lconfig l)))) ldapGroups)),
          c'))"

text \<open>\<^verbatim>\<open>strconv.Atoi\<close>: an optional sign, at least one digit, within 64 bits.\<close>

fun digits_value :: "int \<Rightarrow> string \<Rightarrow> int option" where
  "digits_value acc [] = Some acc"
| "digits_value acc (c # cs) =
     (if CHR ''0'' \<le> c \<and> c \<le> CHR ''9''
      then digits_value (acc * 10 + (of_char c - 48)) cs else None)"

definition Atoi :: "string \<Rightarrow> int option" where
  "Atoi s =
     (let (sgn, ds) = (case s of
             c # cs \<Rightarrow> if c = CHR ''-'' then (- 1, cs) else if c = CHR ''+'' then (1, cs) else (1, s)
           | [] \<Rightarrow> (1, []))
      in if ds = [] then None
         else (case digits_value 0 ds of
                 Some n \<Rightarrow> if in_int64 (sgn * n) then Some (sgn * n) else None
               | None \<Rightarrow> None))"

text \<open>\<^verbatim>\<open>do\<close>: dial as configured, then run the function on the new connection.\<close>

definition fresh_conn :: conn where
  "fresh_conn = \<lparr>boundAs = None, searches = []\<rparr>"

definition ldap_do ::
  "ldapAuthenticator \<Rightarrow> directory \<Rightarrow> (conn \<Rightarrow> (string + 'a) \<times> conn) \<Rightarrow> (string + 'a) \<times> conn" where
  "ldap_do l dir f =
     (let hp = hostPort l in
      if InsecureNoSSL (lconfig l) then
        (case dialTcp dir hp of
           Some err \<Rightarrow> (Inl (''failed to connect: '' @ err), fresh_conn)
         | None \<Rightarrow> f fresh_conn)
      else if StartTLS (lconfig l) then
        (case dialTcp dir hp of
           Some err \<Rightarrow> (Inl (''failed to connect: '' @ err), fresh_conn)
         | None \<Rightarrow>
             (case startTLS dir hp (tls l) of
                Some err \<Rightarrow> (Inl (''start TLS failed: '' @ err), fresh_conn)
              | None \<Rightarrow> f fresh_conn))
      else
        (case dialTLS dir hp (tls l) of
           Some err \<Rightarrow> (Inl (''failed to connect: '' @ err), fresh_conn)
         | None \<Rightarrow> f fresh_conn))"

text \<open>The function \<^verbatim>\<open>Authenticate\<close> runs on the connection: the entry, the status and the groups.\<close>

definition serviceBind_or ::
  "ldapAuthenticator \<Rightarrow> directory \<Rightarrow> conn \<Rightarrow> (conn \<Rightarrow> (string + 'a) \<times> conn) \<Rightarrow> (string + 'a) \<times> conn" where
  "serviceBind_or l dir c k =
     (case serviceBind dir c (BindDN (lconfig l)) (BindPW (lconfig l)) of
        (Some err, c') \<Rightarrow> (Inl (bindDesc (BindDN (lconfig l)) @ '' failed: '' @ ldap_text err), c')
      | (None, c') \<Rightarrow> k c')"

definition ldapSession ::
  "ldapAuthenticator \<Rightarrow> directory \<Rightarrow> IdentityRequest \<Rightarrow> conn
    \<Rightarrow> (string + Entry option \<times> Status \<times> string list) \<times> conn" where
  "ldapSession l dir request c =
     serviceBind_or l dir c (\<lambda>c1.
       case lookupUser l dir c1 (rqLogin request) of
         (Inl err, c2) \<Rightarrow> (Inl err, c2)
       | (Inr None, c2) \<Rightarrow> (Inr (None, UserNotFound, []), c2)
       | (Inr (Some user), c2) \<Rightarrow>
           (case (if rqPassword request \<noteq> [] then checkPassword dir c2 user (rqPassword request)
                  else (Inr PasswordUnchecked, c2)) of
              (Inl err, c3) \<Rightarrow> (Inl err, c3)
            | (Inr status, c3) \<Rightarrow>
                serviceBind_or l dir c3 (\<lambda>c4.
                  case lookupGroups l dir c4 user of
                    (Inl err, c5) \<Rightarrow> (Inl err, c5)
                  | (Inr groups, c5) \<Rightarrow> (Inr (Some user, status, groups), c5))))"

definition ldap_Authenticate ::
  "ldapAuthenticator \<Rightarrow> directory \<Rightarrow> IdentityRequest \<Rightarrow> (string + IdentityResponse) \<times> conn" where
  "ldap_Authenticate l dir request =
     (case ldap_do l dir (ldapSession l dir request) of
        (Inl err, c) \<Rightarrow> (Inl err, c)
      | (Inr (ldapUser, status, groups), c) \<Rightarrow>
          (let user0 = (InitUser (rqLogin request))\<lparr>uGroups := groups\<rparr>;
               u = UserSearchCfg (lconfig l);
               user = (case ldapUser of
                  None \<Rightarrow> user0
                | Some e \<Rightarrow>
                    user0\<lparr>uUid := (let uidStr = getAttr e (usrNumericalIdAttr u)
                                   in if uidStr \<noteq> [] then Atoi uidStr else None),
                          uEmails := getAttrs e (usrEmailAttr u),
                          uName := getAttr e (usrCnAttr u)\<rparr>)
           in (Inr \<lparr>rsUser = user, rsStatus = status, rsDetails = [], rsAuthority = []\<rparr>, c)))"

section \<open>Results\<close>

abbreviation service :: "ldapAuthenticator \<Rightarrow> string option" where
  "service l \<equiv> Some (BindDN (lconfig l))"

abbreviation userEntries :: "ldapAuthenticator \<Rightarrow> directory \<Rightarrow> string \<Rightarrow> ldap_error + Entry list" where
  "userEntries l dir login \<equiv> searchAs dir (service l) (userRequest l dir login)"

text \<open>Every search ran under the service account.\<close>

definition only_service :: "ldapAuthenticator \<Rightarrow> conn \<Rightarrow> bool" where
  "only_service l c \<longleftrightarrow> (\<forall>(who, req) \<in> set (searches c). who = service l)"

lemma serviceBind_ok:
  "serviceBind dir c (BindDN (lconfig l)) pw = (None, c') \<Longrightarrow> boundAs c' = service l \<and> searches c' = searches c"
  "serviceBind dir c (BindDN (lconfig l)) pw = (Some e, c') \<Longrightarrow> searches c' = searches c"
  by (auto simp: serviceBind_def conn_Bind_def conn_UnauthenticatedBind_def split: if_splits option.splits)

lemma lookupUser_conn:
  "lookupUser l dir c login = (r, c') \<Longrightarrow> boundAs c = service l \<Longrightarrow> only_service l c \<Longrightarrow>
     boundAs c' = service l \<and> only_service l c'"
  by (auto simp: lookupUser_def conn_Search_def Let_def only_service_def)

lemma lookupUser_result:
  "lookupUser l dir c login = (Inr r, c') \<Longrightarrow> boundAs c = service l \<Longrightarrow>
     (\<exists>es. userEntries l dir login = Inr es \<and> (es = [] \<and> r = None \<or> (\<exists>e. es = [e] \<and> r = Some e)))"
  by (auto simp: lookupUser_def conn_Search_def Let_def split: sum.splits list.splits)

lemma checkPassword_conn:
  "checkPassword dir c e pw = (r, c') \<Longrightarrow> searches c' = searches c"
  by (auto simp: checkPassword_def conn_Bind_def Let_def split: if_splits option.splits)

lemma checkPassword_status:
  "checkPassword dir c e pw = (Inr s, c') \<Longrightarrow> pw \<noteq> [] \<Longrightarrow>
     (s = PasswordChecked \<and> checkBind dir (DN e) pw = None)
     \<or> (s = PasswordFail \<and> (\<exists>err. checkBind dir (DN e) pw = Some err))"
  by (auto simp: checkPassword_def conn_Bind_def Let_def split: if_splits option.splits ldap_error.splits)

lemma groupLoop_conn:
  "groupLoop l dir c attrs gs = (r, c') \<Longrightarrow> boundAs c = service l \<Longrightarrow> only_service l c \<Longrightarrow> only_service l c'"
proof (induction attrs arbitrary: c gs)
  case (Cons a attrs)
  let ?c = "c\<lparr>searches := searches c @ [(boundAs c, groupRequest l dir a)]\<rparr>"
  have "only_service l ?c" "boundAs ?c = service l"
    using Cons.prems by (auto simp: only_service_def)
  with Cons show ?case
    by (auto simp: conn_Search_def Let_def split: sum.splits)
qed simp

lemma lookupGroups_conn:
  "lookupGroups l dir c e = (r, c') \<Longrightarrow> boundAs c = service l \<Longrightarrow> only_service l c \<Longrightarrow> only_service l c'"
  by (auto simp: lookupGroups_def Let_def dest: groupLoop_conn split: prod.splits)

lemma serviceBind_or_cases:
  assumes "serviceBind_or l dir c k = (r, c')"
  obtains (failed) e where "r = Inl e" "searches c' = searches c"
    | (bound) c1 where "boundAs c1 = service l" "searches c1 = searches c" "k c1 = (r, c')"
  using assms serviceBind_ok [of dir c l "BindPW (lconfig l)"]
  by (cases "serviceBind dir c (BindDN (lconfig l)) (BindPW (lconfig l))")
    (auto simp: serviceBind_or_def split: option.splits)

lemma only_service_cong: "searches c' = searches c \<Longrightarrow> only_service l c' = only_service l c"
  by (simp add: only_service_def)

lemma ldapSession_conn:
  assumes "ldapSession l dir rq c = (r, c')" "only_service l c"
  shows "only_service l c'"
  using assms(1) unfolding ldapSession_def
proof (cases rule: serviceBind_or_cases)
  case failed
  then show ?thesis using assms(2) by (simp cong: only_service_cong add: only_service_def)
next
  case (bound c1)
  obtain ru c2 where look: "lookupUser l dir c1 (rqLogin rq) = (ru, c2)" by fastforce
  have c2: "boundAs c2 = service l" "only_service l c2"
    using lookupUser_conn [OF look bound(1)] bound(2) assms(2) by (simp_all add: only_service_def)
  show ?thesis
  proof (cases "\<exists>user. ru = Inr (Some user)")
    case False
    then show ?thesis using bound(3) look c2(2) by (auto split: sum.splits option.splits)
  next
    case True
    then obtain user where user: "ru = Inr (Some user)" by blast
    obtain rp c3 where chk: "(if rqPassword rq \<noteq> [] then checkPassword dir c2 user (rqPassword rq)
        else (Inr PasswordUnchecked, c2)) = (rp, c3)" by fastforce
    then have c3: "only_service l c3"
      using c2(2) checkPassword_conn [of dir c2 user "rqPassword rq"]
      by (auto simp: only_service_def split: if_splits)
    show ?thesis
    proof (cases rp)
      case (Inl err)
      then show ?thesis using bound(3) look user chk c3 by simp
    next
      case (Inr status)
      then have "serviceBind_or l dir c3 (\<lambda>c4. case lookupGroups l dir c4 user of
            (Inl err, c5) \<Rightarrow> (Inl err, c5)
          | (Inr groups, c5) \<Rightarrow> (Inr (Some user, status, groups), c5)) = (r, c')"
        using bound(3) look user chk by simp
      then show ?thesis
      proof (cases rule: serviceBind_or_cases)
        case failed
        then show ?thesis using c3 by (simp add: only_service_def)
      next
        case (bound c4)
        then show ?thesis
          using c3 lookupGroups_conn [of l dir c4 user]
          by (auto simp: only_service_def split: prod.splits sum.splits)
      qed
    qed
  qed
qed

lemma ldapSession_result:
  assumes "ldapSession l dir rq c = (Inr (u, s, gs), c')"
  obtains (absent) "userEntries l dir (rqLogin rq) = Inr []" "u = None" "s = UserNotFound" "gs = []"
    | (untested) e where "userEntries l dir (rqLogin rq) = Inr [e]" "u = Some e" "rqPassword rq = []"
        "s = PasswordUnchecked"
    | (tested) e where "userEntries l dir (rqLogin rq) = Inr [e]" "u = Some e" "rqPassword rq \<noteq> []"
        "s = (if checkBind dir (DN e) (rqPassword rq) = None then PasswordChecked else PasswordFail)"
  using assms unfolding ldapSession_def
proof (cases rule: serviceBind_or_cases)
  case (bound c1)
  obtain ru c2 where look: "lookupUser l dir c1 (rqLogin rq) = (Inr ru, c2)"
    using bound(3) by (auto split: prod.splits sum.splits)
  note res = lookupUser_result [OF look bound(1)]
  show ?thesis
  proof (cases ru)
    case None
    then show ?thesis using absent res bound(3) look by auto
  next
    case (Some e)
    then have e: "userEntries l dir (rqLogin rq) = Inr [e]" using res by auto
    obtain st c3 where chk: "(if rqPassword rq \<noteq> [] then checkPassword dir c2 e (rqPassword rq)
        else (Inr PasswordUnchecked, c2)) = (Inr st, c3)"
      and rest: "serviceBind_or l dir c3 (\<lambda>c4. case lookupGroups l dir c4 e of
          (Inl err, c5) \<Rightarrow> (Inl err, c5)
        | (Inr groups, c5) \<Rightarrow> (Inr (Some e, st, groups), c5)) = (Inr (u, s, gs), c')"
      using bound(3) look Some by (auto split: prod.splits sum.splits)
    from rest have "u = Some e" "s = st"
      by (cases rule: serviceBind_or_cases; auto split: prod.splits sum.splits)+
    then show ?thesis
      using e chk untested tested checkPassword_status [of dir c2 e "rqPassword rq" st c3]
      by (auto split: if_splits)
  qed
qed simp

lemma ldap_do_cases:
  "ldap_do l dir f = (r, c) \<Longrightarrow> (\<exists>e. r = Inl e \<and> c = fresh_conn) \<or> f fresh_conn = (r, c)"
  by (auto simp: ldap_do_def Let_def split: if_splits option.splits)

lemma ldap_result:
  assumes "ldap_Authenticate l dir rq = (Inr rs, c)"
  obtains u gs where "ldapSession l dir rq fresh_conn = (Inr (u, rsStatus rs, gs), c)"
    "uLogin (rsUser rs) = rqLogin rq" "uGroups (rsUser rs) = gs" "rsDetails rs = []"
proof -
  obtain u s gs where run: "ldap_do l dir (ldapSession l dir rq) = (Inr (u, s, gs), c)"
    using assms by (auto simp: ldap_Authenticate_def Let_def split: prod.splits sum.splits)
  then have "ldapSession l dir rq fresh_conn = (Inr (u, s, gs), c)"
    using ldap_do_cases by blast
  then show thesis
    using assms run
    by (intro that [of u gs]) (auto simp: ldap_Authenticate_def Let_def InitUser_def split: option.splits)
qed

interpretation ldap: authenticator "\<lambda>rq. fst (ldap_Authenticate l dir rq)" for l dir
proof
  fix rq rs assume "fst (ldap_Authenticate l dir rq) = Inr rs"
  then obtain c where "ldap_Authenticate l dir rq = (Inr rs, c)" by (metis prod.collapse)
  then obtain u gs where r: "ldapSession l dir rq fresh_conn = (Inr (u, rsStatus rs, gs), c)"
    "uLogin (rsUser rs) = rqLogin rq" by (rule ldap_result)
  show "uLogin (rsUser rs) = rqLogin rq" by (rule r(2))
  show "wf_status (rsStatus rs)" using r(1) by (cases rule: ldapSession_result) simp_all
  show "\<not> password_tested (rsStatus rs)" if "rqPassword rq = []"
    using r(1) that by (cases rule: ldapSession_result) (simp_all add: password_tested_def)
qed

lemma ldap_checked:
  assumes "fst (ldap_Authenticate l dir rq) = Inr rs" "rsStatus rs = PasswordChecked"
  shows "\<exists>e. userEntries l dir (rqLogin rq) = Inr [e] \<and> checkBind dir (DN e) (rqPassword rq) = None"
proof -
  obtain c where "ldap_Authenticate l dir rq = (Inr rs, c)"
    using assms(1) by (metis prod.collapse)
  then obtain u gs where "ldapSession l dir rq fresh_conn = (Inr (u, PasswordChecked, gs), c)"
    using assms(2) ldap_result by metis
  then show ?thesis by (cases rule: ldapSession_result) (auto split: if_splits)
qed

text \<open>
  C7: when the LDAP server accepts a password.  The login is looked up under the service account; exactly
  one entry must be found, the request must carry a password, and the directory must accept a bind with
  the name of that entry and that password.  No entry means user not found, no password means unchecked,
  a refused bind means password failure.
\<close>

theorem ldap_decision:
  assumes "ldap_Authenticate l dir rq = (Inr rs, c)"
  shows "(rsStatus rs = PasswordChecked \<longleftrightarrow>
      (\<exists>e. userEntries l dir (rqLogin rq) = Inr [e] \<and> rqPassword rq \<noteq> []
         \<and> checkBind dir (DN e) (rqPassword rq) = None))
    \<and> (rsStatus rs = UserNotFound \<longleftrightarrow> userEntries l dir (rqLogin rq) = Inr [])
    \<and> (rsStatus rs = PasswordUnchecked \<longleftrightarrow>
        (\<exists>e. userEntries l dir (rqLogin rq) = Inr [e]) \<and> rqPassword rq = [])
    \<and> (rsStatus rs = PasswordFail \<longleftrightarrow>
        (\<exists>e err. userEntries l dir (rqLogin rq) = Inr [e] \<and> rqPassword rq \<noteq> []
           \<and> checkBind dir (DN e) (rqPassword rq) = Some err))"
proof -
  obtain u gs where "ldapSession l dir rq fresh_conn = (Inr (u, rsStatus rs, gs), c)"
    using ldap_result [OF assms] by blast
  then show ?thesis by (cases rule: ldapSession_result) auto
qed


lemma missingRequired_None:
  "missingRequired c = None \<Longrightarrow>
     Host c \<noteq> [] \<and> usrBaseDN (UserSearchCfg c) \<noteq> [] \<and> usrLoginAttr (UserSearchCfg c) \<noteq> []
     \<and> (grpBaseDN (GroupSearchCfg c) \<noteq> [] \<longrightarrow> grpNameAttr (GroupSearchCfg c) \<noteq> []
          \<and> grpLinkGroupAttr (GroupSearchCfg c) \<noteq> [] \<and> grpLinkUserAttr (GroupSearchCfg c) \<noteq> [])"
  by (simp add: missingRequired_def split: if_splits)

lemma rootCAs_sources:
  "rootCAs env ns c = Inr x \<Longrightarrow>
     CountTrue [RootCaData c \<noteq> [], RootCaSecret c \<noteq> [], RootCaPath c \<noteq> []] \<le> 1"
  by (auto simp: rootCAs_def split: if_splits)


text \<open>
  The key of the root certificate inside a secret cannot be configured.  The setting
  \<^verbatim>\<open>rootCaSecretPath\<close> is never read: whatever it says, the outcome is the same, and with a secret
  configured the certificate is looked up under \<^verbatim>\<open>ca.crt\<close>.
\<close>

theorem ldap_ca_secret_path_ignored:
  "rootCAs env ns (c\<lparr>RootCaSecretPath := x\<rparr>) = rootCAs env ns c
    \<and> (RootCaSecret c \<noteq> [] \<longrightarrow> (\<exists>pem. rootCAs env ns c = Inr (Some pem)) \<longrightarrow>
        (\<exists>ns' secret pem. getSecret env ns' (RootCaSecret c) = Inr secret \<and> gget secret ''ca.crt'' = Some pem
           \<and> rootCAs env ns c = Inr (Some pem)))"
proof (intro conjI impI)
  have sources: "rootCaFromData env (c\<lparr>RootCaSecretPath := x\<rparr>) = rootCaFromData env c"
    "rootCaFromPath env (c\<lparr>RootCaSecretPath := x\<rparr>) = rootCaFromPath env c"
    "rootCaFromSecret env ns (c\<lparr>RootCaSecretPath := x\<rparr>) = rootCaFromSecret env ns c"
    by (auto simp: rootCaFromData_def rootCaFromPath_def rootCaFromSecret_def Let_def fun_eq_iff
        split: sum.split option.split)
  show "rootCAs env ns (c\<lparr>RootCaSecretPath := x\<rparr>) = rootCAs env ns c"
    unfolding rootCAs_def sources by simp
  assume "RootCaSecret c \<noteq> []" "\<exists>pem. rootCAs env ns c = Inr (Some pem)"
  then show "\<exists>ns' secret pem. getSecret env ns' (RootCaSecret c) = Inr secret \<and> gget secret ''ca.crt'' = Some pem
      \<and> rootCAs env ns c = Inr (Some pem)"
    by (auto simp: rootCAs_def rootCaFromData_def rootCaFromPath_def rootCaFromSecret_def Let_def
        split: if_splits sum.splits option.splits)
qed

section \<open>A concrete directory\<close>

definition sample_ldap_config :: LdapConfig where
  "sample_ldap_config = \<lparr>Host = ''ldap.x'', Port = [], TimeoutSec = 0, InsecureNoSSL = False,
     InsecureSkipVerify = False, StartTLS = False, RootCaPath = [], RootCaData = [], RootCaSecret = ''cas'',
     RootCaSecretPath = ''tls.crt'', ClientCert = [], ClientKey = [], BindDN = ''cn=svc'', BindPW = ''pw'',
     UserSearchCfg = \<lparr>usrBaseDN = ''dc=x'', usrFilter = [], usrLoginAttr = ''uid'', usrScope = [],
       usrNumericalIdAttr = ''num'', usrEmailAttr = [], usrCnAttr = ''cn''\<rparr>,
     GroupSearchCfg = \<lparr>grpBaseDN = ''ou=g'', grpFilter = [], grpScope = [], grpNameAttr = ''cn'',
       grpLinkUserAttr = ''DN'', grpLinkGroupAttr = ''member''\<rparr>\<rparr>"

definition sample_ldap_env :: ldap_env where
  "sample_ldap_env = \<lparr>readFile = (\<lambda>f. Inl ''no such file''), base64Decode = Inr,
     getSecret = (\<lambda>ns n. Inr [(''ca.crt'', ''PEM''), (''tls.crt'', ''OTHER'')]), pemOk = (\<lambda>d. True),
     loadKeyPair = (\<lambda>c k. Inl ''no key'')\<rparr>"

definition sample_ldap :: ldapAuthenticator where
  "sample_ldap = \<lparr>lconfig = sample_ldap_config\<lparr>Port := ''636'', TimeoutSec := 10\<rparr>, hostPort = ''ldap.x:636'',
     tls = \<lparr>ServerName = ''ldap.x'', SkipVerify = False, RootCAs = Some ''PEM'', Certificates = []\<rparr>,
     userSearchScope = ScopeWholeSubtree, groupSearchScope = ScopeWholeSubtree\<rparr>"

definition sample_directory :: directory where
  "sample_directory = \<lparr>dialTcp = (\<lambda>h. None), dialTLS = (\<lambda>h t. None), startTLS = (\<lambda>h t. None),
     checkBind = (\<lambda>dn pw. if (dn, pw) \<in> {(''cn=svc'', ''pw''), (''uid=jim'', ''secret'')} then None
                        else Some (LdapError 49 ''invalid credentials'')),
     checkUnauthBind = (\<lambda>dn. None),
     searchAs = (\<lambda>who req. if who \<noteq> Some ''cn=svc'' then Inl (LdapError 50 ''insufficient access'')
        else Inr (if sBaseDN req = ''dc=x'' then [\<lparr>DN = ''uid=jim'', Attributes = [(''num'', [''42''])]\<rparr>]
                  else [\<lparr>DN = ''cn=devs'', Attributes = [(''cn'', [''devs''])]\<rparr>])),
     EscapeFilter = (\<lambda>s. s)\<rparr>"

lemmas sample_ldap_defs = sample_ldap_def sample_ldap_config_def sample_directory_def

lemma sample_ldap_run:
  "\<exists>rs c. ldap_Authenticate sample_ldap sample_directory \<lparr>rqLogin = ''jim'', rqPassword = pwd\<rparr> = (Inr rs, c)
     \<and> length (searches c) = 2"
  by (simp add: ldap_Authenticate_def ldap_do_def ldapSession_def serviceBind_or_def serviceBind_def
      conn_Bind_def lookupUser_def conn_Search_def userRequest_def checkPassword_def lookupGroups_def
      groupRequest_def getAttrs_def fresh_conn_def sample_ldap_defs Let_def
      LDAPResultInvalidCredentials_def upper_def less_eq_char_def)

theorem ldap_decision_witness:
  "\<exists>rs c. ldap_Authenticate sample_ldap sample_directory \<lparr>rqLogin = ''jim'', rqPassword = ''secret''\<rparr> = (Inr rs, c)
     \<and> rsStatus rs = PasswordChecked"
proof -
  obtain rs c where run: "ldap_Authenticate sample_ldap sample_directory
      \<lparr>rqLogin = ''jim'', rqPassword = ''secret''\<rparr> = (Inr rs, c)"
    using sample_ldap_run by blast
  have "rsStatus rs = PasswordChecked"
    using ldap_decision [OF run, THEN conjunct1] by (simp add: sample_ldap_defs userRequest_def Let_def)
  with run show ?thesis by blast
qed



theorem ldap_ca_secret_path_ignored_witness:
  "\<exists>ns'. rootCAs sample_ldap_env ''ns'' sample_ldap_config = Inr (Some ''PEM'')
     \<and> gget [(''ca.crt'', ''PEM''), (''tls.crt'', ''OTHER'')] ''ca.crt'' = Some ''PEM''
     \<and> getSecret sample_ldap_env ns' ''cas'' = Inr [(''ca.crt'', ''PEM''), (''tls.crt'', ''OTHER'')]"
proof -
  have "\<exists>pem. rootCAs sample_ldap_env ''ns'' sample_ldap_config = Inr (Some pem)"
    by (simp add: rootCAs_def rootCaFromData_def rootCaFromPath_def rootCaFromSecret_def
        getCurrentNamespace_def sample_ldap_env_def sample_ldap_config_def Let_def)
  moreover have "RootCaSecret sample_ldap_config = ''cas''" by (simp add: sample_ldap_config_def)
  ultimately show ?thesis
    using ldap_ca_secret_path_ignored [where env = sample_ldap_env and ns = "''ns''" and c = sample_ldap_config,
        THEN conjunct2]
    by (auto simp: sample_ldap_env_def)
qed

end
