(* ===== verification/Ucrd.thy ===== *)
theory Ucrd
  imports K8s IdentityHandler
begin

text \<open>
  \<^verbatim>\<open>cmd/ucrd/authenticator/crdAuthenticator.go\<close>: the identity server over the User, Group and
  GroupBinding resources.  The Kubernetes client and the bcrypt comparison are arguments.
\<close>

section \<open>Resources\<close>

text \<open>A claims field is a pointer to raw JSON: absent, or bytes (\<open>None\<close> inside when they are no JSON).\<close>

type_synonym raw_claims = "json option option"

record UserSpec =
  usName :: string
  usEmails :: "string list"
  usPasswordHash :: string
  usUid :: "int option"
  usComment :: string
  usClaims :: raw_claims
  usDisabled :: "bool option"

record GroupSpec =
  gsComment :: string
  gsClaims :: raw_claims

record GroupBindingSpec =
  gbUser :: string
  gbGroup :: string

record crd_client =
  listBindings :: "string \<Rightarrow> string \<Rightarrow> kerr + GroupBindingSpec list"
  getGroup :: "ObjectKey \<Rightarrow> kerr + GroupSpec"
  getUser :: "ObjectKey \<Rightarrow> kerr + UserSpec"

record crdAuthenticator =
  k8sClient :: crd_client
  userNamespace :: string
  compareHash :: "string \<Rightarrow> string \<Rightarrow> bool"

section \<open>Operations\<close>

text \<open>\<^verbatim>\<open>merge\<close>: the merged claims and whether there was an error, on which the claims are nil.\<close>

definition merge :: "claims option \<Rightarrow> raw_claims \<Rightarrow> claims option \<times> bool" where
  "merge a b =
     (case b of
        None \<Rightarrow> (a, False)
      | Some raw \<Rightarrow>
          (case json_into_map raw [] of
             None \<Rightarrow> (None, True)
           | Some bBis \<Rightarrow> (Some (MergeMaps (entries a) bBis), False)))"

text \<open>The loop over the sorted bindings: groups and claims gathered so far.\<close>

fun bindingLoop ::
  "crdAuthenticator \<Rightarrow> GroupBindingSpec list \<Rightarrow> string list \<Rightarrow> claims option
    \<Rightarrow> string + string list \<times> claims option" where
  "bindingLoop c [] groups claims = Inr (groups, claims)"
| "bindingLoop c (binding # bs) groups claims =
     (case getGroup (k8sClient c) \<lparr>Namespace = userNamespace c, ObjName = gbGroup binding\<rparr> of
        Inl (KError t) \<Rightarrow> Inl (''error fetching Group '' @ gbGroup binding @ '': '' @ t)
      | Inl KNotFound \<Rightarrow> bindingLoop c bs (groups @ [gbGroup binding]) claims
      | Inr grp \<Rightarrow>
          bindingLoop c bs (groups @ [gbGroup binding]) (fst (merge claims (gsClaims grp))))"

text \<open>The status of a user that was found and is not disabled.\<close>

definition password_status :: "crdAuthenticator \<Rightarrow> UserSpec \<Rightarrow> string \<Rightarrow> Status" where
  "password_status c usr password =
     (if usPasswordHash usr = [] then PasswordMissing
      else if password = [] then PasswordUnchecked
      else if compareHash c (usPasswordHash usr) password then PasswordChecked
      else PasswordFail)"

definition crd_Authenticate :: "crdAuthenticator \<Rightarrow> IdentityRequest \<Rightarrow> string + IdentityResponse" where
  "crd_Authenticate c request =
     (let login = rqLogin request;
          user0 = InitUser login in
      case listBindings (k8sClient c) (userNamespace c) login of
        Inl err \<Rightarrow> Inl (''failed to list groupBindings for user '' @ login @ '': '' @ kerr_text err)
      | Inr items \<Rightarrow>
         (case bindingLoop c (sort_key gbGroup items) [] (uClaims user0) of
            Inl err \<Rightarrow> Inl err
          | Inr (groups, claims) \<Rightarrow>
             (let user1 = user0\<lparr>uGroups := groups, uClaims := claims\<rparr>;
                  payload = \<lparr>rsUser = user1, rsStatus = UserNotFound, rsDetails = [], rsAuthority = []\<rparr> in
              case getUser (k8sClient c) \<lparr>Namespace = userNamespace c, ObjName = login\<rparr> of
                Inl (KError t) \<Rightarrow> Inl (''error fetching User '' @ quoted login @ '': '' @ t)
              | Inl KNotFound \<Rightarrow> Inr payload
              | Inr usr \<Rightarrow>
                 (let user2 = user1\<lparr>
                        uUid := (case usUid usr of Some i \<Rightarrow> Some i | None \<Rightarrow> uUid user1),
                        uName := usName usr,
                        uEmails := (if length (usEmails usr) > 0 then usEmails usr else uEmails user1),
                        uClaims := fst (merge (uClaims user1) (usClaims usr))\<rparr> in
                  if BoolPtrFalse (usDisabled usr)
                  then Inr (payload\<lparr>rsUser := user2, rsStatus := Disabled\<rparr>)
                  else Inr (payload\<lparr>rsUser := user2,
                              rsStatus := password_status c usr (rqPassword request)\<rparr>)))))"

section \<open>Results\<close>

lemma crd_result:
  assumes "crd_Authenticate c rq = Inr rs"
  shows "uLogin (rsUser rs) = rqLogin rq"
    and "rsStatus rs =
      (case getUser (k8sClient c) \<lparr>Namespace = userNamespace c, ObjName = rqLogin rq\<rparr> of
         Inl err \<Rightarrow> UserNotFound
       | Inr usr \<Rightarrow>
           if BoolPtrFalse (usDisabled usr) then Disabled else password_status c usr (rqPassword rq))"
    and "rsDetails rs = []"
  using assms
  by (auto simp: crd_Authenticate_def InitUser_def Let_def
      split: sum.splits prod.splits kerr.splits if_splits)

interpretation crd: authenticator "crd_Authenticate c" for c
proof
  fix rq rs assume "crd_Authenticate c rq = Inr rs"
  note res = crd_result [OF this]
  show "uLogin (rsUser rs) = rqLogin rq" by (rule res(1))
  show "wf_status (rsStatus rs)"
    unfolding res(2) by (auto simp: password_status_def split: sum.splits)
  show "\<not> password_tested (rsStatus rs)" if "rqPassword rq = []"
    unfolding res(2) using that
    by (auto simp: password_status_def password_tested_def split: sum.splits)
qed

text \<open>The claims a resource contributes, when they are a JSON object, \<^verbatim>\<open>null\<close> or absent.\<close>

definition decoded :: "raw_claims \<Rightarrow> claims option" where
  "decoded b = (case b of None \<Rightarrow> Some [] | Some raw \<Rightarrow> json_into_map raw [])"

lemma MergeMaps_Nil_right [simp]: "wf_gomap a \<Longrightarrow> MergeMaps a [] = a"
  by (simp add: MergeMaps_def)

lemma merge_decoded:
  "wf_claims a \<Longrightarrow> decoded b = Some m \<Longrightarrow> merge (Some a) b = (Some (MergeMaps a m), False)"
  by (auto simp: merge_def decoded_def split: option.splits)

lemma wf_decoded: "decoded b = Some m \<Longrightarrow> wf_claims m"
  by (auto simp: decoded_def split: option.splits intro: wf_json_into_map [OF wf_claims_Nil])

text \<open>The claims of the group a binding names; a group that does not exist has none.\<close>

definition group_claims :: "crdAuthenticator \<Rightarrow> GroupBindingSpec \<Rightarrow> claims option" where
  "group_claims c binding =
     (case getGroup (k8sClient c) \<lparr>Namespace = userNamespace c, ObjName = gbGroup binding\<rparr> of
        Inr g \<Rightarrow> decoded (gsClaims g)
      | Inl err \<Rightarrow> Some [])"

lemma wf_group_claims: "group_claims c b = Some m \<Longrightarrow> wf_claims m"
  by (auto simp: group_claims_def split: sum.splits intro: wf_decoded)

lemma bindingLoop_groups:
  "bindingLoop c bs groups claims = Inr (gs, cs) \<Longrightarrow> gs = groups @ map gbGroup bs"
  by (induction c bs groups claims rule: bindingLoop.induct)
    (auto split: sum.splits kerr.splits)

lemma bindingLoop_claims:
  assumes "bindingLoop c bs groups (Some a) = Inr (gs, cs)" "wf_claims a"
    and "those (map (group_claims c) bs) = Some ms"
  shows "cs = Some (foldl MergeMaps a ms) \<and> wf_claims (foldl MergeMaps a ms)"
  using assms
proof (induction bs arbitrary: groups a ms)
  case (Cons b bs)
  then obtain m ms' where m: "group_claims c b = Some m" "those (map (group_claims c) bs) = Some ms'" "ms = m # ms'"
    by (auto split: option.splits)
  have "bindingLoop c bs (groups @ [gbGroup b]) (Some (MergeMaps a m)) = Inr (gs, cs)"
    using Cons.prems(1,2) m(1)
    by (auto simp: group_claims_def merge_decoded split: sum.splits kerr.splits)
  from Cons.IH [OF this] show ?case
    using Cons.prems(2) m wf_group_claims by auto
qed simp

lemma bindingLoop_error:
  "(\<exists>e. bindingLoop c bs groups claims = Inl e) \<longleftrightarrow>
     (\<exists>b \<in> set bs. \<exists>t. getGroup (k8sClient c) \<lparr>Namespace = userNamespace c, ObjName = gbGroup b\<rparr> = Inl (KError t))"
  by (induction c bs groups claims rule: bindingLoop.induct)
    (auto split: sum.splits kerr.splits)

abbreviation user_of :: "crdAuthenticator \<Rightarrow> string \<Rightarrow> kerr + UserSpec" where
  "user_of c login \<equiv> getUser (k8sClient c) \<lparr>Namespace = userNamespace c, ObjName = login\<rparr>"

lemma crd_checked:
  assumes "crd_Authenticate c rq = Inr rs" "rsStatus rs = PasswordChecked"
  shows "\<exists>usr. user_of c (rqLogin rq) = Inr usr \<and> \<not> BoolPtrFalse (usDisabled usr) \<and> usPasswordHash usr \<noteq> []
    \<and> compareHash c (usPasswordHash usr) (rqPassword rq)"
  using crd_result(2) [OF assms(1)] assms(2)
  by (auto simp: password_status_def split: sum.splits if_splits)

text \<open>
  C6: when the user server accepts, rejects or fails.  A password is reported checked exactly when the
  user exists, is not disabled, has a hash, the request has a password and bcrypt accepts the pair; the
  request fails exactly when the bindings cannot be listed or the user or one of the bound groups cannot
  be read for another reason than being absent.
\<close>

theorem crd_outcome:
  "(\<forall>rs. crd_Authenticate c rq = Inr rs \<longrightarrow>
      (rsStatus rs = PasswordChecked \<longleftrightarrow>
        (\<exists>usr. user_of c (rqLogin rq) = Inr usr \<and> usDisabled usr \<noteq> Some True \<and> usPasswordHash usr \<noteq> []
           \<and> rqPassword rq \<noteq> [] \<and> compareHash c (usPasswordHash usr) (rqPassword rq))))
    \<and> ((\<exists>e. crd_Authenticate c rq = Inl e) \<longleftrightarrow>
        (case listBindings (k8sClient c) (userNamespace c) (rqLogin rq) of
           Inl err \<Rightarrow> True
         | Inr bs \<Rightarrow> (\<exists>t. user_of c (rqLogin rq) = Inl (KError t))
             \<or> (\<exists>b \<in> set bs. \<exists>t. getGroup (k8sClient c)
                   \<lparr>Namespace = userNamespace c, ObjName = gbGroup b\<rparr> = Inl (KError t))))"
proof (intro conjI allI impI)
  fix rs assume "crd_Authenticate c rq = Inr rs"
  from crd_result(2) [OF this]
  show "rsStatus rs = PasswordChecked \<longleftrightarrow>
      (\<exists>usr. user_of c (rqLogin rq) = Inr usr \<and> usDisabled usr \<noteq> Some True \<and> usPasswordHash usr \<noteq> []
         \<and> rqPassword rq \<noteq> [] \<and> compareHash c (usPasswordHash usr) (rqPassword rq))"
    by (auto simp: password_status_def BoolPtrFalse_def split: sum.splits option.splits)
next
  show "(\<exists>e. crd_Authenticate c rq = Inl e) \<longleftrightarrow>
        (case listBindings (k8sClient c) (userNamespace c) (rqLogin rq) of
           Inl err \<Rightarrow> True
         | Inr bs \<Rightarrow> (\<exists>t. user_of c (rqLogin rq) = Inl (KError t))
             \<or> (\<exists>b \<in> set bs. \<exists>t. getGroup (k8sClient c)
                   \<lparr>Namespace = userNamespace c, ObjName = gbGroup b\<rparr> = Inl (KError t)))"
  proof (cases "listBindings (k8sClient c) (userNamespace c) (rqLogin rq)")
    case (Inr bs)
    have "(\<exists>e. crd_Authenticate c rq = Inl e) \<longleftrightarrow>
      (\<exists>e. bindingLoop c (sort_key gbGroup bs) [] (Some []) = Inl e)
        \<or> (\<exists>t. user_of c (rqLogin rq) = Inl (KError t))"
      using Inr by (auto simp: crd_Authenticate_def InitUser_def Let_def
          split: sum.splits prod.splits kerr.splits)
    then show ?thesis using Inr by (auto simp: bindingLoop_error)
  qed (simp add: crd_Authenticate_def)
qed

text \<open>
  C27: groups and claims of a user.  The groups are those of the user's bindings, sorted; the claims are
  the deep merge of the claims of these groups in that order and, last, of the user's own claims, which
  therefore win.  This holds for a user that is disabled or has no password as well.
\<close>

theorem crd_groups_and_claims:
  assumes "crd_Authenticate c rq = Inr rs"
    and "listBindings (k8sClient c) (userNamespace c) (rqLogin rq) = Inr bs"
    and "those (map (group_claims c) (sort_key gbGroup bs)) = Some ms"
    and "user_of c (rqLogin rq) = Inr usr" "decoded (usClaims usr) = Some um"
  shows "uGroups (rsUser rs) = sort (map gbGroup bs)
    \<and> uClaims (rsUser rs) = Some (foldl MergeMaps [] (ms @ [um]))"
proof -
  obtain gs cs where loop: "bindingLoop c (sort_key gbGroup bs) [] (Some []) = Inr (gs, cs)"
    using assms(1,2) by (auto simp: crd_Authenticate_def InitUser_def Let_def split: sum.splits prod.splits)
  have "gs = sort (map gbGroup bs)"
    using bindingLoop_groups [OF loop] by (simp add: map_sort_key)
  moreover have "cs = Some (foldl MergeMaps [] ms)" "wf_claims (foldl MergeMaps [] ms)"
    using bindingLoop_claims [OF loop _ assms(3)] by simp_all
  ultimately show ?thesis
    using assms(1,2,4,5) loop
    by (auto simp: crd_Authenticate_def InitUser_def Let_def merge_decoded split: if_splits)
qed

text \<open>
  Claims that are not a JSON object are not an error of the user server.  The resource schema accepts
  any JSON there, the error of \<open>merge\<close> is dropped, and such a user ends up with no claims at all, those
  of the groups included.
\<close>

theorem crd_bad_claims_erase:
  assumes "crd_Authenticate c rq = Inr rs" "user_of c (rqLogin rq) = Inr usr"
    and "usClaims usr = Some raw" "json_into_map raw [] = None"
  shows "uClaims (rsUser rs) = None"
  using assms
  by (auto simp: crd_Authenticate_def InitUser_def Let_def merge_def split: sum.splits if_splits)

section \<open>A concrete cluster\<close>

definition sample_user :: UserSpec where
  "sample_user = \<lparr>usName = ''Jim'', usEmails = [''jim@x''], usPasswordHash = ''h'', usUid = Some 2001,
     usComment = [], usClaims = Some (Some (JObj [(''role'', JStr ''boss'')])), usDisabled = None\<rparr>"

definition sample_crd :: crdAuthenticator where
  "sample_crd = \<lparr>k8sClient =
       \<lparr>listBindings = (\<lambda>ns u. Inr (if u = ''jim'' then [\<lparr>gbUser = u, gbGroup = ''ops''\<rparr>, \<lparr>gbUser = u, gbGroup = ''devs''\<rparr>] else [])),
        getGroup = (\<lambda>k. if ObjName k = ''devs''
                       then Inr \<lparr>gsComment = [], gsClaims = Some (Some (JObj [(''role'', JStr ''dev''), (''floor'', JInt 2)]))\<rparr>
                       else Inl KNotFound),
        getUser = (\<lambda>k. if ObjName k = ''jim'' then Inr sample_user
                      else if ObjName k = ''bad'' then Inr (sample_user\<lparr>usClaims := Some (Some (JInt 1))\<rparr>)
                      else Inl KNotFound)\<rparr>,
     userNamespace = ''users'', compareHash = (\<lambda>h p. p = ''secret'')\<rparr>"

lemma sample_crd_run:
  "\<exists>rs. crd_Authenticate sample_crd \<lparr>rqLogin = ''jim'', rqPassword = pwd\<rparr> = Inr rs"
  "\<exists>rs. crd_Authenticate sample_crd \<lparr>rqLogin = ''bad'', rqPassword = pwd\<rparr> = Inr rs"
  by (simp_all add: crd_Authenticate_def sample_crd_def sample_user_def InitUser_def Let_def
      less_eq_char_def)

theorem crd_outcome_witness:
  "\<exists>rs. crd_Authenticate sample_crd \<lparr>rqLogin = ''jim'', rqPassword = ''secret''\<rparr> = Inr rs
     \<and> rsStatus rs = PasswordChecked"
  using crd_outcome [of sample_crd "\<lparr>rqLogin = ''jim'', rqPassword = ''secret''\<rparr>"]
    sample_crd_run(1) [of "''secret''"]
  by (auto simp: sample_crd_def sample_user_def)

theorem crd_groups_and_claims_witness:
  "\<exists>rs. crd_Authenticate sample_crd \<lparr>rqLogin = ''jim'', rqPassword = []\<rparr> = Inr rs
     \<and> uGroups (rsUser rs) = [''devs'', ''ops'']
     \<and> uClaims (rsUser rs) = Some [(''role'', VStr ''boss''), (''floor'', VNum 2)]"
proof -
  let ?rq = "\<lparr>rqLogin = ''jim'', rqPassword = []\<rparr>"
  let ?bs = "[\<lparr>gbUser = ''jim'', gbGroup = ''ops''\<rparr>, \<lparr>gbUser = ''jim'', gbGroup = ''devs''\<rparr>]"
  let ?ms = "[[(''role'', VStr ''dev''), (''floor'', VNum 2)], []]"
  obtain rs where rs: "crd_Authenticate sample_crd ?rq = Inr rs" using sample_crd_run(1) by blast
  have bs: "listBindings (k8sClient sample_crd) (userNamespace sample_crd) (rqLogin ?rq) = Inr ?bs"
    by (simp add: sample_crd_def)
  have ms: "those (map (group_claims sample_crd) (sort_key gbGroup ?bs)) = Some ?ms"
    by (simp add: sample_crd_def group_claims_def decoded_def less_eq_char_def)
  have usr: "user_of sample_crd (rqLogin ?rq) = Inr sample_user"
    "decoded (usClaims sample_user) = Some [(''role'', VStr ''boss'')]"
    by (simp_all add: sample_crd_def sample_user_def decoded_def)
  show ?thesis
    using crd_groups_and_claims [OF rs bs ms usr] rs
    by (simp add: MergeMaps_def gcopy_def less_eq_char_def)
qed

theorem crd_bad_claims_erase_witness:
  "\<exists>rs. crd_Authenticate sample_crd \<lparr>rqLogin = ''bad'', rqPassword = []\<rparr> = Inr rs
     \<and> uClaims (rsUser rs) = None"
  using crd_bad_claims_erase [of sample_crd "\<lparr>rqLogin = ''bad'', rqPassword = []\<rparr>" _
      "sample_user\<lparr>usClaims := Some (Some (JInt 1))\<rparr>" "Some (JInt 1)"] sample_crd_run(2) [of "[]"]
  by (auto simp: sample_crd_def)

end
