(* ===== verification/Commands.thy ===== *)
theory Commands
  imports Background OidcServer Ldap Ucrd
begin

text \<open>
  The commands that start the servers (\<^verbatim>\<open>cmd/oidc/oidc.go\<close>, \<^verbatim>\<open>cmd/ucrd/ucrd.go\<close>, \<^verbatim>\<open>cmd/merger/merger.go\<close>,
  \<^verbatim>\<open>cmd/audit/audit.go\<close>, \<^verbatim>\<open>cmd/ldap/ldap.go\<close>) and the logger they begin with (\<^verbatim>\<open>internal/misc/logger.go\<close>).

  A command is the list of what it checks and of what it does, in its order.  \<open>execute\<close> runs the list: a
  check that fails and a step that the outside world lets fail end the process.  What a step needs is in the
  step itself: the options of the manager, the settings of the server, the routes.  Printing the flags and
  what is logged are left out.
\<close>

section \<open>The logger\<close>

record LogConfig =
  lcLevel :: string
  lcMode :: string

datatype LogHandler = JSONHandler int | TextHandler int

text \<open>\<^verbatim>\<open>UnmarshalText\<close> of a level: a name in any case, with an optional offset such as \<^verbatim>\<open>WARN+2\<close>.\<close>

definition level_name :: "string \<Rightarrow> int option" where
  "level_name s =
     (if s = ''DEBUG'' then Some (- 4)
      else if s = ''INFO'' then Some 0
      else if s = ''WARN'' then Some 4
      else if s = ''ERROR'' then Some 8
      else None)"

definition parse_level :: "string \<Rightarrow> int option" where
  "parse_level s =
     (let isSign = (\<lambda>c. c = CHR ''+'' \<or> c = CHR ''-'');
          name = takeWhile (\<lambda>c. \<not> isSign c) s;
          rest = dropWhile (\<lambda>c. \<not> isSign c) s
      in case (if rest = [] then Some 0 else Atoi rest) of
           None \<Rightarrow> None
         | Some offset \<Rightarrow> map_option (\<lambda>l. wrap64 (l + offset)) (level_name (ToUpper name)))"

definition NewLogger :: "LogConfig option \<Rightarrow> string + LogHandler" where
  "NewLogger logConfig =
     (case logConfig of
        None \<Rightarrow> Inl ''logConfig cannot be nil''
      | Some c \<Rightarrow>
          if lcLevel c = [] then Inl ''log level cannot be empty''
          else
            (case parse_level (lcLevel c) of
               None \<Rightarrow> Inl (''invalid log level: '' @ lcLevel c @ ''. Valid levels are: DEBUG, INFO, WARN, ERROR'')
             | Some level \<Rightarrow>
                 if lcMode c = [] then Inl ''log mode cannot be empty''
                 else if map lower (lcMode c) = ''json'' then Inr (JSONHandler level)
                 else if map lower (lcMode c) = ''text'' then Inr (TextHandler level)
                 else Inl (''invalid log mode: '' @ lcMode c @ ''. Valid modes are: json, text'')))"

section \<open>What a command does\<close>

datatype tlsOption = DisableHTTP2 | CertificateFrom string string

datatype cacheScope = OnlyKindIn string string | DefaultNamespaces string

record ManagerOptions =
  moMetricsAddr :: string
  moMetricsSecure :: bool
  moMetricsFilter :: bool
  moMetricsTls :: "tlsOption list"
  moWebhookTls :: "tlsOption list"
  moWebhookPort :: int
  moProbeAddr :: string
  moLeaderElection :: bool
  moLeaderElectionID :: string
  moCache :: cacheScope

record SessionManager =
  smKubeStore :: "string option"
  smJsonCodec :: bool
  smLifetime :: int
  smIdleTimeout :: int
  smCookieName :: string
  smHttpOnly :: bool
  smSameSiteLax :: bool
  smPersist :: bool
  smHashTokenInStore :: bool
  smSecure :: bool

record ServerSettings =
  ssIssuer :: string
  ssResources :: string
  ssLoginTemplate :: string
  ssIndexTemplate :: string
  ssWelcomeTemplate :: string
  ssSsoSessions :: SessionManager
  ssLoginSessions :: SessionManager
  ssPostLogoutURL :: string
  ssKeySecret :: "string \<times> string"
  ssAccessTokenLifespan :: int
  ssRefreshTokenLifespan :: int
  ssAllowPasswordGrant :: bool
  ssEnforcePKCE :: bool
  ssAllowPKCEPlain :: bool
  ssJwtAccessToken :: bool
  ssDefaultStyle :: string
  ssSsoMode :: SsoMode
  ssDefaultLoginLabel :: string
  ssDumpUpstreamClaims :: bool

text \<open>What answers under a route: an identity handler with its validators and brute force protection, or the OIDC server.\<close>

datatype endpoint =
    IdentityEndpoint "validator list" bool
  | FaviconEndpoint string
  | OidcEndpoints ServerSettings

type_synonym routes = "(string \<times> endpoint) list"

datatype runnable =
    CertWatcherLoop string string
  | SsoCleanerLoop string int
  | HttpServerLoop string HttpdConfig routes

datatype step =
    ClusterConfig
  | NewCertWatcher string string
  | NewManager ManagerOptions
  | IndexField string string
  | NewController string "string list"
  | SetupWebhook string
  | AddRunnable runnable
  | AddCheck string
  | NewKubeClient
  | NewClientSet
  | ParseTemplate string
  | SetupOidcServer ServerSettings
  | GoAuditCleaner string int int
  | StartManager
  | ServeHttp string HttpdConfig routes

datatype exit_status = Exit nat string

text \<open>A check with its exit code, a step with the exit code and message of its failure, and a step that cannot fail.\<close>

datatype planned = Require "string option" nat | Perform step nat string | Spawn step

text \<open>The steps that were begun, and how the process ended if it did; only the last step of a process that ended can have failed.\<close>

fun execute :: "(step \<Rightarrow> string option) \<Rightarrow> planned list \<Rightarrow> step list \<times> exit_status option" where
  "execute world [] = ([], None)"
| "execute world (Require pr code # ps) =
     (case pr of Some msg \<Rightarrow> ([], Some (Exit code msg)) | None \<Rightarrow> execute world ps)"
| "execute world (Perform a code msg # ps) =
     (case world a of
        Some err \<Rightarrow> ([a], Some (Exit code (msg @ '': '' @ err)))
      | None \<Rightarrow> (let (begun, out) = execute world ps in (a # begun, out)))"
| "execute world (Spawn a # ps) = (let (begun, out) = execute world ps in (a # begun, out))"

definition problem :: "string \<Rightarrow> string + 'a \<Rightarrow> string option" where
  "problem msg res = (case res of Inl err \<Rightarrow> Some (msg @ '': '' @ err) | Inr x \<Rightarrow> None)"

definition required :: "string \<Rightarrow> string \<Rightarrow> string option" where
  "required v msg = (if v = [] then Some msg else None)"

definition loggerCheck :: "LogConfig \<Rightarrow> planned" where
  "loggerCheck c = Require (problem ''Unable to load logging configuration'' (NewLogger (Some c))) 2"

definition identityRoutes :: "bool \<Rightarrow> routes" where
  "identityRoutes bfaProtection = [(''/v1/identity'', IdentityEndpoint [OnlyGetValidator] bfaProtection)]"

section \<open>The manager of the ucrd and oidc commands\<close>

record ManagerFlags =
  mfLog :: LogConfig
  mfProbeAddr :: string
  mfLeaderElection :: bool
  mfEnableHTTP2 :: bool
  mfEnableWebhook :: bool
  mfWebhookPort :: int
  mfWebhookCertPath :: string
  mfWebhookCertName :: string
  mfWebhookCertKey :: string
  mfMetricsAddr :: string
  mfSecureMetrics :: bool
  mfMetricsCertPath :: string
  mfMetricsCertName :: string
  mfMetricsCertKey :: string

definition certFiles :: "string \<Rightarrow> string \<Rightarrow> string \<Rightarrow> (string \<times> string) option" where
  "certFiles dir cert key = (if length dir > 0 then Some (Join dir cert, Join dir key) else None)"

definition webhookCert :: "'a ManagerFlags_scheme \<Rightarrow> (string \<times> string) option" where
  "webhookCert f = certFiles (mfWebhookCertPath f) (mfWebhookCertName f) (mfWebhookCertKey f)"

definition metricsCert :: "'a ManagerFlags_scheme \<Rightarrow> (string \<times> string) option" where
  "metricsCert f = certFiles (mfMetricsCertPath f) (mfMetricsCertName f) (mfMetricsCertKey f)"

definition tlsOptions :: "'a ManagerFlags_scheme \<Rightarrow> (string \<times> string) option \<Rightarrow> tlsOption list" where
  "tlsOptions f cert =
     (if \<not> mfEnableHTTP2 f then [DisableHTTP2] else [])
     @ (case cert of Some (c, k) \<Rightarrow> [CertificateFrom c k] | None \<Rightarrow> [])"

definition managerOptions :: "'a ManagerFlags_scheme \<Rightarrow> cacheScope \<Rightarrow> ManagerOptions" where
  "managerOptions f scope =
     \<lparr>moMetricsAddr = mfMetricsAddr f, moMetricsSecure = mfSecureMetrics f, moMetricsFilter = mfSecureMetrics f,
      moMetricsTls = tlsOptions f (metricsCert f), moWebhookTls = tlsOptions f (webhookCert f),
      moWebhookPort = mfWebhookPort f, moProbeAddr = mfProbeAddr f, moLeaderElection = mfLeaderElection f,
      moLeaderElectionID = ''33b8e6ab.kubotal.io'', moCache = scope\<rparr>"

definition watcherSteps :: "(string \<times> string) option \<Rightarrow> string \<Rightarrow> planned list" where
  "watcherSteps cert msg =
     (case cert of Some (c, k) \<Rightarrow> [Perform (NewCertWatcher c k) 1 msg] | None \<Rightarrow> [])"

definition managerSteps :: "'a ManagerFlags_scheme \<Rightarrow> cacheScope \<Rightarrow> planned list" where
  "managerSteps f scope =
     watcherSteps (webhookCert f) ''Failed to initialize webhook certificate watcher''
     @ watcherSteps (metricsCert f) ''to initialize metrics certificate watcher''
     @ [Perform ClusterConfig 1 ''unable to get kubeconfig'',
        Perform (NewManager (managerOptions f scope)) 1 ''unable to start manager'']"

definition webhookSteps :: "'a ManagerFlags_scheme \<Rightarrow> string list \<Rightarrow> planned list" where
  "webhookSteps f kinds =
     (if mfEnableWebhook f then map (\<lambda>k. Perform (SetupWebhook k) 1 ''unable to create webhook'') kinds else [])"

definition addWatcher :: "(string \<times> string) option \<Rightarrow> string \<Rightarrow> planned list" where
  "addWatcher cert msg =
     (case cert of Some (c, k) \<Rightarrow> [Perform (AddRunnable (CertWatcherLoop c k)) 1 msg] | None \<Rightarrow> [])"

definition checkSteps :: "'a ManagerFlags_scheme \<Rightarrow> planned list" where
  "checkSteps f =
     addWatcher (metricsCert f) ''unable to add metrics certificate watcher to manager''
     @ addWatcher (webhookCert f) ''unable to add webhook certificate watcher to manager''
     @ [Perform (AddCheck ''healthz'') 1 ''unable to set up health check'',
        Perform (AddCheck ''readyz'') 1 ''unable to set up ready check'']"

section \<open>The authenticators that call another server\<close>

record httpProvider =
  hpHttpClient :: HttpClient

definition httpprovider_New :: "HttpEnv \<Rightarrow> HttpConfig \<Rightarrow> string + httpProvider" where
  "httpprovider_New env conf =
     (case httpclient_New env conf of Inl err \<Rightarrow> Inl err | Inr cl \<Rightarrow> Inr \<lparr>hpHttpClient = cl\<rparr>)"

record auditAuthenticator =
  aaHttpClient :: HttpClient
  aaNamespace :: string

definition audit_New :: "HttpEnv \<Rightarrow> HttpConfig \<Rightarrow> string \<Rightarrow> string + auditAuthenticator" where
  "audit_New env conf namespace =
     (case httpclient_New env conf of
        Inl err \<Rightarrow> Inl err
      | Inr cl \<Rightarrow> Inr \<lparr>aaHttpClient = cl, aaNamespace = namespace\<rparr>)"

lemma authenticators_made [simp]:
  "(\<exists>p. httpprovider_New env conf = Inr p) \<longleftrightarrow> (\<exists>c. httpclient_New env conf = Inr c)"
  "(\<exists>p. audit_New env conf namespace = Inr p) \<longleftrightarrow> (\<exists>c. httpclient_New env conf = Inr c)"
  by (simp_all add: httpprovider_New_def audit_New_def split: sum.split)

section \<open>cmd/ucrd/ucrd.go\<close>

record UcrdFlags = ManagerFlags +
  ufHttp :: HttpdConfig
  ufBfaProtection :: bool
  ufUsersNamespace :: string

definition userServerSteps :: "UcrdFlags \<Rightarrow> planned list" where
  "userServerSteps f =
     [Perform (AddRunnable (HttpServerLoop ''userIdSrv'' (ufHttp f) (identityRoutes (ufBfaProtection f)))) 1
        ''unable to add oidc server to the manager'',
      Perform (IndexField ''GroupBinding'' ''userkey'') 1 ''ERROR'',
      Perform StartManager 1 ''problem running manager'']"

definition ucrd_Run :: "UcrdFlags \<Rightarrow> planned list" where
  "ucrd_Run f =
     [loggerCheck (mfLog f),
      Require (required (ufUsersNamespace f) ''usersNamespace must be specified and non null'') 1]
     @ managerSteps f (DefaultNamespaces (ufUsersNamespace f))
     @ webhookSteps f [''User'', ''Group'', ''GroupBinding'']
     @ checkSteps f
     @ userServerSteps f"

section \<open>cmd/oidc/oidc.go\<close>

record OidcFlags = ManagerFlags +
  ofHttp :: HttpdConfig
  ofIssuer :: string
  ofResources :: string
  ofPostLogoutURL :: string
  ofJwtKeySecretName :: string
  ofJwtKeySecretNamespace :: string
  ofAllowPasswordGrant :: bool
  ofEnforcePKCE :: bool
  ofAllowPKCEPlain :: bool
  ofJwtAccessToken :: bool
  ofClientPrivilegedNamespace :: string
  ofDefaultStyle :: string
  ofDefaultLoginLabel :: string
  ofDumpUpstreamClaims :: bool
  ofSsoNamespace :: string
  ofStickySso :: bool
  ofSsoLifetime :: int
  ofCleanupPeriod :: int
  ofIdProvider :: HttpConfig
  ofUpstreamNamespace :: string
  ofSsoModeStr :: string

definition parseSsoMode :: "string \<Rightarrow> string + SsoMode" where
  "parseSsoMode s =
     (let m = TrimSpace s
      in if m = ''always'' then Inr SsoAlways
         else if m = ''never'' then Inr SsoNever
         else if m = ''onDemand'' then Inr SsoOnDemand
         else if m = [] then Inl ''ssoMode is required (value: always|never|onDemand)''
         else Inl ''invalid ssoMode. Must be always|never|onDemand'')"

definition oidcFlagChecks :: "OidcFlags \<Rightarrow> planned list" where
  "oidcFlagChecks f =
     [Require (required (ofSsoNamespace f) ''ssoNamespace must be specified and non null'') 1,
      Require (required (ofUpstreamNamespace f)
        ''upstreamNamespace must be specified and non-empty (namespace where all UpstreamProvider resources live)'') 1,
      Require (required (ofPostLogoutURL f) ''postLogoutURL must be specified and non null'') 1,
      Require (required (ofJwtKeySecretNamespace f) ''jwtKeySecretNamespace must be specified and non null'') 1,
      Require (required (ofUpstreamNamespace f) ''upstreamNamespace must be specified and non null'') 1]"

text \<open>The two session managers; \<open>scs\<close> is what \<^verbatim>\<open>scs.New\<close> returns.\<close>

definition isHttps :: "string \<Rightarrow> bool" where
  "isHttps url \<longleftrightarrow> take 8 url = ''https://''"

definition ssoSessionManager :: "SessionManager \<Rightarrow> OidcFlags \<Rightarrow> SessionManager" where
  "ssoSessionManager scs f =
     scs\<lparr>smKubeStore := Some (ofSsoNamespace f), smJsonCodec := True, smLifetime := ofSsoLifetime f,
       smCookieName := ''kubauth_sso'', smHttpOnly := True, smSameSiteLax := True, smPersist := ofStickySso f,
       smHashTokenInStore := True, smSecure := (if isHttps (ofIssuer f) then True else smSecure scs)\<rparr>"

definition loginSessionManager :: "SessionManager \<Rightarrow> OidcFlags \<Rightarrow> SessionManager" where
  "loginSessionManager scs f =
     scs\<lparr>smIdleTimeout := 30 * 60 * second, smLifetime := 2 * 3600 * second, smCookieName := ''kubauth_login'',
       smHttpOnly := True, smSameSiteLax := True, smPersist := False, smHashTokenInStore := True,
       smSecure := (if isHttps (ofIssuer f) then True else smSecure scs)\<rparr>"

definition templateFile :: "OidcFlags \<Rightarrow> string \<Rightarrow> string" where
  "templateFile f name = Join (Join (ofResources f) ''templates'') name"

definition serverSettings :: "SessionManager \<Rightarrow> OidcFlags \<Rightarrow> SsoMode \<Rightarrow> ServerSettings" where
  "serverSettings scs f mo =
     \<lparr>ssIssuer = ofIssuer f, ssResources = ofResources f,
      ssLoginTemplate = templateFile f ''login.gohtml'', ssIndexTemplate = templateFile f ''index.gohtml'',
      ssWelcomeTemplate = templateFile f ''upstream-welcome.gohtml'',
      ssSsoSessions = ssoSessionManager scs f, ssLoginSessions = loginSessionManager scs f,
      ssPostLogoutURL = ofPostLogoutURL f, ssKeySecret = (ofJwtKeySecretNamespace f, ofJwtKeySecretName f),
      ssAccessTokenLifespan = 3600 * second, ssRefreshTokenLifespan = 3600 * second,
      ssAllowPasswordGrant = ofAllowPasswordGrant f, ssEnforcePKCE = ofEnforcePKCE f, ssAllowPKCEPlain = ofAllowPKCEPlain f,
      ssJwtAccessToken = ofJwtAccessToken f, ssDefaultStyle = ofDefaultStyle f, ssSsoMode = mo,
      ssDefaultLoginLabel = ofDefaultLoginLabel f, ssDumpUpstreamClaims = ofDumpUpstreamClaims f\<rparr>"

definition oidcRoutes :: "ServerSettings \<Rightarrow> routes" where
  "oidcRoutes settings =
     map (\<lambda>p. (p, OidcEndpoints settings))
       [''/oauth2/auth'', ''/oauth2/login'', ''/oauth2/logout'', ''/oauth2/token'', ''/.well-known/openid-configuration'',
        ''/userinfo'', ''/.well-known/jwks.json'', ''/oauth2/introspect'', ''/index'', ''/upstream/go'', ''/upstream/callback'',
        ''/upstream/welcome'', ''/static/'']"

definition controllerSteps :: "planned list" where
  "controllerSteps =
     [Perform (IndexField ''OidcClient'' ''secretIndexOnOidcClient'') 1 ''unable to index oidcClient by secret'',
      Perform (NewController ''OidcClient'' [''Secret'']) 1 ''unable to create controller'',
      Perform (IndexField ''UpstreamProvider'' ''secretIndexOnUpstreamProvider'') 1 ''unable to index upstreamProvider by secret'',
      Perform (NewController ''UpstreamProvider'' [''Secret'']) 1 ''unable to create controller'']"

definition serverSteps :: "SessionManager \<Rightarrow> OidcFlags \<Rightarrow> SsoMode \<Rightarrow> planned list" where
  "serverSteps scs f mo =
     (let settings = serverSettings scs f mo
      in [Perform ClusterConfig 1 ''unable to get kubeconfig'',
          Perform NewKubeClient 1 ''unable to create kube client'']
         @ (if ofCleanupPeriod f > 0
            then [Perform (AddRunnable (SsoCleanerLoop (ofSsoNamespace f) (ofCleanupPeriod f))) 1
                    ''unable to add SsoCleaner to the manager''] else [])
         @ [Perform (ParseTemplate (ssLoginTemplate settings)) 2 ''panic'',
            Perform (ParseTemplate (ssIndexTemplate settings)) 2 ''panic'',
            Perform (ParseTemplate (ssWelcomeTemplate settings)) 2 ''panic'',
            Perform (SetupOidcServer settings) 1 ''unable to setup oidc server'',
            Perform (AddRunnable (HttpServerLoop ''oidcSrv'' (ofHttp f)
                ((''GET /favicon.ico'', FaviconEndpoint (Join (Join (ofResources f) ''static'') ''favicon.ico''))
                 # oidcRoutes settings))) 1
              ''unable to add oidc server to the manager'',
            Perform StartManager 1 ''problem running manager''])"

definition oidc_Run :: "HttpEnv \<Rightarrow> SessionManager \<Rightarrow> OidcFlags \<Rightarrow> planned list" where
  "oidc_Run http scs f =
     loggerCheck (mfLog f) # oidcFlagChecks f
     @ (case parseSsoMode (ofSsoModeStr f) of
          Inl err \<Rightarrow> [Require (Some err) 1]
        | Inr mo \<Rightarrow>
            managerSteps f (OnlyKindIn ''UpstreamProvider'' (ofUpstreamNamespace f))
            @ [Require (problem ''unable to initialize user db'' (httpprovider_New http (ofIdProvider f))) 1]
            @ controllerSteps
            @ webhookSteps f [''OidcClient'', ''UpstreamProvider'']
            @ checkSteps f
            @ serverSteps scs f mo)"

section \<open>The other identity servers\<close>

record AuditFlags =
  afLog :: LogConfig
  afHttp :: HttpdConfig
  afBfaProtection :: bool
  afIdProvider :: HttpConfig
  afNamespace :: string
  afRecordLifetime :: int
  afCleanupPeriod :: int

definition audit_Run :: "HttpEnv \<Rightarrow> AuditFlags \<Rightarrow> planned list" where
  "audit_Run http f =
     [loggerCheck (afLog f),
      Require (required (afNamespace f) ''namespace must be specified and non null'') 1,
      Perform ClusterConfig 1 ''unable to get kubeconfig'',
      Perform NewKubeClient 1 ''Unable to create kubernetes client'',
      Require (problem ''Unable to create authenticator'' (audit_New http (afIdProvider f) (afNamespace f))) 2]
     @ (if afCleanupPeriod f > 0
        then [Spawn (GoAuditCleaner (afNamespace f) (afRecordLifetime f) (afCleanupPeriod f))] else [])
     @ [Perform (ServeHttp ''auditModule'' (afHttp f) (identityRoutes (afBfaProtection f))) 1 ''Error starting HTTP server'']"

record ConnectorFlags =
  kfLog :: LogConfig
  kfHttp :: HttpdConfig
  kfBfaProtection :: bool
  kfConfigFile :: string

text \<open>
  The merger and the LDAP connector read a configuration file first; \<open>load\<close> is \<^verbatim>\<open>LoadConfig\<close> on their
  surroundings.
\<close>

definition configProblem :: "string \<times> (config_error + 'c) \<Rightarrow> string option" where
  "configProblem loaded =
     (case loaded of (path, Inl err) \<Rightarrow> Some (''Unable to load configuration from '' @ path) | (path, Inr c) \<Rightarrow> None)"

type_synonym 'c loader = "string \<Rightarrow> 'c \<Rightarrow> string \<times> (config_error + 'c)"

definition merger_Run ::
  "IdProviderConfig list loader \<Rightarrow> (IdProviderConfig \<Rightarrow> string + transport) \<Rightarrow> ConnectorFlags \<Rightarrow> planned list" where
  "merger_Run load connect f =
     (let loaded = load (kfConfigFile f) []
      in [loggerCheck (kfLog f), Require (configProblem loaded) 2]
         @ (case snd loaded of
              Inl err \<Rightarrow> []
            | Inr providers \<Rightarrow>
                [Require (problem ''Unable to create authenticator'' (merger_New (map (\<lambda>c. (connect c, c)) providers))) 2,
                 Perform (ServeHttp ''mergerConnector'' (kfHttp f) (identityRoutes (kfBfaProtection f))) 1
                   ''Error starting HTTP server'']))"

definition zeroLdapConfig :: LdapConfig where
  "zeroLdapConfig =
     \<lparr>Host = [], Port = [], TimeoutSec = 0, InsecureNoSSL = False, InsecureSkipVerify = False, StartTLS = False,
      RootCaPath = [], RootCaData = [], RootCaSecret = [], RootCaSecretPath = [], ClientCert = [], ClientKey = [],
      BindDN = [], BindPW = [],
      UserSearchCfg = \<lparr>usrBaseDN = [], usrFilter = [], usrLoginAttr = [], usrScope = [], usrNumericalIdAttr = [],
        usrEmailAttr = [], usrCnAttr = []\<rparr>,
      GroupSearchCfg = \<lparr>grpBaseDN = [], grpFilter = [], grpScope = [], grpNameAttr = [], grpLinkUserAttr = [],
        grpLinkGroupAttr = []\<rparr>\<rparr>"

text \<open>\<^verbatim>\<open>path.Dir\<close>.\<close>

definition Dir :: "string \<Rightarrow> string" where
  "Dir p = Clean (rev (dropWhile (\<lambda>c. c \<noteq> CHR ''/'') (rev p)))"

record LdapFlags = ConnectorFlags +
  lfNamespace :: string

definition ldap_Run :: "LdapConfig loader \<Rightarrow> ldap_env \<Rightarrow> LdapFlags \<Rightarrow> planned list" where
  "ldap_Run load env f =
     (let loaded = load (kfConfigFile f) zeroLdapConfig
      in [loggerCheck (kfLog f), Require (configProblem loaded) 2]
         @ (case snd loaded of
              Inl err \<Rightarrow> []
            | Inr c \<Rightarrow>
                [Perform NewClientSet 1 ''Error creating Kubernetes client'',
                 Require (problem ''Unable to create authenticator'' (ldap_New env c (Dir (fst loaded)) (lfNamespace f))) 2,
                 Perform (ServeHttp ''ldapConnector'' (kfHttp f) (identityRoutes (kfBfaProtection f))) 1
                   ''Error starting HTTP server'']))"

section \<open>Default flags\<close>

record Ports =
  ptOidcEntry :: nat
  ptUcrdEntry :: nat
  ptLdapEntry :: nat
  ptMergerEntry :: nat
  ptLoggerEntry :: nat
  ptOidcHealthProbe :: nat
  ptOidcWebhook :: nat
  ptOidcMetrics :: nat
  ptUcrdHealthProbe :: nat
  ptUcrdWebhook :: nat
  ptUcrdMetrics :: nat

definition DefaultPorts :: Ports where
  "DefaultPorts =
     \<lparr>ptOidcEntry = 6801, ptUcrdEntry = 6802, ptLdapEntry = 6803, ptMergerEntry = 6804, ptLoggerEntry = 6805,
      ptOidcHealthProbe = 8110, ptOidcWebhook = 9443, ptOidcMetrics = 0,
      ptUcrdHealthProbe = 8111, ptUcrdWebhook = 9444, ptUcrdMetrics = 0\<rparr>"

definition port_address :: "nat \<Rightarrow> string" where
  "port_address p = '':'' @ nat_text p"

definition local_url :: "nat \<Rightarrow> string" where
  "local_url p = ''http://localhost:'' @ nat_text p"

definition default_log :: LogConfig where
  "default_log = \<lparr>lcLevel = ''INFO'', lcMode = ''text''\<rparr>"

definition default_httpd :: "string \<Rightarrow> nat \<Rightarrow> HttpdConfig" where
  "default_httpd addr port =
     \<lparr>hsBindAddr = addr, hsBindPort = port, hsTls = False, hsCertDir = [], hsCertName = ''tls.crt'', hsKeyName = ''tls.key'',
      hsDumpExchanges = 0, hsAllowedOrigins = []\<rparr>"

definition default_idp :: "nat \<Rightarrow> HttpConfig" where
  "default_idp port =
     \<lparr>hcBaseURL = local_url port, hcRootCaPaths = [], hcRootCaDatas = [], hcRootCaBytes = [], hcInsecureSkipVerify = False,
      hcDumpExchanges = False, hcHttpAuth = None, hcLabel = []\<rparr>"

definition metrics_address :: "nat \<Rightarrow> string" where
  "metrics_address port = (if port \<noteq> 0 then port_address port else ''0'')"

definition defaultOidcFlags :: OidcFlags where
  "defaultOidcFlags =
     \<lparr>mfLog = default_log, mfProbeAddr = port_address (ptOidcHealthProbe DefaultPorts), mfLeaderElection = True,
      mfEnableHTTP2 = False, mfEnableWebhook = True, mfWebhookPort = int (ptOidcWebhook DefaultPorts), mfWebhookCertPath = [],
      mfWebhookCertName = ''tls.crt'', mfWebhookCertKey = ''tls.key'', mfMetricsAddr = metrics_address (ptOidcMetrics DefaultPorts),
      mfSecureMetrics = True, mfMetricsCertPath = [], mfMetricsCertName = ''tls.crt'', mfMetricsCertKey = ''tls.key'',
      ofHttp = default_httpd ''0.0.0.0'' (ptOidcEntry DefaultPorts), ofIssuer = local_url (ptOidcEntry DefaultPorts),
      ofResources = ''resources'', ofPostLogoutURL = [], ofJwtKeySecretName = ''jwt-signing-key'', ofJwtKeySecretNamespace = [],
      ofAllowPasswordGrant = False, ofEnforcePKCE = False, ofAllowPKCEPlain = False, ofJwtAccessToken = False,
      ofClientPrivilegedNamespace = [], ofDefaultStyle = ''dark'', ofDefaultLoginLabel = [], ofDumpUpstreamClaims = False,
      ofSsoNamespace = [], ofStickySso = False, ofSsoLifetime = 8 * 3600 * second, ofCleanupPeriod = 5 * 60 * second,
      ofIdProvider = default_idp (ptLoggerEntry DefaultPorts), ofUpstreamNamespace = [], ofSsoModeStr = []\<rparr>"

definition defaultUcrdFlags :: UcrdFlags where
  "defaultUcrdFlags =
     \<lparr>mfLog = default_log, mfProbeAddr = port_address (ptUcrdHealthProbe DefaultPorts), mfLeaderElection = False,
      mfEnableHTTP2 = False, mfEnableWebhook = True, mfWebhookPort = int (ptUcrdWebhook DefaultPorts), mfWebhookCertPath = [],
      mfWebhookCertName = ''tls.crt'', mfWebhookCertKey = ''tls.key'', mfMetricsAddr = metrics_address (ptUcrdMetrics DefaultPorts),
      mfSecureMetrics = True, mfMetricsCertPath = [], mfMetricsCertName = ''tls.crt'', mfMetricsCertKey = ''tls.key'',
      ufHttp = default_httpd ''127.0.0.1'' (ptUcrdEntry DefaultPorts), ufBfaProtection = False, ufUsersNamespace = []\<rparr>"

definition defaultAuditFlags :: AuditFlags where
  "defaultAuditFlags =
     \<lparr>afLog = default_log, afHttp = default_httpd ''127.0.0.1'' (ptLoggerEntry DefaultPorts), afBfaProtection = False,
      afIdProvider = default_idp (ptMergerEntry DefaultPorts), afNamespace = ''kubauth-audit'',
      afRecordLifetime = 8 * 3600 * second, afCleanupPeriod = 5 * 60 * second\<rparr>"

definition defaultMergerFlags :: ConnectorFlags where
  "defaultMergerFlags =
     \<lparr>kfLog = default_log, kfHttp = default_httpd ''127.0.0.1'' (ptMergerEntry DefaultPorts), kfBfaProtection = False,
      kfConfigFile = ''./config.yaml''\<rparr>"

definition defaultLdapFlags :: LdapFlags where
  "defaultLdapFlags =
     \<lparr>kfLog = default_log, kfHttp = default_httpd ''127.0.0.1'' (ptLdapEntry DefaultPorts), kfBfaProtection = False,
      kfConfigFile = ''./config.yaml'', lfNamespace = []\<rparr>"

section \<open>Nothing is served before everything is checked\<close>

fun passed :: "(step \<Rightarrow> string option) \<Rightarrow> planned \<Rightarrow> bool" where
  "passed world (Require pr code) \<longleftrightarrow> pr = None"
| "passed world (Perform a code msg) \<longleftrightarrow> world a = None"
| "passed world (Spawn a) \<longleftrightarrow> True"

fun steps :: "planned list \<Rightarrow> step list" where
  "steps [] = []"
| "steps (Require pr code # ps) = steps ps"
| "steps (Perform a code msg # ps) = a # steps ps"
| "steps (Spawn a # ps) = a # steps ps"

fun exit_codes :: "planned list \<Rightarrow> nat list" where
  "exit_codes [] = []"
| "exit_codes (Require pr code # ps) = code # exit_codes ps"
| "exit_codes (Perform a code msg # ps) = code # exit_codes ps"
| "exit_codes (Spawn a # ps) = exit_codes ps"

lemma steps_append [simp]: "steps (ps @ qs) = steps ps @ steps qs"
  by (induction ps rule: steps.induct) simp_all

lemma exit_codes_append [simp]: "exit_codes (ps @ qs) = exit_codes ps @ exit_codes qs"
  by (induction ps rule: steps.induct) simp_all

lemma execute_begun: "set (fst (execute world ps)) \<subseteq> set (steps ps)"
  by (induction ps rule: steps.induct) (auto split: option.split prod.split)

lemma execute_exit: "snd (execute world ps) = Some (Exit code msg) \<Longrightarrow> code \<in> set (exit_codes ps)"
  by (induction ps rule: steps.induct) (auto split: option.splits prod.splits)

lemma execute_completes: "snd (execute world ps) = None \<longleftrightarrow> list_all (passed world) ps"
  by (induction ps rule: steps.induct) (auto split: option.splits prod.splits)

lemma execute_prefix:
  "list_all (passed world) ps \<Longrightarrow> execute world (ps @ qs) = (steps ps @ fst (execute world qs), snd (execute world qs))"
  by (induction ps rule: steps.induct) (auto split: prod.splits)

lemma execute_stops:
  "\<not> list_all (passed world) ps \<Longrightarrow> execute world (ps @ qs) = execute world ps"
  by (induction ps rule: steps.induct) (auto split: option.splits prod.splits)

text \<open>A step that is begun comes after checks and steps that went well.\<close>

lemma execute_reached:
  assumes "a \<in> set (fst (execute world (ps @ [Perform a code msg])))" "a \<notin> set (steps ps)"
  shows "list_all (passed world) ps" "fst (execute world (ps @ [Perform a code msg])) = steps ps @ [a]"
proof -
  show all: "list_all (passed world) ps"
  proof (rule ccontr)
    assume "\<not> list_all (passed world) ps"
    then show False using assms execute_begun [of world ps] by (auto simp: execute_stops)
  qed
  show "fst (execute world (ps @ [Perform a code msg])) = steps ps @ [a]"
    by (simp add: execute_prefix [OF all] split: option.split)
qed

lemma problem_None [simp]: "problem msg res = None \<longleftrightarrow> (\<exists>x. res = Inr x)"
  by (cases res) (simp_all add: problem_def)

lemma required_None [simp]: "required v msg = None \<longleftrightarrow> v \<noteq> []"
  by (simp add: required_def)

lemma passed_loggerCheck [simp]: "passed world (loggerCheck c) \<longleftrightarrow> (\<exists>h. NewLogger (Some c) = Inr h)"
  by (simp add: loggerCheck_def)

lemma steps_loggerCheck [simp]: "steps (loggerCheck c # ps) = steps ps"
  by (simp add: loggerCheck_def)

lemmas manager_plan =
  managerSteps_def watcherSteps_def webhookSteps_def addWatcher_def checkSteps_def

definition oidcServerLoop :: "SessionManager \<Rightarrow> OidcFlags \<Rightarrow> SsoMode \<Rightarrow> step" where
  "oidcServerLoop scs f mo =
     AddRunnable (HttpServerLoop ''oidcSrv'' (ofHttp f)
       ((''GET /favicon.ico'', FaviconEndpoint (Join (Join (ofResources f) ''static'') ''favicon.ico''))
        # oidcRoutes (serverSettings scs f mo)))"

lemma manager_steps_start: "StartManager \<notin> set (steps (managerSteps f scope))" "StartManager \<notin> set (steps (webhookSteps f kinds))"
  "StartManager \<notin> set (steps (checkSteps f))"
proof -
  have "StartManager \<notin> set (steps (map (\<lambda>k. Perform (SetupWebhook k) 1 m) kinds))" for m by (induction kinds) simp_all
  then show "StartManager \<notin> set (steps (managerSteps f scope))" "StartManager \<notin> set (steps (webhookSteps f kinds))"
    "StartManager \<notin> set (steps (checkSteps f))"
    by (simp_all add: manager_plan split: option.split prod.split)
qed

lemma oidc_reaches_start:
  assumes "StartManager \<in> set (fst (execute world (oidc_Run http scs f)))"
  obtains mo ps code msg where "parseSsoMode (ofSsoModeStr f) = Inr mo" "oidc_Run http scs f = ps @ [Perform StartManager code msg]"
    "list_all (passed world) ps" "fst (execute world (oidc_Run http scs f)) = steps ps @ [StartManager]"
proof (cases "parseSsoMode (ofSsoModeStr f)")
  case (Inl err)
  then have "StartManager \<notin> set (steps (oidc_Run http scs f))"
    by (simp add: oidc_Run_def oidcFlagChecks_def loggerCheck_def)
  then show ?thesis using assms execute_begun [of world "oidc_Run http scs f"] by blast
next
  case (Inr mo)
  let ?ps = "butlast (oidc_Run http scs f)"
  have plan: "oidc_Run http scs f = ?ps @ [Perform StartManager 1 ''problem running manager'']"
    and free: "StartManager \<notin> set (steps ?ps)"
    using Inr
    by (simp_all add: manager_steps_start oidc_Run_def serverSteps_def butlast_append Let_def loggerCheck_def oidcFlagChecks_def controllerSteps_def)
  show ?thesis
    using that [OF Inr plan] execute_reached [of StartManager world ?ps, OF _ free] assms plan by metis
qed

lemma oidc_starts_checked:
  assumes "StartManager \<in> set (fst (execute world (oidc_Run http scs f)))"
  defines "begun \<equiv> set (fst (execute world (oidc_Run http scs f)))"
  shows "\<exists>mo. parseSsoMode (ofSsoModeStr f) = Inr mo \<and> SetupOidcServer (serverSettings scs f mo) \<in> begun
      \<and> oidcServerLoop scs f mo \<in> begun"
    "\<exists>h. NewLogger (Some (mfLog f)) = Inr h" "\<exists>c. httpclient_New http (ofIdProvider f) = Inr c"
    "ofSsoNamespace f \<noteq> []" "ofUpstreamNamespace f \<noteq> []" "ofPostLogoutURL f \<noteq> []" "ofJwtKeySecretNamespace f \<noteq> []"
    "\<forall>ns p. AddRunnable (SsoCleanerLoop ns p) \<in> begun \<longleftrightarrow> ns = ofSsoNamespace f \<and> p = ofCleanupPeriod f \<and> p > 0"
proof -
  obtain mo ps code msg where mo: "parseSsoMode (ofSsoModeStr f) = Inr mo"
    and plan: "oidc_Run http scs f = ps @ [Perform StartManager code msg]" and all: "list_all (passed world) ps"
    and begun: "fst (execute world (oidc_Run http scs f)) = steps ps @ [StartManager]"
    by (rule oidc_reaches_start [OF assms(1)])
  have set: "begun = set (steps (oidc_Run http scs f))" using begun plan by (simp add: begun_def)
  have checks: "Require pr c \<in> set (oidc_Run http scs f) \<Longrightarrow> pr = None" for pr c
    using all unfolding plan by (auto simp: list_all_iff)
  show "\<exists>mo. parseSsoMode (ofSsoModeStr f) = Inr mo \<and> SetupOidcServer (serverSettings scs f mo) \<in> begun
      \<and> oidcServerLoop scs f mo \<in> begun"
    unfolding set using mo by (simp add: oidc_Run_def serverSteps_def oidcServerLoop_def Let_def)
  show "\<exists>h. NewLogger (Some (mfLog f)) = Inr h"
    using checks [of "problem ''Unable to load logging configuration'' (NewLogger (Some (mfLog f)))" 2]
    by (simp add: oidc_Run_def loggerCheck_def)
  show "\<exists>c. httpclient_New http (ofIdProvider f) = Inr c"
    using checks [of "problem ''unable to initialize user db'' (httpprovider_New http (ofIdProvider f))" 1] mo
    by (simp add: oidc_Run_def)
  show "ofSsoNamespace f \<noteq> []"
    using checks [of "required (ofSsoNamespace f) ''ssoNamespace must be specified and non null''" 1]
    by (simp add: oidc_Run_def oidcFlagChecks_def)
  show "ofUpstreamNamespace f \<noteq> []"
    using checks [of "required (ofUpstreamNamespace f) ''upstreamNamespace must be specified and non null''" 1]
    by (simp add: oidc_Run_def oidcFlagChecks_def)
  show "ofPostLogoutURL f \<noteq> []"
    using checks [of "required (ofPostLogoutURL f) ''postLogoutURL must be specified and non null''" 1]
    by (simp add: oidc_Run_def oidcFlagChecks_def)
  show "ofJwtKeySecretNamespace f \<noteq> []"
    using checks [of "required (ofJwtKeySecretNamespace f) ''jwtKeySecretNamespace must be specified and non null''" 1]
    by (simp add: oidc_Run_def oidcFlagChecks_def)
  show "\<forall>ns p. AddRunnable (SsoCleanerLoop ns p) \<in> begun \<longleftrightarrow> ns = ofSsoNamespace f \<and> p = ofCleanupPeriod f \<and> p > 0"
    unfolding set using mo
    by (auto simp: oidc_Run_def serverSteps_def manager_plan loggerCheck_def oidcFlagChecks_def controllerSteps_def Let_def
        split: option.splits)
qed

lemma ucrd_starts_checked:
  assumes "StartManager \<in> set (fst (execute world (ucrd_Run f)))"
  shows "(\<exists>h. NewLogger (Some (mfLog f)) = Inr h) \<and> ufUsersNamespace f \<noteq> []
    \<and> AddRunnable (HttpServerLoop ''userIdSrv'' (ufHttp f) (identityRoutes (ufBfaProtection f))) \<in> set (fst (execute world (ucrd_Run f)))"
proof -
  obtain ps where plan: "ucrd_Run f = ps @ [Perform StartManager 1 ''problem running manager'']" "StartManager \<notin> set (steps ps)"
    by (rule that [of "butlast (ucrd_Run f)"]) (simp_all add: manager_steps_start ucrd_Run_def userServerSteps_def butlast_append)
  note reached = execute_reached [OF assms [unfolded plan(1)] plan(2)]
  have checks: "Require pr c \<in> set (ucrd_Run f) \<Longrightarrow> pr = None" for pr c
    using reached(1) unfolding plan by (auto simp: list_all_iff)
  have "set (fst (execute world (ucrd_Run f))) = set (steps (ucrd_Run f))" using reached(2) by (simp add: plan(1))
  then show ?thesis
    using checks [of "problem ''Unable to load logging configuration'' (NewLogger (Some (mfLog f)))" 2]
      checks [of "required (ufUsersNamespace f) ''usersNamespace must be specified and non null''" 1]
    by (simp add: ucrd_Run_def userServerSteps_def loggerCheck_def)
qed

lemma audit_serves_checked:
  assumes "ServeHttp name c rs \<in> set (fst (execute world (audit_Run http f)))"
  shows "(\<exists>h. NewLogger (Some (afLog f)) = Inr h) \<and> afNamespace f \<noteq> [] \<and> (\<exists>k. httpclient_New http (afIdProvider f) = Inr k)
    \<and> rs = identityRoutes (afBfaProtection f)
    \<and> (\<forall>ns l p. GoAuditCleaner ns l p \<in> set (fst (execute world (audit_Run http f))) \<longrightarrow> p > 0)"
  using assms
  by (auto simp: audit_Run_def audit_New_def loggerCheck_def problem_def required_def split: option.splits sum.splits if_splits)

lemma merger_serves_checked:
  assumes "ServeHttp name c rs \<in> set (fst (execute world (merger_Run load connect f)))"
  shows "(\<exists>h. NewLogger (Some (kfLog f)) = Inr h)
    \<and> (\<exists>path providers ps. load (kfConfigFile f) [] = (path, Inr providers)
         \<and> merger_New (map (\<lambda>c. (connect c, c)) providers) = Inr ps) \<and> rs = identityRoutes (kfBfaProtection f)"
  using assms
  by (cases "load (kfConfigFile f) []")
    (auto simp: merger_Run_def loggerCheck_def problem_def configProblem_def split: option.splits sum.splits)

lemma ldap_serves_checked:
  assumes "ServeHttp name c rs \<in> set (fst (execute world (ldap_Run load env f)))"
  shows "(\<exists>h. NewLogger (Some (kfLog f)) = Inr h)
    \<and> (\<exists>path cfg l. load (kfConfigFile f) zeroLdapConfig = (path, Inr cfg) \<and> ldap_New env cfg (Dir path) (lfNamespace f) = Inr l)
    \<and> rs = identityRoutes (kfBfaProtection f)"
  using assms
  by (cases "load (kfConfigFile f) zeroLdapConfig")
    (auto simp: ldap_Run_def loggerCheck_def problem_def configProblem_def split: option.splits sum.splits)

lemma manager_exit_codes: "set (exit_codes (managerSteps f scope)) \<subseteq> {1, 2}" "set (exit_codes (webhookSteps f kinds)) \<subseteq> {1, 2}"
  "set (exit_codes (checkSteps f)) \<subseteq> {1, 2}"
proof -
  have "set (exit_codes (map (\<lambda>k. Perform (SetupWebhook k) 1 m) kinds)) \<subseteq> {1, 2}" for m by (induction kinds) simp_all
  then show "set (exit_codes (managerSteps f scope)) \<subseteq> {1, 2}" "set (exit_codes (webhookSteps f kinds)) \<subseteq> {1, 2}"
    "set (exit_codes (checkSteps f)) \<subseteq> {1, 2}"
    by (simp_all add: manager_plan split: option.split prod.split)
qed

lemma command_exit_codes:
  "set (exit_codes (oidc_Run http scs f)) \<subseteq> {1, 2}" "set (exit_codes (ucrd_Run u)) \<subseteq> {1, 2}"
  "set (exit_codes (audit_Run http a)) \<subseteq> {1, 2}" "set (exit_codes (merger_Run load connect m)) \<subseteq> {1, 2}"
  "set (exit_codes (ldap_Run load2 env l)) \<subseteq> {1, 2}"
  by (simp_all add: manager_exit_codes [simplified] oidc_Run_def serverSteps_def oidcFlagChecks_def controllerSteps_def loggerCheck_def
      ucrd_Run_def userServerSteps_def audit_Run_def merger_Run_def ldap_Run_def Let_def split: sum.split)

lemma command_exits:
  "\<forall>out \<in> {snd (execute world (oidc_Run http scs f)), snd (execute world (ucrd_Run u)), snd (execute world (audit_Run http a)),
       snd (execute world (merger_Run load connect m)), snd (execute world (ldap_Run load2 env l))}.
     \<forall>code msg. out = Some (Exit code msg) \<longrightarrow> code \<in> {1, 2}"
proof -
  have *: "\<forall>code msg. snd (execute world ps) = Some (Exit code msg) \<longrightarrow> code \<in> {1, 2}" if "set (exit_codes ps) \<subseteq> {1, 2}" for ps
    using execute_exit that by blast
  show ?thesis by (simp only: ball_simps simp_thms) (intro conjI * command_exit_codes)
qed

lemma oidc_starts_with:
  fixes scs f defines "cookies \<equiv> \<lambda>mo. isHttps (ofIssuer f) \<longrightarrow> smSecure (ssSsoSessions (serverSettings scs f mo))
    \<and> smSecure (ssLoginSessions (serverSettings scs f mo))"
  assumes "\<exists>mo. P mo \<and> Q mo \<and> R mo"
  shows "\<exists>mo. P mo \<and> Q mo \<and> R mo \<and> cookies mo"
  using assms by (simp add: cookies_def serverSettings_def ssoSessionManager_def loginSessionManager_def)

text \<open>
  C21: no server starts unchecked.  The OIDC server begins to serve only with a valid logger configuration, the
  four settings it requires, one of the three SSO modes and a usable identity provider client; by then it
  has set up its endpoints with these settings, has marked both session cookies as secure when the issuer
  is an HTTPS URL, and has added the session cleaner exactly when its period is positive.  The identity
  servers serve only with a valid logger, with their namespace or a loaded configuration their authenticator
  accepts, and under one route, behind the validator that refuses everything but GET.  The audit server never
  starts its cleaner with a period that a ticker would refuse.  A command that stops exits with status 1 or 2.
\<close>

theorem servers_start_checked:
  fixes f :: OidcFlags and u :: UcrdFlags and l :: LdapFlags and world http scs a load connect m load2 env
  defines "oidc \<equiv> execute world (oidc_Run http scs f)" and "ucrd \<equiv> execute world (ucrd_Run u)"
    and "audit \<equiv> execute world (audit_Run http a)" and "merger \<equiv> execute world (merger_Run load connect m)"
    and "ldap \<equiv> execute world (ldap_Run load2 env l)"
  shows "(StartManager \<in> set (fst oidc) \<longrightarrow>
        (\<exists>h. NewLogger (Some (mfLog f)) = Inr h) \<and> (\<exists>c. httpclient_New http (ofIdProvider f) = Inr c)
        \<and> ofSsoNamespace f \<noteq> [] \<and> ofUpstreamNamespace f \<noteq> [] \<and> ofPostLogoutURL f \<noteq> [] \<and> ofJwtKeySecretNamespace f \<noteq> []
        \<and> (\<exists>mo. parseSsoMode (ofSsoModeStr f) = Inr mo \<and> SetupOidcServer (serverSettings scs f mo) \<in> set (fst oidc)
             \<and> oidcServerLoop scs f mo \<in> set (fst oidc)
             \<and> (isHttps (ofIssuer f) \<longrightarrow> smSecure (ssSsoSessions (serverSettings scs f mo))
                  \<and> smSecure (ssLoginSessions (serverSettings scs f mo))))
        \<and> (\<forall>ns p. AddRunnable (SsoCleanerLoop ns p) \<in> set (fst oidc) \<longleftrightarrow> ns = ofSsoNamespace f \<and> p = ofCleanupPeriod f \<and> p > 0))
    \<and> (StartManager \<in> set (fst ucrd) \<longrightarrow>
        (\<exists>h. NewLogger (Some (mfLog u)) = Inr h) \<and> ufUsersNamespace u \<noteq> []
        \<and> AddRunnable (HttpServerLoop ''userIdSrv'' (ufHttp u) (identityRoutes (ufBfaProtection u))) \<in> set (fst ucrd))
    \<and> (\<forall>name c rs. ServeHttp name c rs \<in> set (fst audit) \<longrightarrow>
        (\<exists>h. NewLogger (Some (afLog a)) = Inr h) \<and> afNamespace a \<noteq> [] \<and> (\<exists>k. httpclient_New http (afIdProvider a) = Inr k)
        \<and> rs = identityRoutes (afBfaProtection a) \<and> (\<forall>ns t p. GoAuditCleaner ns t p \<in> set (fst audit) \<longrightarrow> p > 0))
    \<and> (\<forall>name c rs. ServeHttp name c rs \<in> set (fst merger) \<longrightarrow>
        (\<exists>h. NewLogger (Some (kfLog m)) = Inr h)
        \<and> (\<exists>path providers ps. load (kfConfigFile m) [] = (path, Inr providers)
             \<and> merger_New (map (\<lambda>c. (connect c, c)) providers) = Inr ps) \<and> rs = identityRoutes (kfBfaProtection m))
    \<and> (\<forall>name c rs. ServeHttp name c rs \<in> set (fst ldap) \<longrightarrow>
        (\<exists>h. NewLogger (Some (kfLog l)) = Inr h)
        \<and> (\<exists>path cfg k. load2 (kfConfigFile l) zeroLdapConfig = (path, Inr cfg) \<and> ldap_New env cfg (Dir path) (lfNamespace l) = Inr k)
        \<and> rs = identityRoutes (kfBfaProtection l))
    \<and> (\<forall>out \<in> {snd oidc, snd ucrd, snd audit, snd merger, snd ldap}. \<forall>code msg. out = Some (Exit code msg) \<longrightarrow> code \<in> {1, 2})"
  unfolding oidc_def ucrd_def audit_def merger_def ldap_def
proof (intro conjI command_exits)
  let ?begun = "set (fst (execute world (oidc_Run http scs f)))"
  show "StartManager \<in> ?begun \<longrightarrow>
      (\<exists>h. NewLogger (Some (mfLog f)) = Inr h) \<and> (\<exists>c. httpclient_New http (ofIdProvider f) = Inr c)
      \<and> ofSsoNamespace f \<noteq> [] \<and> ofUpstreamNamespace f \<noteq> [] \<and> ofPostLogoutURL f \<noteq> [] \<and> ofJwtKeySecretNamespace f \<noteq> []
      \<and> (\<exists>mo. parseSsoMode (ofSsoModeStr f) = Inr mo \<and> SetupOidcServer (serverSettings scs f mo) \<in> ?begun
           \<and> oidcServerLoop scs f mo \<in> ?begun
           \<and> (isHttps (ofIssuer f) \<longrightarrow> smSecure (ssSsoSessions (serverSettings scs f mo))
                \<and> smSecure (ssLoginSessions (serverSettings scs f mo))))
      \<and> (\<forall>ns p. AddRunnable (SsoCleanerLoop ns p) \<in> ?begun \<longleftrightarrow> ns = ofSsoNamespace f \<and> p = ofCleanupPeriod f \<and> p > 0)"
    by (intro impI conjI) (rule oidc_starts_checked(2-8) oidc_starts_with [OF oidc_starts_checked(1)], assumption)+
qed (intro impI allI, rule ucrd_starts_checked audit_serves_checked merger_serves_checked ldap_serves_checked, assumption)+

definition sample_httpd :: HttpdConfig where
  "sample_httpd =
     \<lparr>hsBindAddr = ''0.0.0.0'', hsBindPort = 6801, hsTls = False, hsCertDir = [], hsCertName = ''tls.crt'', hsKeyName = ''tls.key'',
      hsDumpExchanges = 0, hsAllowedOrigins = []\<rparr>"

definition sample_scs :: SessionManager where
  "sample_scs =
     \<lparr>smKubeStore = None, smJsonCodec = False, smLifetime = 86400 * second, smIdleTimeout = 0, smCookieName = ''session'',
      smHttpOnly = True, smSameSiteLax = True, smPersist = True, smHashTokenInStore = False, smSecure = False\<rparr>"

definition sample_oidc_flags :: OidcFlags where
  "sample_oidc_flags =
     \<lparr>mfLog = \<lparr>lcLevel = ''info'', lcMode = ''text''\<rparr>, mfProbeAddr = '':8110'', mfLeaderElection = True, mfEnableHTTP2 = False,
      mfEnableWebhook = True, mfWebhookPort = 9443, mfWebhookCertPath = ''/certs'', mfWebhookCertName = ''tls.crt'',
      mfWebhookCertKey = ''tls.key'', mfMetricsAddr = ''0'', mfSecureMetrics = True, mfMetricsCertPath = [],
      mfMetricsCertName = [], mfMetricsCertKey = [],
      ofHttp = sample_httpd, ofIssuer = ''https://kubauth'', ofResources = ''resources'', ofPostLogoutURL = ''https://kubauth/index'',
      ofJwtKeySecretName = ''jwt-signing-key'', ofJwtKeySecretNamespace = ''kubauth'', ofAllowPasswordGrant = False,
      ofEnforcePKCE = False, ofAllowPKCEPlain = False, ofJwtAccessToken = False, ofClientPrivilegedNamespace = ''kubauth'',
      ofDefaultStyle = ''dark'', ofDefaultLoginLabel = [], ofDumpUpstreamClaims = False, ofSsoNamespace = ''kubauth-sso'',
      ofStickySso = False, ofSsoLifetime = 8 * 3600 * second, ofCleanupPeriod = 300 * second,
      ofIdProvider = sample_http_config, ofUpstreamNamespace = ''kubauth'', ofSsoModeStr = '' onDemand''\<rparr>"

theorem servers_start_checked_witness:
  "AddRunnable (SsoCleanerLoop ''kubauth-sso'' (300 * second))
     \<in> set (fst (execute (\<lambda>a. None) (oidc_Run sample_http_env sample_scs sample_oidc_flags)))"
proof -
  have flags: "NewLogger (Some (mfLog sample_oidc_flags)) = Inr (TextHandler 0)"
    "parseSsoMode (ofSsoModeStr sample_oidc_flags) = Inr SsoOnDemand"
    "ofCleanupPeriod sample_oidc_flags = 300 * second" "ofSsoNamespace sample_oidc_flags = ''kubauth-sso''" "second > 0"
    by code_simp+
  have "list_all (passed (\<lambda>a. None)) (oidc_Run sample_http_env sample_scs sample_oidc_flags)"
    using flags
    by (simp add: oidc_Run_def oidcFlagChecks_def manager_plan controllerSteps_def serverSteps_def Let_def sample_http_New
        sample_oidc_flags_def split: option.split prod.split)
  then have "StartManager \<in> set (fst (execute (\<lambda>a. None) (oidc_Run sample_http_env sample_scs sample_oidc_flags)))"
    using execute_prefix [of "\<lambda>a. None" "oidc_Run sample_http_env sample_scs sample_oidc_flags" "[]"] flags(2)
    by (simp add: oidc_Run_def serverSteps_def Let_def)
  then show ?thesis
    using servers_start_checked [where world = "\<lambda>a. None" and http = sample_http_env and scs = sample_scs
        and f = sample_oidc_flags, THEN conjunct1] flags(3-5)
    by simp
qed

section \<open>The default flags\<close>

text \<open>By default the OIDC server asks the audit server, and that one the merger; the default cookies are not secure.\<close>

lemma default_pipeline:
  "hcBaseURL (ofIdProvider defaultOidcFlags) = local_url (hsBindPort (afHttp defaultAuditFlags))"
  "hcBaseURL (afIdProvider defaultAuditFlags) = local_url (hsBindPort (kfHttp defaultMergerFlags))"
  "\<not> isHttps (ofIssuer defaultOidcFlags)"
  by (simp_all add: defaultOidcFlags_def defaultAuditFlags_def defaultMergerFlags_def default_idp_def default_httpd_def isHttps_def
      local_url_def)

text \<open>The flags without a useful default must be given: with the default ones the two controllers refuse to start.\<close>

lemma default_flags_refused:
  "execute world (oidc_Run http scs defaultOidcFlags) = ([], Some (Exit 1 ''ssoNamespace must be specified and non null''))"
  "execute world (ucrd_Run defaultUcrdFlags) = ([], Some (Exit 1 ''usersNamespace must be specified and non null''))"
proof -
  have log: "NewLogger (Some default_log) = Inr (TextHandler 0)" by code_simp
  show "execute world (oidc_Run http scs defaultOidcFlags) = ([], Some (Exit 1 ''ssoNamespace must be specified and non null''))"
    by (simp add: oidc_Run_def loggerCheck_def problem_def defaultOidcFlags_def log oidcFlagChecks_def required_def)
  show "execute world (ucrd_Run defaultUcrdFlags) = ([], Some (Exit 1 ''usersNamespace must be specified and non null''))"
    by (simp add: ucrd_Run_def userServerSteps_def loggerCheck_def problem_def defaultUcrdFlags_def log required_def)
qed

end
