(* ===== verification/ClientController.thy ===== *)
theory ClientController
  imports StorageRuns
begin

text \<open>
  \<^verbatim>\<open>cmd/oidc/controllers/oidcclient_controller.go\<close>: the reconciler that registers OIDC clients.  The
  Kubernetes API and bcrypt are the parameter \<open>ClientApi\<close>; what the reconciler sends to the API server
  (patches, status updates, events) is the list of writes it returns.
\<close>

section \<open>Operations\<close>

record ClientApi =
  apiGetClient :: "ObjectKey \<Rightarrow> kerr + OidcClient"
  apiGetSecret :: "ObjectKey \<Rightarrow> kerr + string gomap"
  apiPatch :: "OidcClient \<Rightarrow> kerr option"
  apiStatusUpdate :: "OidcClient \<Rightarrow> kerr option"
  bcryptHash :: "string \<Rightarrow> string option"

record 'x ClientReconciler =
  crStorage :: "'x MemoryStore"
  crStatusErrorCount :: nat
  crPrivilegedNamespace :: string
  crDefaultStyle :: string

datatype client_write = CPatch ObjectMeta | CStatus OidcClientStatus | CEvent string string string

record ctrlResult =
  requeueSoon :: bool
  ctrlErr :: "kerr option"

definition finished :: ctrlResult where
  "finished = \<lparr>requeueSoon = False, ctrlErr = None\<rparr>"

type_synonym 'x cresult = "'x ClientReconciler \<times> client_write list \<times> ctrlResult"

definition finalizerName :: string where
  "finalizerName = ''kubauth.kubotal.io/finalizer''"

definition buildClientId :: "string \<Rightarrow> OidcClientSpec \<Rightarrow> string \<Rightarrow> string \<Rightarrow> string" where
  "buildClientId privileged spec nm namespace =
     (if ocClientId spec \<noteq> [] then ocClientId spec
      else if namespace \<noteq> privileged then namespace @ ''-'' @ nm
      else nm)"

definition client_updateStatus :: "ClientApi \<Rightarrow> 'x ClientReconciler \<Rightarrow> OidcClient \<Rightarrow> string option \<Rightarrow> 'x cresult" where
  "client_updateStatus api r oidcClient err =
     (let enabled = BoolPtrTrue (ocEnabled (oSpec oidcClient));
          message = (case err of Some e \<Rightarrow> e | None \<Rightarrow> if \<not> enabled then ''Disabled'' else ''OK'');
          phase = (case err of Some e \<Rightarrow> CPhaseError | None \<Rightarrow> if \<not> enabled then CPhaseOff else CPhaseReady);
          st = oStatus oidcClient;
          toUpdate = (otPhase st \<noteq> phase \<or> otMessage st \<noteq> message);
          oidcClient' = oidcClient\<lparr>oStatus := st\<lparr>otPhase := phase, otMessage := message\<rparr>\<rparr>
      in if toUpdate then
           (case apiStatusUpdate api oidcClient' of
              None \<Rightarrow> (r, [CStatus (oStatus oidcClient')], finished)
            | Some e \<Rightarrow>
                if crStatusErrorCount r = 0
                then (r\<lparr>crStatusErrorCount := crStatusErrorCount r + 1\<rparr>, [], \<lparr>requeueSoon = True, ctrlErr = None\<rparr>)
                else (r, [], \<lparr>requeueSoon = False, ctrlErr = Some e\<rparr>))
         else (r, [], finished))"

fun storeErr_text :: "StoreErr \<Rightarrow> string" where
  "storeErr_text (ClientDuplicationError existing) = ''duplicate client_id with '' @ existing"
| "storeErr_text e = ''not found''"

definition also_writes :: "client_write list \<Rightarrow> 'x cresult \<Rightarrow> 'x cresult" where
  "also_writes ws res = (case res of (r, ws', out) \<Rightarrow> (r, ws @ ws', out))"

definition UpdateStorageAndStatus ::
  "ClientApi \<Rightarrow> 'x ClientReconciler \<Rightarrow> OidcClient \<Rightarrow> string list \<Rightarrow> string option \<Rightarrow> 'x cresult" where
  "UpdateStorageAndStatus api r oidcClient hashed err =
     (let cid = otClientId (oStatus oidcClient);
          drop_it = r\<lparr>crStorage := DeleteClient (crStorage r) cid\<rparr>
      in case err of
           None \<Rightarrow>
             if BoolPtrTrue (ocEnabled (oSpec oidcClient)) then
               (case SetClient (crStorage r) (NewKubauthClient oidcClient cid hashed) of
                  (store, None) \<Rightarrow>
                    also_writes [CEvent ''Normal'' ''Created'' (''Created client with client_id '' @ quoted cid)]
                      (client_updateStatus api (r\<lparr>crStorage := store\<rparr>) oidcClient None)
                | (store, Some e) \<Rightarrow>
                    also_writes [CEvent ''Warning'' ''Duplicate'' (storeErr_text e)]
                      (client_updateStatus api (r\<lparr>crStorage := store\<rparr>) oidcClient (Some (storeErr_text e))))
             else
               also_writes [CEvent ''Normal'' ''Off'' ''Disabled''] (client_updateStatus api drop_it oidcClient None)
         | Some e \<Rightarrow>
             also_writes [CEvent ''Warning'' ''Error'' e] (client_updateStatus api drop_it oidcClient (Some e)))"

text \<open>The loop over the secrets of a client: the hashes, a message for the status, or an error to retry.\<close>

datatype hashing = Hashed "string list" | BadSecret string | RetrySecret kerr

fun hashLoop :: "ClientApi \<Rightarrow> string \<Rightarrow> OidcClientSecretSpec list \<Rightarrow> string list \<Rightarrow> hashing" where
  "hashLoop api ns [] done = Hashed done"
| "hashLoop api ns (ref # refs) done =
     (case apiGetSecret api \<lparr>Namespace = ns, ObjName = csName ref\<rparr> of
        Inl KNotFound \<Rightarrow> BadSecret (''unable to fetch secret '' @ quoted (ns @ '':'' @ csName ref))
      | Inl e \<Rightarrow> RetrySecret e
      | Inr data \<Rightarrow>
          (case gget data (csKey ref) of
             None \<Rightarrow> BadSecret (''no '' @ quoted (csKey ref) @ '' key in secret '' @ quoted (ns @ '':'' @ csName ref))
           | Some valueBytes \<Rightarrow>
               if csHashed ref then hashLoop api ns refs (done @ [valueBytes])
               else
                 (case bcryptHash api valueBytes of
                    None \<Rightarrow> BadSecret (''unable to hash value from secret ''
                              @ quoted (ns @ '':'' @ csName ref @ ''['' @ csKey ref @ '']''))
                  | Some h \<Rightarrow> hashLoop api ns refs (done @ [h]))))"

text \<open>A client that exists, is not being deleted and has the finalizer.\<close>

definition registerClient :: "ClientApi \<Rightarrow> 'x ClientReconciler \<Rightarrow> string \<Rightarrow> OidcClient \<Rightarrow> 'x cresult" where
  "registerClient api r ns oidcClient =
     (if \<not> BoolPtrTrue (ocEnabled (oSpec oidcClient)) then UpdateStorageAndStatus api r oidcClient [] None
      else
        (let spec = oSpec oidcClient;
             spec' = (if ocStyle spec = [] then spec\<lparr>ocStyle := crDefaultStyle r\<rparr> else spec);
             oidcClient' = oidcClient\<lparr>oSpec := spec'\<rparr>
         in if ocPublic spec' then
              (if ocSecrets spec' \<noteq> None
               then UpdateStorageAndStatus api r oidcClient' [] (Some (quoted ''secrets'' @ '' set while public is enabled''))
               else UpdateStorageAndStatus api r oidcClient' [] None)
            else
              (case ocSecrets spec' of
                 None \<Rightarrow> UpdateStorageAndStatus api r oidcClient' []
                   (Some (''when not public, one of '' @ quoted ''secrets'' @ '' must be defined with at least one item''))
               | Some refs \<Rightarrow>
                   if length refs = 0 then
                     UpdateStorageAndStatus api r oidcClient' []
                       (Some (''when not public, one of '' @ quoted ''secrets'' @ '' must be defined with at least one item''))
                   else
                     (case hashLoop api ns refs [] of
                        BadSecret e \<Rightarrow> UpdateStorageAndStatus api r oidcClient' [] (Some e)
                      | RetrySecret e \<Rightarrow> (r, [], \<lparr>requeueSoon = False, ctrlErr = Some e\<rparr>)
                      | Hashed hs \<Rightarrow> UpdateStorageAndStatus api r oidcClient' hs None))))"

definition client_Reconcile :: "ClientApi \<Rightarrow> 'x ClientReconciler \<Rightarrow> ObjectKey \<Rightarrow> 'x cresult" where
  "client_Reconcile api r req =
     (case apiGetClient api req of
        Inl e \<Rightarrow> (r, [], \<lparr>requeueSoon = False, ctrlErr = IgnoreNotFound (Some e)\<rparr>)
      | Inr fetched \<Rightarrow>
          (let st = oStatus fetched;
               cid = (if otClientId st = []
                      then buildClientId (crPrivilegedNamespace r) (oSpec fetched) (ObjName req) (Namespace req)
                      else otClientId st);
               oidcClient = fetched\<lparr>oStatus := st\<lparr>otClientId := cid\<rparr>\<rparr>
           in if mDeleting (oMeta oidcClient) then
                (let r' = (if otPhase st = CPhaseReady
                           then r\<lparr>crStorage := DeleteClient (crStorage r) cid\<rparr> else r);
                     patched = oidcClient\<lparr>oMeta := RemoveFinalizer finalizerName (oMeta oidcClient)\<rparr>
                 in case apiPatch api patched of
                      Some e \<Rightarrow> (r', [], \<lparr>requeueSoon = False, ctrlErr = Some e\<rparr>)
                    | None \<Rightarrow> (r', [CPatch (oMeta patched)], finished))
              else if finalizerName \<notin> set (mFinalizers (oMeta oidcClient)) then
                (let patched = oidcClient\<lparr>oMeta := AddFinalizer finalizerName (oMeta oidcClient)\<rparr>
                 in case apiPatch api patched of
                      Some e \<Rightarrow> (r, [], \<lparr>requeueSoon = False, ctrlErr = Some e\<rparr>)
                    | None \<Rightarrow> (r, [CPatch (oMeta patched)], finished))
              else registerClient api r (Namespace req) oidcClient))"

section \<open>What a reconciliation does to the clients\<close>

lemma client_updateStatus_storage [simp]: "crStorage (fst (client_updateStatus api r c err)) = crStorage r"
  by (simp add: client_updateStatus_def Let_def split: option.split)

lemma client_updateStatus_settings [simp]:
  "crDefaultStyle (fst (client_updateStatus api r c err)) = crDefaultStyle r"
  "crPrivilegedNamespace (fst (client_updateStatus api r c err)) = crPrivilegedNamespace r"
  by (simp_all add: client_updateStatus_def Let_def split: option.split)

lemma also_writes_simps [simp]:
  "fst (also_writes ws res) = fst res"
  "fst (snd (also_writes ws res)) = ws @ fst (snd res)"
  "snd (snd (also_writes ws res)) = snd (snd res)"
  by (simp_all add: also_writes_def split: prod.split)

text \<open>The owner of a client id, and the effect of the two store operations on the registered clients.\<close>

definition owned_by_other :: "'x MemoryStore \<Rightarrow> string \<Rightarrow> string \<Rightarrow> bool" where
  "owned_by_other s cid kid \<longleftrightarrow> (\<exists>k. gget (Clients s) cid = Some k \<and> k8sId k \<noteq> kid)"

lemma SetClient_Clients:
  "gget (Clients (fst (SetClient s k))) x =
     (if x = clientId k \<and> \<not> owned_by_other s (clientId k) (k8sId k) then Some k else gget (Clients s) x)"
  "snd (SetClient s k) = None \<longleftrightarrow> \<not> owned_by_other s (clientId k) (k8sId k)"
  by (auto simp: SetClient_def owned_by_other_def split: option.splits)

lemma DeleteClient_Clients [simp]: "gget (Clients (DeleteClient s cid)) x = (if x = cid then None else gget (Clients s) x)"
  by (simp add: DeleteClient_def)

lemma NewKubauthClient_simps [simp]:
  "clientId (NewKubauthClient c cid hs) = cid"
  "hashedSecrets (NewKubauthClient c cid hs) = hs"
  "k8sObject (NewKubauthClient c cid hs) = c"
  "k8sId (NewKubauthClient c cid hs) = mNamespace (oMeta c) @ '':'' @ mName (oMeta c)"
  by (simp_all add: NewKubauthClient_def)

definition next_storage :: "'x MemoryStore \<Rightarrow> OidcClient \<Rightarrow> string list \<Rightarrow> string option \<Rightarrow> 'x MemoryStore" where
  "next_storage s c hs err =
     (if err = None \<and> BoolPtrTrue (ocEnabled (oSpec c))
      then fst (SetClient s (NewKubauthClient c (otClientId (oStatus c)) hs))
      else DeleteClient s (otClientId (oStatus c)))"

lemma UpdateStorageAndStatus_storage:
  "crStorage (fst (UpdateStorageAndStatus api r c hs err)) = next_storage (crStorage r) c hs err"
  by (simp add: UpdateStorageAndStatus_def next_storage_def Let_def split: option.split prod.split)

text \<open>
  What the specification of a client asks for: to be off, an error, a retry, or to be registered with a
  list of hashed secrets.
\<close>

datatype wanted = WantOff | WantError string | WantRetry kerr | WantClient "string list"

definition wanted_client :: "ClientApi \<Rightarrow> string \<Rightarrow> OidcClientSpec \<Rightarrow> wanted" where
  "wanted_client api ns spec =
     (if \<not> BoolPtrTrue (ocEnabled spec) then WantOff
      else if ocPublic spec then
        (if ocSecrets spec = None then WantClient []
         else WantError (quoted ''secrets'' @ '' set while public is enabled''))
      else if ocSecrets spec = None \<or> ocSecrets spec = Some [] then
        WantError (''when not public, one of '' @ quoted ''secrets'' @ '' must be defined with at least one item'')
      else
        (case hashLoop api ns (the (ocSecrets spec)) [] of
           Hashed hs \<Rightarrow> WantClient hs | BadSecret e \<Rightarrow> WantError e | RetrySecret e \<Rightarrow> WantRetry e))"

definition styled :: "string \<Rightarrow> OidcClient \<Rightarrow> OidcClient" where
  "styled dflt c = (if ocStyle (oSpec c) = [] then c\<lparr>oSpec := (oSpec c)\<lparr>ocStyle := dflt\<rparr>\<rparr> else c)"

lemma styled_simps [simp]:
  "oMeta (styled d c) = oMeta c" "oStatus (styled d c) = oStatus c"
  "ocEnabled (oSpec (styled d c)) = ocEnabled (oSpec c)" "ocPublic (oSpec (styled d c)) = ocPublic (oSpec c)"
  "ocSecrets (oSpec (styled d c)) = ocSecrets (oSpec c)"
  by (simp_all add: styled_def)

lemma registerClient_wanted:
  "registerClient api r ns c =
     (case wanted_client api ns (oSpec c) of
        WantOff \<Rightarrow> UpdateStorageAndStatus api r c [] None
      | WantError e \<Rightarrow> UpdateStorageAndStatus api r (styled (crDefaultStyle r) c) [] (Some e)
      | WantRetry e \<Rightarrow> (r, [], \<lparr>requeueSoon = False, ctrlErr = Some e\<rparr>)
      | WantClient hs \<Rightarrow> UpdateStorageAndStatus api r (styled (crDefaultStyle r) c) hs None)"
proof -
  have spec: "oidcClient\<lparr>oSpec := oSpec oidcClient\<rparr> = oidcClient" for oidcClient :: OidcClient by simp
  show ?thesis
    by (auto simp: registerClient_def wanted_client_def styled_def Let_def spec split: option.splits hashing.splits)
qed

text \<open>The client id a reconciliation works with, and the resource as it sees it.\<close>

definition effective_id :: "'x ClientReconciler \<Rightarrow> ObjectKey \<Rightarrow> OidcClient \<Rightarrow> string" where
  "effective_id r req c =
     (if otClientId (oStatus c) = []
      then buildClientId (crPrivilegedNamespace r) (oSpec c) (ObjName req) (Namespace req)
      else otClientId (oStatus c))"

definition identified :: "'x ClientReconciler \<Rightarrow> ObjectKey \<Rightarrow> OidcClient \<Rightarrow> OidcClient" where
  "identified r req c = c\<lparr>oStatus := (oStatus c)\<lparr>otClientId := effective_id r req c\<rparr>\<rparr>"

lemma identified_simps [simp]:
  "oMeta (identified r req c) = oMeta c" "oSpec (identified r req c) = oSpec c"
  "otClientId (oStatus (identified r req c)) = effective_id r req c"
  "otPhase (oStatus (identified r req c)) = otPhase (oStatus c)"
  "otMessage (oStatus (identified r req c)) = otMessage (oStatus c)"
  by (simp_all add: identified_def)

lemma client_Reconcile_registers:
  assumes "apiGetClient api req = Inr c" "\<not> mDeleting (oMeta c)" "finalizerName \<in> set (mFinalizers (oMeta c))"
  shows "client_Reconcile api r req = registerClient api r (Namespace req) (identified r req c)"
  using assms by (simp add: client_Reconcile_def Let_def identified_def effective_id_def)

text \<open>
  C9: what reconciling a client does.  For an existing client with the finalizer: when it is disabled or wrongly
  configured nothing is registered under its client id afterwards, not even a client of another resource that had
  this id before; one that asks for registration is registered under its
  client id with its hashed secrets in the order of the resource, unless the id belongs to another
  resource, which then keeps it; an API error while reading a secret leaves the store as it is.  No other
  client id is touched.
\<close>

theorem client_reconcile_outcome:
  fixes r :: "'x ClientReconciler"
  assumes "apiGetClient api req = Inr c" and "\<not> mDeleting (oMeta c)"
    and "finalizerName \<in> set (mFinalizers (oMeta c))"
  defines "kid \<equiv> mNamespace (oMeta c) @ '':'' @ mName (oMeta c)"
    and "cid \<equiv> effective_id r req c"
    and "before \<equiv> Clients (crStorage r)"
    and "after \<equiv> Clients (crStorage (fst (client_Reconcile api r req)))"
  shows "(\<forall>x. x \<noteq> cid \<longrightarrow> gget after x = gget before x)
    \<and> (case wanted_client api (Namespace req) (oSpec c) of
         WantOff \<Rightarrow> gget after cid = None
       | WantError e \<Rightarrow> gget after cid = None
       | WantRetry e \<Rightarrow> gget after cid = gget before cid
       | WantClient hs \<Rightarrow>
           if owned_by_other (crStorage r) cid kid then gget after cid = gget before cid
           else (\<exists>k. gget after cid = Some k \<and> clientId k = cid \<and> k8sId k = kid \<and> hashedSecrets k = hs))"
  unfolding after_def before_def client_Reconcile_registers [OF assms(1-3)] registerClient_wanted cid_def kid_def
  by (auto simp: UpdateStorageAndStatus_storage next_storage_def SetClient_Clients wanted_client_def
      split: wanted.split option.splits hashing.splits if_splits)

definition sample_client_resource :: OidcClient where
  "sample_client_resource =
     \<lparr>oMeta = \<lparr>mName = ''web'', mNamespace = ''apps'', mDeleting = False, mFinalizers = [finalizerName]\<rparr>,
      oSpec = \<lparr>ocEnabled = None, ocSecrets = None, ocRedirectURIs = [''https://web/cb''], ocGrantTypes = [''authorization_code''],
        ocResponseTypes = [''code''], ocScopes = [''openid''], ocPublic = True, ocAudiences = [], ocForceOpenIdScope = None,
        ocStyle = [], ocPostLogoutURL = [], ocDisplayName = ''Web'', ocDescription = [], ocEntryURL = [],
        ocAccessTokenLifespan = 0, ocRefreshTokenLifespan = 0, ocIDTokenLifespan = 0, ocClientId = [],
        ocUpstreamProviders = []\<rparr>,
      oStatus = \<lparr>otPhase = CPhaseNone, otClientId = [], otMessage = []\<rparr>\<rparr>"

definition sample_client_api :: "OidcClient \<Rightarrow> ClientApi" where
  "sample_client_api c =
     \<lparr>apiGetClient = (\<lambda>k. Inr c), apiGetSecret = (\<lambda>k. Inl KNotFound), apiPatch = (\<lambda>c. None),
      apiStatusUpdate = (\<lambda>c. None), bcryptHash = Some\<rparr>"

definition sample_client_reconciler :: "unit ClientReconciler" where
  "sample_client_reconciler =
     \<lparr>crStorage = NewMemoryStore (\<lambda>l p. Inr None), crStatusErrorCount = 0, crPrivilegedNamespace = ''kubauth'',
      crDefaultStyle = ''default''\<rparr>"

abbreviation sample_client_key :: ObjectKey where
  "sample_client_key \<equiv> \<lparr>Namespace = ''apps'', ObjName = ''web''\<rparr>"

lemmas sample_client_defs = sample_client_resource_def sample_client_api_def sample_client_reconciler_def

theorem client_reconcile_outcome_witness:
  "\<exists>k. gget (Clients (crStorage (fst (client_Reconcile (sample_client_api sample_client_resource)
       sample_client_reconciler sample_client_key)))) ''apps-web'' = Some k \<and> k8sId k = ''apps:web'' \<and> hashedSecrets k = []"
proof -
  have run: "apiGetClient (sample_client_api sample_client_resource) sample_client_key = Inr sample_client_resource"
      "\<not> mDeleting (oMeta sample_client_resource)"
      "finalizerName \<in> set (mFinalizers (oMeta sample_client_resource))"
    by (simp_all add: sample_client_defs)
  have facts: "effective_id sample_client_reconciler sample_client_key sample_client_resource = ''apps-web''"
      "wanted_client (sample_client_api sample_client_resource) ''apps'' (oSpec sample_client_resource) = WantClient []"
      "\<not> owned_by_other (crStorage sample_client_reconciler) x y" for x y
    by (simp_all add: sample_client_defs effective_id_def buildClientId_def wanted_client_def BoolPtrTrue_def
        owned_by_other_def NewMemoryStore_def)
  from client_reconcile_outcome [OF run, of sample_client_reconciler] show ?thesis
    by (auto simp: facts) (simp add: sample_client_resource_def)
qed

section \<open>Reconciliation settles\<close>

definition final_error :: "'x MemoryStore \<Rightarrow> OidcClient \<Rightarrow> string list \<Rightarrow> string option \<Rightarrow> string option" where
  "final_error s c hs err =
     (if err = None \<and> BoolPtrTrue (ocEnabled (oSpec c))
      then map_option storeErr_text (snd (SetClient s (NewKubauthClient c (otClientId (oStatus c)) hs)))
      else err)"

lemma SetClient_error:
  "snd (SetClient s k) =
     (case gget (Clients s) (clientId k) of
        Some old \<Rightarrow> if k8sId old \<noteq> k8sId k then Some (ClientDuplicationError (k8sId old)) else None
      | None \<Rightarrow> None)"
  by (auto simp: SetClient_def split: option.split)

lemma UpdateStorageAndStatus_form:
  "\<exists>ty reason msg. UpdateStorageAndStatus api r c hs err =
     also_writes [CEvent ty reason msg]
       (client_updateStatus api (r\<lparr>crStorage := next_storage (crStorage r) c hs err\<rparr>) c
          (final_error (crStorage r) c hs err))"
  by (auto simp: UpdateStorageAndStatus_def next_storage_def final_error_def Let_def split: option.split prod.split)

lemma also_writes_eq: "(r, ws, out) = also_writes [w] res \<Longrightarrow> \<exists>ws'. res = (r, ws', out) \<and> ws = w # ws'"
  by (cases res) (simp add: also_writes_def)

lemma UpdateStorageAndStatus_run:
  assumes "UpdateStorageAndStatus api r c hs err = (r', ws, out)"
  shows "\<exists>ty reason msg ws'. ws = CEvent ty reason msg # ws'
    \<and> client_updateStatus api (r\<lparr>crStorage := next_storage (crStorage r) c hs err\<rparr>) c
        (final_error (crStorage r) c hs err) = (r', ws', out)"
proof -
  obtain ty reason msg where "(r', ws, out) = also_writes [CEvent ty reason msg]
      (client_updateStatus api (r\<lparr>crStorage := next_storage (crStorage r) c hs err\<rparr>) c (final_error (crStorage r) c hs err))"
    using UpdateStorageAndStatus_form [of api r c hs err] unfolding assms by (elim exE)
  from also_writes_eq [OF this] show ?thesis by (elim exE conjE) (intro exI conjI)
qed

lemma final_error_again:
  assumes "otClientId (oStatus c') = otClientId (oStatus c)" "oMeta c' = oMeta c"
    and "ocEnabled (oSpec c') = ocEnabled (oSpec c)"
  shows "final_error (next_storage s c hs err) c' hs' err = final_error s c hs err"
  using assms
  by (auto simp: final_error_def next_storage_def SetClient_error SetClient_Clients owned_by_other_def
      split: option.splits)

definition target_phase :: "OidcClient \<Rightarrow> string option \<Rightarrow> OidcClientPhase" where
  "target_phase c err =
     (if err \<noteq> None then CPhaseError else if \<not> BoolPtrTrue (ocEnabled (oSpec c)) then CPhaseOff else CPhaseReady)"

definition target_message :: "OidcClient \<Rightarrow> string option \<Rightarrow> string" where
  "target_message c err =
     (case err of Some e \<Rightarrow> e | None \<Rightarrow> if \<not> BoolPtrTrue (ocEnabled (oSpec c)) then ''Disabled'' else ''OK'')"

definition up_to_date :: "OidcClient \<Rightarrow> string option \<Rightarrow> bool" where
  "up_to_date c err \<longleftrightarrow> otPhase (oStatus c) = target_phase c err \<and> otMessage (oStatus c) = target_message c err"

lemma updateStatus_up_to_date:
  "up_to_date c err \<Longrightarrow> client_updateStatus api r c err = (r, [], finished)"
  by (auto simp: client_updateStatus_def up_to_date_def target_phase_def target_message_def Let_def split: option.splits)

text \<open>The resource after the writes of a reconciliation reached the API server.\<close>

fun persisted :: "client_write list \<Rightarrow> OidcClient \<Rightarrow> OidcClient" where
  "persisted [] c = c"
| "persisted (CStatus st # ws) c = persisted ws (c\<lparr>oStatus := st\<rparr>)"
| "persisted (CPatch m # ws) c = persisted ws (c\<lparr>oMeta := m\<rparr>)"
| "persisted (CEvent ty reason msg # ws) c = persisted ws c"

lemma updateStatus_finished:
  assumes "client_updateStatus api r d err = (r', ws, finished)"
    and "otPhase (oStatus d) = otPhase (oStatus c)" "otMessage (oStatus d) = otMessage (oStatus c)"
    and "ocEnabled (oSpec d) = ocEnabled (oSpec c)"
  shows "r' = r \<and> up_to_date (persisted ws c) err \<and> oSpec (persisted ws c) = oSpec c \<and> oMeta (persisted ws c) = oMeta c
    \<and> otClientId (oStatus (persisted ws c)) \<in> {otClientId (oStatus c), otClientId (oStatus d)}"
  using assms
  by (auto simp: client_updateStatus_def up_to_date_def target_phase_def target_message_def finished_def Let_def
      split: option.splits if_splits)

definition no_writes :: "client_write list \<Rightarrow> bool" where
  "no_writes ws \<longleftrightarrow> list_all (\<lambda>w. case w of CEvent ty reason msg \<Rightarrow> True | _ \<Rightarrow> False) ws"

definition registrations :: "'x MemoryStore \<Rightarrow> string \<rightharpoonup> string \<times> string" where
  "registrations s x = map_option (\<lambda>k. (clientId k, k8sId k)) (gget (Clients s) x)"

lemma registrations_again:
  assumes "otClientId (oStatus c') = otClientId (oStatus c)" "oMeta c' = oMeta c"
    and "ocEnabled (oSpec c') = ocEnabled (oSpec c)"
  shows "registrations (next_storage (next_storage s c hs err) c' hs' err) = registrations (next_storage s c hs err)"
  using assms
  by (auto simp: registrations_def next_storage_def SetClient_Clients owned_by_other_def fun_eq_iff split: if_splits)

text \<open>
  The same cluster asked again: the same secrets, and a hash function that accepts the same values (the
  hashes themselves are salted and differ).
\<close>

definition same_secrets :: "ClientApi \<Rightarrow> ClientApi \<Rightarrow> bool" where
  "same_secrets api api' \<longleftrightarrow>
     apiGetSecret api' = apiGetSecret api \<and> (\<forall>v. bcryptHash api' v = None \<longleftrightarrow> bcryptHash api v = None)"

fun same_verdict :: "hashing \<Rightarrow> hashing \<Rightarrow> bool" where
  "same_verdict (Hashed hs) h = (\<exists>hs'. h = Hashed hs')"
| "same_verdict (BadSecret e) h = (h = BadSecret e)"
| "same_verdict (RetrySecret e) h = (h = RetrySecret e)"

lemma hashLoop_again:
  "same_secrets api api' \<Longrightarrow> same_verdict (hashLoop api ns refs acc) (hashLoop api' ns refs acc')"
proof (induction api ns refs acc arbitrary: acc' rule: hashLoop.induct)
  case (2 api ns ref refs acc)
  have sec: "apiGetSecret api' = apiGetSecret api" and h: "\<And>v. bcryptHash api' v = None \<longleftrightarrow> bcryptHash api v = None"
    using "2.prems" by (auto simp: same_secrets_def)
  show ?case
  proof (cases "apiGetSecret api \<lparr>Namespace = ns, ObjName = csName ref\<rparr>")
    case (Inl e)
    then show ?thesis using sec by (cases e) simp_all
  next
    case (Inr data)
    show ?thesis
    proof (cases "gget data (csKey ref)")
      case None
      then show ?thesis using sec Inr by simp
    next
      case (Some v)
      note IH1 = "2.IH"(1) [OF Inr Some _ "2.prems"] and IH2 = "2.IH"(2) [OF Inr Some _ _ "2.prems"]
      show ?thesis
      proof (cases "csHashed ref")
        case True
        then show ?thesis using sec Inr Some IH1 by simp
      next
        case False
        then show ?thesis using sec Inr Some IH2 h [of v]
          by (cases "bcryptHash api v"; cases "bcryptHash api' v") auto
      qed
    qed
  qed
qed simp

lemma wanted_again:
  assumes "same_secrets api api'"
  shows "wanted_client api ns spec = WantOff \<Longrightarrow> wanted_client api' ns spec = WantOff"
    and "wanted_client api ns spec = WantError e \<Longrightarrow> wanted_client api' ns spec = WantError e"
    and "wanted_client api ns spec = WantClient hs \<Longrightarrow> \<exists>hs'. wanted_client api' ns spec = WantClient hs'"
  using hashLoop_again [OF assms, of ns "the (ocSecrets spec)" "[]" "[]"]
  by (auto simp: wanted_client_def split: if_splits hashing.splits)

lemma UpdateStorageAndStatus_settles:
  assumes "UpdateStorageAndStatus api r d hs err = (r', ws, finished)"
    and "otPhase (oStatus d) = otPhase (oStatus c)" "otMessage (oStatus d) = otMessage (oStatus c)"
    and "ocEnabled (oSpec d) = ocEnabled (oSpec c)" "oMeta d = oMeta c"
    and "oStatus d' = (oStatus (persisted ws c))\<lparr>otClientId := otClientId (oStatus d)\<rparr>"
    and "oMeta d' = oMeta c" "ocEnabled (oSpec d') = ocEnabled (oSpec c)"
  shows "\<exists>r'' ws'. UpdateStorageAndStatus api' r' d' hs' err = (r'', ws', finished) \<and> no_writes ws'
    \<and> registrations (crStorage r'') = registrations (crStorage r')"
proof -
  let ?fin = "final_error (crStorage r) d hs err"
  obtain ty reason msg ws1 where first:
      "client_updateStatus api (r\<lparr>crStorage := next_storage (crStorage r) d hs err\<rparr>) d ?fin = (r', ws1, finished)"
      "ws = CEvent ty reason msg # ws1"
    using UpdateStorageAndStatus_run [OF assms(1)] by (elim exE conjE)
  have r': "r' = r\<lparr>crStorage := next_storage (crStorage r) d hs err\<rparr>"
      and date: "up_to_date (persisted ws c) ?fin" and spec: "oSpec (persisted ws c) = oSpec c"
    using updateStatus_finished [OF first(1) assms(2-4)] first(2) by simp_all
  have date': "up_to_date d' ?fin"
    using date assms(6,8) spec by (simp add: up_to_date_def target_phase_def target_message_def)
  have again: "final_error (crStorage r') d' hs' err = ?fin"
    using final_error_again [of d' d] assms(5-8) assms(4) by (simp add: r')
  have "registrations (next_storage (crStorage r') d' hs' err) = registrations (crStorage r')"
    using registrations_again [of d' d "crStorage r" hs err hs'] assms(4-8) by (simp add: r')
  moreover obtain ty' reason' msg' where "UpdateStorageAndStatus api' r' d' hs' err =
      also_writes [CEvent ty' reason' msg'] (r'\<lparr>crStorage := next_storage (crStorage r') d' hs' err\<rparr>, [], finished)"
    using UpdateStorageAndStatus_form [of api' r' d' hs' err]
    unfolding again updateStatus_up_to_date [OF date'] by (elim exE)
  ultimately show ?thesis by (simp add: also_writes_def no_writes_def)
qed

lemma registerClient_form:
  assumes "registerClient api r ns c = (r', ws, finished)"
  shows "\<exists>d hs err. UpdateStorageAndStatus api r d hs err = (r', ws, finished)
    \<and> (d = c \<or> d = styled (crDefaultStyle r) c)"
proof (cases "wanted_client api ns (oSpec c)")
  case WantOff
  with assms have "UpdateStorageAndStatus api r c [] None = (r', ws, finished)" by (simp add: registerClient_wanted)
  then show ?thesis by blast
next
  case (WantError e)
  with assms have "UpdateStorageAndStatus api r (styled (crDefaultStyle r) c) [] (Some e) = (r', ws, finished)"
    by (simp add: registerClient_wanted)
  then show ?thesis by blast
next
  case (WantRetry e)
  with assms show ?thesis by (simp add: registerClient_wanted finished_def)
next
  case (WantClient hs)
  with assms have "UpdateStorageAndStatus api r (styled (crDefaultStyle r) c) hs None = (r', ws, finished)"
    by (simp add: registerClient_wanted)
  then show ?thesis by blast
qed

text \<open>
  C25: reconciling a client settles.  When a reconciliation of an existing client has finished without an
  error and its status update has reached the API server, reconciling the resource again sends no patch
  and no status update, and leaves the registrations as they are.
\<close>

theorem client_reconcile_settles:
  fixes r r' :: "'x ClientReconciler"
  assumes "apiGetClient api req = Inr c" and "\<not> mDeleting (oMeta c)" and "finalizerName \<in> set (mFinalizers (oMeta c))"
    and "client_Reconcile api r req = (r', ws, finished)"
    and "apiGetClient api' req = Inr (persisted ws c)" and "same_secrets api api'"
  shows "\<exists>r'' ws'. client_Reconcile api' r' req = (r'', ws', finished) \<and> no_writes ws'
    \<and> registrations (crStorage r'') = registrations (crStorage r')"
proof -
  let ?c2 = "persisted ws c"
  let ?d = "identified r req c"
  let ?d2 = "identified r' req ?c2"
  have run: "registerClient api r (Namespace req) ?d = (r', ws, finished)"
    using client_Reconcile_registers [OF assms(1-3), of r] assms(4) by simp
  obtain d hs err where step: "UpdateStorageAndStatus api r d hs err = (r', ws, finished)"
      and d: "d = ?d \<or> d = styled (crDefaultStyle r) ?d"
    using registerClient_form [OF run] by (elim exE conjE)
  obtain ty reason msg ws1 where first:
      "client_updateStatus api (r\<lparr>crStorage := next_storage (crStorage r) d hs err\<rparr>) d
         (final_error (crStorage r) d hs err) = (r', ws1, finished)" "ws = CEvent ty reason msg # ws1"
    using UpdateStorageAndStatus_run [OF step] by (elim exE conjE)
  have keeps: "oSpec ?c2 = oSpec c" "oMeta ?c2 = oMeta c"
      "otClientId (oStatus ?c2) \<in> {otClientId (oStatus c), effective_id r req c}"
      "crPrivilegedNamespace r' = crPrivilegedNamespace r"
    using updateStatus_finished [OF first(1), of c] d by (auto simp: first(2))
  have eff: "effective_id r' req ?c2 = effective_id r req c"
    using keeps by (auto simp: effective_id_def)
  have second: "client_Reconcile api' r' req = registerClient api' r' (Namespace req) ?d2"
    by (rule client_Reconcile_registers [OF assms(5)]) (use assms(2,3) keeps(2) in simp_all)
  have settles: "\<exists>r'' ws'. UpdateStorageAndStatus api' r' d2 hs' err2 = (r'', ws', finished) \<and> no_writes ws'
      \<and> registrations (crStorage r'') = registrations (crStorage r')"
    if "UpdateStorageAndStatus api r d1 hs1 err2 = (r', ws, finished)"
      "d1 = ?d \<or> d1 = styled (crDefaultStyle r) ?d" "d2 = ?d2 \<or> d2 = styled (crDefaultStyle r') ?d2" for d1 d2 hs1 hs' err2
    by (rule UpdateStorageAndStatus_settles [OF that(1), of c]) (use that(2,3) keeps eff in \<open>auto simp: identified_def\<close>)
  show ?thesis
  proof (cases "wanted_client api (Namespace req) (oSpec c)")
    case WantOff
    then have "UpdateStorageAndStatus api r ?d [] None = (r', ws, finished)"
      using run by (simp add: registerClient_wanted)
    from settles [OF this disjI1 [OF refl] disjI1 [OF refl], of "[]"] show ?thesis
      using wanted_again(1) [OF assms(6) WantOff] by (simp add: second registerClient_wanted keeps(1))
  next
    case (WantError e)
    then have "UpdateStorageAndStatus api r (styled (crDefaultStyle r) ?d) [] (Some e) = (r', ws, finished)"
      using run by (simp add: registerClient_wanted)
    from settles [OF this disjI2 [OF refl] disjI2 [OF refl], of "[]"] show ?thesis
      using wanted_again(2) [OF assms(6) WantError] by (simp add: second registerClient_wanted keeps(1))
  next
    case (WantRetry e)
    with run show ?thesis by (simp add: registerClient_wanted finished_def)
  next
    case (WantClient hs)
    then have "UpdateStorageAndStatus api r (styled (crDefaultStyle r) ?d) hs None = (r', ws, finished)"
      using run by (simp add: registerClient_wanted)
    note settles' = settles [OF this disjI2 [OF refl] disjI2 [OF refl]]
    obtain hs' where "wanted_client api' (Namespace req) (oSpec c) = WantClient hs'"
      using wanted_again(3) [OF assms(6) WantClient] by blast
    with settles' [of hs'] show ?thesis by (simp add: second registerClient_wanted keeps(1))
  qed
qed

lemma sample_client_settled:
  "\<exists>r' ws. client_Reconcile (sample_client_api sample_client_resource) sample_client_reconciler sample_client_key =
     (r', ws, finished)"
  by (simp add: client_Reconcile_def registerClient_def UpdateStorageAndStatus_def client_updateStatus_def
      sample_client_defs BoolPtrTrue_def SetClient_def NewMemoryStore_def also_writes_def Let_def buildClientId_def)

theorem client_reconcile_settles_witness:
  "\<exists>r' ws r'' ws'. client_Reconcile (sample_client_api sample_client_resource) sample_client_reconciler sample_client_key =
       (r', ws, finished)
     \<and> client_Reconcile (sample_client_api (persisted ws sample_client_resource)) r' sample_client_key = (r'', ws', finished)
     \<and> no_writes ws'"
proof -
  obtain r' ws where run: "client_Reconcile (sample_client_api sample_client_resource) sample_client_reconciler
      sample_client_key = (r', ws, finished)"
    using sample_client_settled by (elim exE)
  have facts: "apiGetClient (sample_client_api c) sample_client_key = Inr c"
      "\<not> mDeleting (oMeta sample_client_resource)" "finalizerName \<in> set (mFinalizers (oMeta sample_client_resource))"
      "same_secrets (sample_client_api c) (sample_client_api c')" for c c'
    by (simp_all add: sample_client_defs same_secrets_def)
  from client_reconcile_settles [OF facts(1-3) run facts(1,4)] run show ?thesis by blast
qed

section \<open>Default client ids\<close>

lemma append_at_dash:
  "CHR ''-'' \<notin> set a \<Longrightarrow> CHR ''-'' \<notin> set b \<Longrightarrow> a @ ''-'' @ n = b @ ''-'' @ m \<longleftrightarrow> a = b \<and> n = m"
proof (induction a arbitrary: b)
  case Nil
  then show ?case by (cases b) auto
next
  case (Cons x a)
  then show ?case by (cases b) auto
qed

text \<open>
  The default client ids.  Two resources of other than the privileged namespace, without an explicit
  client id, get the same id only when they are the same resource, provided the names of their namespaces
  have no dash; in general the ids are not unique, because the dash that joins namespace and name may also
  stand in either of them.
\<close>

theorem default_client_ids:
  assumes "ocClientId spec1 = []" and "ocClientId spec2 = []" and "ns1 \<noteq> p" and "ns2 \<noteq> p" and "ns1 @ ''-'' @ ns2 \<noteq> p"
  shows "(CHR ''-'' \<notin> set ns1 \<and> CHR ''-'' \<notin> set ns2 \<longrightarrow>
           (buildClientId p spec1 n1 ns1 = buildClientId p spec2 n2 ns2 \<longleftrightarrow> ns1 = ns2 \<and> n1 = n2))
    \<and> buildClientId p spec1 (ns2 @ ''-'' @ n1) ns1 = buildClientId p spec2 n1 (ns1 @ ''-'' @ ns2)"
  using assms append_at_dash [of ns1 ns2 n1 n2] by (simp add: buildClientId_def)

theorem default_client_ids_witness:
  "buildClientId ''kubauth'' (oSpec sample_client_resource) ''prod-web'' ''shop'' =
     buildClientId ''kubauth'' (oSpec sample_client_resource) ''web'' ''shop-prod''"
proof -
  have "ocClientId (oSpec sample_client_resource) = []" by (simp add: sample_client_resource_def)
  from default_client_ids [OF this this, of "''shop''" "''kubauth''" "''prod''" "''web''"] show ?thesis by simp
qed

end
