(* ===== verification/UpstreamController.thy ===== *)
theory UpstreamController
  imports ClientController
begin

text \<open>
  \<^verbatim>\<open>cmd/oidc/controllers/upstream_controller.go\<close>: the reconciler that registers upstream providers.  The
  Kubernetes API is the parameter \<open>UpstreamApi\<close>; the HTTP environment and the OIDC library are those of
  \<open>NewUpstream\<close>.
\<close>

section \<open>Operations\<close>

record UpstreamApi =
  uaGetProvider :: "ObjectKey \<Rightarrow> kerr + UpstreamProvider"
  uaGetSecret :: "ObjectKey \<Rightarrow> kerr + string gomap"
  uaGetConfigMap :: "ObjectKey \<Rightarrow> kerr + string gomap"
  uaPatch :: "UpstreamProvider \<Rightarrow> kerr option"
  uaStatusUpdate :: "UpstreamProvider \<Rightarrow> kerr option"

record 'x UpstreamReconciler =
  urStorage :: "'x MemoryStore"
  urStatusErrorCount :: nat
  UpstreamNamespace :: string

datatype upstream_write = UPatch ObjectMeta | UStatus UpstreamProviderStatus | UEvent string string string

type_synonym 'x uresult = "'x UpstreamReconciler \<times> upstream_write list \<times> ctrlResult"

definition after_writes :: "upstream_write list \<Rightarrow> 'x uresult \<Rightarrow> 'x uresult" where
  "after_writes ws res = (case res of (r, ws', out) \<Rightarrow> (r, ws @ ws', out))"

text \<open>A text between double quotes, as \<^verbatim>\<open>%q\<close> prints a plain name.\<close>

definition dquoted :: "string \<Rightarrow> string" where
  "dquoted s = [CHR 0x22] @ s @ [CHR 0x22]"

definition defaultUpstreamCAKey :: string where
  "defaultUpstreamCAKey = ''ca.crt''"

definition upstream_updateStatus ::
  "UpstreamApi \<Rightarrow> 'x UpstreamReconciler \<Rightarrow> UpstreamProvider \<Rightarrow> upstream option \<Rightarrow> string option \<Rightarrow> 'x uresult" where
  "upstream_updateStatus api r provider u err =
     (let message = (case err of Some e \<Rightarrow> e | None \<Rightarrow> ''OK'');
          phase = (case err of
                     Some e \<Rightarrow> UPhaseError
                   | None \<Rightarrow> if \<not> BoolPtrTrue (usEnabled (upSpec provider)) then UPhaseOff else UPhaseReady);
          st = \<lparr>utPhase = phase, utMessage = message,
                utEffectiveConfig = (case u of Some up \<Rightarrow> GetEffectiveConfig up | None \<Rightarrow> None)\<rparr>
      in case uaStatusUpdate api (provider\<lparr>upStatus := st\<rparr>) of
           None \<Rightarrow> (r, [UStatus st], finished)
         | Some e \<Rightarrow>
             if urStatusErrorCount r = 0
             then (r\<lparr>urStatusErrorCount := urStatusErrorCount r + 1\<rparr>, [], \<lparr>requeueSoon = True, ctrlErr = None\<rparr>)
             else (r, [], \<lparr>requeueSoon = False, ctrlErr = Some e\<rparr>))"

definition checkInput :: "UpstreamProviderSpec \<Rightarrow> string option" where
  "checkInput spec =
     (if usType spec \<noteq> UpstreamProviderTypeOidc
      then Some (''upstream provider type '' @ usType spec @ '' is not supported'')
      else if usDisplayName spec = [] then Some ''upstream provider has no displayName''
      else if usIssuerURL spec = [] then Some ''upstream provider has no issuerURL''
      else if usRedirectURL spec = [] then Some ''upstream provider has no redirectURL''
      else if usClientId spec = [] then Some ''upstream provider has no clientId''
      else if usScopes spec = [] then Some ''upstream provider has no scopes''
      else if (case usExplicitConfig spec of Some d \<Rightarrow> ucAuthURL d = [] | None \<Rightarrow> False)
      then Some ''upstream provider explicitConfig has no authURL''
      else None)"

definition fetchClientSecret :: "UpstreamApi \<Rightarrow> string \<Rightarrow> string \<Rightarrow> string \<Rightarrow> string + string" where
  "fetchClientSecret api namespace secretName secretKey =
     (if secretName = [] then Inl ''clientSecret.name is required''
      else if secretKey = [] then Inl ''clientSecret.key is required''
      else
        (case uaGetSecret api \<lparr>Namespace = namespace, ObjName = secretName\<rparr> of
           Inl KNotFound \<Rightarrow> Inl (''client secret '' @ dquoted secretName @ '' not found in namespace '' @ dquoted namespace)
         | Inl e \<Rightarrow> Inl (kerr_text e)
         | Inr data \<Rightarrow>
             (case gget data secretKey of
                None \<Rightarrow> Inl (''no key '' @ dquoted secretKey @ '' in secret '' @ dquoted namespace @ ''/'' @ dquoted secretName)
              | Some v \<Rightarrow> Inr v)))"

definition fetchCaFrom ::
  "(ObjectKey \<Rightarrow> kerr + string gomap) \<Rightarrow> string \<Rightarrow> string \<Rightarrow> string \<Rightarrow> LocalSpec \<Rightarrow> string + string" where
  "fetchCaFrom getData kind kind' namespace src =
     (let key = (if lsKey src = [] then defaultUpstreamCAKey else lsKey src)
      in case getData \<lparr>Namespace = namespace, ObjName = lsName src\<rparr> of
           Inl KNotFound \<Rightarrow>
             Inl (''certificate authority '' @ kind @ '' '' @ dquoted (lsName src) @ '' not found in namespace '' @ dquoted namespace)
         | Inl e \<Rightarrow> Inl (kerr_text e)
         | Inr data \<Rightarrow>
             (case gget data key of
                None \<Rightarrow> Inl (''no key '' @ dquoted key @ '' in '' @ kind' @ '' '' @ dquoted namespace @ ''/'' @ dquoted (lsName src))
              | Some v \<Rightarrow> Inr v))"

definition named_source :: "LocalSpec option \<Rightarrow> LocalSpec option" where
  "named_source src = (case src of Some s \<Rightarrow> if lsName s \<noteq> [] then Some s else None | None \<Rightarrow> None)"

definition fetchCertificateAuthority :: "UpstreamApi \<Rightarrow> string \<Rightarrow> CertificateAuthoritySource \<Rightarrow> string + string" where
  "fetchCertificateAuthority api namespace src =
     (case (named_source (caConfigMap src), named_source (caSecret src)) of
        (Some cm, Some sec) \<Rightarrow> Inl ''certificateAuthority: set only one of configMap or secret''
      | (None, None) \<Rightarrow> Inl ''certificateAuthority: one of configMap or secret is required''
      | (Some cm, None) \<Rightarrow> fetchCaFrom (uaGetConfigMap api) ''configMap'' ''configmap'' namespace cm
      | (None, Some sec) \<Rightarrow> fetchCaFrom (uaGetSecret api) ''secret'' ''secret'' namespace sec)"

text \<open>Everything the configuration of an OIDC provider must satisfy: the client secret and the CA bundle, or a message.\<close>

definition providerInputs :: "UpstreamApi \<Rightarrow> string \<Rightarrow> UpstreamProviderSpec \<Rightarrow> string + string \<times> string" where
  "providerInputs api ns spec =
     (case checkInput spec of
        Some e \<Rightarrow> Inl e
      | None \<Rightarrow>
          (case (if lsName (usClientSecret spec) \<noteq> []
                 then fetchClientSecret api ns (lsName (usClientSecret spec)) (lsKey (usClientSecret spec))
                 else Inr []) of
             Inl e \<Rightarrow> Inl e
           | Inr clientSecret \<Rightarrow>
               (case usCertificateAuthority spec of
                  None \<Rightarrow> Inr (clientSecret, [])
                | Some src \<Rightarrow>
                    (case fetchCertificateAuthority api ns src of
                       Inl e \<Rightarrow> Inl e
                     | Inr caPEM \<Rightarrow> Inr (clientSecret, caPEM)))))"

definition registerUpstream ::
  "HttpEnv \<Rightarrow> OidcLib \<Rightarrow> UpstreamApi \<Rightarrow> 'x UpstreamReconciler \<Rightarrow> string \<Rightarrow> UpstreamProvider \<Rightarrow> 'x uresult" where
  "registerUpstream env lib api r ns provider =
     (let spec = upSpec provider;
          nm = mName (upMeta provider)
      in if \<not> BoolPtrTrue (usEnabled spec) then
           after_writes [UEvent ''Normal'' ''Off'' ''Disabled'']
             (upstream_updateStatus api (r\<lparr>urStorage := DeleteUpstream (urStorage r) nm\<rparr>) provider None None)
         else if usType spec = UpstreamProviderTypeInternal then
           (case NewUpstream env lib provider [] [] of
              Inl e \<Rightarrow> (r, [], finished)
            | Inr u \<Rightarrow>
                after_writes [UEvent ''Normal'' ''Created'' ''Created internal upstream'']
                  (upstream_updateStatus api (r\<lparr>urStorage := SetUpstream (urStorage r) u\<rparr>) provider (Some u) None))
         else
           (case providerInputs api ns spec of
              Inl e \<Rightarrow>
                after_writes [UEvent ''Warning'' ''Configuration'' e] (upstream_updateStatus api r provider None (Some e))
            | Inr (clientSecret, caPEM) \<Rightarrow>
                (case NewUpstream env lib provider clientSecret caPEM of
                   Inl e \<Rightarrow>
                     (case upstream_updateStatus api r provider None (Some e) of
                        (r', ws, out) \<Rightarrow>
                          if ctrlErr out \<noteq> None then (r', ws, out)
                          else (r', ws @ [UEvent ''Warning'' ''CreationFailure'' e],
                                \<lparr>requeueSoon = False, ctrlErr = Some (KError e)\<rparr>))
                 | Inr u \<Rightarrow>
                     after_writes [UEvent ''Normal'' ''Created'' ''Created upstream OIDC server'']
                       (upstream_updateStatus api (r\<lparr>urStorage := SetUpstream (urStorage r) u\<rparr>) provider (Some u) None))))"

definition upstream_Reconcile ::
  "HttpEnv \<Rightarrow> OidcLib \<Rightarrow> UpstreamApi \<Rightarrow> 'x UpstreamReconciler \<Rightarrow> ObjectKey \<Rightarrow> 'x uresult" where
  "upstream_Reconcile env lib api r req =
     (if Namespace req \<noteq> UpstreamNamespace r then (r, [], finished)
      else
        (case uaGetProvider api req of
           Inl e \<Rightarrow> (r, [], \<lparr>requeueSoon = False, ctrlErr = IgnoreNotFound (Some e)\<rparr>)
         | Inr provider \<Rightarrow>
             if mDeleting (upMeta provider) then
               (let r' = (if utPhase (upStatus provider) = UPhaseReady
                          then r\<lparr>urStorage := DeleteUpstream (urStorage r) (mName (upMeta provider))\<rparr> else r);
                    patched = provider\<lparr>upMeta := RemoveFinalizer finalizerName (upMeta provider)\<rparr>
                in case uaPatch api patched of
                     Some e \<Rightarrow> (r', [], \<lparr>requeueSoon = False, ctrlErr = Some e\<rparr>)
                   | None \<Rightarrow> (r', [UPatch (upMeta patched)], finished))
             else if finalizerName \<notin> set (mFinalizers (upMeta provider)) then
               (let patched = provider\<lparr>upMeta := AddFinalizer finalizerName (upMeta provider)\<rparr>
                in case uaPatch api patched of
                     Some e \<Rightarrow> (r, [], \<lparr>requeueSoon = False, ctrlErr = Some e\<rparr>)
                   | None \<Rightarrow> (r, [UPatch (upMeta patched)], finished))
             else registerUpstream env lib api r (Namespace req) provider))"

section \<open>What a reconciliation does to the upstreams\<close>

lemma upstream_updateStatus_storage [simp]:
  "urStorage (fst (upstream_updateStatus api r p u err)) = urStorage r"
  "UpstreamNamespace (fst (upstream_updateStatus api r p u err)) = UpstreamNamespace r"
  by (simp_all add: upstream_updateStatus_def Let_def split: option.split)

lemma after_writes_simps [simp]:
  "fst (after_writes ws res) = fst res"
  "snd (snd (after_writes ws res)) = snd (snd res)"
  by (simp_all add: after_writes_def split: prod.split)

lemma NewUpstream_internal:
  "usType (upSpec p) = UpstreamProviderTypeInternal \<Longrightarrow> \<exists>u. NewUpstream env lib p cs ca = Inr u \<and> uName' u = mName (upMeta p)"
  by (simp add: NewUpstream_def Let_def)

lemma NewUpstream_name: "NewUpstream env lib p cs ca = Inr u \<Longrightarrow> uName' u = mName (upMeta p)"
  by (auto simp: NewUpstream_def Let_def split: if_splits sum.splits option.splits)

lemma Upstreams_ops [simp]:
  "gget (Upstreams (SetUpstream s u)) x = (if x = uName' u then Some u else gget (Upstreams s) x)"
  "gget (Upstreams (DeleteUpstream s nm)) x = (if x = nm then None else gget (Upstreams s) x)"
  by (simp_all add: SetUpstream_def DeleteUpstream_def)

lemma upstream_Reconcile_registers:
  assumes "Namespace req = UpstreamNamespace r" "uaGetProvider api req = Inr p" "\<not> mDeleting (upMeta p)"
    and "finalizerName \<in> set (mFinalizers (upMeta p))"
  shows "upstream_Reconcile env lib api r req = registerUpstream env lib api r (Namespace req) p"
  using assms by (simp add: upstream_Reconcile_def)

text \<open>What a provider resource asks for: no upstream, the given one, or to leave the registered one.\<close>

datatype wanted_upstream = NoUpstream | ThisUpstream upstream | LeaveUpstream

definition wantedUpstream :: "HttpEnv \<Rightarrow> OidcLib \<Rightarrow> UpstreamApi \<Rightarrow> string \<Rightarrow> UpstreamProvider \<Rightarrow> wanted_upstream" where
  "wantedUpstream env lib api ns p =
     (if \<not> BoolPtrTrue (usEnabled (upSpec p)) then NoUpstream
      else
        (case (if usType (upSpec p) = UpstreamProviderTypeInternal then Inr ([], []) else providerInputs api ns (upSpec p)) of
           Inl e \<Rightarrow> LeaveUpstream
         | Inr (clientSecret, caPEM) \<Rightarrow>
             (case NewUpstream env lib p clientSecret caPEM of Inl e \<Rightarrow> LeaveUpstream | Inr u \<Rightarrow> ThisUpstream u)))"

lemma registerUpstream_storage:
  "urStorage (fst (registerUpstream env lib api r ns p)) =
     (case wantedUpstream env lib api ns p of
        NoUpstream \<Rightarrow> DeleteUpstream (urStorage r) (mName (upMeta p))
      | ThisUpstream u \<Rightarrow> SetUpstream (urStorage r) u
      | LeaveUpstream \<Rightarrow> urStorage r)"
proof (cases "providerInputs api ns (upSpec p)")
  case (Inl e)
  then show ?thesis
    by (auto simp: registerUpstream_def wantedUpstream_def Let_def split: sum.split)
next
  case (Inr input)
  obtain cs ca where input: "input = (cs, ca)" by force
  show ?thesis
  proof (cases "NewUpstream env lib p cs ca")
    case (Inl e)
    obtain r' ws out where st: "upstream_updateStatus api r p None (Some e) = (r', ws, out)" by (metis prod_cases3)
    then have "urStorage r' = urStorage r" using upstream_updateStatus_storage(1) [of api r p None "Some e"] by simp
    with Inl Inr input st show ?thesis
      by (auto simp: registerUpstream_def wantedUpstream_def Let_def split: sum.split)
  next
    case (Inr u)
    with \<open>providerInputs api ns (upSpec p) = Inr input\<close> input show ?thesis
      by (auto simp: registerUpstream_def wantedUpstream_def Let_def split: sum.split)
  qed
qed

text \<open>
  C23: what reconciling an upstream provider does.  For an existing provider with the finalizer: a disabled
  one is not available afterwards; one whose configuration is complete and whose issuer can be reached is
  available under its name with the new configuration; when the configuration is wrong or the issuer cannot
  be reached, what was registered before stays.  No other upstream is touched.
\<close>

theorem upstream_reconcile_outcome:
  fixes r :: "'x UpstreamReconciler" and env :: HttpEnv and lib :: OidcLib
  assumes "Namespace req = UpstreamNamespace r" and "uaGetProvider api req = Inr p" and "\<not> mDeleting (upMeta p)"
    and "finalizerName \<in> set (mFinalizers (upMeta p))"
  defines "before \<equiv> urStorage r" and "after \<equiv> urStorage (fst (upstream_Reconcile env lib api r req))"
    and "nm \<equiv> mName (upMeta p)"
  shows "(\<forall>x. x \<noteq> nm \<longrightarrow> GetUpstream after x = GetUpstream before x)
    \<and> GetUpstream after nm =
        (case wantedUpstream env lib api (Namespace req) p of
           NoUpstream \<Rightarrow> None | ThisUpstream u \<Rightarrow> Some u | LeaveUpstream \<Rightarrow> GetUpstream before nm)"
proof -
  have "uName' u = nm" if "wantedUpstream env lib api (Namespace req) p = ThisUpstream u" for u
    using that NewUpstream_name [of env lib p _ _ u]
    by (auto simp: wantedUpstream_def nm_def split: if_splits sum.splits prod.splits)
  then show ?thesis
    unfolding after_def upstream_Reconcile_registers [OF assms(1-4)] registerUpstream_storage
    by (auto simp: GetUpstream_def before_def nm_def split: wanted_upstream.split)
qed

text \<open>
  C40: an upstream can outlive its resource.  When a registered provider is changed into a wrong
  configuration and then deleted, the first reconciliation reports the error and the second one removes the
  finalizer, but neither removes the upstream from the store: users can still log in with it.
\<close>

theorem deleted_upstream_survives:
  fixes r :: "'x UpstreamReconciler"
  assumes "Namespace req = UpstreamNamespace r" and "uaGetProvider api req = Inr p" and "\<not> mDeleting (upMeta p)"
    and "finalizerName \<in> set (mFinalizers (upMeta p))"
    and "BoolPtrTrue (usEnabled (upSpec p))" and "usType (upSpec p) \<noteq> UpstreamProviderTypeInternal"
    and "providerInputs api (Namespace req) (upSpec p) = Inl e" and "\<forall>q. uaStatusUpdate api q = None"
    and "GetUpstream (urStorage r) (mName (upMeta p)) = Some u"
    and "upstream_Reconcile env lib api r req = (r1, ws, out)" and "UStatus st \<in> set ws"
    and "uaGetProvider api' req = Inr (p\<lparr>upMeta := (upMeta p)\<lparr>mDeleting := True\<rparr>, upStatus := st\<rparr>)"
    and "\<forall>q. uaPatch api' q = None"
  shows "utPhase st = UPhaseError
    \<and> (\<exists>r2 m. upstream_Reconcile env lib api' r1 req = (r2, [UPatch m], finished) \<and> finalizerName \<notin> set (mFinalizers m)
        \<and> GetUpstream (urStorage r2) (mName (upMeta p)) = Some u)"
proof -
  have "registerUpstream env lib api r (Namespace req) p =
      (r, [UEvent ''Warning'' ''Configuration'' e, UStatus \<lparr>utPhase = UPhaseError, utMessage = e, utEffectiveConfig = None\<rparr>], finished)"
    using assms(5-8)
    by (simp add: registerUpstream_def upstream_updateStatus_def after_writes_def Let_def)
  then have first: "r1 = r" "st = \<lparr>utPhase = UPhaseError, utMessage = e, utEffectiveConfig = None\<rparr>"
    using upstream_Reconcile_registers [OF assms(1-4)] assms(10,11) by auto
  then show ?thesis
    using assms(1,9,12,13) by (simp add: upstream_Reconcile_def RemoveFinalizer_def Let_def)
qed

section \<open>A provider that breaks and goes\<close>

definition sample_provider :: UpstreamProvider where
  "sample_provider =
     \<lparr>upMeta = \<lparr>mName = ''corp'', mNamespace = ''kubauth'', mDeleting = False, mFinalizers = [finalizerName]\<rparr>,
      upSpec = zeroSpec\<lparr>usType := ''oidc''\<rparr>,
      upStatus = \<lparr>utPhase = UPhaseReady, utMessage = ''OK'', utEffectiveConfig = None\<rparr>\<rparr>"

definition sample_upstream_api :: "UpstreamProvider \<Rightarrow> UpstreamApi" where
  "sample_upstream_api p =
     \<lparr>uaGetProvider = (\<lambda>k. Inr p), uaGetSecret = (\<lambda>k. Inl KNotFound), uaGetConfigMap = (\<lambda>k. Inl KNotFound),
      uaPatch = (\<lambda>q. None), uaStatusUpdate = (\<lambda>q. None)\<rparr>"

definition sample_upstream_reconciler :: "unit UpstreamReconciler" where
  "sample_upstream_reconciler =
     \<lparr>urStorage = SetUpstream (NewMemoryStore (\<lambda>l p. Inr None)) (sample_upstream\<lparr>uName' := ''corp''\<rparr>),
      urStatusErrorCount = 0, UpstreamNamespace = ''kubauth''\<rparr>"

definition sample_oidc_lib :: OidcLib where
  "sample_oidc_lib =
     \<lparr>discover = (\<lambda>h i. Inl ''unreachable''), providerClaims = (\<lambda>p. Inl ''no claims''),
      configProvider = (\<lambda>h c. \<lparr>pvIssuer = pcIssuerURL c,
         pvEndpoint = \<lparr>epAuthURL = pcAuthURL c, epTokenURL = pcTokenURL c, epDeviceAuthURL = pcDeviceAuthURL c\<rparr>,
         pvUserInfoEndpoint = pcUserInfoURL c\<rparr>),
      verifyIDToken = (\<lambda>p c t. Inl ''bad token''), userInfo = (\<lambda>p t. Inl ''no user info'')\<rparr>"

abbreviation sample_upstream_key :: ObjectKey where
  "sample_upstream_key \<equiv> \<lparr>Namespace = ''kubauth'', ObjName = ''corp''\<rparr>"

lemmas sample_upstream_defs = sample_provider_def sample_upstream_api_def sample_upstream_reconciler_def

lemma sample_provider_facts:
  "Namespace sample_upstream_key = UpstreamNamespace sample_upstream_reconciler"
  "uaGetProvider (sample_upstream_api p) sample_upstream_key = Inr p"
  "\<not> mDeleting (upMeta sample_provider)" "finalizerName \<in> set (mFinalizers (upMeta sample_provider))"
  "BoolPtrTrue (usEnabled (upSpec sample_provider))" "usType (upSpec sample_provider) \<noteq> UpstreamProviderTypeInternal"
  "providerInputs (sample_upstream_api p) (Namespace sample_upstream_key) (upSpec sample_provider) =
     Inl ''upstream provider has no displayName''"
  "\<forall>q. uaStatusUpdate (sample_upstream_api p) q = None" "\<forall>q. uaPatch (sample_upstream_api p) q = None"
  "GetUpstream (urStorage sample_upstream_reconciler) (mName (upMeta sample_provider)) = Some (sample_upstream\<lparr>uName' := ''corp''\<rparr>)"
  by (simp_all add: sample_upstream_defs zeroSpec_def BoolPtrTrue_def UpstreamProviderTypeInternal_def
      UpstreamProviderTypeOidc_def providerInputs_def checkInput_def GetUpstream_def)

theorem upstream_reconcile_outcome_witness:
  "GetUpstream (urStorage (fst (upstream_Reconcile sample_http_env sample_oidc_lib (sample_upstream_api sample_provider)
      sample_upstream_reconciler sample_upstream_key))) ''corp'' = Some (sample_upstream\<lparr>uName' := ''corp''\<rparr>)"
proof -
  have "wantedUpstream sample_http_env sample_oidc_lib (sample_upstream_api sample_provider) (Namespace sample_upstream_key)
      sample_provider = LeaveUpstream"
    using sample_provider_facts(5-7) by (simp add: wantedUpstream_def)
  moreover have "mName (upMeta sample_provider) = ''corp''" by (simp add: sample_provider_def)
  ultimately show ?thesis
    using upstream_reconcile_outcome [OF sample_provider_facts(1-4), of sample_http_env sample_oidc_lib]
      sample_provider_facts(10) by simp
qed

theorem deleted_upstream_survives_witness:
  "\<exists>r1 ws out st r2 m. upstream_Reconcile sample_http_env sample_oidc_lib (sample_upstream_api sample_provider)
       sample_upstream_reconciler sample_upstream_key = (r1, ws, out) \<and> UStatus st \<in> set ws
     \<and> upstream_Reconcile sample_http_env sample_oidc_lib
         (sample_upstream_api (sample_provider\<lparr>upMeta := (upMeta sample_provider)\<lparr>mDeleting := True\<rparr>, upStatus := st\<rparr>))
         r1 sample_upstream_key = (r2, [UPatch m], finished)
     \<and> GetUpstream (urStorage r2) ''corp'' \<noteq> None"
proof -
  let ?st = "\<lparr>utPhase = UPhaseError, utMessage = ''upstream provider has no displayName'', utEffectiveConfig = None\<rparr>"
  have run: "upstream_Reconcile sample_http_env sample_oidc_lib (sample_upstream_api sample_provider)
      sample_upstream_reconciler sample_upstream_key =
      (sample_upstream_reconciler,
       [UEvent ''Warning'' ''Configuration'' ''upstream provider has no displayName'', UStatus ?st], finished)"
    unfolding upstream_Reconcile_registers [OF sample_provider_facts(1-4)]
    using sample_provider_facts(5-8) by (simp add: registerUpstream_def upstream_updateStatus_def after_writes_def Let_def)
  have name: "mName (upMeta sample_provider) = ''corp''" by (simp add: sample_provider_def)
  from deleted_upstream_survives [OF sample_provider_facts(1-8,10) run _ sample_provider_facts(2,9), of ?st] run name
  show ?thesis by (fastforce simp del: finished_def)
qed

end
