(* ===== verification/Watching.thy ===== *)
theory Watching
  imports UpstreamController
begin

text \<open>
  What the OIDC command sets up around its two controllers: the indexes that lead from a Secret to the
  resources that use it, the functions that turn a change of a Secret into reconciliation requests
  (\<^verbatim>\<open>cmd/oidc/oidc.go\<close>), and the defaulting webhook of OIDC clients (\<^verbatim>\<open>cmd/oidc/webhooks\<close>).

  The cache of the manager is the list of the resources it holds; listing by an index gives those whose
  index values contain the wanted one, or an error.
\<close>

section \<open>Indexes\<close>

definition secretIndexOnOidcClient :: "OidcClient \<Rightarrow> string list" where
  "secretIndexOnOidcClient oidcClient =
     (case ocSecrets (oSpec oidcClient) of
        None \<Rightarrow> []
      | Some secrets \<Rightarrow> map (\<lambda>secret. mNamespace (oMeta oidcClient) @ '':'' @ csName secret) secrets)"

definition secretIndexOnUpstreamProvider :: "UpstreamProvider \<Rightarrow> string list" where
  "secretIndexOnUpstreamProvider p =
     (if lsName (usClientSecret (upSpec p)) = [] then []
      else [mNamespace (upMeta p) @ '':'' @ lsName (usClientSecret (upSpec p))])"

definition list_indexed :: "('a \<Rightarrow> string list) \<Rightarrow> kerr option \<Rightarrow> 'a list \<Rightarrow> string \<Rightarrow> kerr + 'a list" where
  "list_indexed index err objs v =
     (case err of Some e \<Rightarrow> Inl e | None \<Rightarrow> Inr (filter (\<lambda>x. v \<in> set (index x)) objs))"

section \<open>From a Secret to requests\<close>

definition object_key :: "ObjectMeta \<Rightarrow> ObjectKey" where
  "object_key m = \<lparr>Namespace = mNamespace m, ObjName = mName m\<rparr>"

definition findOidcClientFromSecret :: "kerr option \<Rightarrow> OidcClient list \<Rightarrow> ObjectKey \<Rightarrow> ObjectKey list" where
  "findOidcClientFromSecret err oidcClients secret =
     (case list_indexed secretIndexOnOidcClient err oidcClients (Namespace secret @ '':'' @ ObjName secret) of
        Inl e \<Rightarrow> []
      | Inr items \<Rightarrow> map (\<lambda>item. object_key (oMeta item)) items)"

definition findUpstreamProviderFromSecret :: "kerr option \<Rightarrow> UpstreamProvider list \<Rightarrow> ObjectKey \<Rightarrow> ObjectKey list" where
  "findUpstreamProviderFromSecret err upstreamProviders secret =
     (case list_indexed secretIndexOnUpstreamProvider err upstreamProviders (Namespace secret @ '':'' @ ObjName secret) of
        Inl e \<Rightarrow> []
      | Inr items \<Rightarrow> map (\<lambda>item. object_key (upMeta item)) items)"

definition upstreamSecretPred :: "string \<Rightarrow> ObjectKey \<Rightarrow> bool" where
  "upstreamSecretPred upstreamNamespace secret \<longleftrightarrow> Namespace secret = upstreamNamespace"

text \<open>The requests the watch of the upstream controller makes of a changed Secret.\<close>

definition upstreamSecretRequests :: "string \<Rightarrow> kerr option \<Rightarrow> UpstreamProvider list \<Rightarrow> ObjectKey \<Rightarrow> ObjectKey list" where
  "upstreamSecretRequests ns err providers secret =
     (if upstreamSecretPred ns secret then findUpstreamProviderFromSecret err providers secret else [])"

section \<open>The defaulting webhook\<close>

definition skipWebhookAnnotation :: string where
  "skipWebhookAnnotation = ''kubauth.kubotal.io/skipWebhooks''"

definition skipped :: "string gomap \<Rightarrow> bool" where
  "skipped annotations =
     (case gget annotations skipWebhookAnnotation of Some a \<Rightarrow> map lower a \<noteq> ''no'' | None \<Rightarrow> False)"

definition hour :: int where
  "hour = 3600000000000"

definition oidcClient_Default :: "string gomap \<Rightarrow> OidcClient \<Rightarrow> OidcClient" where
  "oidcClient_Default annotations c =
     (if skipped annotations then c
      else
        c\<lparr>oSpec := (oSpec c)
            \<lparr>ocAccessTokenLifespan :=
               (if ocAccessTokenLifespan (oSpec c) = 0 then 1 * hour else ocAccessTokenLifespan (oSpec c)),
             ocRefreshTokenLifespan :=
               (if ocRefreshTokenLifespan (oSpec c) = 0 then 1 * hour else ocRefreshTokenLifespan (oSpec c)),
             ocIDTokenLifespan :=
               (if ocIDTokenLifespan (oSpec c) = 0 then 1 * hour else ocIDTokenLifespan (oSpec c))\<rparr>\<rparr>)"

section \<open>A changed secret reaches the resources that use it\<close>

text \<open>Two states of the API that differ in one Secret at most.\<close>

definition same_but :: "ObjectKey \<Rightarrow> ClientApi \<Rightarrow> ClientApi \<Rightarrow> bool" where
  "same_but k api api' \<longleftrightarrow>
     api' = api\<lparr>apiGetSecret := apiGetSecret api'\<rparr> \<and> (\<forall>x. x \<noteq> k \<longrightarrow> apiGetSecret api' x = apiGetSecret api x)"

definition same_upstream_but :: "ObjectKey \<Rightarrow> UpstreamApi \<Rightarrow> UpstreamApi \<Rightarrow> bool" where
  "same_upstream_but k api api' \<longleftrightarrow>
     api' = api\<lparr>uaGetSecret := uaGetSecret api'\<rparr> \<and> (\<forall>x. x \<noteq> k \<longrightarrow> uaGetSecret api' x = uaGetSecret api x)"

lemma hashLoop_cong:
  assumes "\<And>ref. ref \<in> set refs \<Longrightarrow> apiGetSecret api' \<lparr>Namespace = ns, ObjName = csName ref\<rparr> = apiGetSecret api \<lparr>Namespace = ns, ObjName = csName ref\<rparr>"
    and "bcryptHash api' = bcryptHash api"
  shows "hashLoop api' ns refs acc = hashLoop api ns refs acc"
  using assms(1)
proof (induction refs arbitrary: acc)
  case (Cons ref refs)
  have here: "apiGetSecret api' \<lparr>Namespace = ns, ObjName = csName ref\<rparr> = apiGetSecret api \<lparr>Namespace = ns, ObjName = csName ref\<rparr>"
    by (rule Cons.prems) simp
  have rest: "hashLoop api' ns refs acc' = hashLoop api ns refs acc'" for acc'
    by (rule Cons.IH, rule Cons.prems) simp
  show ?case by (simp add: here rest assms(2) split: sum.split kerr.split option.split)
qed simp

lemma client_updateStatus_same: "client_updateStatus (api\<lparr>apiGetSecret := g\<rparr>) r c err = client_updateStatus api r c err"
  by (simp add: client_updateStatus_def Let_def split: option.split)

lemma UpdateStorageAndStatus_same:
  "UpdateStorageAndStatus (api\<lparr>apiGetSecret := g\<rparr>) r c hs err = UpdateStorageAndStatus api r c hs err"
  by (simp add: UpdateStorageAndStatus_def client_updateStatus_same Let_def split: option.split prod.split)

lemma client_Reconcile_unaffected:
  assumes same: "same_but k api api'" and c: "apiGetClient api req = Inr c" "object_key (oMeta c) = req" "c \<in> set clients"
    and not_asked: "req \<notin> set (findOidcClientFromSecret None clients k)"
  shows "client_Reconcile api' r req = client_Reconcile api r req"
proof -
  have api': "api' = api\<lparr>apiGetSecret := apiGetSecret api'\<rparr>" using same by (simp add: same_but_def)
  have ns: "Namespace req = mNamespace (oMeta c)" using c(2) by (auto simp: object_key_def)
  have unused: "Namespace k @ '':'' @ ObjName k \<notin> set (secretIndexOnOidcClient c)"
    using not_asked c by (auto simp: findOidcClientFromSecret_def list_indexed_def)
  have others: "apiGetSecret api' \<lparr>Namespace = Namespace req, ObjName = csName ref\<rparr> =
      apiGetSecret api \<lparr>Namespace = Namespace req, ObjName = csName ref\<rparr>"
    if "ocSecrets (oSpec c) = Some refs" "ref \<in> set refs" for refs ref
  proof -
    have "\<lparr>Namespace = Namespace req, ObjName = csName ref\<rparr> \<noteq> k"
      using unused that by (auto simp: secretIndexOnOidcClient_def ns)
    then show ?thesis using same by (simp add: same_but_def)
  qed
  have hash: "hashLoop api' (Namespace req) refs acc = hashLoop api (Namespace req) refs acc"
    if "ocSecrets (oSpec c) = Some refs" for refs acc
    by (rule hashLoop_cong [OF others [OF that]], assumption) (subst api', simp)
  have "wanted_client api' (Namespace req) (oSpec c) = wanted_client api (Namespace req) (oSpec c)"
    by (cases "ocSecrets (oSpec c)") (simp_all add: wanted_client_def hash)
  then have "registerClient api' r (Namespace req) (identified r req c) = registerClient api r (Namespace req) (identified r req c)"
    unfolding registerClient_wanted by (subst (1 2 3) api') (simp add: UpdateStorageAndStatus_same split: wanted.split)
  moreover have "apiGetClient api' req = Inr c" "apiPatch api' = apiPatch api" using c(1) by (subst api', simp)+
  ultimately show ?thesis
    using c(1) by (simp add: client_Reconcile_def Let_def identified_def effective_id_def)
qed

lemma upstream_updateStatus_same:
  "upstream_updateStatus (api\<lparr>uaGetSecret := g\<rparr>) r p u err = upstream_updateStatus api r p u err"
  by (simp add: upstream_updateStatus_def Let_def split: option.split)

lemma upstream_Reconcile_unaffected:
  fixes r :: "'x UpstreamReconciler"
  assumes same: "same_upstream_but k api api'" and p: "uaGetProvider api req = Inr p" "object_key (upMeta p) = req" "p \<in> set providers"
    and not_asked: "req \<notin> set (upstreamSecretRequests (UpstreamNamespace r) None providers k)"
    and ca: "\<forall>src s. usCertificateAuthority (upSpec p) = Some src \<and> caSecret src = Some s \<longrightarrow>
      \<lparr>Namespace = Namespace req, ObjName = lsName s\<rparr> \<noteq> k"
  shows "upstream_Reconcile env lib api' r req = upstream_Reconcile env lib api r req"
proof (cases "Namespace req = UpstreamNamespace r")
  case True
  have api': "api' = api\<lparr>uaGetSecret := uaGetSecret api'\<rparr>" using same by (simp add: same_upstream_but_def)
  have ns: "Namespace req = mNamespace (upMeta p)" using p(2) by (auto simp: object_key_def)
  have "\<lparr>Namespace = Namespace req, ObjName = lsName (usClientSecret (upSpec p))\<rparr> \<noteq> k"
    if "lsName (usClientSecret (upSpec p)) \<noteq> []"
    using not_asked p True that
    by (auto simp: upstreamSecretRequests_def upstreamSecretPred_def findUpstreamProviderFromSecret_def list_indexed_def
        secretIndexOnUpstreamProvider_def ns)
  then have secret: "fetchClientSecret api' (Namespace req) (lsName (usClientSecret (upSpec p))) key =
      fetchClientSecret api (Namespace req) (lsName (usClientSecret (upSpec p))) key" for key
    using same by (simp add: fetchClientSecret_def same_upstream_but_def)
  have "fetchCertificateAuthority api' (Namespace req) src = fetchCertificateAuthority api (Namespace req) src"
    if "usCertificateAuthority (upSpec p) = Some src" for src
  proof -
    have "fetchCaFrom (uaGetSecret api') kind kind' (Namespace req) s = fetchCaFrom (uaGetSecret api) kind kind' (Namespace req) s"
      if "caSecret src = Some s" for s kind kind'
      using ca same \<open>usCertificateAuthority (upSpec p) = Some src\<close> that by (simp add: fetchCaFrom_def same_upstream_but_def)
    moreover have "uaGetConfigMap api' = uaGetConfigMap api" by (subst api', simp)
    ultimately show ?thesis
      by (auto simp: fetchCertificateAuthority_def named_source_def split: option.split)
  qed
  then have inputs: "providerInputs api' (Namespace req) (upSpec p) = providerInputs api (Namespace req) (upSpec p)"
    by (simp add: providerInputs_def secret split: option.split sum.split)
  have "upstream_updateStatus api' r' p' u err = upstream_updateStatus api r' p' u err" for r' :: "'x UpstreamReconciler" and p' u err
    by (subst api') (rule upstream_updateStatus_same)
  with inputs have "registerUpstream env lib api' r (Namespace req) p = registerUpstream env lib api r (Namespace req) p"
    by (simp only: registerUpstream_def Let_def)
  moreover have "uaGetProvider api' req = Inr p" "uaPatch api' = uaPatch api" using p(1) by (subst api', simp)+
  ultimately show ?thesis using p(1) True by (simp add: upstream_Reconcile_def Let_def)
qed (simp add: upstream_Reconcile_def)

text \<open>
  C22: a changed secret reaches the resources that use it.  Let one Secret change while everything else in the
  cluster stays.  An OIDC client that the watch does not put back into the queue would be reconciled to the
  same result as before.  So would an upstream provider, unless the Secret is the one its certificate
  authority comes from, which the watch does not look at.
\<close>

theorem secret_change_requeues:
  fixes r :: "'x ClientReconciler" and u :: "'y UpstreamReconciler"
  shows "(\<forall>c clients. same_but k api api' \<and> apiGetClient api req = Inr c \<and> object_key (oMeta c) = req \<and> c \<in> set clients
        \<and> req \<notin> set (findOidcClientFromSecret None clients k) \<longrightarrow>
        client_Reconcile api' r req = client_Reconcile api r req)
    \<and> (\<forall>p providers. same_upstream_but k uapi uapi' \<and> uaGetProvider uapi req = Inr p \<and> object_key (upMeta p) = req
        \<and> p \<in> set providers \<and> req \<notin> set (upstreamSecretRequests (UpstreamNamespace u) None providers k)
        \<and> (\<forall>src s. usCertificateAuthority (upSpec p) = Some src \<and> caSecret src = Some s \<longrightarrow>
             \<lparr>Namespace = Namespace req, ObjName = lsName s\<rparr> \<noteq> k) \<longrightarrow>
        upstream_Reconcile env lib uapi' u req = upstream_Reconcile env lib uapi u req)"
  by (intro conjI allI impI; elim conjE)
    (rule client_Reconcile_unaffected upstream_Reconcile_unaffected; assumption)+

definition sample_secret_client :: OidcClient where
  "sample_secret_client =
     sample_client_resource\<lparr>oSpec := (oSpec sample_client_resource)
       \<lparr>ocPublic := False, ocSecrets := Some [\<lparr>csName = ''web'', csKey = ''pw'', csHashed = True\<rparr>]\<rparr>\<rparr>"

definition sample_secrets :: "string \<Rightarrow> ObjectKey \<Rightarrow> kerr + string gomap" where
  "sample_secrets pw k =
     (if k = \<lparr>Namespace = ''apps'', ObjName = ''web''\<rparr> then Inr [(''pw'', ''hash'')]
      else if k = \<lparr>Namespace = ''apps'', ObjName = ''db''\<rparr> then Inr [(''pw'', pw)] else Inl KNotFound)"

definition sample_secret_api :: "string \<Rightarrow> ClientApi" where
  "sample_secret_api pw = (sample_client_api sample_secret_client)\<lparr>apiGetSecret := sample_secrets pw\<rparr>"

theorem secret_change_requeues_witness:
  "client_Reconcile (sample_secret_api ''new'') sample_client_reconciler sample_client_key =
     client_Reconcile (sample_secret_api ''old'') sample_client_reconciler sample_client_key
   \<and> findOidcClientFromSecret None [sample_secret_client] \<lparr>Namespace = ''apps'', ObjName = ''web''\<rparr> = [sample_client_key]"
proof -
  have find: "findOidcClientFromSecret None [sample_secret_client] \<lparr>Namespace = ''apps'', ObjName = ''web''\<rparr> = [sample_client_key]"
    "findOidcClientFromSecret None [sample_secret_client] \<lparr>Namespace = ''apps'', ObjName = ''db''\<rparr> = []"
    by (simp_all add: findOidcClientFromSecret_def list_indexed_def secretIndexOnOidcClient_def sample_secret_client_def
        sample_client_resource_def object_key_def)
  have "same_but \<lparr>Namespace = ''apps'', ObjName = ''db''\<rparr> (sample_secret_api ''old'') (sample_secret_api ''new'')"
    "apiGetClient (sample_secret_api ''old'') sample_client_key = Inr sample_secret_client"
    "object_key (oMeta sample_secret_client) = sample_client_key"
    by (simp_all add: same_but_def sample_secret_api_def sample_secrets_def sample_client_api_def sample_secret_client_def
        sample_client_resource_def object_key_def)
  then show ?thesis
    using secret_change_requeues [THEN conjunct1, rule_format, where k = "\<lparr>Namespace = ''apps'', ObjName = ''db''\<rparr>"
        and api = "sample_secret_api ''old''" and api' = "sample_secret_api ''new''" and c = sample_secret_client
        and clients = "[sample_secret_client]" and req = sample_client_key and r = sample_client_reconciler] find
    by simp
qed

text \<open>The certificate authority of a provider is not indexed: a change of its Secret makes no request.\<close>

lemma ca_secret_not_indexed:
  "lsName (usClientSecret (upSpec p)) = [] \<Longrightarrow> upstreamSecretRequests ns err [p] secret = []"
  by (simp add: upstreamSecretRequests_def findUpstreamProviderFromSecret_def list_indexed_def secretIndexOnUpstreamProvider_def
      split: option.split)

text \<open>An admitted client has its own lifespans: the fallback of the server does not matter for it.\<close>

lemma admitted_lifespans:
  fixes c cid hs
  assumes "\<not> skipped annotations" "tt \<in> {AccessToken, RefreshToken, IDToken}"
  defines "k \<equiv> NewKubauthClient (oidcClient_Default annotations c) cid hs"
  shows "GetEffectiveLifespan k tt fallback \<noteq> 0" "GetEffectiveLifespan k tt fallback = GetEffectiveLifespan k tt fallback'"
    "oidcClient_Default annotations (oidcClient_Default annotations c) = oidcClient_Default annotations c"
  using assms by (auto simp: GetEffectiveLifespan_def oidcClient_Default_def hour_def)

end
