(* ===== verification/Admission.thy ===== *)
theory Admission
  imports Watching Ucrd
begin

text \<open>
  What stands between a resource a user submits and the servers that read it: the admission webhooks of the
  five kinds (\<^verbatim>\<open>cmd/ucrd/webhooks\<close>, \<^verbatim>\<open>cmd/oidc/webhooks\<close>), and the index by which the user server lists the group
  bindings of a user (\<^verbatim>\<open>cmd/ucrd/ucrd.go\<close>).

  The functions of a webhook get the resource without its metadata, and the annotations where they read them; log
  output is left out.
\<close>

section \<open>The webhooks\<close>

text \<open>Warnings and an error.\<close>

type_synonym verdict = "string list \<times> string option"

definition user_Default :: "UserSpec \<Rightarrow> string + UserSpec" where
  "user_Default user = Inr user"

definition user_ValidateCreate :: "UserSpec \<Rightarrow> verdict" where
  "user_ValidateCreate user = ([], None)"

definition user_ValidateUpdate :: "UserSpec \<Rightarrow> UserSpec \<Rightarrow> verdict" where
  "user_ValidateUpdate oldUser newUser = ([], None)"

definition user_ValidateDelete :: "UserSpec \<Rightarrow> verdict" where
  "user_ValidateDelete user = ([], None)"

definition group_Default :: "GroupSpec \<Rightarrow> string + GroupSpec" where
  "group_Default grp = Inr grp"

definition group_ValidateCreate :: "GroupSpec \<Rightarrow> verdict" where
  "group_ValidateCreate grp = ([], None)"

definition group_ValidateUpdate :: "GroupSpec \<Rightarrow> GroupSpec \<Rightarrow> verdict" where
  "group_ValidateUpdate oldGroup newGroup = ([], None)"

definition group_ValidateDelete :: "GroupSpec \<Rightarrow> verdict" where
  "group_ValidateDelete grp = ([], None)"

definition groupBinding_Default :: "GroupBindingSpec \<Rightarrow> string + GroupBindingSpec" where
  "groupBinding_Default binding = Inr binding"

definition groupBinding_ValidateCreate :: "GroupBindingSpec \<Rightarrow> verdict" where
  "groupBinding_ValidateCreate binding = ([], None)"

definition groupBinding_ValidateUpdate :: "GroupBindingSpec \<Rightarrow> GroupBindingSpec \<Rightarrow> verdict" where
  "groupBinding_ValidateUpdate oldBinding newBinding = ([], None)"

definition groupBinding_ValidateDelete :: "GroupBindingSpec \<Rightarrow> verdict" where
  "groupBinding_ValidateDelete binding = ([], None)"

definition oidcClient_ValidateCreate :: "OidcClient \<Rightarrow> verdict" where
  "oidcClient_ValidateCreate client = ([], None)"

definition oidcClient_ValidateUpdate :: "OidcClient \<Rightarrow> OidcClient \<Rightarrow> verdict" where
  "oidcClient_ValidateUpdate oldClient client = ([], None)"

definition oidcClient_ValidateDelete :: "OidcClient \<Rightarrow> verdict" where
  "oidcClient_ValidateDelete client = ([], None)"

definition upstreamProvider_Default :: "string gomap \<Rightarrow> UpstreamProvider \<Rightarrow> string + UpstreamProvider" where
  "upstreamProvider_Default annotations u = (if skipped annotations then Inr u else Inr u)"

definition upstreamProvider_ValidateCreate :: "UpstreamProvider \<Rightarrow> verdict" where
  "upstreamProvider_ValidateCreate u = ([], None)"

definition upstreamProvider_ValidateUpdate :: "UpstreamProvider \<Rightarrow> UpstreamProvider \<Rightarrow> verdict" where
  "upstreamProvider_ValidateUpdate oldU u = ([], None)"

definition upstreamProvider_ValidateDelete :: "UpstreamProvider \<Rightarrow> verdict" where
  "upstreamProvider_ValidateDelete u = ([], None)"

section \<open>Their registration\<close>

record 'a Webhook =
  whDefault :: "string gomap \<Rightarrow> 'a \<Rightarrow> string + 'a"
  whCreate :: "'a \<Rightarrow> verdict"
  whUpdate :: "'a \<Rightarrow> 'a \<Rightarrow> verdict"
  whDelete :: "'a \<Rightarrow> verdict"

definition SetupUserWebhookWithManager :: "UserSpec Webhook" where
  "SetupUserWebhookWithManager =
     \<lparr>whDefault = (\<lambda>_. user_Default), whCreate = user_ValidateCreate, whUpdate = user_ValidateUpdate,
      whDelete = user_ValidateDelete\<rparr>"

definition SetupGroupWebhookWithManager :: "GroupSpec Webhook" where
  "SetupGroupWebhookWithManager =
     \<lparr>whDefault = (\<lambda>_. group_Default), whCreate = group_ValidateCreate, whUpdate = group_ValidateUpdate,
      whDelete = group_ValidateDelete\<rparr>"

definition SetupGroupBindingWebhookWithManager :: "GroupBindingSpec Webhook" where
  "SetupGroupBindingWebhookWithManager =
     \<lparr>whDefault = (\<lambda>_. groupBinding_Default), whCreate = groupBinding_ValidateCreate,
      whUpdate = groupBinding_ValidateUpdate, whDelete = groupBinding_ValidateDelete\<rparr>"

definition SetupOidcClientWebhookWithManager :: "OidcClient Webhook" where
  "SetupOidcClientWebhookWithManager =
     \<lparr>whDefault = (\<lambda>annotations c. Inr (oidcClient_Default annotations c)), whCreate = oidcClient_ValidateCreate,
      whUpdate = oidcClient_ValidateUpdate, whDelete = oidcClient_ValidateDelete\<rparr>"

definition SetupUpstreamProviderWebhookWithManager :: "UpstreamProvider Webhook" where
  "SetupUpstreamProviderWebhookWithManager =
     \<lparr>whDefault = upstreamProvider_Default, whCreate = upstreamProvider_ValidateCreate,
      whUpdate = upstreamProvider_ValidateUpdate, whDelete = upstreamProvider_ValidateDelete\<rparr>"

section \<open>Admission\<close>

text \<open>
  What the API server stores for a create or update request: the resource as the defaulter leaves it, when the
  validator has no error.  The webhook registrations ask for these two operations only.
\<close>

datatype 'a request = Create 'a | Update 'a 'a

fun submitted :: "'a request \<Rightarrow> 'a" where
  "submitted (Create x) = x"
| "submitted (Update old x) = x"

definition stored_as :: "'a Webhook \<Rightarrow> string gomap \<Rightarrow> 'a request \<Rightarrow> string + 'a" where
  "stored_as wh annotations rq =
     (case whDefault wh annotations (submitted rq) of
        Inl err \<Rightarrow> Inl err
      | Inr x \<Rightarrow>
          (case snd (case rq of Create _ \<Rightarrow> whCreate wh x | Update old _ \<Rightarrow> whUpdate wh old x) of
             Some err \<Rightarrow> Inl err
           | None \<Rightarrow> Inr x))"

lemmas webhook_defs =
  SetupUserWebhookWithManager_def user_Default_def user_ValidateCreate_def user_ValidateUpdate_def
  SetupGroupWebhookWithManager_def group_Default_def group_ValidateCreate_def group_ValidateUpdate_def
  SetupGroupBindingWebhookWithManager_def groupBinding_Default_def groupBinding_ValidateCreate_def
  groupBinding_ValidateUpdate_def
  SetupOidcClientWebhookWithManager_def oidcClient_ValidateCreate_def oidcClient_ValidateUpdate_def
  SetupUpstreamProviderWebhookWithManager_def upstreamProvider_Default_def upstreamProvider_ValidateCreate_def
  upstreamProvider_ValidateUpdate_def

text \<open>
  The webhooks reject nothing: duplicate client ids, claims that are not JSON objects and incomplete providers
  are all stored, and found by the reconcilers and the user server only.  The one change is the
  lifespans of an OIDC client, which are not zero afterwards unless the annotation skips the webhook.
\<close>

lemma admission_rejects_nothing:
  "stored_as SetupUserWebhookWithManager an rq1 = Inr (submitted rq1)"
  "stored_as SetupGroupWebhookWithManager an rq2 = Inr (submitted rq2)"
  "stored_as SetupGroupBindingWebhookWithManager an rq3 = Inr (submitted rq3)"
  "stored_as SetupUpstreamProviderWebhookWithManager an rq4 = Inr (submitted rq4)"
  "stored_as SetupOidcClientWebhookWithManager an rq5 = Inr (oidcClient_Default an (submitted rq5))"
  by (simp_all add: stored_as_def webhook_defs split: request.split)

lemma stored_lifespans:
  assumes "stored_as SetupOidcClientWebhookWithManager an rq = Inr c" "\<not> skipped an"
  shows "GetEffectiveLifespan (NewKubauthClient c cid hs) tt fallback =
    (case tt of
       AccessToken \<Rightarrow> (let l = ocAccessTokenLifespan (oSpec (submitted rq)) in if l = 0 then hour else l)
     | RefreshToken \<Rightarrow> (let l = ocRefreshTokenLifespan (oSpec (submitted rq)) in if l = 0 then hour else l)
     | IDToken \<Rightarrow> (let l = ocIDTokenLifespan (oSpec (submitted rq)) in if l = 0 then hour else l)
     | AuthorizeCode \<Rightarrow> fallback)"
proof -
  have "c = oidcClient_Default an (submitted rq)" using assms(1) by (simp add: admission_rejects_nothing)
  then show ?thesis
    using assms(2) by (cases tt) (simp_all add: oidcClient_Default_def GetEffectiveLifespan_def NewKubauthClient_def hour_def Let_def)
qed

section \<open>The bindings of a user\<close>

definition userkey :: "GroupBindingSpec \<Rightarrow> string list" where
  "userkey ugb = [gbUser ugb]"

text \<open>
  The user server's view of a cluster: resources by namespace and name, bindings listed through the index.
\<close>

definition cached_client ::
  "(ObjectKey \<rightharpoonup> UserSpec) \<Rightarrow> (ObjectKey \<rightharpoonup> GroupSpec) \<Rightarrow> (string \<Rightarrow> GroupBindingSpec list) \<Rightarrow> crd_client" where
  "cached_client users groups bindings =
     \<lparr>listBindings = (\<lambda>ns login. list_indexed userkey None (bindings ns) login),
      getGroup = (\<lambda>k. case groups k of None \<Rightarrow> Inl KNotFound | Some g \<Rightarrow> Inr g),
      getUser = (\<lambda>k. case users k of None \<Rightarrow> Inl KNotFound | Some u \<Rightarrow> Inr u)\<rparr>"

lemma cached_bindings:
  "listBindings (cached_client users groups bindings) ns login = Inr (filter (\<lambda>b. gbUser b = login) (bindings ns))"
  by (auto simp: cached_client_def list_indexed_def userkey_def intro!: filter_cong)

end
