(* ===== verification/K8sApi.thy ===== *)
theory K8sApi
  imports Config
begin

text \<open>
  \<^verbatim>\<open>internal/k8sapi\<close>: how a server finds its cluster.  The libraries it asks and the process environment are a
  record of functions; \<open>'cfg\<close> is what they know of a cluster, \<open>'cl\<close> and \<open>'cs\<close> the two kinds of client.
\<close>

record ('cfg, 'cl, 'cs) ClusterEnv =
  ceInCluster :: "string + 'cfg"
  ceUserHomeDir :: "string + string"
  ceGetenv :: "string \<Rightarrow> string"
  ceBuildConfigFromFlags :: "string \<Rightarrow> string \<Rightarrow> string + 'cfg"
  ceNewClient :: "'cfg \<Rightarrow> string + 'cl"
  ceNewForConfig :: "'cfg \<Rightarrow> string + 'cs"

definition GetRestConfig :: "('cfg, 'cl, 'cs) ClusterEnv \<Rightarrow> string + 'cfg" where
  "GetRestConfig env =
     (case ceInCluster env of
        Inr config \<Rightarrow> Inr config
      | Inl _ \<Rightarrow>
          (case ceUserHomeDir env of
             Inl err \<Rightarrow> Inl (''unable to locate home directory: '' @ err)
           | Inr home \<Rightarrow>
               (let envVar = ceGetenv env ''KUBECONFIG'';
                    kubeconfig = (if length envVar > 0 then envVar else Join (Join home ''.kube'') ''config'')
                in case ceBuildConfigFromFlags env [] kubeconfig of
                     Inl err \<Rightarrow> Inl (''unable to build kubernetes config: '' @ err)
                   | Inr config \<Rightarrow> Inr config)))"

definition GetKubeClientFromConfig :: "('cfg, 'cl, 'cs) ClusterEnv \<Rightarrow> 'cfg \<Rightarrow> string + 'cl" where
  "GetKubeClientFromConfig env config =
     (case ceNewClient env config of
        Inl err \<Rightarrow> Inl (''unable to build kubernetes client: '' @ err)
      | Inr kubeClient \<Rightarrow> Inr kubeClient)"

definition GetKubeClient :: "('cfg, 'cl, 'cs) ClusterEnv \<Rightarrow> string + 'cl" where
  "GetKubeClient env =
     (case GetRestConfig env of Inl err \<Rightarrow> Inl err | Inr config \<Rightarrow> GetKubeClientFromConfig env config)"

definition GetClientSet :: "('cfg, 'cl, 'cs) ClusterEnv \<Rightarrow> string + 'cs" where
  "GetClientSet env =
     (case GetRestConfig env of Inl err \<Rightarrow> Inl err | Inr config \<Rightarrow> ceNewForConfig env config)"

text \<open>
  A pod uses its own service account whatever its environment says; elsewhere the file named by
  \<^verbatim>\<open>KUBECONFIG\<close> is read and, when it is not set, the one in the home directory.
\<close>

lemma GetRestConfig_sources:
  "ceInCluster env = Inr config \<Longrightarrow> GetRestConfig env = Inr config"
  "\<lbrakk>ceInCluster env = Inl e; GetRestConfig env = Inr config\<rbrakk> \<Longrightarrow> \<exists>home. ceUserHomeDir env = Inr home
     \<and> ceBuildConfigFromFlags env []
         (if ceGetenv env ''KUBECONFIG'' = [] then Join (Join home ''.kube'') ''config'' else ceGetenv env ''KUBECONFIG'') = Inr config"
  by (auto simp: GetRestConfig_def Let_def split: sum.splits if_splits)

text \<open>The home directory is needed even when \<^verbatim>\<open>KUBECONFIG\<close> names the file.\<close>

lemma GetRestConfig_homeless:
  assumes "ceInCluster env = Inl e" "ceUserHomeDir env = Inl e'"
  shows "GetRestConfig env = Inl (''unable to locate home directory: '' @ e')"
  using assms by (simp add: GetRestConfig_def)

lemma clients_same_cluster:
  assumes "GetKubeClient env = Inr kubeClient" "GetClientSet env = Inr clientset"
  obtains config where "GetRestConfig env = Inr config" "ceNewClient env config = Inr kubeClient"
    "ceNewForConfig env config = Inr clientset"
  using assms by (auto simp: GetKubeClient_def GetClientSet_def GetKubeClientFromConfig_def split: sum.splits)

end
