(* ===== verification/GoMemory.thy ===== *)
theory GoMemory
  imports Prelude
begin

text \<open>
  The memory of a Go program as far as copying of data structures needs it.  A cell is the target of a pointer
  (one value) or the array behind a slice; an address is its number, and a new cell gets the next one.  A slice
  is a window of an array, and may share the array with other slices.  Structures are values: assigning one
  copies its fields, and with them the addresses of pointers and slices.
\<close>

section \<open>Values, cells and types\<close>

type_synonym addr = nat

datatype mval =
    MStr string
  | MInt int
  | MBool bool
  | MPtr "addr option"
  | MSlice "(addr \<times> nat \<times> nat) option"
  | MStruct "(string \<times> mval) list"

type_synonym heap = "mval list list"

datatype ty =
    TStr
  | TInt
  | TBool
  | TPtr ty
  | TSlice ty
  | TStruct "(string \<times> ty) list"

text \<open>What a value is without its addresses.\<close>

datatype tree =
    DStr string
  | DInt int
  | DBool bool
  | DNil
  | DRef tree
  | DSlice "tree list"
  | DStruct "(string \<times> tree) list"

definition window :: "heap \<Rightarrow> addr \<Rightarrow> nat \<Rightarrow> nat \<Rightarrow> mval list" where
  "window h a off n = take n (drop off (h ! a))"

text \<open>A value has a type, with everything that it refers to; a pointer refers to one value.\<close>

fun typed :: "heap \<Rightarrow> ty \<Rightarrow> mval \<Rightarrow> bool"
  and typed_fields :: "heap \<Rightarrow> (string \<times> ty) list \<Rightarrow> (string \<times> mval) list \<Rightarrow> bool" where
  "typed h TStr v = (case v of MStr s \<Rightarrow> True | _ \<Rightarrow> False)"
| "typed h TInt v = (case v of MInt i \<Rightarrow> True | _ \<Rightarrow> False)"
| "typed h TBool v = (case v of MBool b \<Rightarrow> True | _ \<Rightarrow> False)"
| "typed h (TPtr t) v =
     (case v of
        MPtr None \<Rightarrow> True
      | MPtr (Some a) \<Rightarrow> a < length h \<and> length (h ! a) = 1 \<and> typed h t (hd (h ! a))
      | _ \<Rightarrow> False)"
| "typed h (TSlice t) v =
     (case v of
        MSlice None \<Rightarrow> True
      | MSlice (Some (a, off, n)) \<Rightarrow> a < length h \<and> off + n \<le> length (h ! a) \<and> list_all (typed h t) (window h a off n)
      | _ \<Rightarrow> False)"
| "typed h (TStruct fs) v = (case v of MStruct vs \<Rightarrow> typed_fields h fs vs | _ \<Rightarrow> False)"
| "typed_fields h [] vs = (vs = [])"
| "typed_fields h ((f, t) # fs) vs =
     (case vs of [] \<Rightarrow> False | (g, x) # vs' \<Rightarrow> f = g \<and> typed h t x \<and> typed_fields h fs vs')"

fun view :: "heap \<Rightarrow> ty \<Rightarrow> mval \<Rightarrow> tree"
  and view_fields :: "heap \<Rightarrow> (string \<times> ty) list \<Rightarrow> (string \<times> mval) list \<Rightarrow> (string \<times> tree) list" where
  "view h TStr v = (case v of MStr s \<Rightarrow> DStr s | _ \<Rightarrow> DNil)"
| "view h TInt v = (case v of MInt i \<Rightarrow> DInt i | _ \<Rightarrow> DNil)"
| "view h TBool v = (case v of MBool b \<Rightarrow> DBool b | _ \<Rightarrow> DNil)"
| "view h (TPtr t) v = (case v of MPtr (Some a) \<Rightarrow> DRef (view h t (hd (h ! a))) | _ \<Rightarrow> DNil)"
| "view h (TSlice t) v =
     (case v of MSlice (Some (a, off, n)) \<Rightarrow> DSlice (map (view h t) (window h a off n)) | _ \<Rightarrow> DNil)"
| "view h (TStruct fs) v = (case v of MStruct vs \<Rightarrow> DStruct (view_fields h fs vs) | _ \<Rightarrow> DNil)"
| "view_fields h [] vs = []"
| "view_fields h ((f, t) # fs) vs =
     (case vs of [] \<Rightarrow> [] | (g, x) # vs' \<Rightarrow> (g, view h t x) # view_fields h fs vs')"

text \<open>The addresses of the cells a value is made of, in the order in which they are met.\<close>

fun reach :: "heap \<Rightarrow> ty \<Rightarrow> mval \<Rightarrow> addr list"
  and reach_fields :: "heap \<Rightarrow> (string \<times> ty) list \<Rightarrow> (string \<times> mval) list \<Rightarrow> addr list" where
  "reach h TStr v = []"
| "reach h TInt v = []"
| "reach h TBool v = []"
| "reach h (TPtr t) v = (case v of MPtr (Some a) \<Rightarrow> a # reach h t (hd (h ! a)) | _ \<Rightarrow> [])"
| "reach h (TSlice t) v =
     (case v of MSlice (Some (a, off, n)) \<Rightarrow> a # concat (map (reach h t) (window h a off n)) | _ \<Rightarrow> [])"
| "reach h (TStruct fs) v = (case v of MStruct vs \<Rightarrow> reach_fields h fs vs | _ \<Rightarrow> [])"
| "reach_fields h [] vs = []"
| "reach_fields h ((f, t) # fs) vs =
     (case vs of [] \<Rightarrow> [] | (g, x) # vs' \<Rightarrow> reach h t x @ reach_fields h fs vs')"

section \<open>Copying\<close>

text \<open>
  A copier makes of a value another one, in a memory that may have grown.  A new cell is written here when
  its content is complete, after the cells the content refers to; the source allocates it first and fills it
  then, which gives the cells other addresses and nothing else.
\<close>

type_synonym copier = "heap \<Rightarrow> mval \<Rightarrow> heap \<times> mval"

text \<open>Assignment, \<^verbatim>\<open>*out = *in\<close>.\<close>

definition assign :: copier where
  "assign h v = (h, v)"

text \<open>\<^verbatim>\<open>if in != nil { out = new(T); in.DeepCopyInto(out) }\<close>.\<close>

definition new_copy :: "copier \<Rightarrow> copier" where
  "new_copy c h v =
     (case v of
        MPtr (Some a) \<Rightarrow> (let (h1, w) = c h (hd (h ! a)) in (h1 @ [[w]], MPtr (Some (length h1))))
      | _ \<Rightarrow> (h, v))"

text \<open>
  \<^verbatim>\<open>if in != nil { out = make([]T, len(in)); ... }\<close>, with a loop over the elements or, when the elements are
  assigned, with the built-in \<^verbatim>\<open>copy\<close>.
\<close>

fun copy_elems :: "copier \<Rightarrow> heap \<Rightarrow> mval list \<Rightarrow> heap \<times> mval list" where
  "copy_elems c h [] = (h, [])"
| "copy_elems c h (x # xs) = (let (h1, y) = c h x; (h2, ys) = copy_elems c h1 xs in (h2, y # ys))"

definition slice_copy :: "copier \<Rightarrow> copier" where
  "slice_copy c h v =
     (case v of
        MSlice (Some (a, off, n)) \<Rightarrow>
          (let (h1, ys) = copy_elems c h (window h a off n) in (h1 @ [ys], MSlice (Some (length h1, 0, n))))
      | _ \<Rightarrow> (h, v))"

text \<open>
  A structure: \<^verbatim>\<open>*out = *in\<close> and then, field by field, what the function does for it.  Each of these
  steps reads \<^verbatim>\<open>in\<close> and writes one field of \<^verbatim>\<open>out\<close>, so the fields can be taken one after the other.
\<close>

fun copy_fields :: "(string \<times> copier) list \<Rightarrow> heap \<Rightarrow> (string \<times> mval) list \<Rightarrow> heap \<times> (string \<times> mval) list" where
  "copy_fields cs h [] = (h, [])"
| "copy_fields cs h ((f, x) # vs) =
     (let (h1, y) = (case map_of cs f of None \<Rightarrow> assign | Some c \<Rightarrow> c) h x;
          (h2, ws) = copy_fields cs h1 vs
      in (h2, (f, y) # ws))"

definition struct_copy :: "(string \<times> copier) list \<Rightarrow> copier" where
  "struct_copy cs h v =
     (case v of MStruct vs \<Rightarrow> (let (h1, ws) = copy_fields cs h vs in (h1, MStruct ws)) | _ \<Rightarrow> (h, v))"

section \<open>Frames\<close>

text \<open>What a value is depends on the cells it is made of only.\<close>

definition agree :: "heap \<Rightarrow> heap \<Rightarrow> addr list \<Rightarrow> bool" where
  "agree h h' as \<longleftrightarrow> (\<forall>a \<in> set as. a < length h' \<and> h' ! a = h ! a)"

lemma agree_simps [simp]:
  "agree h h' []" "agree h h' (a # as) \<longleftrightarrow> (a < length h' \<and> h' ! a = h ! a) \<and> agree h h' as"
  "agree h h' (as @ bs) \<longleftrightarrow> agree h h' as \<and> agree h h' bs"
  "agree h h' (concat ass) \<longleftrightarrow> (\<forall>as \<in> set ass. agree h h' as)"
  by (auto simp: agree_def)

lemma frame:
  shows "typed h t v \<Longrightarrow> agree h h' (reach h t v) \<Longrightarrow>
      typed h' t v \<and> view h' t v = view h t v \<and> reach h' t v = reach h t v"
    and "typed_fields h fs vs \<Longrightarrow> agree h h' (reach_fields h fs vs) \<Longrightarrow>
      typed_fields h' fs vs \<and> view_fields h' fs vs = view_fields h fs vs \<and> reach_fields h' fs vs = reach_fields h fs vs"
proof (induction h t v and h fs vs rule: typed_typed_fields.induct)
  case (4 h t v)
  then show ?case by (auto split: mval.splits option.splits)
next
  case (5 h t v)
  show ?case
  proof (cases "\<exists>a off n. v = MSlice (Some (a, off, n))")
    case True
    then obtain a off n where v: "v = MSlice (Some (a, off, n))" by blast
    have same: "window h' a off n = window h a off n" using 5(3) by (simp add: v window_def)
    have "typed h' t x \<and> view h' t x = view h t x \<and> reach h' t x = reach h t x" if "x \<in> set (window h a off n)" for x
      using 5 that by (auto simp: v list_all_iff)
    then show ?thesis using 5(2,3) same by (auto simp: v list_all_iff intro: arg_cong [where f = concat])
  qed (use 5(2) in \<open>auto split: mval.splits option.splits\<close>)
next
  case (6 h fs v)
  then show ?case by (auto split: mval.splits)
next
  case (8 h f t fs vs)
  then show ?case by (cases vs) (auto split: prod.splits)
qed (auto split: mval.splits)

lemma reach_bound:
  shows "typed h t v \<Longrightarrow> a \<in> set (reach h t v) \<Longrightarrow> a < length h"
    and "typed_fields h fs vs \<Longrightarrow> a \<in> set (reach_fields h fs vs) \<Longrightarrow> a < length h"
  by (induction h t v and h fs vs rule: typed_typed_fields.induct)
    (auto simp: list_all_iff split: mval.splits option.splits list.splits)

lemma agree_append: "(\<And>a. a \<in> set as \<Longrightarrow> a < length h) \<Longrightarrow> agree h (h @ new) as"
  by (auto simp: agree_def nth_append intro: trans_less_add1)

lemma grown:
  assumes "typed h t v"
  shows "typed (h @ new) t v" "view (h @ new) t v = view h t v" "reach (h @ new) t v = reach h t v"
  using frame(1) [OF assms agree_append] reach_bound(1) [OF assms] by blast+

section \<open>Deep copiers\<close>

text \<open>
  What a deep copier promises: it only adds cells; its result has the type and the content of the original
  and is made of new cells, each of them used once.
\<close>

definition deep_copy :: "copier \<Rightarrow> ty \<Rightarrow> bool" where
  "deep_copy c t \<longleftrightarrow>
     (\<forall>h v h' w. typed h t v \<longrightarrow> c h v = (h', w) \<longrightarrow>
        (\<exists>new. h' = h @ new) \<and> typed h' t w \<and> view h' t w = view h t v
        \<and> distinct (reach h' t w) \<and> set (reach h' t w) \<subseteq> {length h..<length h'})"

lemma deep_copyI:
  assumes "\<And>h v h' w. typed h t v \<Longrightarrow> c h v = (h', w) \<Longrightarrow>
    (\<exists>new. h' = h @ new) \<and> typed h' t w \<and> view h' t w = view h t v
    \<and> distinct (reach h' t w) \<and> set (reach h' t w) \<subseteq> {length h..<length h'}"
  shows "deep_copy c t"
  using assms unfolding deep_copy_def by blast

lemma deep_copyE:
  assumes "deep_copy c t" "typed h t v" "c h v = (h', w)"
  obtains new where "h' = h @ new" "typed h' t w" "view h' t w = view h t v" "distinct (reach h' t w)"
    "set (reach h' t w) \<subseteq> {length h..<length h'}"
  using assms unfolding deep_copy_def by blast

text \<open>A type without references is copied by assignment.\<close>

fun plain :: "ty \<Rightarrow> bool" where
  "plain TStr \<longleftrightarrow> True"
| "plain TInt \<longleftrightarrow> True"
| "plain TBool \<longleftrightarrow> True"
| "plain (TPtr t) \<longleftrightarrow> False"
| "plain (TSlice t) \<longleftrightarrow> False"
| "plain (TStruct fs) \<longleftrightarrow> list_all (\<lambda>(f, t). plain t) fs"

lemma plain_reach:
  shows "typed h t v \<Longrightarrow> plain t \<Longrightarrow> reach h t v = []"
    and "typed_fields h fs vs \<Longrightarrow> list_all (\<lambda>(f, t). plain t) fs \<Longrightarrow> reach_fields h fs vs = []"
  by (induction h t v and h fs vs rule: typed_typed_fields.induct) (auto split: mval.splits list.splits)

named_theorems deep "copiers that are deep"

lemma deep_assign [deep]: "plain t \<Longrightarrow> deep_copy assign t"
  by (rule deep_copyI) (auto simp: assign_def plain_reach)

lemma deep_new_copy [deep]:
  assumes "deep_copy c t"
  shows "deep_copy (new_copy c) (TPtr t)"
proof (rule deep_copyI)
  fix h v h' w assume v: "typed h (TPtr t) v" and run: "new_copy c h v = (h', w)"
  consider "v = MPtr None" | a where "v = MPtr (Some a)" using v by (auto split: mval.splits option.splits)
  then show "(\<exists>new. h' = h @ new) \<and> typed h' (TPtr t) w \<and> view h' (TPtr t) w = view h (TPtr t) v
      \<and> distinct (reach h' (TPtr t) w) \<and> set (reach h' (TPtr t) w) \<subseteq> {length h..<length h'}"
  proof cases
    case 1
    then show ?thesis using run by (auto simp: new_copy_def)
  next
    case 2
    obtain h1 x where c: "c h (hd (h ! a)) = (h1, x)" by force
    obtain new where x: "h1 = h @ new" "typed h1 t x" "view h1 t x = view h t (hd (h ! a))" "distinct (reach h1 t x)"
      "set (reach h1 t x) \<subseteq> {length h..<length h1}"
      using deep_copyE [OF assms _ c] v 2 by auto
    have hw: "h' = h1 @ [[x]]" "w = MPtr (Some (length h1))" using run 2 c by (auto simp: new_copy_def)
    show ?thesis using x grown [OF x(2), of "[[x]]"] 2 by (auto simp: hw)
  qed
qed

text \<open>Cells of one copy followed by those of the next.\<close>

lemma fresh_append:
  fixes as bs :: "nat list"
  assumes "distinct as" "set as \<subseteq> {l..<m}" "distinct bs" "set bs \<subseteq> {m..<n}" "l \<le> m" "m \<le> n"
  shows "distinct (as @ bs)" "set (as @ bs) \<subseteq> {l..<n}"
proof -
  have "x < m" if "x \<in> set as" for x using assms(2) that by auto
  moreover have "m \<le> x" if "x \<in> set bs" for x using assms(4) that by auto
  ultimately have "set as \<inter> set bs = {}" by (metis disjoint_iff leD)
  then show "distinct (as @ bs)" using assms by simp
  show "set (as @ bs) \<subseteq> {l..<n}" using assms by fastforce
qed

lemma copy_elems_deep:
  assumes "deep_copy c t" "list_all (typed h t) xs" "copy_elems c h xs = (h', ys)"
  shows "(\<exists>new. h' = h @ new) \<and> list_all (typed h' t) ys \<and> map (view h' t) ys = map (view h t) xs
    \<and> distinct (concat (map (reach h' t) ys)) \<and> set (concat (map (reach h' t) ys)) \<subseteq> {length h..<length h'}"
  using assms(2,3)
proof (induction xs arbitrary: h h' ys)
  case (Cons x xs)
  obtain h1 y where c: "c h x = (h1, y)" by force
  obtain ys' where rest: "copy_elems c h1 xs = (h', ys')" and ys: "ys = y # ys'"
    using Cons.prems(2) c by (auto split: prod.splits)
  obtain new where y: "h1 = h @ new" "typed h1 t y" "view h1 t y = view h t x" "distinct (reach h1 t y)"
    "set (reach h1 t y) \<subseteq> {length h..<length h1}"
    using deep_copyE [OF assms(1) _ c] Cons.prems(1) by auto
  have old: "list_all (typed h1 t) xs" "map (view h1 t) xs = map (view h t) xs"
    using Cons.prems(1) grown [of h t _ new] by (auto simp: y(1) list_all_iff)
  note IH = Cons.IH [OF old(1) rest]
  then obtain new' where h': "h' = h1 @ new'" by blast
  note y' = grown [OF y(2), of new', folded h']
  have cells: "distinct (reach h1 t y @ concat (map (reach h' t) ys'))"
    "set (reach h1 t y @ concat (map (reach h' t) ys')) \<subseteq> {length h..<length h'}"
    by (rule fresh_append [where l = "length h" and m = "length h1" and n = "length h'"]; use IH y h' in simp)+
  moreover have "\<exists>new. h' = h @ new" using h' y(1) by simp
  ultimately show ?case using IH y(3) y' old(2) unfolding ys by simp
qed simp

lemma deep_slice_copy [deep]:
  assumes "deep_copy c t"
  shows "deep_copy (slice_copy c) (TSlice t)"
proof (rule deep_copyI)
  fix h v h' w assume v: "typed h (TSlice t) v" and run: "slice_copy c h v = (h', w)"
  consider "v = MSlice None" | a off n where "v = MSlice (Some (a, off, n))" using v by (auto split: mval.splits option.splits)
  then show "(\<exists>new. h' = h @ new) \<and> typed h' (TSlice t) w \<and> view h' (TSlice t) w = view h (TSlice t) v
      \<and> distinct (reach h' (TSlice t) w) \<and> set (reach h' (TSlice t) w) \<subseteq> {length h..<length h'}"
  proof cases
    case 1
    then show ?thesis using run by (auto simp: slice_copy_def)
  next
    case 2
    obtain h1 ys where c: "copy_elems c h (window h a off n) = (h1, ys)" by force
    have "list_all (typed h t) (window h a off n)" using v 2 by simp
    note ys = copy_elems_deep [OF assms this c]
    have "length ys = length (window h a off n)" using ys by (metis length_map)
    then have n: "length ys = n" using v 2 by (auto simp: window_def min_def)
    have hw: "h' = h1 @ [ys]" "w = MSlice (Some (length h1, 0, n))" using run 2 c by (auto simp: slice_copy_def)
    have win: "window h' (length h1) 0 n = ys" by (simp add: window_def hw n)
    have same: "typed h' t y \<and> view h' t y = view h1 t y \<and> reach h' t y = reach h1 t y" if "y \<in> set ys" for y
      using ys that grown [of h1 t y "[ys]"] by (auto simp: list_all_iff hw)
    then have maps: "map (view h' t) ys = map (view h1 t) ys" "map (reach h' t) ys = map (reach h1 t) ys" by simp_all
    have "typed h' (TSlice t) w" using same n by (simp add: hw(2) win list_all_iff) (simp add: hw(1))
    moreover have "view h' (TSlice t) w = view h (TSlice t) v" using ys by (simp add: hw(2) win maps 2)
    moreover have "reach h' (TSlice t) w = length h1 # concat (map (reach h1 t) ys)" by (simp add: hw(2) win maps)
    ultimately show ?thesis using ys by (auto simp: hw(1))
  qed
qed

lemma copy_fields_deep:
  assumes "list_all (\<lambda>(f, t). deep_copy (case map_of cs f of None \<Rightarrow> assign | Some c \<Rightarrow> c) t) fs"
    and "typed_fields h fs vs" "copy_fields cs h vs = (h', ws)"
  shows "(\<exists>new. h' = h @ new) \<and> typed_fields h' fs ws \<and> view_fields h' fs ws = view_fields h fs vs
    \<and> distinct (reach_fields h' fs ws) \<and> set (reach_fields h' fs ws) \<subseteq> {length h..<length h'}"
  using assms
proof (induction fs arbitrary: h h' vs ws)
  case (Cons ft fs)
  obtain f t where ft: "ft = (f, t)" by force
  obtain x vs' where vs: "vs = (f, x) # vs'" "typed h t x" "typed_fields h fs vs'"
    using Cons.prems(2) by (auto simp: ft split: list.splits)
  let ?c = "case map_of cs f of None \<Rightarrow> assign | Some c \<Rightarrow> c"
  obtain h1 y where c: "?c h x = (h1, y)" by force
  obtain ws' where rest: "copy_fields cs h1 vs' = (h', ws')" and ws: "ws = (f, y) # ws'"
    using Cons.prems(3) c by (auto simp: vs split: prod.splits)
  obtain new where y: "h1 = h @ new" "typed h1 t y" "view h1 t y = view h t x" "distinct (reach h1 t y)"
    "set (reach h1 t y) \<subseteq> {length h..<length h1}"
    using deep_copyE [where c = ?c, OF _ vs(2) c] Cons.prems(1) by (auto simp: ft)
  note old = frame(2) [OF vs(3) agree_append, OF reach_bound(2) [OF vs(3)], of new, folded y(1)]
  have "list_all (\<lambda>(f, t). deep_copy (case map_of cs f of None \<Rightarrow> assign | Some c \<Rightarrow> c) t) fs" using Cons.prems(1) by simp
  note IH = Cons.IH [OF this _ rest]
  then obtain new' where h': "h' = h1 @ new'" using old by blast
  note y' = grown [OF y(2), of new', folded h']
  have cells: "distinct (reach h1 t y @ reach_fields h' fs ws')"
    "set (reach h1 t y @ reach_fields h' fs ws') \<subseteq> {length h..<length h'}"
    by (rule fresh_append [where l = "length h" and m = "length h1" and n = "length h'"]; use IH old y h' in simp)+
  moreover have "\<exists>new. h' = h @ new" using h' y(1) by simp
  ultimately show ?case using IH old y(3) y' unfolding ft vs(1) ws by simp
qed simp

lemma deep_struct_copy [deep]:
  assumes "list_all (\<lambda>(f, t). deep_copy (case map_of cs f of None \<Rightarrow> assign | Some c \<Rightarrow> c) t) fs"
  shows "deep_copy (struct_copy cs) (TStruct fs)"
proof (rule deep_copyI)
  fix h v h' w assume v: "typed h (TStruct fs) v" and run: "struct_copy cs h v = (h', w)"
  obtain vs where vs: "v = MStruct vs" "typed_fields h fs vs" using v by (auto split: mval.splits)
  obtain ws where ws: "copy_fields cs h vs = (h', ws)" "w = MStruct ws"
    using run by (auto simp: struct_copy_def vs split: prod.splits)
  show "(\<exists>new. h' = h @ new) \<and> typed h' (TStruct fs) w \<and> view h' (TStruct fs) w = view h (TStruct fs) v
      \<and> distinct (reach h' (TStruct fs) w) \<and> set (reach h' (TStruct fs) w) \<subseteq> {length h..<length h'}"
    using copy_fields_deep [OF assms vs(2) ws(1)] by (simp add: vs(1) ws(2))
qed

section \<open>Copies are independent\<close>

text \<open>
  Whatever happens to the memory later: as long as the cells of before the copy keep their content the original
  is what it was, and as long as the new cells do the copy is.
\<close>

lemma copy_independent:
  assumes "deep_copy c t" "typed h t v" "c h v = (h', w)"
  shows "agree h' h'' [0..<length h] \<Longrightarrow> typed h'' t v \<and> view h'' t v = view h t v"
    and "agree h' h'' [length h..<length h'] \<Longrightarrow> typed h'' t w \<and> view h'' t w = view h t v"
proof -
  obtain new where new: "h' = h @ new" and w: "typed h' t w" "view h' t w = view h t v"
    "set (reach h' t w) \<subseteq> {length h..<length h'}"
    using deep_copyE [OF assms] by metis
  note v = grown [OF assms(2), of new, folded new]
  show "typed h'' t v \<and> view h'' t v = view h t v" if "agree h' h'' [0..<length h]"
  proof -
    have "agree h' h'' (reach h' t v)" using that reach_bound(1) [OF assms(2)] by (simp add: agree_def v(3))
    then show ?thesis using frame(1) [OF v(1)] v(2) by metis
  qed
  show "typed h'' t w \<and> view h'' t w = view h t v" if "agree h' h'' [length h..<length h']"
  proof -
    have "agree h' h'' (reach h' t w)" using that w(3) by (auto simp: agree_def)
    then show ?thesis using frame(1) [OF w(1)] w(2) by metis
  qed
qed

end
