(* ===== verification/DeepCopy.thy ===== *)
theory DeepCopy
  imports GoMemory
begin

text \<open>
  Copies of the API resources (api/kubauth/v1alpha1, \<^verbatim>\<open>zz_generated.deepcopy.go\<close>): for every type its fields, and
  the functions that copy it.  The reconcilers change a resource and send the difference to a copy made before, and
  an upstream keeps a copy of its specification; both need that the two share nothing.
\<close>

section \<open>Types of the Kubernetes library\<close>

text \<open>
  The metadata and the raw JSON value come from k8s.io/apimachinery and apiextensions, with their own copying
  functions.  A duration and the type metadata are copied by assignment.
\<close>

record ApiMachinery =
  amTypeMeta :: ty
  amDuration :: ty
  amObjectMeta :: ty
  copyObjectMeta :: copier
  amListMeta :: ty
  copyListMeta :: copier
  amTime :: ty
  copyTime :: copier
  amJSON :: ty
  copyJSON :: copier

text \<open>
  What they document: the copying functions make deep copies (the location of a time is immutable and
  counts as a part of the value), and the two others have no references.
\<close>

definition api_machinery :: "ApiMachinery \<Rightarrow> bool" where
  "api_machinery k \<longleftrightarrow> plain (amTypeMeta k) \<and> plain (amDuration k)
     \<and> deep_copy (copyObjectMeta k) (amObjectMeta k) \<and> deep_copy (copyListMeta k) (amListMeta k)
     \<and> deep_copy (copyTime k) (amTime k) \<and> deep_copy (copyJSON k) (amJSON k)"

named_theorems api "the types of the API and their copying functions"

section \<open>The types\<close>

text \<open>
  The structures field by field; an embedded structure is a field with the name of its type, and a type
  that is declared as a string is a string.  Most of them are also records of the theories that
  use them (Ucrd, AuditServer, OidcClient, Upstream, SessionStore), where pointers and slices are values.
\<close>

definition LocalConfigMapSpec_ty :: ty where [api]:
  "LocalConfigMapSpec_ty = TStruct [(''Name'', TStr), (''Key'', TStr)]"

definition LocalSecretSpec_ty :: ty where [api]:
  "LocalSecretSpec_ty = TStruct [(''Name'', TStr), (''Key'', TStr)]"

definition CertificateAuthoritySource_ty :: ty where [api]:
  "CertificateAuthoritySource_ty = TStruct
     [(''ConfigMap'', TPtr LocalConfigMapSpec_ty), (''Secret'', TPtr LocalSecretSpec_ty)]"

definition ClaimRenamingSpec_ty :: ty where [api]:
  "ClaimRenamingSpec_ty = TStruct [(''OldName'', TStr), (''NewName'', TStr), (''Operation'', TStr)]"

definition GroupSpec_ty :: "ApiMachinery \<Rightarrow> ty" where [api]:
  "GroupSpec_ty k = TStruct [(''Comment'', TStr), (''Claims'', TPtr (amJSON k))]"

definition GroupStatus_ty :: ty where [api]:
  "GroupStatus_ty = TStruct []"

definition Group_ty :: "ApiMachinery \<Rightarrow> ty" where [api]:
  "Group_ty k = TStruct
     [(''TypeMeta'', amTypeMeta k), (''ObjectMeta'', amObjectMeta k), (''Spec'', GroupSpec_ty k),
      (''Status'', GroupStatus_ty)]"

definition GroupBindingSpec_ty :: ty where [api]:
  "GroupBindingSpec_ty = TStruct [(''User'', TStr), (''Group'', TStr)]"

definition GroupBindingStatus_ty :: ty where [api]:
  "GroupBindingStatus_ty = TStruct []"

definition GroupBinding_ty :: "ApiMachinery \<Rightarrow> ty" where [api]:
  "GroupBinding_ty k = TStruct
     [(''TypeMeta'', amTypeMeta k), (''ObjectMeta'', amObjectMeta k), (''Spec'', GroupBindingSpec_ty),
      (''Status'', GroupBindingStatus_ty)]"

definition GroupBindingList_ty :: "ApiMachinery \<Rightarrow> ty" where [api]:
  "GroupBindingList_ty k = TStruct
     [(''TypeMeta'', amTypeMeta k), (''ListMeta'', amListMeta k), (''Items'', TSlice (GroupBinding_ty k))]"

definition GroupList_ty :: "ApiMachinery \<Rightarrow> ty" where [api]:
  "GroupList_ty k = TStruct
     [(''TypeMeta'', amTypeMeta k), (''ListMeta'', amListMeta k), (''Items'', TSlice (Group_ty k))]"

definition LoginAttemptUser_ty :: "ApiMachinery \<Rightarrow> ty" where [api]:
  "LoginAttemptUser_ty k = TStruct
     [(''Login'', TStr), (''Uid'', TPtr TInt), (''Name'', TStr), (''Emails'', TSlice TStr),
      (''Groups'', TSlice TStr), (''Claims'', TPtr (amJSON k))]"

definition LoginAttemptDetailProvider_ty :: ty where [api]:
  "LoginAttemptDetailProvider_ty = TStruct
     [(''Name'', TStr), (''ClaimAuthority'', TBool), (''CredentialAuthority'', TBool), (''EmailAuthority'', TBool),
      (''GroupAuthority'', TBool), (''NameAuthority'', TBool)]"

definition LoginAttemptDetailTranslated_ty :: "ApiMachinery \<Rightarrow> ty" where [api]:
  "LoginAttemptDetailTranslated_ty k = TStruct
     [(''Claims'', amJSON k), (''Groups'', TSlice TStr), (''Uid'', TPtr TInt)]"

definition LoginAttemptDetail_ty :: "ApiMachinery \<Rightarrow> ty" where [api]:
  "LoginAttemptDetail_ty k = TStruct
     [(''Provider'', LoginAttemptDetailProvider_ty), (''User'', LoginAttemptUser_ty k), (''Status'', TStr),
      (''Translated'', LoginAttemptDetailTranslated_ty k)]"

definition LoginAttemptSpec_ty :: "ApiMachinery \<Rightarrow> ty" where [api]:
  "LoginAttemptSpec_ty k = TStruct
     [(''When'', amTime k), (''User'', LoginAttemptUser_ty k), (''Authority'', TStr), (''Status'', TStr),
      (''Details'', TSlice (LoginAttemptDetail_ty k))]"

definition LoginAttemptStatus_ty :: ty where [api]:
  "LoginAttemptStatus_ty = TStruct []"

definition LoginAttempt_ty :: "ApiMachinery \<Rightarrow> ty" where [api]:
  "LoginAttempt_ty k = TStruct
     [(''TypeMeta'', amTypeMeta k), (''ObjectMeta'', amObjectMeta k), (''Spec'', LoginAttemptSpec_ty k),
      (''Status'', LoginAttemptStatus_ty)]"

definition LoginAttemptList_ty :: "ApiMachinery \<Rightarrow> ty" where [api]:
  "LoginAttemptList_ty k = TStruct
     [(''TypeMeta'', amTypeMeta k), (''ListMeta'', amListMeta k), (''Items'', TSlice (LoginAttempt_ty k))]"

definition OidcClientSecretSpec_ty :: ty where [api]:
  "OidcClientSecretSpec_ty = TStruct [(''Name'', TStr), (''Key'', TStr), (''Hashed'', TBool)]"

definition OidcClientSpec_ty :: "ApiMachinery \<Rightarrow> ty" where [api]:
  "OidcClientSpec_ty k = TStruct
     [(''Enabled'', TPtr TBool), (''Secrets'', TPtr (TSlice OidcClientSecretSpec_ty)),
      (''RedirectURIs'', TSlice TStr), (''GrantTypes'', TSlice TStr), (''ResponseTypes'', TSlice TStr),
      (''Scopes'', TSlice TStr), (''Public'', TBool), (''Audiences'', TSlice TStr),
      (''ForceOpenIdScope'', TPtr TBool), (''Style'', TStr), (''PostLogoutURL'', TStr), (''DisplayName'', TStr),
      (''Description'', TStr), (''EntryURL'', TStr), (''AccessTokenLifespan'', amDuration k),
      (''RefreshTokenLifespan'', amDuration k), (''IDTokenLifespan'', amDuration k), (''ClientId'', TStr),
      (''UpstreamProviders'', TSlice TStr)]"

definition OidcClientStatus_ty :: ty where [api]:
  "OidcClientStatus_ty = TStruct [(''Phase'', TStr), (''ClientId'', TStr), (''Message'', TStr)]"

definition OidcClient_ty :: "ApiMachinery \<Rightarrow> ty" where [api]:
  "OidcClient_ty k = TStruct
     [(''TypeMeta'', amTypeMeta k), (''ObjectMeta'', amObjectMeta k), (''Spec'', OidcClientSpec_ty k),
      (''Status'', OidcClientStatus_ty)]"

definition OidcClientList_ty :: "ApiMachinery \<Rightarrow> ty" where [api]:
  "OidcClientList_ty k = TStruct
     [(''TypeMeta'', amTypeMeta k), (''ListMeta'', amListMeta k), (''Items'', TSlice (OidcClient_ty k))]"

definition SsoSessionSpec_ty :: "ApiMachinery \<Rightarrow> ty" where [api]:
  "SsoSessionSpec_ty k = TStruct
     [(''Login'', TStr), (''FullName'', TStr), (''Deadline'', amTime k), (''Expiry'', amTime k),
      (''Claims'', TPtr (amJSON k)), (''WebToken'', TStr)]"

definition SsoSessionStatus_ty :: ty where [api]:
  "SsoSessionStatus_ty = TStruct []"

definition SsoSession_ty :: "ApiMachinery \<Rightarrow> ty" where [api]:
  "SsoSession_ty k = TStruct
     [(''TypeMeta'', amTypeMeta k), (''ObjectMeta'', amObjectMeta k), (''Spec'', SsoSessionSpec_ty k),
      (''Status'', SsoSessionStatus_ty)]"

definition SsoSessionList_ty :: "ApiMachinery \<Rightarrow> ty" where [api]:
  "SsoSessionList_ty k = TStruct
     [(''TypeMeta'', amTypeMeta k), (''ListMeta'', amListMeta k), (''Items'', TSlice (SsoSession_ty k))]"

definition UpstreamProviderConfig_ty :: ty where [api]:
  "UpstreamProviderConfig_ty = TStruct
     [(''AuthURL'', TStr), (''TokenURL'', TStr), (''DeviceAuthURL'', TStr), (''UserInfoURL'', TStr),
      (''JWKSURL'', TStr), (''Algorithms'', TSlice TStr), (''IntrospectionURL'', TStr), (''EndSessionURL'', TStr)]"

definition UpstreamProviderSpec_ty :: ty where [api]:
  "UpstreamProviderSpec_ty = TStruct
     [(''Enabled'', TPtr TBool), (''Type'', TStr), (''DisplayName'', TStr), (''ClientSpecific'', TBool),
      (''IssuerURL'', TStr), (''CertificateAuthority'', TPtr CertificateAuthoritySource_ty),
      (''InsecureSkipVerify'', TBool), (''RedirectURL'', TStr), (''ClientId'', TStr),
      (''ClientSecret'', LocalSecretSpec_ty), (''Scopes'', TSlice TStr), (''UseUserInfo'', TBool),
      (''ClaimRenamings'', TSlice ClaimRenamingSpec_ty), (''ClaimRemovals'', TSlice TStr),
      (''LocalEnrichment'', TPtr TBool), (''ExplicitConfig'', TPtr UpstreamProviderConfig_ty),
      (''DumpExchanges'', TBool)]"

definition UpstreamProviderStatus_ty :: ty where [api]:
  "UpstreamProviderStatus_ty = TStruct
     [(''Phase'', TStr), (''Message'', TStr), (''EffectiveConfig'', TPtr UpstreamProviderConfig_ty)]"

definition UpstreamProvider_ty :: "ApiMachinery \<Rightarrow> ty" where [api]:
  "UpstreamProvider_ty k = TStruct
     [(''TypeMeta'', amTypeMeta k), (''ObjectMeta'', amObjectMeta k), (''Spec'', UpstreamProviderSpec_ty),
      (''Status'', UpstreamProviderStatus_ty)]"

definition UpstreamProviderList_ty :: "ApiMachinery \<Rightarrow> ty" where [api]:
  "UpstreamProviderList_ty k = TStruct
     [(''TypeMeta'', amTypeMeta k), (''ListMeta'', amListMeta k), (''Items'', TSlice (UpstreamProvider_ty k))]"

definition UserSpec_ty :: "ApiMachinery \<Rightarrow> ty" where [api]:
  "UserSpec_ty k = TStruct
     [(''Name'', TStr), (''Emails'', TSlice TStr), (''PasswordHash'', TStr), (''Uid'', TPtr TInt),
      (''Comment'', TStr), (''Claims'', TPtr (amJSON k)), (''Disabled'', TPtr TBool)]"

definition UserStatus_ty :: ty where [api]:
  "UserStatus_ty = TStruct []"

definition User_ty :: "ApiMachinery \<Rightarrow> ty" where [api]:
  "User_ty k = TStruct
     [(''TypeMeta'', amTypeMeta k), (''ObjectMeta'', amObjectMeta k), (''Spec'', UserSpec_ty k),
      (''Status'', UserStatus_ty)]"

definition UserList_ty :: "ApiMachinery \<Rightarrow> ty" where [api]:
  "UserList_ty k = TStruct
     [(''TypeMeta'', amTypeMeta k), (''ListMeta'', amListMeta k), (''Items'', TSlice (User_ty k))]"

section \<open>The copying functions\<close>

text \<open>
  \<^verbatim>\<open>DeepCopyInto\<close> assigns the whole structure and then replaces the fields it names; \<^verbatim>\<open>DeepCopy\<close> does so for a
  new structure, unless the pointer is nil.
\<close>

definition LocalConfigMapSpec_DeepCopyInto :: copier where [api]:
  "LocalConfigMapSpec_DeepCopyInto = struct_copy []"

definition LocalConfigMapSpec_DeepCopy :: copier where [api]:
  "LocalConfigMapSpec_DeepCopy = new_copy LocalConfigMapSpec_DeepCopyInto"

definition LocalSecretSpec_DeepCopyInto :: copier where [api]:
  "LocalSecretSpec_DeepCopyInto = struct_copy []"

definition LocalSecretSpec_DeepCopy :: copier where [api]:
  "LocalSecretSpec_DeepCopy = new_copy LocalSecretSpec_DeepCopyInto"

definition CertificateAuthoritySource_DeepCopyInto :: copier where [api]:
  "CertificateAuthoritySource_DeepCopyInto = struct_copy 
     [(''ConfigMap'', new_copy assign), (''Secret'', new_copy assign)]"

definition CertificateAuthoritySource_DeepCopy :: copier where [api]:
  "CertificateAuthoritySource_DeepCopy = new_copy CertificateAuthoritySource_DeepCopyInto"

definition ClaimRenamingSpec_DeepCopyInto :: copier where [api]:
  "ClaimRenamingSpec_DeepCopyInto = struct_copy []"

definition ClaimRenamingSpec_DeepCopy :: copier where [api]:
  "ClaimRenamingSpec_DeepCopy = new_copy ClaimRenamingSpec_DeepCopyInto"

definition GroupSpec_DeepCopyInto :: "ApiMachinery \<Rightarrow> copier" where [api]:
  "GroupSpec_DeepCopyInto k = struct_copy [(''Claims'', new_copy (copyJSON k))]"

definition GroupSpec_DeepCopy :: "ApiMachinery \<Rightarrow> copier" where [api]:
  "GroupSpec_DeepCopy k = new_copy (GroupSpec_DeepCopyInto k)"

definition GroupStatus_DeepCopyInto :: copier where [api]:
  "GroupStatus_DeepCopyInto = struct_copy []"

definition GroupStatus_DeepCopy :: copier where [api]:
  "GroupStatus_DeepCopy = new_copy GroupStatus_DeepCopyInto"

definition Group_DeepCopyInto :: "ApiMachinery \<Rightarrow> copier" where [api]:
  "Group_DeepCopyInto k = struct_copy 
     [(''TypeMeta'', assign), (''ObjectMeta'', copyObjectMeta k), (''Spec'', GroupSpec_DeepCopyInto k),
      (''Status'', assign)]"

definition Group_DeepCopy :: "ApiMachinery \<Rightarrow> copier" where [api]:
  "Group_DeepCopy k = new_copy (Group_DeepCopyInto k)"

definition GroupBindingSpec_DeepCopyInto :: copier where [api]:
  "GroupBindingSpec_DeepCopyInto = struct_copy []"

definition GroupBindingSpec_DeepCopy :: copier where [api]:
  "GroupBindingSpec_DeepCopy = new_copy GroupBindingSpec_DeepCopyInto"

definition GroupBindingStatus_DeepCopyInto :: copier where [api]:
  "GroupBindingStatus_DeepCopyInto = struct_copy []"

definition GroupBindingStatus_DeepCopy :: copier where [api]:
  "GroupBindingStatus_DeepCopy = new_copy GroupBindingStatus_DeepCopyInto"

definition GroupBinding_DeepCopyInto :: "ApiMachinery \<Rightarrow> copier" where [api]:
  "GroupBinding_DeepCopyInto k = struct_copy 
     [(''TypeMeta'', assign), (''ObjectMeta'', copyObjectMeta k), (''Spec'', assign), (''Status'', assign)]"

definition GroupBinding_DeepCopy :: "ApiMachinery \<Rightarrow> copier" where [api]:
  "GroupBinding_DeepCopy k = new_copy (GroupBinding_DeepCopyInto k)"

definition GroupBindingList_DeepCopyInto :: "ApiMachinery \<Rightarrow> copier" where [api]:
  "GroupBindingList_DeepCopyInto k = struct_copy 
     [(''TypeMeta'', assign), (''ListMeta'', copyListMeta k), (''Items'', slice_copy (GroupBinding_DeepCopyInto k))]"

definition GroupBindingList_DeepCopy :: "ApiMachinery \<Rightarrow> copier" where [api]:
  "GroupBindingList_DeepCopy k = new_copy (GroupBindingList_DeepCopyInto k)"

definition GroupList_DeepCopyInto :: "ApiMachinery \<Rightarrow> copier" where [api]:
  "GroupList_DeepCopyInto k = struct_copy 
     [(''TypeMeta'', assign), (''ListMeta'', copyListMeta k), (''Items'', slice_copy (Group_DeepCopyInto k))]"

definition GroupList_DeepCopy :: "ApiMachinery \<Rightarrow> copier" where [api]:
  "GroupList_DeepCopy k = new_copy (GroupList_DeepCopyInto k)"

definition LoginAttemptUser_DeepCopyInto :: "ApiMachinery \<Rightarrow> copier" where [api]:
  "LoginAttemptUser_DeepCopyInto k = struct_copy 
     [(''Uid'', new_copy assign), (''Emails'', slice_copy assign), (''Groups'', slice_copy assign),
      (''Claims'', new_copy (copyJSON k))]"

definition LoginAttemptUser_DeepCopy :: "ApiMachinery \<Rightarrow> copier" where [api]:
  "LoginAttemptUser_DeepCopy k = new_copy (LoginAttemptUser_DeepCopyInto k)"

definition LoginAttemptDetailProvider_DeepCopyInto :: copier where [api]:
  "LoginAttemptDetailProvider_DeepCopyInto = struct_copy []"

definition LoginAttemptDetailProvider_DeepCopy :: copier where [api]:
  "LoginAttemptDetailProvider_DeepCopy = new_copy LoginAttemptDetailProvider_DeepCopyInto"

definition LoginAttemptDetailTranslated_DeepCopyInto :: "ApiMachinery \<Rightarrow> copier" where [api]:
  "LoginAttemptDetailTranslated_DeepCopyInto k = struct_copy 
     [(''Claims'', copyJSON k), (''Groups'', slice_copy assign), (''Uid'', new_copy assign)]"

definition LoginAttemptDetailTranslated_DeepCopy :: "ApiMachinery \<Rightarrow> copier" where [api]:
  "LoginAttemptDetailTranslated_DeepCopy k = new_copy (LoginAttemptDetailTranslated_DeepCopyInto k)"

definition LoginAttemptDetail_DeepCopyInto :: "ApiMachinery \<Rightarrow> copier" where [api]:
  "LoginAttemptDetail_DeepCopyInto k = struct_copy 
     [(''Provider'', assign), (''User'', LoginAttemptUser_DeepCopyInto k),
      (''Translated'', LoginAttemptDetailTranslated_DeepCopyInto k)]"

definition LoginAttemptDetail_DeepCopy :: "ApiMachinery \<Rightarrow> copier" where [api]:
  "LoginAttemptDetail_DeepCopy k = new_copy (LoginAttemptDetail_DeepCopyInto k)"

definition LoginAttemptSpec_DeepCopyInto :: "ApiMachinery \<Rightarrow> copier" where [api]:
  "LoginAttemptSpec_DeepCopyInto k = struct_copy 
     [(''When'', copyTime k), (''User'', LoginAttemptUser_DeepCopyInto k),
      (''Details'', slice_copy (LoginAttemptDetail_DeepCopyInto k))]"

definition LoginAttemptSpec_DeepCopy :: "ApiMachinery \<Rightarrow> copier" where [api]:
  "LoginAttemptSpec_DeepCopy k = new_copy (LoginAttemptSpec_DeepCopyInto k)"

definition LoginAttemptStatus_DeepCopyInto :: copier where [api]:
  "LoginAttemptStatus_DeepCopyInto = struct_copy []"

definition LoginAttemptStatus_DeepCopy :: copier where [api]:
  "LoginAttemptStatus_DeepCopy = new_copy LoginAttemptStatus_DeepCopyInto"

definition LoginAttempt_DeepCopyInto :: "ApiMachinery \<Rightarrow> copier" where [api]:
  "LoginAttempt_DeepCopyInto k = struct_copy 
     [(''TypeMeta'', assign), (''ObjectMeta'', copyObjectMeta k), (''Spec'', LoginAttemptSpec_DeepCopyInto k),
      (''Status'', assign)]"

definition LoginAttempt_DeepCopy :: "ApiMachinery \<Rightarrow> copier" where [api]:
  "LoginAttempt_DeepCopy k = new_copy (LoginAttempt_DeepCopyInto k)"

definition LoginAttemptList_DeepCopyInto :: "ApiMachinery \<Rightarrow> copier" where [api]:
  "LoginAttemptList_DeepCopyInto k = struct_copy 
     [(''TypeMeta'', assign), (''ListMeta'', copyListMeta k), (''Items'', slice_copy (LoginAttempt_DeepCopyInto k))]"

definition LoginAttemptList_DeepCopy :: "ApiMachinery \<Rightarrow> copier" where [api]:
  "LoginAttemptList_DeepCopy k = new_copy (LoginAttemptList_DeepCopyInto k)"

definition OidcClientSecretSpec_DeepCopyInto :: copier where [api]:
  "OidcClientSecretSpec_DeepCopyInto = struct_copy []"

definition OidcClientSecretSpec_DeepCopy :: copier where [api]:
  "OidcClientSecretSpec_DeepCopy = new_copy OidcClientSecretSpec_DeepCopyInto"

definition OidcClientSpec_DeepCopyInto :: "ApiMachinery \<Rightarrow> copier" where [api]:
  "OidcClientSpec_DeepCopyInto k = struct_copy 
     [(''Enabled'', new_copy assign), (''Secrets'', new_copy (slice_copy assign)),
      (''RedirectURIs'', slice_copy assign), (''GrantTypes'', slice_copy assign),
      (''ResponseTypes'', slice_copy assign), (''Scopes'', slice_copy assign), (''Audiences'', slice_copy assign),
      (''ForceOpenIdScope'', new_copy assign), (''AccessTokenLifespan'', assign), (''RefreshTokenLifespan'', assign),
      (''IDTokenLifespan'', assign), (''UpstreamProviders'', slice_copy assign)]"

definition OidcClientSpec_DeepCopy :: "ApiMachinery \<Rightarrow> copier" where [api]:
  "OidcClientSpec_DeepCopy k = new_copy (OidcClientSpec_DeepCopyInto k)"

definition OidcClientStatus_DeepCopyInto :: copier where [api]:
  "OidcClientStatus_DeepCopyInto = struct_copy []"

definition OidcClientStatus_DeepCopy :: copier where [api]:
  "OidcClientStatus_DeepCopy = new_copy OidcClientStatus_DeepCopyInto"

definition OidcClient_DeepCopyInto :: "ApiMachinery \<Rightarrow> copier" where [api]:
  "OidcClient_DeepCopyInto k = struct_copy 
     [(''TypeMeta'', assign), (''ObjectMeta'', copyObjectMeta k), (''Spec'', OidcClientSpec_DeepCopyInto k),
      (''Status'', assign)]"

definition OidcClient_DeepCopy :: "ApiMachinery \<Rightarrow> copier" where [api]:
  "OidcClient_DeepCopy k = new_copy (OidcClient_DeepCopyInto k)"

definition OidcClientList_DeepCopyInto :: "ApiMachinery \<Rightarrow> copier" where [api]:
  "OidcClientList_DeepCopyInto k = struct_copy 
     [(''TypeMeta'', assign), (''ListMeta'', copyListMeta k), (''Items'', slice_copy (OidcClient_DeepCopyInto k))]"

definition OidcClientList_DeepCopy :: "ApiMachinery \<Rightarrow> copier" where [api]:
  "OidcClientList_DeepCopy k = new_copy (OidcClientList_DeepCopyInto k)"

definition SsoSessionSpec_DeepCopyInto :: "ApiMachinery \<Rightarrow> copier" where [api]:
  "SsoSessionSpec_DeepCopyInto k = struct_copy 
     [(''Deadline'', copyTime k), (''Expiry'', copyTime k), (''Claims'', new_copy (copyJSON k))]"

definition SsoSessionSpec_DeepCopy :: "ApiMachinery \<Rightarrow> copier" where [api]:
  "SsoSessionSpec_DeepCopy k = new_copy (SsoSessionSpec_DeepCopyInto k)"

definition SsoSessionStatus_DeepCopyInto :: copier where [api]:
  "SsoSessionStatus_DeepCopyInto = struct_copy []"

definition SsoSessionStatus_DeepCopy :: copier where [api]:
  "SsoSessionStatus_DeepCopy = new_copy SsoSessionStatus_DeepCopyInto"

definition SsoSession_DeepCopyInto :: "ApiMachinery \<Rightarrow> copier" where [api]:
  "SsoSession_DeepCopyInto k = struct_copy 
     [(''TypeMeta'', assign), (''ObjectMeta'', copyObjectMeta k), (''Spec'', SsoSessionSpec_DeepCopyInto k),
      (''Status'', assign)]"

definition SsoSession_DeepCopy :: "ApiMachinery \<Rightarrow> copier" where [api]:
  "SsoSession_DeepCopy k = new_copy (SsoSession_DeepCopyInto k)"

definition SsoSessionList_DeepCopyInto :: "ApiMachinery \<Rightarrow> copier" where [api]:
  "SsoSessionList_DeepCopyInto k = struct_copy 
     [(''TypeMeta'', assign), (''ListMeta'', copyListMeta k), (''Items'', slice_copy (SsoSession_DeepCopyInto k))]"

definition SsoSessionList_DeepCopy :: "ApiMachinery \<Rightarrow> copier" where [api]:
  "SsoSessionList_DeepCopy k = new_copy (SsoSessionList_DeepCopyInto k)"

definition UpstreamProviderConfig_DeepCopyInto :: copier where [api]:
  "UpstreamProviderConfig_DeepCopyInto = struct_copy [(''Algorithms'', slice_copy assign)]"

definition UpstreamProviderConfig_DeepCopy :: copier where [api]:
  "UpstreamProviderConfig_DeepCopy = new_copy UpstreamProviderConfig_DeepCopyInto"

definition UpstreamProviderSpec_DeepCopyInto :: copier where [api]:
  "UpstreamProviderSpec_DeepCopyInto = struct_copy 
     [(''Enabled'', new_copy assign), (''CertificateAuthority'', new_copy CertificateAuthoritySource_DeepCopyInto),
      (''ClientSecret'', assign), (''Scopes'', slice_copy assign), (''ClaimRenamings'', slice_copy assign),
      (''ClaimRemovals'', slice_copy assign), (''LocalEnrichment'', new_copy assign),
      (''ExplicitConfig'', new_copy UpstreamProviderConfig_DeepCopyInto)]"

definition UpstreamProviderSpec_DeepCopy :: copier where [api]:
  "UpstreamProviderSpec_DeepCopy = new_copy UpstreamProviderSpec_DeepCopyInto"

definition UpstreamProviderStatus_DeepCopyInto :: copier where [api]:
  "UpstreamProviderStatus_DeepCopyInto = struct_copy 
     [(''EffectiveConfig'', new_copy UpstreamProviderConfig_DeepCopyInto)]"

definition UpstreamProviderStatus_DeepCopy :: copier where [api]:
  "UpstreamProviderStatus_DeepCopy = new_copy UpstreamProviderStatus_DeepCopyInto"

definition UpstreamProvider_DeepCopyInto :: "ApiMachinery \<Rightarrow> copier" where [api]:
  "UpstreamProvider_DeepCopyInto k = struct_copy 
     [(''TypeMeta'', assign), (''ObjectMeta'', copyObjectMeta k), (''Spec'', UpstreamProviderSpec_DeepCopyInto),
      (''Status'', UpstreamProviderStatus_DeepCopyInto)]"

definition UpstreamProvider_DeepCopy :: "ApiMachinery \<Rightarrow> copier" where [api]:
  "UpstreamProvider_DeepCopy k = new_copy (UpstreamProvider_DeepCopyInto k)"

definition UpstreamProviderList_DeepCopyInto :: "ApiMachinery \<Rightarrow> copier" where [api]:
  "UpstreamProviderList_DeepCopyInto k = struct_copy 
     [(''TypeMeta'', assign), (''ListMeta'', copyListMeta k),
      (''Items'', slice_copy (UpstreamProvider_DeepCopyInto k))]"

definition UpstreamProviderList_DeepCopy :: "ApiMachinery \<Rightarrow> copier" where [api]:
  "UpstreamProviderList_DeepCopy k = new_copy (UpstreamProviderList_DeepCopyInto k)"

definition UserSpec_DeepCopyInto :: "ApiMachinery \<Rightarrow> copier" where [api]:
  "UserSpec_DeepCopyInto k = struct_copy 
     [(''Emails'', slice_copy assign), (''Uid'', new_copy assign), (''Claims'', new_copy (copyJSON k)),
      (''Disabled'', new_copy assign)]"

definition UserSpec_DeepCopy :: "ApiMachinery \<Rightarrow> copier" where [api]:
  "UserSpec_DeepCopy k = new_copy (UserSpec_DeepCopyInto k)"

definition UserStatus_DeepCopyInto :: copier where [api]:
  "UserStatus_DeepCopyInto = struct_copy []"

definition UserStatus_DeepCopy :: copier where [api]:
  "UserStatus_DeepCopy = new_copy UserStatus_DeepCopyInto"

definition User_DeepCopyInto :: "ApiMachinery \<Rightarrow> copier" where [api]:
  "User_DeepCopyInto k = struct_copy 
     [(''TypeMeta'', assign), (''ObjectMeta'', copyObjectMeta k), (''Spec'', UserSpec_DeepCopyInto k),
      (''Status'', assign)]"

definition User_DeepCopy :: "ApiMachinery \<Rightarrow> copier" where [api]:
  "User_DeepCopy k = new_copy (User_DeepCopyInto k)"

definition UserList_DeepCopyInto :: "ApiMachinery \<Rightarrow> copier" where [api]:
  "UserList_DeepCopyInto k = struct_copy 
     [(''TypeMeta'', assign), (''ListMeta'', copyListMeta k), (''Items'', slice_copy (User_DeepCopyInto k))]"

definition UserList_DeepCopy :: "ApiMachinery \<Rightarrow> copier" where [api]:
  "UserList_DeepCopy k = new_copy (UserList_DeepCopyInto k)"

text \<open>
  The interface value of the resources and their lists: the copy, or the nil interface, and never an interface
  that holds a nil pointer.
\<close>

type_synonym object_copier = "heap \<Rightarrow> mval \<Rightarrow> heap \<times> mval option"

definition as_object :: "heap \<times> mval \<Rightarrow> heap \<times> mval option" where
  "as_object r = (case r of (h, p) \<Rightarrow> (h, if p = MPtr None then None else Some p))"

definition Group_DeepCopyObject :: "ApiMachinery \<Rightarrow> object_copier" where [api]:
  "Group_DeepCopyObject k h p = as_object (Group_DeepCopy k h p)"

definition GroupBinding_DeepCopyObject :: "ApiMachinery \<Rightarrow> object_copier" where [api]:
  "GroupBinding_DeepCopyObject k h p = as_object (GroupBinding_DeepCopy k h p)"

definition GroupBindingList_DeepCopyObject :: "ApiMachinery \<Rightarrow> object_copier" where [api]:
  "GroupBindingList_DeepCopyObject k h p = as_object (GroupBindingList_DeepCopy k h p)"

definition GroupList_DeepCopyObject :: "ApiMachinery \<Rightarrow> object_copier" where [api]:
  "GroupList_DeepCopyObject k h p = as_object (GroupList_DeepCopy k h p)"

definition LoginAttempt_DeepCopyObject :: "ApiMachinery \<Rightarrow> object_copier" where [api]:
  "LoginAttempt_DeepCopyObject k h p = as_object (LoginAttempt_DeepCopy k h p)"

definition LoginAttemptList_DeepCopyObject :: "ApiMachinery \<Rightarrow> object_copier" where [api]:
  "LoginAttemptList_DeepCopyObject k h p = as_object (LoginAttemptList_DeepCopy k h p)"

definition OidcClient_DeepCopyObject :: "ApiMachinery \<Rightarrow> object_copier" where [api]:
  "OidcClient_DeepCopyObject k h p = as_object (OidcClient_DeepCopy k h p)"

definition OidcClientList_DeepCopyObject :: "ApiMachinery \<Rightarrow> object_copier" where [api]:
  "OidcClientList_DeepCopyObject k h p = as_object (OidcClientList_DeepCopy k h p)"

definition SsoSession_DeepCopyObject :: "ApiMachinery \<Rightarrow> object_copier" where [api]:
  "SsoSession_DeepCopyObject k h p = as_object (SsoSession_DeepCopy k h p)"

definition SsoSessionList_DeepCopyObject :: "ApiMachinery \<Rightarrow> object_copier" where [api]:
  "SsoSessionList_DeepCopyObject k h p = as_object (SsoSessionList_DeepCopy k h p)"

definition UpstreamProvider_DeepCopyObject :: "ApiMachinery \<Rightarrow> object_copier" where [api]:
  "UpstreamProvider_DeepCopyObject k h p = as_object (UpstreamProvider_DeepCopy k h p)"

definition UpstreamProviderList_DeepCopyObject :: "ApiMachinery \<Rightarrow> object_copier" where [api]:
  "UpstreamProviderList_DeepCopyObject k h p = as_object (UpstreamProviderList_DeepCopy k h p)"

definition User_DeepCopyObject :: "ApiMachinery \<Rightarrow> object_copier" where [api]:
  "User_DeepCopyObject k h p = as_object (User_DeepCopy k h p)"

definition UserList_DeepCopyObject :: "ApiMachinery \<Rightarrow> object_copier" where [api]:
  "UserList_DeepCopyObject k h p = as_object (UserList_DeepCopy k h p)"

section \<open>All of them\<close>

definition api_types :: "ApiMachinery \<Rightarrow> (string \<times> ty \<times> copier) list" where
  "api_types k =
     [(''LocalConfigMapSpec'', LocalConfigMapSpec_ty, LocalConfigMapSpec_DeepCopy),
      (''LocalSecretSpec'', LocalSecretSpec_ty, LocalSecretSpec_DeepCopy),
      (''CertificateAuthoritySource'', CertificateAuthoritySource_ty, CertificateAuthoritySource_DeepCopy),
      (''ClaimRenamingSpec'', ClaimRenamingSpec_ty, ClaimRenamingSpec_DeepCopy),
      (''GroupSpec'', GroupSpec_ty k, GroupSpec_DeepCopy k), (''GroupStatus'', GroupStatus_ty, GroupStatus_DeepCopy),
      (''Group'', Group_ty k, Group_DeepCopy k),
      (''GroupBindingSpec'', GroupBindingSpec_ty, GroupBindingSpec_DeepCopy),
      (''GroupBindingStatus'', GroupBindingStatus_ty, GroupBindingStatus_DeepCopy),
      (''GroupBinding'', GroupBinding_ty k, GroupBinding_DeepCopy k),
      (''GroupBindingList'', GroupBindingList_ty k, GroupBindingList_DeepCopy k),
      (''GroupList'', GroupList_ty k, GroupList_DeepCopy k),
      (''LoginAttemptUser'', LoginAttemptUser_ty k, LoginAttemptUser_DeepCopy k),
      (''LoginAttemptDetailProvider'', LoginAttemptDetailProvider_ty, LoginAttemptDetailProvider_DeepCopy),
      (''LoginAttemptDetailTranslated'', LoginAttemptDetailTranslated_ty k, LoginAttemptDetailTranslated_DeepCopy k),
      (''LoginAttemptDetail'', LoginAttemptDetail_ty k, LoginAttemptDetail_DeepCopy k),
      (''LoginAttemptSpec'', LoginAttemptSpec_ty k, LoginAttemptSpec_DeepCopy k),
      (''LoginAttemptStatus'', LoginAttemptStatus_ty, LoginAttemptStatus_DeepCopy),
      (''LoginAttempt'', LoginAttempt_ty k, LoginAttempt_DeepCopy k),
      (''LoginAttemptList'', LoginAttemptList_ty k, LoginAttemptList_DeepCopy k),
      (''OidcClientSecretSpec'', OidcClientSecretSpec_ty, OidcClientSecretSpec_DeepCopy),
      (''OidcClientSpec'', OidcClientSpec_ty k, OidcClientSpec_DeepCopy k),
      (''OidcClientStatus'', OidcClientStatus_ty, OidcClientStatus_DeepCopy),
      (''OidcClient'', OidcClient_ty k, OidcClient_DeepCopy k),
      (''OidcClientList'', OidcClientList_ty k, OidcClientList_DeepCopy k),
      (''SsoSessionSpec'', SsoSessionSpec_ty k, SsoSessionSpec_DeepCopy k),
      (''SsoSessionStatus'', SsoSessionStatus_ty, SsoSessionStatus_DeepCopy),
      (''SsoSession'', SsoSession_ty k, SsoSession_DeepCopy k),
      (''SsoSessionList'', SsoSessionList_ty k, SsoSessionList_DeepCopy k),
      (''UpstreamProviderConfig'', UpstreamProviderConfig_ty, UpstreamProviderConfig_DeepCopy),
      (''UpstreamProviderSpec'', UpstreamProviderSpec_ty, UpstreamProviderSpec_DeepCopy),
      (''UpstreamProviderStatus'', UpstreamProviderStatus_ty, UpstreamProviderStatus_DeepCopy),
      (''UpstreamProvider'', UpstreamProvider_ty k, UpstreamProvider_DeepCopy k),
      (''UpstreamProviderList'', UpstreamProviderList_ty k, UpstreamProviderList_DeepCopy k),
      (''UserSpec'', UserSpec_ty k, UserSpec_DeepCopy k), (''UserStatus'', UserStatus_ty, UserStatus_DeepCopy),
      (''User'', User_ty k, User_DeepCopy k), (''UserList'', UserList_ty k, UserList_DeepCopy k)]"

definition api_objects :: "ApiMachinery \<Rightarrow> (string \<times> object_copier) list" where
  "api_objects k =
     [(''Group'', Group_DeepCopyObject k), (''GroupBinding'', GroupBinding_DeepCopyObject k),
      (''GroupBindingList'', GroupBindingList_DeepCopyObject k), (''GroupList'', GroupList_DeepCopyObject k),
      (''LoginAttempt'', LoginAttempt_DeepCopyObject k), (''LoginAttemptList'', LoginAttemptList_DeepCopyObject k),
      (''OidcClient'', OidcClient_DeepCopyObject k), (''OidcClientList'', OidcClientList_DeepCopyObject k),
      (''SsoSession'', SsoSession_DeepCopyObject k), (''SsoSessionList'', SsoSessionList_DeepCopyObject k),
      (''UpstreamProvider'', UpstreamProvider_DeepCopyObject k),
      (''UpstreamProviderList'', UpstreamProviderList_DeepCopyObject k), (''User'', User_DeepCopyObject k),
      (''UserList'', UserList_DeepCopyObject k)]"

lemma api_types_deep:
  assumes "api_machinery k"
  shows "list_all (\<lambda>(name, t, copy). deep_copy copy (TPtr t)) (api_types k)"
  using assms by (simp add: api_machinery_def api_types_def api deep)

lemma api_objects_copy:
  "list_all (\<lambda>(name, t, copy). \<forall>obj h p. map_of (api_objects k) name = Some obj \<longrightarrow> obj h p = as_object (copy h p)) (api_types k)"
  by (simp add: api_types_def api_objects_def api)

text \<open>
  C24: For every type of the API, \<^verbatim>\<open>DeepCopy\<close> of a well-typed structure gives a pointer to a well-typed structure with
  the same content, nil for nil, in cells that did not exist before and that are each used once.  Original and copy are
  independent: however the memory is changed later, the copy keeps its content as long as the cells made for it are
  left alone, and the original keeps its content as long as the cells of before are left alone.  \<^verbatim>\<open>DeepCopyObject\<close>
  returns the same copy, and the nil interface for a nil pointer.  It is assumed that the metadata and JSON types of
  the Kubernetes library copy themselves the same way.
\<close>

theorem deep_copies_are_independent:
  assumes "api_machinery k" "(name, t, copy) \<in> set (api_types k)" "typed h (TPtr t) p" "copy h p = (h', q)"
  shows "typed h' (TPtr t) q \<and> view h' (TPtr t) q = view h (TPtr t) p \<and> (q = MPtr None \<longleftrightarrow> p = MPtr None)
    \<and> (\<exists>new. h' = h @ new) \<and> distinct (reach h' (TPtr t) q) \<and> set (reach h' (TPtr t) q) \<subseteq> {length h..<length h'}
    \<and> (\<forall>h''. agree h' h'' [length h..<length h'] \<longrightarrow> view h'' (TPtr t) q = view h (TPtr t) p)
    \<and> (\<forall>h''. agree h' h'' [0..<length h] \<longrightarrow> view h'' (TPtr t) p = view h (TPtr t) p)
    \<and> (\<forall>obj. map_of (api_objects k) name = Some obj \<longrightarrow> obj h p = (h', if p = MPtr None then None else Some q))"
proof -
  have deep: "deep_copy copy (TPtr t)" using api_types_deep [OF assms(1)] assms(2) by (auto simp: list_all_iff)
  have view: "view h' (TPtr t) q = view h (TPtr t) p" and typed: "typed h' (TPtr t) q"
    using deep_copyE [OF deep assms(3,4)] by blast+
  have nil: "q = MPtr None \<longleftrightarrow> p = MPtr None"
    using view typed assms(3) by (auto split: mval.splits option.splits)
  have "obj h p = (h', if p = MPtr None then None else Some q)" if "map_of (api_objects k) name = Some obj" for obj
    using api_objects_copy [of k] assms(2,4) that nil by (fastforce simp: list_all_iff as_object_def)
  moreover have "(\<exists>new. h' = h @ new) \<and> distinct (reach h' (TPtr t) q) \<and> set (reach h' (TPtr t) q) \<subseteq> {length h..<length h'}"
    using deep_copyE [OF deep assms(3,4)] by metis
  ultimately show ?thesis
    using nil view typed copy_independent [OF deep assms(3,4)] by (intro conjI allI impI) (elim conjE; blast)+
qed

text \<open>A cluster's metadata and JSON values, and a user resource with an email, a uid and claims.\<close>

definition sampleMachinery :: ApiMachinery where
  "sampleMachinery = \<lparr>
     amTypeMeta = TStruct [(''Kind'', TStr), (''APIVersion'', TStr)],
     amDuration = TStruct [(''Duration'', TInt)],
     amObjectMeta = TStruct [(''Name'', TStr), (''Namespace'', TStr), (''Finalizers'', TSlice TStr)],
     copyObjectMeta = struct_copy [(''Finalizers'', slice_copy assign)],
     amListMeta = TStruct [(''ResourceVersion'', TStr), (''RemainingItemCount'', TPtr TInt)],
     copyListMeta = struct_copy [(''RemainingItemCount'', new_copy assign)],
     amTime = TStruct [(''wall'', TInt), (''ext'', TInt)],
     copyTime = assign,
     amJSON = TStruct [(''Raw'', TSlice TInt)],
     copyJSON = struct_copy [(''Raw'', slice_copy assign)]\<rparr>"

definition sampleHeap :: heap where
  "sampleHeap =
     [[MStr ''jim@example.com''], [MInt 1001], [MInt 123, MInt 125], [MStruct [(''Raw'', MSlice (Some (2, 0, 2)))]],
      [MStruct [(''TypeMeta'', MStruct [(''Kind'', MStr ''User''), (''APIVersion'', MStr ''v1alpha1'')]),
        (''ObjectMeta'', MStruct [(''Name'', MStr ''jim''), (''Namespace'', MStr ''users''), (''Finalizers'', MSlice None)]),
        (''Spec'', MStruct [(''Name'', MStr ''Jim''), (''Emails'', MSlice (Some (0, 0, 1))), (''PasswordHash'', MStr []),
          (''Uid'', MPtr (Some 1)), (''Comment'', MStr []), (''Claims'', MPtr (Some 3)), (''Disabled'', MPtr None)]),
        (''Status'', MStruct [])]]]"

lemma sampleMachinery_ok: "api_machinery sampleMachinery"
  by (simp add: api_machinery_def sampleMachinery_def deep)

theorem deep_copies_are_independent_witness:
  "\<exists>h' q. api_machinery sampleMachinery
    \<and> (''User'', User_ty sampleMachinery, User_DeepCopy sampleMachinery) \<in> set (api_types sampleMachinery)
    \<and> typed sampleHeap (TPtr (User_ty sampleMachinery)) (MPtr (Some 4))
    \<and> User_DeepCopy sampleMachinery sampleHeap (MPtr (Some 4)) = (h', q)
    \<and> q = MPtr (Some 9) \<and> length h' = 10
    \<and> view h' (TPtr (User_ty sampleMachinery)) q = view sampleHeap (TPtr (User_ty sampleMachinery)) (MPtr (Some 4))
    \<and> view (h'[0 := [MStr ''jane@example.com'']]) (TPtr (User_ty sampleMachinery)) q
      = view sampleHeap (TPtr (User_ty sampleMachinery)) (MPtr (Some 4))"
proof -
  let ?t = "User_ty sampleMachinery" and ?copy = "User_DeepCopy sampleMachinery"
  obtain h' q where run: "?copy sampleHeap (MPtr (Some 4)) = (h', q)" by force
  have mem: "(''User'', ?t, ?copy) \<in> set (api_types sampleMachinery)" by (simp add: api_types_def)
  have typed: "typed sampleHeap (TPtr ?t) (MPtr (Some 4))"
    by (simp add: User_ty_def UserSpec_ty_def UserStatus_ty_def sampleMachinery_def sampleHeap_def window_def)
  have q: "q = MPtr (Some 9) \<and> length h' = 10"
    using run by (auto simp: User_DeepCopy_def User_DeepCopyInto_def UserSpec_DeepCopyInto_def new_copy_def struct_copy_def
      slice_copy_def assign_def window_def sampleMachinery_def sampleHeap_def)
  note T = deep_copies_are_independent [OF sampleMachinery_ok mem typed run]
  have five: "length sampleHeap = 5" by (simp add: sampleHeap_def)
  have "agree h' (h'[0 := [MStr ''jane@example.com'']]) [length sampleHeap..<length h']"
    using q by (simp add: agree_def five)
  note later = T [THEN conjunct2, THEN conjunct2, THEN conjunct2, THEN conjunct2, THEN conjunct2, THEN conjunct2,
    THEN conjunct1, rule_format, OF this]
  show ?thesis
    by (intro exI [of _ h'] exI [of _ q] conjI sampleMachinery_ok mem typed run later q [THEN conjunct1] q [THEN conjunct2]
      T [THEN conjunct2, THEN conjunct1])
qed

end
