(* ===== verification/Spec2Isabelle.thy ===== *)
theory Spec2Isabelle
  imports HttpProvider OidcFlows OidcKeys Commands Admission K8sApi DeepCopy
begin

text \<open>
  \<^bold>\<open>A verification of kubauth\<close>, an identity provider for Kubernetes written in Go (\<^verbatim>\<open>src/\<close>).

  \<^bold>\<open>The program.\<close>  Kubauth is one binary with five commands, each a server.
  \<^item> \<^verbatim>\<open>oidc\<close> is the OAuth2 and OpenID Connect server: login pages, single sign-on, federation with upstream
    providers, tokens.  Its clients and upstream providers are Kubernetes resources that two reconcilers read into an
    in-memory store; its sessions are resources too.
  \<^item> \<^verbatim>\<open>ucrd\<close>, \<^verbatim>\<open>ldap\<close>, \<^verbatim>\<open>merger\<close> and \<^verbatim>\<open>audit\<close> are identity servers.  They all answer the same request (\<open>is this
    password right, and who is the user\<close>) on the same endpoint.  \<^verbatim>\<open>ucrd\<close> answers from User, Group and
    GroupBinding resources and \<^verbatim>\<open>ldap\<close> from a directory; \<^verbatim>\<open>merger\<close> asks several others and merges their answers;
    \<^verbatim>\<open>audit\<close> passes a request on and keeps a record of the answer.
  A deployment chains them: the OIDC server asks the audit server, which asks the merger, which asks the user
  and LDAP servers.  This theory builds that chain of the components' own definitions and shows what
  an accepted login has gone through (\<open>login_was_checked\<close>).

  \<^bold>\<open>How Go is modelled.\<close>  A structure is a record and an enumeration a datatype.  A map is an association list with one
  entry per key (\<open>gomap\<close>, theory Prelude), so that iteration order and nil maps can be spoken of.  Strings are byte
  lists.  A 64-bit integer is an \<open>int\<close> with \<open>wrap64\<close> written out where it can overflow.  A function with an
  error result returns a sum, \<open>Inl\<close> the error; a nil dereference or a failed type assertion that the code can reach is
  the value \<open>Panics\<close> of \<open>outcome\<close>.  State is passed explicitly; what a handler does to its
  surroundings is a list of effects in the order of the code.  Concurrency is a transition
  system where the code releases a lock in the middle of an operation (the protector), and a sequence of
  operations where a lock covers the whole of each.  Log output is left out.  Code of other modules
  (fosite, go-oidc, go-ldap, scs, controller-runtime, bcrypt, YAML, X.509) is an argument of the definitions
  that use it, mostly as a record of functions; a property that relies on what such code
  promises says so in a hypothesis, and its witness instantiates it.

  \<^bold>\<open>The theories\<close>, from the bottom up.
  \<^item> Prelude, GoValues, GoText: maps, integers and outcomes; dynamic values and JSON; the string and URL
    functions of the standard library in use.
  \<^item> Misc (\<^verbatim>\<open>internal/misc/merge.go, misc.go\<close>), ExpandEnv (\<^verbatim>\<open>expandenv.go\<close>), Config (\<^verbatim>\<open>adjustpath.go, loadconfig.go\<close>):
    the deep merge of claims is described value by value along every path of keys; the scanner of \<^verbatim>\<open>${VAR}\<close>
    with its indexes and slices equals a direct recursive reading and never slices out of range.
  \<^item> Proto (\<^verbatim>\<open>internal/proto\<close>): requests and responses survive encoding and strict decoding.
  \<^item> Protector (\<^verbatim>\<open>internal/handlers/protector\<close>): delays, cleaning, and the invariant that in every interleaving the
    lock test counts the sleeping handlers.  IdentityHandler (\<^verbatim>\<open>internal/handlers\<close>): the endpoint over
    any protector and authenticator, as the locales \<open>login_protector\<close> and \<open>authenticator\<close>.
  \<^item> K8s, Ucrd (\<^verbatim>\<open>cmd/ucrd\<close>), Ldap (\<^verbatim>\<open>cmd/ldap\<close>), Merger (\<^verbatim>\<open>cmd/merger\<close>), AuditServer (\<^verbatim>\<open>cmd/audit\<close>), HttpProvider
    (\<^verbatim>\<open>cmd/oidc/authenticator\<close>): each server's decision on every branch, the identity it returns, which failures
    it passes on, and that LDAP searches run as the service account only.  The locale \<open>authenticator_stack\<close>
    is a merger over servers that keep the contract, and is itself an \<open>authenticator\<close>.
  \<^item> HttpClient, HttpSrv, EventLoop, Background: trusted certificate authorities, the exchange log, listeners and
    shutdown, the certificate watcher, the cleaner loops.  K8sApi (\<^verbatim>\<open>internal/k8sapi\<close>): where a server finds
    its cluster.
  \<^item> OidcClient, Upstream, Storage, StorageRuns (\<^verbatim>\<open>cmd/oidc/oidcstorage, cmd/oidc/upstreams\<close>): clients,
    upstream providers and the store.  The session tables refine finite maps (locale \<open>session_table\<close>); an
    authorization code is used once, rotation revokes, assertion identifiers are not replayed.
  \<^item> ClientController, UpstreamController, Watching, Admission (\<^verbatim>\<open>cmd/oidc/controllers\<close>, \<^verbatim>\<open>webhooks\<close>, the indexes of
    \<^verbatim>\<open>oidc.go\<close> and \<^verbatim>\<open>ucrd.go\<close>): what is registered after a reconciliation, that reconciling settles, that a changed
    secret reaches whom it must, and that the webhooks reject nothing.
  \<^item> GoMemory, DeepCopy (\<^verbatim>\<open>api/kubauth/v1alpha1/zz_generated.deepcopy.go\<close>): an explicit memory with pointers and
    slices, the fields of every API type, and that its copies share nothing with the original.  The
    reconcilers, which elsewhere take a resource as a value, rely on it: they patch a resource against a copy
    made before they changed it.
  \<^item> SessionStore (\<^verbatim>\<open>sessioncodec, sessionstore\<close>), FositePatch (\<^verbatim>\<open>fositepatch\<close>), OidcServer, OidcFlows, OidcKeys
    (\<^verbatim>\<open>oidcserver\<close>): sessions as resources, the password grant, every handler with its effects, browsers
    that visit the routes in any order, and the signing key across restarts.
  \<^item> Commands (\<^verbatim>\<open>oidc.go, ucrd.go, merger.go, audit.go, ldap.go, internal/global, internal/misc/logger.go\<close>): a command is
    its planned steps in order; nothing is served before everything is checked.

  \<^bold>\<open>Loops and termination.\<close>  Loops over data are structural recursion, or \<open>function\<close> with a measure.
  The \<^verbatim>\<open>for { select ... }\<close> loops may run for ever: they are the \<open>partial_function\<close> \<open>event_loop\<close>, whose value is None
  when the loop does not return, over an infinite sequence of events; \<open>background_loops_return\<close> says exactly when
  they do return.  No model has fuel.

  \<^bold>\<open>What is assumed.\<close>  Beside the hypotheses written out: the effects of fosite's own handlers on the store are not
  followed, the store's operations are taken in any order instead; scs commits a session when the response
  is first written; a nil claims map is an empty one where the code cannot tell them apart; the
  first value of a repeated query parameter is the one that counts.  The resource a client keeps in the store
  is its value at registration.

  \<^bold>\<open>Not modelled\<close>, and why.
  \<^item> \<^verbatim>\<open>main.go\<close>, \<^verbatim>\<open>cmd/root.go\<close>, \<^verbatim>\<open>cmd/version.go\<close>: the command tree of cobra and the printing of a version; no state
    and no decisions of their own.  Flags start as values here.
  \<^item> \<^verbatim>\<open>groupversion_info.go\<close> and the \<^verbatim>\<open>init\<close> functions that fill the scheme: registration with a library.
  \<^item> \<^verbatim>\<open>internal/misc/misc.go\<close> \<^verbatim>\<open>Any2Yaml\<close>, the methods that only return the store as one of fosite's interfaces, the interface
    declarations, and \<^verbatim>\<open>OIDCSession.Clone\<close>, which is a library's deep copy.
  \<^item> HTML templates (\<^verbatim>\<open>resources/\<close>): the model stops at the values a template is given.
  \<^item> \<^verbatim>\<open>helm/\<close>, \<^verbatim>\<open>config/\<close>, \<^verbatim>\<open>hack/\<close>, Dockerfile, Makefile: deployment, not program.
  \<^item> Cryptography, TLS, certificates and the network: parameters throughout.
\<close>

section \<open>From the login form to the directories\<close>

text \<open>
  The identity servers as a deployment chains them: the OIDC server asks the audit server, which asks
  the merger, which asks the user server and the LDAP server, each behind its own protector.
\<close>

record deployment =
  dpUcrd :: crdAuthenticator
  dpUcrdConfig :: IdProviderConfig
  dpUcrdProtector :: "bfaProtector option"
  dpLdap :: ldapAuthenticator
  dpDirectory :: directory
  dpLdapConfig :: IdProviderConfig
  dpLdapProtector :: "bfaProtector option"
  dpProtector :: bfaProtector
  dpAdmit :: "LoginAttempt \<Rightarrow> kerr option"
  dpAuditNamespace :: string
  dpAttempts :: "LoginAttempt list"

definition deployed_servers :: "deployment \<Rightarrow> server list" where
  "deployed_servers dp =
     [\<lparr>srv_config = dpUcrdConfig dp, srv_protector = dpUcrdProtector dp,
       srv_authenticate = crd_Authenticate (dpUcrd dp)\<rparr>,
      \<lparr>srv_config = dpLdapConfig dp, srv_protector = dpLdapProtector dp,
       srv_authenticate = (\<lambda>rq. fst (ldap_Authenticate (dpLdap dp) (dpDirectory dp) rq))\<rparr>]"

definition deployed_audit :: "deployment \<Rightarrow> moment \<Rightarrow> IdentityRequest \<Rightarrow> string + IdentityResponse" where
  "deployed_audit dp now rq =
     fst (audit_Authenticate
            (remote empty_EntryForLogin empty_ProtectLoginResult (instant now) ()
              (stack_Authenticate (instant now) (deployed_servers dp)))
            (dpAdmit dp) (dpAuditNamespace dp) now (dpAttempts dp) rq)"

definition deployed_login :: "deployment \<Rightarrow> moment \<Rightarrow> string \<Rightarrow> string \<Rightarrow> string + OidcUser option" where
  "deployed_login dp now =
     oidc_Authenticate (remote EntryForLogin ProtectLoginResult (instant now) (dpProtector dp) (deployed_audit dp now))"

interpretation deployed: authenticator_stack "deployed_servers dp" now for dp now
  by (rule authenticator_stack.intro)
    (auto simp: deployed_servers_def crd.authenticator_axioms ldap.authenticator_axioms)

lemma deployed_audit_authenticator: "authenticator (deployed_audit dp now)"
  unfolding deployed_audit_def by (rule audited) (rule deployed.authenticator_axioms)

lemma deployed_login_checked:
  assumes "deployed_login dp now login password = Inr (Some user)"
  obtains rs where "stack_Authenticate (instant now) (deployed_servers dp) \<lparr>rqLogin = login, rqPassword = password\<rparr> = Inr rs"
    "rsStatus rs = PasswordChecked" "password \<noteq> []"
proof -
  let ?rq = "\<lparr>rqLogin = login, rqPassword = password\<rparr>"
  obtain r where "Exchange (remote EntryForLogin ProtectLoginResult (instant now) (dpProtector dp) (deployed_audit dp now))
      ''GET'' ''v1/identity'' ?rq = Inr r" "rsStatus r = PasswordChecked"
    using oidc_Authenticate_checked(2) assms unfolding deployed_login_def by blast
  then obtain rs1 where rs1: "deployed_audit dp now ?rq = Inr rs1" "rsStatus rs1 = PasswordChecked"
    using remote_status [OF deployed_audit_authenticator] by metis
  then have "Exchange (remote empty_EntryForLogin empty_ProtectLoginResult (instant now) ()
      (stack_Authenticate (instant now) (deployed_servers dp))) ''GET'' ''v1/identity'' ?rq = Inr rs1"
    by (auto simp: deployed_audit_def audit_Authenticate_def split: sum.splits option.splits prod.splits)
  then obtain rs where "stack_Authenticate (instant now) (deployed_servers dp) ?rq = Inr rs" "rsStatus rs = PasswordChecked"
    using remote_status [OF deployed.authenticator_axioms] rs1(2) by metis
  moreover from this have "password \<noteq> []"
    using deployed.checked_needs_password by fastforce
  ultimately show thesis by (rule that)
qed

text \<open>
  C1: nobody logs in without a password that was really checked.  When the OIDC server accepts a login
  through the whole chain (protectors, audit, merger, user server and LDAP server, every answer having
  crossed the wire as JSON), the password is not empty, and one of the servers that is a credential
  authority checked it: the user server found an enabled user whose hash bcrypt accepted, or the LDAP
  server found exactly one entry that the directory accepted the password for.
\<close>

theorem login_was_checked:
  assumes "deployed_login dp now login password = Inr (Some user)"
  shows "ouLogin user = login \<and> password \<noteq> [] \<and>
    ((the (pcCredentialAuthority (dpUcrdConfig dp)) \<and>
       (\<exists>usr. user_of (dpUcrd dp) login = Inr usr \<and> \<not> BoolPtrFalse (usDisabled usr) \<and> usPasswordHash usr \<noteq> []
          \<and> compareHash (dpUcrd dp) (usPasswordHash usr) password))
     \<or> (the (pcCredentialAuthority (dpLdapConfig dp)) \<and>
       (\<exists>e. userEntries (dpLdap dp) (dpDirectory dp) login = Inr [e]
          \<and> checkBind (dpDirectory dp) (DN e) password = None)))"
proof -
  let ?rq = "\<lparr>rqLogin = login, rqPassword = password\<rparr>" and ?t = "instant now"
  obtain rs where rs: "stack_Authenticate ?t (deployed_servers dp) ?rq = Inr rs" "rsStatus rs = PasswordChecked"
    and pw: "password \<noteq> []"
    using deployed_login_checked [OF assms] by blast
  then obtain ds where ds: "user_details (map (server_provider ?t) (deployed_servers dp)) ?rq = Inr ds"
    by (auto simp: stack_Authenticate_def elim: merger_result)
  have w: "winning_status ds = PasswordChecked"
    using merger_status(1) [OF _ ds] rs by (auto simp: stack_Authenticate_def)
  obtain xs d ys where "ds = xs @ d # ys" and d: "credential d" "dStatus d = PasswordChecked"
    using winning_checkedD(1) [OF w] by blast
  then have "d \<in> set ds" by simp
  obtain srv where srv: "srv \<in> set (deployed_servers dp)" "dProvider d = getSpec (server_provider ?t srv)"
    "dStatus d = Undefined \<or> (\<exists>rs. srv_authenticate srv ?rq = Inr rs \<and> rsStatus rs = dStatus d)"
    using deployed.stack_detail [OF ds \<open>d \<in> set ds\<close>] by blast
  then obtain rs' where rs': "srv_authenticate srv ?rq = Inr rs'" "rsStatus rs' = PasswordChecked"
    using d(2) by auto
  have cred: "the (pcCredentialAuthority (srv_config srv))"
    using d(1) srv(2) by (simp add: getSpec_def server_provider_def)
  have user: "ouLogin user = login"
    using oidc_Authenticate_checked(1) assms unfolding deployed_login_def by blast
  consider (ucrd) "srv_config srv = dpUcrdConfig dp" "srv_authenticate srv = crd_Authenticate (dpUcrd dp)"
    | (ldap) "srv_config srv = dpLdapConfig dp"
        "srv_authenticate srv = (\<lambda>rq. fst (ldap_Authenticate (dpLdap dp) (dpDirectory dp) rq))"
    using srv(1) by (auto simp: deployed_servers_def)
  then show ?thesis
  proof cases
    case ucrd
    then show ?thesis using crd_checked [of "dpUcrd dp" ?rq rs'] rs' cred user pw by auto
  next
    case ldap
    then show ?thesis using ldap_checked [of "dpLdap dp" "dpDirectory dp" ?rq rs'] rs' cred user pw by auto
  qed
qed

section \<open>A concrete deployment\<close>

text \<open>A user server with one user, and an LDAP server that is down and not critical.\<close>

definition sample_dp :: deployment where
  "sample_dp =
     \<lparr>dpUcrd = \<lparr>k8sClient = \<lparr>listBindings = (\<lambda>ns u. Inr []), getGroup = (\<lambda>k. Inl KNotFound),
          getUser = (\<lambda>k. Inr (sample_user\<lparr>usClaims := None\<rparr>))\<rparr>,
        userNamespace = ''users'', compareHash = (\<lambda>h p. p = ''secret'')\<rparr>,
      dpUcrdConfig = sample_cfg ''ucrd'' True, dpUcrdProtector = None,
      dpLdap = sample_ldap, dpDirectory = sample_directory\<lparr>dialTLS := (\<lambda>h t. Some ''timeout'')\<rparr>,
      dpLdapConfig = sample_cfg ''ldap'' False, dpLdapProtector = None,
      dpProtector = bfa_New [], dpAdmit = (\<lambda>x. None), dpAuditNamespace = ''audit'', dpAttempts = []\<rparr>"

definition sample_dp_answer :: IdentityResponse where
  "sample_dp_answer =
     \<lparr>rsUser = \<lparr>uLogin = ''jim'', uUid = Some 2001, uName = ''Jim'', uEmails = [''jim@x''], uGroups = [],
        uClaims = Some []\<rparr>, rsStatus = PasswordChecked, rsDetails = [], rsAuthority = []\<rparr>"

lemma sample_dp_crd: "crd_Authenticate (dpUcrd sample_dp) sample_login = Inr sample_dp_answer"
  by (simp add: crd_Authenticate_def sample_dp_def sample_login_def sample_user_def InitUser_def Let_def
      merge_def BoolPtrFalse_def password_status_def sample_dp_answer_def)

lemma sample_dp_ldap: "\<exists>e. fst (ldap_Authenticate (dpLdap sample_dp) (dpDirectory sample_dp) rq) = Inl e"
  by (simp add: ldap_Authenticate_def ldap_do_def sample_dp_def sample_ldap_def sample_ldap_config_def Let_def)

lemma sample_dp_stack:
  "\<exists>rs. stack_Authenticate t (deployed_servers sample_dp) sample_login = Inr rs
     \<and> rsStatus rs = PasswordChecked \<and> wf_response rs \<and> (\<forall>d \<in> set (rsDetails rs). d \<noteq> None)
     \<and> uClaims (rsUser rs) = Some []"
proof -
  let ?c = "sample_cfg ''ucrd'' True" and ?l = "sample_cfg ''ldap'' False"
  have wf: "wf_response sample_dp_answer" "wire_response sample_dp_answer = sample_dp_answer"
    by (simp_all add: sample_dp_answer_def wf_response_def wf_user_def wf_uid_def in_int64_def
        wire_response_def wire_user_def wire_claims_def)
  have crd: "Exchange (server_transport t \<lparr>srv_config = ?c, srv_protector = None,
      srv_authenticate = crd_Authenticate (dpUcrd sample_dp)\<rparr>) ''GET'' ''v1/identity'' sample_login = Inr sample_dp_answer"
    using remote_wire [of empty_EntryForLogin "()" sample_login "crd_Authenticate (dpUcrd sample_dp)" sample_dp_answer]
      sample_dp_crd wf by (simp add: server_transport_def empty_EntryForLogin_def)
  obtain e where "fst (ldap_Authenticate (dpLdap sample_dp) (dpDirectory sample_dp) sample_login) = Inl e"
    using sample_dp_ldap by blast
  then have ldap: "Exchange (server_transport t \<lparr>srv_config = ?l, srv_protector = None,
      srv_authenticate = (\<lambda>rq. fst (ldap_Authenticate (dpLdap sample_dp) (dpDirectory sample_dp) rq))\<rparr>)
        ''GET'' ''v1/identity'' sample_login = Inl ''invalid status code''"
    by (simp add: server_transport_def Exchange_def remote_def identity_ServeHTTP_def request_FromJson_j
        OnlyGetValidator_def empty_EntryForLogin_def)
  have rq: "\<lparr>rqLogin = ''jim'', rqPassword = ''secret''\<rparr> = sample_login" by (simp add: sample_login_def)
  have cfg: "dpUcrdConfig sample_dp = ?c" "dpUcrdProtector sample_dp = None"
    "dpLdapConfig sample_dp = ?l" "dpLdapProtector sample_dp = None" by (simp_all add: sample_dp_def)
  show ?thesis
    using crd ldap
    by (simp add: stack_Authenticate_def deployed_servers_def merger_Authenticate_def mergerLoop_absorb_all
        GetUserDetail_def server_provider_def cfg Let_def)
      (simp add: sample_cfg_def sample_dp_answer_def absorb_def absorb_status_def absorb_user_def getSpec_def
        InitUser_def Let_def wf_response_def wf_detail_def wf_user_def wf_uid_def in_int64_def DedupAndSort_def
        MergeMaps_def gcopy_def)
qed

lemma sample_dp_login: "\<exists>user. deployed_login sample_dp sample_moment ''jim'' ''secret'' = Inr (Some user)"
proof -
  let ?stack = "stack_Authenticate (instant sample_moment) (deployed_servers sample_dp)"
  obtain rs where rs: "?stack sample_login = Inr rs" "rsStatus rs = PasswordChecked" "wf_response rs"
    "\<forall>d \<in> set (rsDetails rs). d \<noteq> None" "uClaims (rsUser rs) = Some []"
    using sample_dp_stack by blast
  let ?r1 = "wire_response rs"
  have ex1: "Exchange (remote empty_EntryForLogin empty_ProtectLoginResult (instant sample_moment) () ?stack)
      ''GET'' ''v1/identity'' sample_login = Inr ?r1"
    by (rule remote_wire) (simp_all add: rs(1,3) empty_EntryForLogin_def)
  have details: "\<forall>d \<in> set (rsDetails ?r1). d \<noteq> None" using rs(4) by (auto simp: wire_response_def)
  have "\<forall>d \<in> set ds. d \<noteq> None \<Longrightarrow> \<exists>es. those (map (map_option convertDetail) ds) = Some es" for ds
    by (induction ds) (auto split: option.splits)
  with details have "convertDetails (rsDetails ?r1) \<noteq> None" unfolding convertDetails_def by fastforce
  then have audit: "deployed_audit sample_dp sample_moment sample_login = Inr ?r1"
    using ex1 by (auto simp: deployed_audit_def audit_Authenticate_def loginRecord_def split: option.splits prod.splits)
  let ?r2 = "wire_response ?r1"
  have "\<not> EntryForLogin (dpProtector sample_dp) (rqLogin sample_login)"
    by (simp add: EntryForLogin_def tooManyPending_def sample_dp_def bfa_New_def)
  then have "Exchange (remote EntryForLogin ProtectLoginResult (instant sample_moment) (dpProtector sample_dp)
      (deployed_audit sample_dp sample_moment)) ''GET'' ''v1/identity'' sample_login = Inr ?r2"
    by (rule remote_wire) (simp_all add: audit wf_wire_response rs(3))
  moreover have "uClaims (rsUser ?r2) = Some []" "rsStatus ?r2 = PasswordChecked"
    using rs(2,5) by (simp_all add: wire_response_def wire_user_def wire_claims_def)
  ultimately show ?thesis
    by (cases "DedupAndSort (uGroups (rsUser ?r2)) = []"; cases "uName (rsUser ?r2) = []")
      (simp_all add: deployed_login_def oidc_Authenticate_def Identify_def sample_login_def with_groups_def
        with_emails_def with_name_def getStringArrayInMap_def Let_def)
qed

theorem login_was_checked_witness:
  "\<exists>user. deployed_login sample_dp sample_moment ''jim'' ''secret'' = Inr (Some user) \<and> ouLogin user = ''jim''
     \<and> (\<exists>usr. user_of (dpUcrd sample_dp) ''jim'' = Inr usr \<and> usPasswordHash usr \<noteq> [])"
proof -
  obtain user where user: "deployed_login sample_dp sample_moment ''jim'' ''secret'' = Inr (Some user)"
    using sample_dp_login by blast
  have "userEntries (dpLdap sample_dp) (dpDirectory sample_dp) ''jim'' = Inr [\<lparr>DN = ''uid=jim'', Attributes = [(''num'', [''42''])]\<rparr>]"
    by (simp add: sample_dp_def sample_ldap_defs userRequest_def Let_def)
  with login_was_checked [OF user] user show ?thesis
    by (auto simp: sample_dp_def sample_user_def)
qed

end
